(* ===== verification/Prelude.thy ===== *)
theory Prelude
  imports Main "HOL-Library.AList"
begin

text \<open>
  Vocabulary shared by the component theories: the encodings of Go values (interface values
  that may be nil, maps, pointers into a store, panics), the reachability predicate of the
  transition systems, and the generic lemmas on lists, association lists and stores that
  carry the component proofs.
\<close>

section \<open>Go values\<close>

text \<open>
  A value of Go's \<open>interface{}\<close> type is nil or a dynamic value; the same encoding serves
  nilable pointers whose aliasing does not matter.
\<close>

type_synonym 'a iface = "'a option"

text \<open>
  A Go map is an association list with distinct keys. Reading is \<^const>\<open>map_of\<close>, assignment
  \<^const>\<open>AList.update\<close> and \<open>delete\<close> \<^const>\<open>AList.delete\<close>; the position of an entry stands for
  the (unspecified) iteration order that one \<open>range\<close> loop happens to take.
\<close>

type_synonym ('k, 'v) gomap = "('k \<times> 'v) list"

definition gomap_ok :: "('k, 'v) gomap \<Rightarrow> bool" where
  "gomap_ok m \<longleftrightarrow> distinct (map fst m)"

text \<open>
  Objects reached through shared pointers live in a store; \<open>next_ref\<close> is the first address
  not handed out yet.
\<close>

type_synonym ref = nat

record 'a store =
  cells :: "ref \<Rightarrow> 'a"
  next_ref :: ref

definition deref :: "'a store \<Rightarrow> ref \<Rightarrow> 'a" where
  "deref st r = cells st r"

definition assign :: "'a store \<Rightarrow> ref \<Rightarrow> 'a \<Rightarrow> 'a store" where
  "assign st r x = st\<lparr>cells := (cells st)(r := x)\<rparr>"

definition alloc :: "'a store \<Rightarrow> 'a \<Rightarrow> ref \<times> 'a store" where
  "alloc st x = (next_ref st, \<lparr>cells = (cells st)(next_ref st := x), next_ref = Suc (next_ref st)\<rparr>)"

text \<open>
  A buffered channel. \<open>chan_put\<close> is the non-blocking send of a \<open>select\<close> with a default branch (a
  full buffer drops the value), \<open>chan_full\<close> the condition under which a plain send blocks.
\<close>

record 'a chan =
  chan_buf :: "'a list"
  chan_cap :: nat
  chan_closed :: bool

definition new_chan :: "nat \<Rightarrow> 'a chan" where
  "new_chan n = \<lparr>chan_buf = [], chan_cap = n, chan_closed = False\<rparr>"

definition chan_full :: "'a chan \<Rightarrow> bool" where
  "chan_full c \<longleftrightarrow> length (chan_buf c) \<ge> chan_cap c"

definition chan_send :: "'a \<Rightarrow> 'a chan \<Rightarrow> 'a chan" where
  "chan_send x c = c\<lparr>chan_buf := chan_buf c @ [x]\<rparr>"

definition chan_put :: "'a \<Rightarrow> 'a chan \<Rightarrow> 'a chan" where
  "chan_put x c = (if chan_full c then c else chan_send x c)"

definition chan_recv :: "'a chan \<Rightarrow> ('a \<times> 'a chan) option" where
  "chan_recv c = (case chan_buf c of [] \<Rightarrow> None | x # xs \<Rightarrow> Some (x, c\<lparr>chan_buf := xs\<rparr>))"

text \<open>
  A \<open>time.Timer\<close> of a program built with the Go 1.21 semantics: the running time set last, if it
  has not elapsed, and whether an elapsed tick still waits in the timer's channel. \<open>Reset\<close> does not
  remove such a tick; the stop-and-drain sequence of the source does.
\<close>

record timer =
  armed :: "int option"
  tick :: bool

definition timer_reset :: "int \<Rightarrow> timer \<Rightarrow> timer" where
  "timer_reset d t = t\<lparr>armed := Some d\<rparr>"

definition timer_stop_drain :: "timer \<Rightarrow> timer" where
  "timer_stop_drain t = (if armed t \<noteq> None then t\<lparr>armed := None\<rparr> else t\<lparr>tick := False\<rparr>)"

text \<open>A call into Go code returns normally or panics with a value.\<close>

datatype ('p, 'a) outcome = Returns 'a | Panics 'p

text \<open>Closing a channel twice panics.\<close>

definition chan_close :: "'a chan \<Rightarrow> (string, 'a chan) outcome" where
  "chan_close c = (if chan_closed c then Panics ''close of closed channel'' else Returns (c\<lparr>chan_closed := True\<rparr>))"

text \<open>Decimal text of an integer, as the \<open>%d\<close> and \<open>%v\<close> verbs print it.\<close>

fun show_nat :: "nat \<Rightarrow> string" where
  "show_nat n = (if n < 10 then [char_of (48 + n)] else show_nat (n div 10) @ [char_of (48 + n mod 10)])"

declare show_nat.simps [simp del]

definition show_int :: "int \<Rightarrow> string" where
  "show_int i = (if i < 0 then CHR ''-'' # show_nat (nat (- i)) else show_nat (nat i))"

text \<open>A list without its \<open>n\<close>-th element.\<close>

definition drop_nth :: "nat \<Rightarrow> 'a list \<Rightarrow> 'a list" where
  "drop_nth n xs = take n xs @ drop (Suc n) xs"

section \<open>Transition systems\<close>

inductive reachable :: "('s \<Rightarrow> bool) \<Rightarrow> ('s \<Rightarrow> 's \<Rightarrow> bool) \<Rightarrow> 's \<Rightarrow> bool" for start step where
  reach_start: "start s \<Longrightarrow> reachable start step s"
| reach_step: "reachable start step s \<Longrightarrow> step s t \<Longrightarrow> reachable start step t"

section \<open>Lemma collections\<close>

named_theorems queue_defs "the operations of the request queues"
named_theorems state_defs "the operations of the pending-request states"
named_theorems error_defs "the constructors and matching of OCPP errors"
named_theorems disp_defs "the operations of the client dispatcher"
named_theorems sdisp_defs "the operations of the server dispatcher"

section \<open>Generic lemmas\<close>

lemma reachable_invariant:
  assumes "reachable start step s"
    and "\<And>s. start s \<Longrightarrow> P s"
    and "\<And>s t. P s \<Longrightarrow> step s t \<Longrightarrow> P t"
  shows "P s"
  using assms(1) by (induction rule: reachable.induct) (auto intro: assms(2,3))

lemma drop_nth_subset: "set (drop_nth n xs) \<subseteq> set xs"
  unfolding drop_nth_def set_append using set_take_subset set_drop_subset by (rule Un_least)

lemma deref_assign [simp]: "deref (assign st r x) r' = (if r' = r then x else deref st r')"
  by (simp add: deref_def assign_def)

lemma next_ref_assign [simp]: "next_ref (assign st r x) = next_ref st"
  by (simp add: assign_def)

lemma deref_alloc:
  "alloc st x = (r, st') \<Longrightarrow> deref st' r' = (if r' = r then x else deref st r')"
  by (auto simp: alloc_def deref_def)

lemma gomap_ok_Nil [simp]: "gomap_ok []"
  by (simp add: gomap_ok_def)

lemma gomap_ok_update [simp]: "gomap_ok m \<Longrightarrow> gomap_ok (AList.update k v m)"
  by (simp add: gomap_ok_def distinct_update)

lemma gomap_ok_delete [simp]: "gomap_ok m \<Longrightarrow> gomap_ok (AList.delete k m)"
  by (simp add: gomap_ok_def distinct_delete)

lemma gomap_get_put [simp]: "map_of (AList.update k v m) = (map_of m)(k \<mapsto> v)"
  by (simp add: update_conv')

lemma gomap_get_del [simp]: "map_of (AList.delete k m) = (map_of m)(k := None)"
  by (simp add: delete_conv')

lemma gomap_range_iff:
  "gomap_ok m \<Longrightarrow> (\<exists>(k, v) \<in> set m. P k v) \<longleftrightarrow> (\<exists>k v. map_of m k = Some v \<and> P k v)"
  by (force simp: gomap_ok_def dest: map_of_is_SomeI map_of_SomeD)

lemma set_alist_delete: "set (AList.delete k m) = {p \<in> set m. fst p \<noteq> k}"
  by (auto simp: AList.delete_eq)

lemma set_alist_update_fresh: "map_of m k = None \<Longrightarrow> set (AList.update k v m) = insert (k, v) (set m)"
  by (induction m) (auto split: if_splits)

lemma map_of_range: "map_of m k = Some v \<Longrightarrow> v \<in> snd ` set m"
  by (metis imageI map_of_SomeD snd_conv)

lemma map_of_inj: "inj_on snd (set m) \<Longrightarrow> map_of m k = Some v \<Longrightarrow> map_of m l = Some v \<Longrightarrow> k = l"
  by (metis Pair_inject inj_onD map_of_SomeD snd_conv)

lemma inj_on_snd_insert: "inj_on snd S \<Longrightarrow> v \<notin> snd ` S \<Longrightarrow> inj_on snd (insert (k, v) S)"
  by (auto simp: inj_on_def)

end
