(* ===== verification/Ocppj_Queue.thy ===== *)
theory Ocppj_Queue
  imports Prelude
begin

text \<open>
  \<open>ocppj/queue.go\<close>: the bounded FIFO queue of outgoing requests (\<open>FIFOClientQueue\<close>), the
  interface \<open>RequestQueue\<close> the dispatchers call it through, and the map from client ids to
  queues (\<open>FIFOQueueMap\<close>). Every method of the source runs under the queue's mutex, so each is
  one atomic operation. Queues are shared through pointers, so the queue map holds addresses
  into a store of queues.
\<close>

section \<open>FIFOClientQueue\<close>

record 'a FIFOClientQueue =
  elements :: "'a iface list"
  capacity :: int

datatype queue_error = QueueFull

text \<open>\<open>make([]interface{}, 0, capacity)\<close> panics on a negative capacity: the result is \<^const>\<open>None\<close>.\<close>

definition NewFIFOClientQueue :: "int \<Rightarrow> 'a FIFOClientQueue option" where
  "NewFIFOClientQueue c = (if c < 0 then None else Some \<lparr>elements = [], capacity = c\<rparr>)"

definition FIFO_Init :: "'a FIFOClientQueue \<Rightarrow> 'a FIFOClientQueue" where
  [queue_defs]: "FIFO_Init q = q\<lparr>elements := []\<rparr>"

definition FIFO_DrainAll :: "'a FIFOClientQueue \<Rightarrow> 'a iface list \<times> 'a FIFOClientQueue" where
  [queue_defs]: "FIFO_DrainAll q = (elements q, q\<lparr>elements := []\<rparr>)"

definition FIFO_Push :: "'a iface \<Rightarrow> 'a FIFOClientQueue \<Rightarrow> queue_error + 'a FIFOClientQueue" where
  [queue_defs]: "FIFO_Push x q =
     (if int (length (elements q)) \<ge> capacity q \<and> capacity q > 0 then Inl QueueFull
      else Inr (q\<lparr>elements := elements q @ [x]\<rparr>))"

definition FIFO_Peek :: "'a FIFOClientQueue \<Rightarrow> 'a iface" where
  [queue_defs]: "FIFO_Peek q = (case elements q of [] \<Rightarrow> None | x # _ \<Rightarrow> x)"

definition FIFO_Pop :: "'a FIFOClientQueue \<Rightarrow> 'a iface \<times> 'a FIFOClientQueue" where
  [queue_defs]: "FIFO_Pop q =
     (case elements q of [] \<Rightarrow> (None, q) | x # xs \<Rightarrow> (x, q\<lparr>elements := xs\<rparr>))"

definition FIFO_PopIf ::
  "('a iface \<Rightarrow> bool) \<Rightarrow> 'a FIFOClientQueue \<Rightarrow> ('a iface \<times> bool) \<times> 'a FIFOClientQueue" where
  [queue_defs]: "FIFO_PopIf p q =
     (case elements q of
        [] \<Rightarrow> ((None, False), q)
      | x # xs \<Rightarrow> (if \<not> p x then ((None, False), q) else ((x, True), q\<lparr>elements := xs\<rparr>)))"

definition FIFO_Size :: "'a FIFOClientQueue \<Rightarrow> nat" where
  [queue_defs]: "FIFO_Size q = length (elements q)"

definition FIFO_IsFull :: "'a FIFOClientQueue \<Rightarrow> bool" where
  [queue_defs]: "FIFO_IsFull q \<longleftrightarrow> int (length (elements q)) \<ge> capacity q \<and> capacity q > 0"

definition FIFO_IsEmpty :: "'a FIFOClientQueue \<Rightarrow> bool" where
  [queue_defs]: "FIFO_IsEmpty q \<longleftrightarrow> elements q = []"

text \<open>The representation invariant: a bounded queue never exceeds its capacity.\<close>

definition FIFO_ok :: "'a FIFOClientQueue \<Rightarrow> bool" where
  "FIFO_ok q \<longleftrightarrow> 0 \<le> capacity q \<and> (capacity q > 0 \<longrightarrow> int (length (elements q)) \<le> capacity q)"

text \<open>
  Histories of one queue: the operations that goroutines perform on it, in the order in which
  they take its mutex, with the elements it accepted and the elements it gave up.
\<close>

datatype 'a queue_op = OpInit | OpDrainAll | OpPush "'a iface" | OpPop | OpPopIf "'a iface \<Rightarrow> bool"

record 'a queue_history =
  hist_queue :: "'a FIFOClientQueue"
  accepted :: "'a iface list"
  removed :: "'a iface list"

fun queue_apply :: "'a queue_op \<Rightarrow> 'a queue_history \<Rightarrow> 'a queue_history" where
  "queue_apply OpInit h =
     h\<lparr>hist_queue := FIFO_Init (hist_queue h), removed := removed h @ elements (hist_queue h)\<rparr>"
| "queue_apply OpDrainAll h =
     (let (xs, q) = FIFO_DrainAll (hist_queue h)
      in h\<lparr>hist_queue := q, removed := removed h @ xs\<rparr>)"
| "queue_apply (OpPush x) h =
     (case FIFO_Push x (hist_queue h) of
        Inl _ \<Rightarrow> h
      | Inr q \<Rightarrow> h\<lparr>hist_queue := q, accepted := accepted h @ [x]\<rparr>)"
| "queue_apply OpPop h =
     (if FIFO_IsEmpty (hist_queue h) then h
      else let (x, q) = FIFO_Pop (hist_queue h)
           in h\<lparr>hist_queue := q, removed := removed h @ [x]\<rparr>)"
| "queue_apply (OpPopIf p) h =
     (let ((x, ok), q) = FIFO_PopIf p (hist_queue h)
      in h\<lparr>hist_queue := q, removed := removed h @ (if ok then [x] else [])\<rparr>)"

fun queue_run :: "'a queue_op list \<Rightarrow> 'a queue_history \<Rightarrow> 'a queue_history" where
  "queue_run [] h = h"
| "queue_run (e # es) h = queue_run es (queue_apply e h)"

section \<open>The RequestQueue interface\<close>

text \<open>
  What the dispatchers rely on, over an abstraction of the queue to the list of its elements.
  \<open>drain_loop\<close> is the dispatchers' fallback loop for a queue without \<open>DrainAll\<close>: pop until the
  queue reports that it is empty.
\<close>

partial_function (option) drain_loop ::
  "('q \<Rightarrow> bool) \<Rightarrow> ('q \<Rightarrow> 'a iface \<times> 'q) \<Rightarrow> 'a iface list \<Rightarrow> 'q \<Rightarrow> ('a iface list \<times> 'q) option" where
  "drain_loop is_empty pop acc q =
     (if is_empty q then Some (acc, q)
      else drain_loop is_empty pop (acc @ [fst (pop q)]) (snd (pop q)))"

locale request_queue =
  fixes init :: "'q \<Rightarrow> 'q"
    and push :: "'a iface \<Rightarrow> 'q \<Rightarrow> queue_error + 'q"
    and peek :: "'q \<Rightarrow> 'a iface"
    and pop :: "'q \<Rightarrow> 'a iface \<times> 'q"
    and pop_if :: "('a iface \<Rightarrow> bool) \<Rightarrow> 'q \<Rightarrow> ('a iface \<times> bool) \<times> 'q"
    and is_full :: "'q \<Rightarrow> bool"
    and is_empty :: "'q \<Rightarrow> bool"
    and contents :: "'q \<Rightarrow> 'a iface list"
  assumes contents_init: "contents (init q) = []"
    and push_fails: "(\<exists>e. push x q = Inl e) \<longleftrightarrow> is_full q"
    and push_contents: "push x q = Inr q' \<Longrightarrow> contents q' = contents q @ [x]"
    and peek_contents: "contents q \<noteq> [] \<Longrightarrow> peek q = hd (contents q)"
    and pop_result: "contents q \<noteq> [] \<Longrightarrow> fst (pop q) = hd (contents q)"
    and pop_contents: "contents (snd (pop q)) = tl (contents q)"
    and pop_if_wins:
      "contents q \<noteq> [] \<Longrightarrow> p (hd (contents q)) \<Longrightarrow>
       fst (pop_if p q) = (hd (contents q), True) \<and> contents (snd (pop_if p q)) = tl (contents q)"
    and pop_if_loses:
      "contents q = [] \<or> \<not> p (hd (contents q)) \<Longrightarrow> pop_if p q = ((None, False), q)"
    and is_empty_contents: "is_empty q \<longleftrightarrow> contents q = []"
begin

lemma pop_if_won_iff:
  "snd (fst (pop_if p q)) \<longleftrightarrow> contents q \<noteq> [] \<and> p (hd (contents q))"
  using pop_if_wins [of q p] pop_if_loses [of q p]
  by (cases "contents q \<noteq> [] \<and> p (hd (contents q))") auto

lemma pop_if_front:
  "pop_if p q = ((x, True), q') \<Longrightarrow> contents q = x # contents q' \<and> p x"
  using pop_if_wins [of q p] pop_if_loses [of q p]
  by (cases "contents q \<noteq> [] \<and> p (hd (contents q))") auto

text \<open>Single winner: after a completed compare-and-pop, the same one fails if ids are distinct.\<close>

lemma pop_if_single_winner:
  assumes "pop_if p q = ((x, True), q')"
    and "\<And>y. y \<in> set (contents q') \<Longrightarrow> \<not> p y"
  shows "pop_if p q' = ((None, False), q')"
proof (rule pop_if_loses)
  show "contents q' = [] \<or> \<not> p (hd (contents q'))"
    using assms(2) [of "hd (contents q')"] by (cases "contents q'") auto
qed

lemma drain_loop_contents:
  "\<exists>q'. drain_loop is_empty pop acc q = Some (acc @ contents q, q') \<and> contents q' = []"
proof (induction "contents q" arbitrary: q acc)
  case Nil
  then have "drain_loop is_empty pop acc q = Some (acc @ contents q, q)"
    by (simp add: drain_loop.simps is_empty_contents)
  with Nil show ?case by auto
next
  case (Cons x xs)
  from Cons.hyps(2) have x: "contents q = x # xs" by simp
  have tl: "contents (snd (pop q)) = xs" and hd: "fst (pop q) = x"
    using x by (auto simp: pop_contents pop_result)
  from Cons.hyps(1) [OF tl [symmetric], of "acc @ [x]"]
  obtain q' where "drain_loop is_empty pop (acc @ [x]) (snd (pop q)) =
      Some ((acc @ [x]) @ contents (snd (pop q)), q')" and "contents q' = []"
    by blast
  moreover have "drain_loop is_empty pop acc q = drain_loop is_empty pop (acc @ [x]) (snd (pop q))"
    by (subst drain_loop.simps) (simp add: is_empty_contents x hd)
  ultimately show ?case by (auto simp: tl x)
qed

end

interpretation fifo: request_queue FIFO_Init FIFO_Push FIFO_Peek FIFO_Pop FIFO_PopIf
    FIFO_IsFull FIFO_IsEmpty elements
  by unfold_locales (auto simp: queue_defs split: if_splits list.splits)

section \<open>FIFOQueueMap\<close>

text \<open>
  The map holds pointers: \<open>qm_data\<close> maps a client id to the address of its queue in the store
  \<open>'a queue_store\<close>. \<open>GetOrCreate\<close> panics (\<^const>\<open>None\<close>) where \<open>NewFIFOClientQueue\<close> does.
\<close>

type_synonym 'a queue_store = "'a FIFOClientQueue store"

record FIFOQueueMap =
  qm_data :: "(string, ref) gomap"
  queueCapacity :: int

definition NewFIFOQueueMap :: "int \<Rightarrow> FIFOQueueMap" where
  "NewFIFOQueueMap c = \<lparr>qm_data = [], queueCapacity = c\<rparr>"

definition QueueMap_Init :: "FIFOQueueMap \<Rightarrow> FIFOQueueMap" where
  [queue_defs]: "QueueMap_Init f = f\<lparr>qm_data := []\<rparr>"

definition QueueMap_DrainAll :: "FIFOQueueMap \<Rightarrow> (string, ref) gomap \<times> FIFOQueueMap" where
  [queue_defs]: "QueueMap_DrainAll f = (qm_data f, f\<lparr>qm_data := []\<rparr>)"

definition QueueMap_Get :: "FIFOQueueMap \<Rightarrow> string \<Rightarrow> ref option" where
  [queue_defs]: "QueueMap_Get f c = map_of (qm_data f) c"

definition QueueMap_GetOrCreate ::
  "FIFOQueueMap \<Rightarrow> 'a queue_store \<Rightarrow> string \<Rightarrow> (ref \<times> FIFOQueueMap \<times> 'a queue_store) option" where
  [queue_defs]: "QueueMap_GetOrCreate f st c =
     (case map_of (qm_data f) c of
        Some r \<Rightarrow> Some (r, f, st)
      | None \<Rightarrow>
          (case NewFIFOClientQueue (queueCapacity f) of
             None \<Rightarrow> None
           | Some q \<Rightarrow>
               (let (r, st') = alloc st q
                in Some (r, f\<lparr>qm_data := AList.update c r (qm_data f)\<rparr>, st'))))"

definition QueueMap_Remove :: "FIFOQueueMap \<Rightarrow> string \<Rightarrow> FIFOQueueMap" where
  [queue_defs]: "QueueMap_Remove f c = f\<lparr>qm_data := AList.delete c (qm_data f)\<rparr>"

definition QueueMap_Add :: "FIFOQueueMap \<Rightarrow> string \<Rightarrow> ref \<Rightarrow> FIFOQueueMap" where
  [queue_defs]: "QueueMap_Add f c r = f\<lparr>qm_data := AList.update c r (qm_data f)\<rparr>"

text \<open>
  Well-formedness: keys are distinct, every address was handed out by the store, no two clients
  share a queue, and every queue of the map is well-formed.
\<close>

definition QueueMap_ok :: "FIFOQueueMap \<Rightarrow> 'a queue_store \<Rightarrow> bool" where
  "QueueMap_ok f st \<longleftrightarrow>
     0 \<le> queueCapacity f \<and> gomap_ok (qm_data f) \<and>
     (\<forall>r \<in> snd ` set (qm_data f). r < next_ref st \<and> FIFO_ok (deref st r)) \<and>
     inj_on snd (set (qm_data f))"

section \<open>Correctness of the queue\<close>

lemma FIFO_ok_New: "NewFIFOClientQueue c = Some q \<Longrightarrow> FIFO_ok q \<and> elements q = []"
  by (auto simp: NewFIFOClientQueue_def FIFO_ok_def split: if_splits)

lemma FIFO_Push_ok: "FIFO_ok q \<Longrightarrow> FIFO_Push x q = Inr q' \<Longrightarrow> FIFO_ok q'"
  by (auto simp: FIFO_ok_def queue_defs split: if_splits)

lemma FIFO_PopIf_ok: "FIFO_ok q \<Longrightarrow> FIFO_PopIf p q = (r, q') \<Longrightarrow> FIFO_ok q'"
  by (auto simp: FIFO_ok_def queue_defs split: if_splits list.splits)

lemma queue_apply_ok: "FIFO_ok (hist_queue h) \<Longrightarrow> FIFO_ok (hist_queue (queue_apply e h))"
  by (cases e) (auto simp: FIFO_ok_def queue_defs split: sum.splits list.splits if_splits)

lemma queue_apply_history:
  "removed h @ elements (hist_queue h) = accepted h \<Longrightarrow>
   removed (queue_apply e h) @ elements (hist_queue (queue_apply e h)) = accepted (queue_apply e h)"
  by (cases e) (auto simp: queue_defs split: sum.splits list.splits if_splits)

lemma queue_run_invariant:
  "FIFO_ok (hist_queue h) \<Longrightarrow> removed h @ elements (hist_queue h) = accepted h \<Longrightarrow>
   FIFO_ok (hist_queue (queue_run es h)) \<and>
   removed (queue_run es h) @ elements (hist_queue (queue_run es h)) = accepted (queue_run es h)"
  by (induction es arbitrary: h) (simp_all add: queue_apply_ok queue_apply_history)

lemma queue_run_capacity: "capacity (hist_queue (queue_run es h)) = capacity (hist_queue h)"
proof (induction es arbitrary: h)
  case (Cons e es)
  have "capacity (hist_queue (queue_apply e h)) = capacity (hist_queue h)"
    by (cases e) (auto simp: queue_defs split: sum.splits list.splits if_splits)
  with Cons show ?case by simp
qed simp

text \<open>
  Under any sequence of operations on a new queue, in whatever order goroutines take its
  mutex, the elements given up so far followed by the elements still queued are exactly the
  accepted elements in order of acceptance (nothing lost, duplicated or reordered), and a queue
  created with a positive capacity never holds more elements than that.
\<close>

theorem FIFO_history:
  assumes "NewFIFOClientQueue c = Some q"
    and "h = queue_run es \<lparr>hist_queue = q, accepted = [], removed = []\<rparr>"
  shows "removed h @ elements (hist_queue h) = accepted h \<and>
    (c > 0 \<longrightarrow> int (length (elements (hist_queue h))) \<le> c)"
proof -
  have q: "FIFO_ok q" "elements q = []" "capacity q = c"
    using assms(1) FIFO_ok_New [of c q] by (auto simp: NewFIFOClientQueue_def split: if_splits)
  have inv: "FIFO_ok (hist_queue h) \<and> removed h @ elements (hist_queue h) = accepted h"
    unfolding assms(2) by (rule queue_run_invariant) (simp_all add: q)
  have "capacity (hist_queue h) = c" by (simp add: assms(2) queue_run_capacity q)
  with inv show ?thesis by (simp add: FIFO_ok_def)
qed

theorem FIFO_history_witness:
  "accepted (queue_run [OpPush (Some 1), OpPush (Some 2), OpPush (Some 3), OpPopIf (\<lambda>x. x = Some 1)]
      \<lparr>hist_queue = \<lparr>elements = [], capacity = 2\<rparr>, accepted = [], removed = []\<rparr>)
    = [Some (1::nat), Some 2] \<and>
   removed (queue_run [OpPush (Some 1), OpPush (Some 2), OpPush (Some 3), OpPopIf (\<lambda>x. x = Some 1)]
      \<lparr>hist_queue = \<lparr>elements = [], capacity = 2\<rparr>, accepted = [], removed = []\<rparr>) = [Some (1::nat)]"
  using FIFO_history [of 2 "\<lparr>elements = [], capacity = 2\<rparr>" _
      "[OpPush (Some (1::nat)), OpPush (Some 2), OpPush (Some 3), OpPopIf (\<lambda>x. x = Some 1)]", OF _ refl]
  by (simp add: queue_defs NewFIFOClientQueue_def)

text \<open>
  C26: the dispatchers' fallback loop for queues without an atomic \<open>DrainAll\<close> (pop until empty)
  terminates on the default queue and returns what \<open>DrainAll\<close> returns, leaving the queue empty.
\<close>

theorem drain_loop_is_DrainAll:
  "\<exists>q'. drain_loop FIFO_IsEmpty FIFO_Pop [] q = Some (fst (FIFO_DrainAll q), q') \<and>
        elements q' = elements (snd (FIFO_DrainAll q))"
  using fifo.drain_loop_contents [of "[]" q] by (simp add: queue_defs)

section \<open>Correctness of the queue map\<close>

lemma QueueMap_ok_New: "0 \<le> c \<Longrightarrow> QueueMap_ok (NewFIFOQueueMap c) st"
  by (simp add: QueueMap_ok_def NewFIFOQueueMap_def)

lemma QueueMap_ok_Remove: "QueueMap_ok f st \<Longrightarrow> QueueMap_ok (QueueMap_Remove f c) st"
  by (auto simp: QueueMap_ok_def QueueMap_Remove_def set_alist_delete intro: inj_on_subset)

lemma QueueMap_ok_DrainAll: "QueueMap_ok f st \<Longrightarrow> QueueMap_ok (snd (QueueMap_DrainAll f)) st"
  by (simp add: QueueMap_ok_def QueueMap_DrainAll_def)

lemma QueueMap_ok_assign:
  "QueueMap_ok f st \<Longrightarrow> FIFO_ok q \<Longrightarrow> QueueMap_ok f (assign st r q)"
  by (auto simp: QueueMap_ok_def)

lemma QueueMap_ok_GetOrCreate:
  assumes "QueueMap_ok f st" and "QueueMap_GetOrCreate f st c = Some (r, f', st')"
  shows "QueueMap_ok f' st'"
proof (cases "map_of (qm_data f) c")
  case None
  with assms obtain q where q: "NewFIFOClientQueue (queueCapacity f) = Some q"
    and res: "alloc st q = (r, st')" "f' = f\<lparr>qm_data := AList.update c r (qm_data f)\<rparr>"
    by (auto simp: QueueMap_GetOrCreate_def split: option.splits prod.splits)
  have r: "r = next_ref st" "next_ref st' = Suc (next_ref st)"
    using res(1) by (auto simp: alloc_def)
  from assms(1) None FIFO_ok_New [OF q] r show ?thesis
    unfolding QueueMap_ok_def res(2)
    by (auto simp: set_alist_update_fresh deref_alloc [OF res(1)] inj_on_def less_Suc_eq)
qed (use assms in \<open>auto simp: QueueMap_GetOrCreate_def\<close>)

lemma QueueMap_get_inj:
  "QueueMap_ok f st \<Longrightarrow> QueueMap_Get f c = Some r \<Longrightarrow> QueueMap_Get f d = Some r \<Longrightarrow> c = d"
  by (auto simp: QueueMap_ok_def QueueMap_Get_def intro: map_of_inj)

lemma QueueMap_get_fresh:
  "QueueMap_ok f st \<Longrightarrow> QueueMap_Get f c = Some r \<Longrightarrow> r < next_ref st"
  by (auto simp: QueueMap_ok_def QueueMap_Get_def dest: map_of_range)

end
