(* ===== verification/Ocpp_Core.thy ===== *)
theory Ocpp_Core
  imports Prelude Complex_Main
begin

text \<open>
  \<open>ocpp/ocpp.go\<close>: errors and their matching, features, profiles and dialects. The theory also
  fixes the JSON values that messages are decoded into, since request and response bodies are
  carried as such values.
\<close>

section \<open>JSON values and message bodies\<close>

text \<open>
  What \<open>encoding/json\<close> produces for an \<open>interface{}\<close> target: null is nil, every number is a
  \<open>float64\<close> (a rational here), an array a slice and an object a map.
\<close>

datatype json =
    JNull
  | JBool bool
  | JNumber rat
  | JString string
  | JArray "json list"
  | JObject "(string \<times> json) list"

text \<open>
  A value of interface \<open>ocpp.Request\<close> or \<open>ocpp.Response\<close>: the feature name that
  \<open>GetFeatureName\<close> returns and the fields of the message.
\<close>

record message_body =
  GetFeatureName :: string
  body :: json

section \<open>Errors\<close>

text \<open>
  A field error of the validation package, as the source reads it: the tag that failed, the
  field's namespace, the tag's parameter and the field's value.
\<close>

datatype field_value = FInt int | FString string | FOther

record FieldError =
  ActualTag :: string
  Namespace :: string
  Param :: string
  FieldValue :: field_value

text \<open>
  Values of type \<open>error\<close>. \<open>Sentinel\<close> is a package-level value compared by identity
  (\<open>context.Canceled\<close>), \<open>Errorf\<close> a freshly formatted one, \<open>Wrapped\<close> one built with \<open>%w\<close>,
  \<open>ValidationErrors\<close> what the validation package returns (with its text), and \<open>OcppError\<close> a
  pointer to an \<open>ocpp.Error\<close> struct.
\<close>

datatype go_error =
    Sentinel string
  | Errorf string
  | Wrapped string go_error
  | ValidationErrors "FieldError list" string
  | OcppError (Code: string) (Description: string) (MessageId: string) (Marker: string)
      (Cause: "go_error option")

definition NewError :: "string \<Rightarrow> string \<Rightarrow> string \<Rightarrow> go_error" where
  [error_defs]: "NewError code description messageId = OcppError code description messageId [] None"

definition NewHandlerError :: "string \<Rightarrow> string \<Rightarrow> go_error" where
  [error_defs]: "NewHandlerError code description = OcppError code description [] [] None"

text \<open>The text of an error; for an \<open>ocpp.Error\<close> this is its \<open>Error\<close> method.\<close>

fun error_text :: "go_error \<Rightarrow> string" where
  "error_text (Sentinel s) = s"
| "error_text (Errorf s) = s"
| "error_text (Wrapped s _) = s"
| "error_text (ValidationErrors _ s) = s"
| "error_text (OcppError code description messageId _ _) =
     ''ocpp message ('' @ messageId @ ''): '' @ code @ '' - '' @ description"

text \<open>The method \<open>Error.Is\<close>, with the dynamic type of the target checked first.\<close>

fun Error_Is :: "string \<Rightarrow> go_error \<Rightarrow> bool" where
  "Error_Is marker (OcppError _ _ _ marker' _) \<longleftrightarrow> marker' \<noteq> [] \<and> marker = marker'"
| "Error_Is marker _ \<longleftrightarrow> False"

text \<open>The method \<open>Error.Unwrap\<close>, and the unwrapping of \<open>%w\<close> errors.\<close>

fun Unwrap :: "go_error \<Rightarrow> go_error option" where
  "Unwrap (OcppError _ _ _ _ cause) = cause"
| "Unwrap (Wrapped _ e) = Some e"
| "Unwrap _ = None"

text \<open>
  \<open>errors.Is\<close>: walk the chain of causes, at each link comparing with \<open>==\<close> and then asking the
  link's own \<open>Is\<close> method. Comparing two error pointers compares addresses; \<open>same\<close> stands for
  that comparison, and all that is known of it is that equal addresses hold equal structs.
\<close>

definition address_equality :: "(go_error \<Rightarrow> go_error \<Rightarrow> bool) \<Rightarrow> bool" where
  "address_equality same \<longleftrightarrow> (\<forall>a b. same a b \<longrightarrow> a = b)"

fun errors_Is :: "(go_error \<Rightarrow> go_error \<Rightarrow> bool) \<Rightarrow> go_error \<Rightarrow> go_error \<Rightarrow> bool" where
  "errors_Is same (Sentinel s) target \<longleftrightarrow> target = Sentinel s"
| "errors_Is same (Errorf s) target \<longleftrightarrow> same (Errorf s) target"
| "errors_Is same (Wrapped s e) target \<longleftrightarrow> same (Wrapped s e) target \<or> errors_Is same e target"
| "errors_Is same (ValidationErrors es s) target \<longleftrightarrow> same (ValidationErrors es s) target"
| "errors_Is same (OcppError code description messageId marker cause) target \<longleftrightarrow>
     same (OcppError code description messageId marker cause) target \<or>
     Error_Is marker target \<or>
     (case cause of None \<Rightarrow> False | Some e \<Rightarrow> errors_Is same e target)"

section \<open>Profiles\<close>

text \<open>A feature names its request and response types (\<open>reflect.Type\<close> values, by name).\<close>

record Feature =
  FeatureName :: string
  GetRequestType :: string
  GetResponseType :: string

record Profile =
  ProfileName :: string
  Features :: "(string, Feature) gomap"

definition Profile_AddFeature :: "Profile \<Rightarrow> Feature \<Rightarrow> Profile" where
  "Profile_AddFeature p f = p\<lparr>Features := AList.update (FeatureName f) f (Features p)\<rparr>"

fun add_features :: "Profile \<Rightarrow> Feature list \<Rightarrow> Profile" where
  "add_features p [] = p"
| "add_features p (f # fs) = add_features (Profile_AddFeature p f) fs"

definition NewProfile :: "string \<Rightarrow> Feature list \<Rightarrow> Profile" where
  "NewProfile name features = add_features \<lparr>ProfileName = name, Features = []\<rparr> features"

definition Profile_SupportsFeature :: "Profile \<Rightarrow> string \<Rightarrow> bool" where
  "Profile_SupportsFeature p name \<longleftrightarrow> map_of (Features p) name \<noteq> None"

definition Profile_GetFeature :: "Profile \<Rightarrow> string \<Rightarrow> Feature option" where
  "Profile_GetFeature p name = map_of (Features p) name"

definition Profile_ParseRequest ::
  "Profile \<Rightarrow> string \<Rightarrow> 'raw \<Rightarrow> ('raw \<Rightarrow> string \<Rightarrow> go_error + message_body) \<Rightarrow> go_error + message_body" where
  "Profile_ParseRequest p featureName rawRequest requestParser =
     (case map_of (Features p) featureName of
        None \<Rightarrow> Inl (Errorf (''Feature '' @ featureName @ '' not found''))
      | Some feature \<Rightarrow> requestParser rawRequest (GetRequestType feature))"

definition Profile_ParseResponse ::
  "Profile \<Rightarrow> string \<Rightarrow> 'raw \<Rightarrow> ('raw \<Rightarrow> string \<Rightarrow> go_error + message_body) \<Rightarrow> go_error + message_body" where
  "Profile_ParseResponse p featureName rawResponse responseParser =
     (case map_of (Features p) featureName of
        None \<Rightarrow> Inl (Errorf (''Feature '' @ featureName @ '' not found''))
      | Some feature \<Rightarrow> responseParser rawResponse (GetResponseType feature))"

text \<open>\<open>Dialect\<close> is an integer type; its zero value names no version.\<close>

type_synonym Dialect = int

definition V16 :: Dialect where "V16 = 1"
definition V2 :: Dialect where "V2 = 2"

section \<open>Lemmas\<close>

lemma errors_Is_marker:
  assumes "address_equality same" and "target = OcppError c d i m u" and "m \<noteq> []"
  shows "errors_Is same (OcppError code description messageId marker cause) target \<longleftrightarrow>
    marker = m \<or> (\<exists>e. cause = Some e \<and> errors_Is same e target)"
  using assms unfolding address_equality_def by (auto split: option.splits)

lemma errors_Is_chain:
  "cause = Some e \<Longrightarrow> errors_Is same e target \<Longrightarrow>
   errors_Is same (OcppError code description messageId marker cause) target"
  by simp

lemma add_features_ok: "gomap_ok (Features p) \<Longrightarrow> gomap_ok (Features (add_features p fs))"
  by (induction fs arbitrary: p) (simp_all add: Profile_AddFeature_def)

lemma add_features_supports:
  "Profile_SupportsFeature (add_features p fs) n \<longleftrightarrow>
   Profile_SupportsFeature p n \<or> n \<in> FeatureName ` set fs"
proof (induction fs arbitrary: p)
  case (Cons f fs)
  have "Profile_SupportsFeature (Profile_AddFeature p f) n \<longleftrightarrow>
      Profile_SupportsFeature p n \<or> n = FeatureName f"
    by (auto simp: Profile_SupportsFeature_def Profile_AddFeature_def)
  with Cons show ?case by auto
qed simp

lemma NewProfile_supports:
  "Profile_SupportsFeature (NewProfile name fs) n \<longleftrightarrow> n \<in> FeatureName ` set fs"
  by (simp add: NewProfile_def add_features_supports) (simp add: Profile_SupportsFeature_def)

end
