(* ===== verification/Ocppj_State.thy ===== *)
theory Ocppj_State
  imports Ocpp_Core
begin

text \<open>
  \<open>ocppj/state.go\<close>: the pending-request slot of one channel (\<open>clientState\<close>), the interface
  \<open>ClientState\<close> the dispatchers and the message parser read it through, and the per-client
  states of a server (\<open>serverState\<close>). As in the source, client states are reached through
  pointers: \<open>ClearClientPendingRequest\<close> and \<open>ClearAllPendingRequests\<close> drop the pointer from the
  map and leave the state behind it alone. Each method holds its mutex throughout, so each is one
  atomic operation (the server state is the one built with a mutex, as the dispatcher builds it).
\<close>

section \<open>clientState\<close>

type_synonym request = "message_body iface"

record clientState =
  requestID :: string
  pendingRequest :: request

definition NewClientState :: clientState where
  [state_defs]: "NewClientState = \<lparr>requestID = [], pendingRequest = None\<rparr>"

definition ClientState_AddPendingRequest :: "string \<Rightarrow> request \<Rightarrow> clientState \<Rightarrow> clientState" where
  [state_defs]: "ClientState_AddPendingRequest rid req s =
     (if rid \<noteq> [] \<and> requestID s = [] then s\<lparr>requestID := rid, pendingRequest := req\<rparr> else s)"

definition ClientState_GetPendingRequest :: "string \<Rightarrow> clientState \<Rightarrow> request \<times> bool" where
  [state_defs]: "ClientState_GetPendingRequest rid s =
     (if requestID s \<noteq> rid then (None, False) else (pendingRequest s, True))"

definition ClientState_DeletePendingRequest :: "string \<Rightarrow> clientState \<Rightarrow> clientState" where
  [state_defs]: "ClientState_DeletePendingRequest rid s =
     (if requestID s \<noteq> rid then s else s\<lparr>requestID := []\<rparr>)"

definition ClientState_ClearPendingRequests :: "clientState \<Rightarrow> clientState" where
  [state_defs]: "ClientState_ClearPendingRequests s = s\<lparr>requestID := []\<rparr>"

definition ClientState_HasPendingRequest :: "clientState \<Rightarrow> bool" where
  [state_defs]: "ClientState_HasPendingRequest s \<longleftrightarrow> requestID s \<noteq> []"

text \<open>The slot the struct implements: at most one pending request, with its id.\<close>

definition slot :: "clientState \<Rightarrow> (string \<times> request) option" where
  "slot s = (if requestID s = [] then None else Some (requestID s, pendingRequest s))"

section \<open>The ClientState interface\<close>

text \<open>
  What the callers rely on. The laws of lookup are stated for non-empty ids: on the empty id the
  default implementation answers ``found'' whenever nothing is pending (lemma
  \<open>GetPendingRequest_empty_id\<close> below), so callers must exclude it first.
\<close>

locale client_state =
  fixes add :: "string \<Rightarrow> request \<Rightarrow> 's \<Rightarrow> 's"
    and get :: "string \<Rightarrow> 's \<Rightarrow> request \<times> bool"
    and del :: "string \<Rightarrow> 's \<Rightarrow> 's"
    and clear :: "'s \<Rightarrow> 's"
    and has :: "'s \<Rightarrow> bool"
    and pending :: "'s \<Rightarrow> (string \<times> request) option"
  assumes pending_add:
      "pending (add i r s) = (if i \<noteq> [] \<and> pending s = None then Some (i, r) else pending s)"
    and get_found: "pending s = Some (i, r) \<Longrightarrow> get i s = (r, True)"
    and get_other: "i \<noteq> [] \<Longrightarrow> (\<forall>r. pending s \<noteq> Some (i, r)) \<Longrightarrow> get i s = (None, False)"
    and pending_del:
      "pending (del i s) = (if \<exists>r. pending s = Some (i, r) then None else pending s)"
    and pending_clear: "pending (clear s) = None"
    and has_pending: "has s \<longleftrightarrow> pending s \<noteq> None"
    and pending_id: "pending s = Some (i, r) \<Longrightarrow> i \<noteq> []"
begin

lemma get_won_iff: "i \<noteq> [] \<Longrightarrow> snd (get i s) \<longleftrightarrow> (\<exists>r. pending s = Some (i, r))"
  using get_found [of s i] get_other [of i s] by (cases "\<exists>r. pending s = Some (i, r)") auto

lemma add_get: "i \<noteq> [] \<Longrightarrow> pending s = None \<Longrightarrow> get i (add i r s) = (r, True)"
  by (rule get_found) (simp add: pending_add)

lemma add_ignored: "has s \<Longrightarrow> pending (add i r s) = pending s"
  by (simp add: pending_add has_pending)

lemma del_get: "i \<noteq> [] \<Longrightarrow> get i (del i s) = (None, False)"
  by (rule get_other) (auto simp: pending_del)

lemma at_most_one: "snd (get i s) \<Longrightarrow> snd (get j s) \<Longrightarrow> i \<noteq> [] \<Longrightarrow> j \<noteq> [] \<Longrightarrow> i = j"
  by (auto simp: get_won_iff)

end

interpretation cs: client_state ClientState_AddPendingRequest ClientState_GetPendingRequest
    ClientState_DeletePendingRequest ClientState_ClearPendingRequests
    ClientState_HasPendingRequest slot
  by unfold_locales (auto simp: state_defs slot_def split: if_splits)

lemma GetPendingRequest_empty_id:
  "\<not> ClientState_HasPendingRequest s \<Longrightarrow> snd (ClientState_GetPendingRequest [] s)"
  by (simp add: state_defs)

section \<open>serverState\<close>

type_synonym state_store = "clientState store"

type_synonym serverState = "(string, ref) gomap"

definition getOrCreateState :: "string \<Rightarrow> serverState \<times> state_store \<Rightarrow> ref \<times> serverState \<times> state_store" where
  [state_defs]: "getOrCreateState c = (\<lambda>(d, st).
     (case map_of d c of
        Some r \<Rightarrow> (r, d, st)
      | None \<Rightarrow> (let (r, st') = alloc st NewClientState in (r, AList.update c r d, st'))))"

definition ServerState_AddPendingRequest ::
  "string \<Rightarrow> string \<Rightarrow> request \<Rightarrow> serverState \<times> state_store \<Rightarrow> serverState \<times> state_store" where
  [state_defs]: "ServerState_AddPendingRequest c rid req s =
     (let (r, d, st) = getOrCreateState c s
      in (d, assign st r (ClientState_AddPendingRequest rid req (deref st r))))"

definition ServerState_DeletePendingRequest ::
  "string \<Rightarrow> string \<Rightarrow> serverState \<times> state_store \<Rightarrow> serverState \<times> state_store" where
  [state_defs]: "ServerState_DeletePendingRequest c rid = (\<lambda>(d, st).
     (case map_of d c of
        None \<Rightarrow> (d, st)
      | Some r \<Rightarrow> (d, assign st r (ClientState_DeletePendingRequest rid (deref st r)))))"

definition ServerState_GetClientState ::
  "string \<Rightarrow> serverState \<times> state_store \<Rightarrow> ref \<times> serverState \<times> state_store" where
  [state_defs]: "ServerState_GetClientState c = (\<lambda>(d, st).
     (case map_of d c of Some r \<Rightarrow> (r, d, st) | None \<Rightarrow> getOrCreateState c (d, st)))"

definition ServerState_HasPendingRequest :: "string \<Rightarrow> serverState \<times> state_store \<Rightarrow> bool" where
  [state_defs]: "ServerState_HasPendingRequest c = (\<lambda>(d, st).
     (case map_of d c of None \<Rightarrow> False | Some r \<Rightarrow> ClientState_HasPendingRequest (deref st r)))"

definition ServerState_HasPendingRequests :: "serverState \<times> state_store \<Rightarrow> bool" where
  [state_defs]: "ServerState_HasPendingRequests = (\<lambda>(d, st).
     list_ex (\<lambda>(c, r). ClientState_HasPendingRequest (deref st r)) d)"

definition ServerState_ClearClientPendingRequest ::
  "string \<Rightarrow> serverState \<times> state_store \<Rightarrow> serverState \<times> state_store" where
  [state_defs]: "ServerState_ClearClientPendingRequest c = (\<lambda>(d, st). (AList.delete c d, st))"

definition ServerState_ClearAllPendingRequests ::
  "serverState \<times> state_store \<Rightarrow> serverState \<times> state_store" where
  [state_defs]: "ServerState_ClearAllPendingRequests = (\<lambda>(d, st). ([], st))"

text \<open>Well-formedness: distinct keys, allocated addresses, no state shared by two clients.\<close>

definition ServerState_ok :: "serverState \<times> state_store \<Rightarrow> bool" where
  "ServerState_ok = (\<lambda>(d, st).
     gomap_ok d \<and> (\<forall>r \<in> snd ` set d. r < next_ref st) \<and> inj_on snd (set d))"

text \<open>
  The contract of interface \<open>ServerState\<close>: independent slots, one per client id. The operations
  that change state, and the slots after a sequence of them.
\<close>

datatype state_op =
    SAdd string string request
  | SDelete string string
  | SGetClient string
  | SClearClient string
  | SClearAll

type_synonym slots = "string \<Rightarrow> (string \<times> request) option"

definition server_slots :: "serverState \<times> state_store \<Rightarrow> slots" where
  "server_slots = (\<lambda>(d, st) c. case map_of d c of None \<Rightarrow> None | Some r \<Rightarrow> slot (deref st r))"

fun state_apply :: "state_op \<Rightarrow> serverState \<times> state_store \<Rightarrow> serverState \<times> state_store" where
  "state_apply (SAdd c i r) s = ServerState_AddPendingRequest c i r s"
| "state_apply (SDelete c i) s = ServerState_DeletePendingRequest c i s"
| "state_apply (SGetClient c) s = snd (ServerState_GetClientState c s)"
| "state_apply (SClearClient c) s = ServerState_ClearClientPendingRequest c s"
| "state_apply SClearAll s = ServerState_ClearAllPendingRequests s"

fun slots_apply :: "state_op \<Rightarrow> slots \<Rightarrow> slots" where
  "slots_apply (SAdd c i r) m = (if i \<noteq> [] \<and> m c = None then m(c := Some (i, r)) else m)"
| "slots_apply (SDelete c i) m = (if \<exists>r. m c = Some (i, r) then m(c := None) else m)"
| "slots_apply (SGetClient c) m = m"
| "slots_apply (SClearClient c) m = m(c := None)"
| "slots_apply SClearAll m = (\<lambda>_. None)"

section \<open>Correctness of the server state\<close>

lemma slot_New [simp]: "slot NewClientState = None"
  by (simp add: slot_def NewClientState_def)

lemma server_slots_Nil [simp]: "server_slots ([], st) = (\<lambda>_. None)"
  by (simp add: server_slots_def fun_eq_iff)

lemma ServerState_ok_Nil [simp]: "ServerState_ok ([], st)"
  by (simp add: ServerState_ok_def)

lemma ServerState_inj:
  "ServerState_ok (d, st) \<Longrightarrow> map_of d c = Some r \<Longrightarrow> map_of d c' = Some r \<Longrightarrow> c = c'"
  by (auto simp: ServerState_ok_def intro: map_of_inj)

lemma server_slots_assign:
  assumes "ServerState_ok (d, st)" and "map_of d c = Some r"
  shows "server_slots (d, assign st r x) = (server_slots (d, st))(c := slot x)"
proof
  fix c'
  show "server_slots (d, assign st r x) c' = ((server_slots (d, st))(c := slot x)) c'"
  proof (cases "map_of d c' = Some r")
    case True
    then have "c' = c" using ServerState_inj [OF assms(1) _ assms(2)] by blast
    with assms(2) show ?thesis by (simp add: server_slots_def)
  next
    case False
    then have "c' \<noteq> c" using assms(2) by auto
    with False show ?thesis by (auto simp: server_slots_def split: option.splits)
  qed
qed

lemma ServerState_ok_assign: "ServerState_ok (d, st) \<Longrightarrow> ServerState_ok (d, assign st r x)"
  by (simp add: ServerState_ok_def)

lemma getOrCreateState_correct:
  assumes "ServerState_ok (d, st)" and "getOrCreateState c (d, st) = (r, d', st')"
  shows "ServerState_ok (d', st') \<and> map_of d' c = Some r \<and>
    server_slots (d', st') = server_slots (d, st)"
proof (cases "map_of d c")
  case None
  from None assms(2) have a: "alloc st NewClientState = (r, st')" and d': "d' = AList.update c r d"
    by (auto simp: getOrCreateState_def split: prod.splits)
  then have r: "r = next_ref st" "next_ref st' = Suc (next_ref st)" by (auto simp: alloc_def)
  have new: "r \<notin> snd ` set d"
    using assms(1) r(1) by (auto simp: ServerState_ok_def)
  then have fresh: "map_of d k \<noteq> Some r" for k
    by (auto dest: map_of_range)
  have "ServerState_ok (d', st')"
    using assms(1) r(2) new None
    by (auto simp: ServerState_ok_def d' r(1) set_alist_update_fresh less_Suc_eq intro!: inj_on_snd_insert)
  moreover have "server_slots (d', st') k = server_slots (d, st) k" for k
    using None fresh [of k] by (auto simp: server_slots_def d' deref_alloc [OF a] split: option.splits)
  ultimately show ?thesis by (simp add: d' fun_eq_iff)
qed (use assms in \<open>auto simp: getOrCreateState_def\<close>)

lemmas client_laws = cs.pending_add cs.pending_del

lemma state_apply_simulation:
  assumes "ServerState_ok s"
  shows "ServerState_ok (state_apply e s) \<and>
    server_slots (state_apply e s) = slots_apply e (server_slots s)"
proof (cases s)
  case (Pair d st)
  show ?thesis
  proof (cases e)
    case (SAdd c i r)
    obtain x d' st' where g: "getOrCreateState c (d, st) = (x, d', st')"
      by (cases "getOrCreateState c (d, st)") auto
    from getOrCreateState_correct [OF _ g] assms Pair
    have ok: "ServerState_ok (d', st')" "map_of d' c = Some x"
      "server_slots (d', st') = server_slots (d, st)" by auto
    have "slot (deref st' x) = server_slots (d, st) c"
      unfolding ok(3) [symmetric] using ok(2) by (simp add: server_slots_def)
    then show ?thesis
      using ok(1,3) by (auto simp: SAdd Pair ServerState_AddPendingRequest_def g
          server_slots_assign [OF ok(1,2)] ServerState_ok_assign client_laws)
  next
    case (SDelete c i)
    then show ?thesis
    proof (cases "map_of d c")
      case (Some x)
      then have "slot (deref st x) = server_slots (d, st) c" by (simp add: server_slots_def)
      with Some SDelete assms Pair show ?thesis
        by (auto simp: ServerState_DeletePendingRequest_def server_slots_assign
            ServerState_ok_assign client_laws)
    qed (use assms Pair in \<open>auto simp: ServerState_DeletePendingRequest_def server_slots_def\<close>)
  next
    case (SGetClient c)
    obtain x d' st' where g: "getOrCreateState c (d, st) = (x, d', st')"
      by (cases "getOrCreateState c (d, st)") auto
    from getOrCreateState_correct [OF _ g] assms Pair SGetClient g show ?thesis
      by (cases "map_of d c") (auto simp: ServerState_GetClientState_def getOrCreateState_def)
  next
    case (SClearClient c)
    with assms Pair show ?thesis
      by (auto simp: ServerState_ClearClientPendingRequest_def ServerState_ok_def server_slots_def
          set_alist_delete fun_eq_iff intro: inj_on_subset)
  next
    case SClearAll
    with Pair show ?thesis by (simp add: ServerState_ClearAllPendingRequests_def)
  qed
qed

lemma has_pending_slots:
  "ServerState_HasPendingRequest c s \<longleftrightarrow> server_slots s c \<noteq> None"
  by (auto simp: ServerState_HasPendingRequest_def server_slots_def cs.has_pending split: option.splits)

lemma has_any_pending_slots:
  assumes "ServerState_ok s"
  shows "ServerState_HasPendingRequests s \<longleftrightarrow> (\<exists>c. server_slots s c \<noteq> None)"
proof (cases s)
  case (Pair d st)
  have "ServerState_HasPendingRequests s \<longleftrightarrow> (\<exists>(c, r) \<in> set d. slot (deref st r) \<noteq> None)"
    by (auto simp: Pair ServerState_HasPendingRequests_def list_ex_iff cs.has_pending)
  also have "\<dots> \<longleftrightarrow> (\<exists>c r. map_of d c = Some r \<and> slot (deref st r) \<noteq> None)"
    using assms by (intro gomap_range_iff) (simp add: Pair ServerState_ok_def)
  also have "\<dots> \<longleftrightarrow> (\<exists>c. server_slots s c \<noteq> None)"
    by (force simp: Pair server_slots_def split: option.splits)
  finally show ?thesis .
qed

fun state_run :: "state_op list \<Rightarrow> serverState \<times> state_store \<Rightarrow> serverState \<times> state_store" where
  "state_run [] s = s"
| "state_run (e # es) s = state_run es (state_apply e s)"

fun slots_run :: "state_op list \<Rightarrow> slots \<Rightarrow> slots" where
  "slots_run [] m = m"
| "slots_run (e # es) m = slots_run es (slots_apply e m)"

lemma state_run_simulation:
  "ServerState_ok s \<Longrightarrow>
   ServerState_ok (state_run es s) \<and> server_slots (state_run es s) = slots_run es (server_slots s)"
  by (induction es arbitrary: s) (simp_all add: state_apply_simulation)

lemma GetClientState_correct:
  assumes "ServerState_ok s" and "ServerState_GetClientState c s = (x, d', st')"
  shows "slot (deref st' x) = server_slots s c \<and> ServerState_ok (d', st') \<and> server_slots (d', st') = server_slots s"
proof (cases s)
  case (Pair d st)
  show ?thesis
  proof (cases "map_of d c")
    case None
    with assms Pair have g: "getOrCreateState c (d, st) = (x, d', st')" "ServerState_ok (d, st)"
      by (simp_all add: ServerState_GetClientState_def)
    note new = getOrCreateState_correct [OF g(2,1)]
    then have "map_of d' c = Some x" by blast
    then have "server_slots (d', st') c = slot (deref st' x)" by (simp add: server_slots_def)
    with new Pair show ?thesis by simp
  next
    case (Some r)
    with assms Pair show ?thesis by (auto simp: ServerState_GetClientState_def server_slots_def)
  qed
qed

text \<open>
  C25: the pointer-based server state refines independent one-request slots. After any sequence of
  operations from the empty state, the slot of every client is what the specification gives, and
  \<open>HasPendingRequest\<close>, \<open>HasPendingRequests\<close> and the lookup through \<open>GetClientState\<close> (for a
  non-empty message id) answer exactly from those slots.
\<close>

theorem serverState_refines_slots:
  assumes "s = state_run es ([], st0)" and "m = slots_run es (\<lambda>_. None)" and "rid \<noteq> []"
  shows "server_slots s = m \<and>
    ServerState_HasPendingRequest c s = (m c \<noteq> None) \<and>
    ServerState_HasPendingRequests s = (\<exists>c'. m c' \<noteq> None) \<and>
    (case ServerState_GetClientState c s of (r, d, st) \<Rightarrow>
       ClientState_GetPendingRequest rid (deref st r) =
         (case m c of Some (i, req) \<Rightarrow> if i = rid then (req, True) else (None, False)
          | None \<Rightarrow> (None, False)))"
proof -
  have run: "ServerState_ok s" "server_slots s = m"
    using state_run_simulation [of "([], st0)" es] by (simp_all add: assms(1,2))
  obtain x d' st' where g: "ServerState_GetClientState c s = (x, d', st')"
    by (cases "ServerState_GetClientState c s") auto
  have "slot (deref st' x) = m c" using GetClientState_correct [OF run(1) g] run(2) by simp
  then have "ClientState_GetPendingRequest rid (deref st' x) =
      (case m c of Some (i, req) \<Rightarrow> if i = rid then (req, True) else (None, False)
       | None \<Rightarrow> (None, False))"
    using cs.get_found [of "deref st' x" rid] cs.get_other [OF assms(3), of "deref st' x"]
    by (auto split: option.splits)
  with run g show ?thesis by (simp add: has_pending_slots has_any_pending_slots)
qed

theorem serverState_refines_slots_witness:
  "ServerState_HasPendingRequest ''CP1''
     (state_run [SAdd ''CP1'' ''42'' None, SAdd ''CP1'' ''43'' None, SDelete ''CP1'' ''43'', SClearClient ''CP2'']
       ([], \<lparr>cells = \<lambda>_. NewClientState, next_ref = 0\<rparr>))"
  using serverState_refines_slots [OF refl refl, where rid = "''42''" and c = "''CP1''"
      and es = "[SAdd ''CP1'' ''42'' None, SAdd ''CP1'' ''43'' None, SDelete ''CP1'' ''43'', SClearClient ''CP2'']"
      and ?st0.0 = "\<lparr>cells = \<lambda>_. NewClientState, next_ref = 0\<rparr>"]
  by simp

end
