(* ===== verification/Ocppj_Message.thy ===== *)
theory Ocppj_Message
  imports Ocppj_State "HOL-Library.Countable"
begin

text \<open>
  \<open>ocppj/ocppj.go\<close> and \<open>ocppj/validation.go\<close>: the three OCPP-J message types and their wire
  form, the locally generated errors and their markers, the translation of validation errors, and
  the endpoint's operations: parsing an incoming message and creating outgoing ones.
\<close>

section \<open>Local errors and their sentinels\<close>

definition requestTimeoutMarker :: string where "requestTimeoutMarker = ''ocppj/request-timeout''"
definition requestCanceledMarker :: string where "requestCanceledMarker = ''ocppj/request-canceled''"
definition dispatcherStoppedMarker :: string where "dispatcherStoppedMarker = ''ocppj/dispatcher-stopped''"
definition localTransportMarker :: string where "localTransportMarker = ''ocppj/local-transport''"

lemmas marker_defs = requestTimeoutMarker_def requestCanceledMarker_def dispatcherStoppedMarker_def
  localTransportMarker_def

definition NotImplemented :: string where "NotImplemented = ''NotImplemented''"
definition NotSupported :: string where "NotSupported = ''NotSupported''"
definition InternalError :: string where "InternalError = ''InternalError''"
definition MessageTypeNotSupported :: string where
  "MessageTypeNotSupported = ''MessageTypeNotSupported''"
definition ProtocolError :: string where "ProtocolError = ''ProtocolError''"
definition SecurityError :: string where "SecurityError = ''SecurityError''"
definition PropertyConstraintViolation :: string where
  "PropertyConstraintViolation = ''PropertyConstraintViolation''"
definition OccurrenceConstraintViolationV2 :: string where
  "OccurrenceConstraintViolationV2 = ''OccurrenceConstraintViolation''"
definition OccurrenceConstraintViolationV16 :: string where
  "OccurrenceConstraintViolationV16 = ''OccurenceConstraintViolation''"
definition TypeConstraintViolation :: string where
  "TypeConstraintViolation = ''TypeConstraintViolation''"
definition GenericError :: string where "GenericError = ''GenericError''"
definition FormatViolationV2 :: string where "FormatViolationV2 = ''FormatViolation''"
definition FormatViolationV16 :: string where "FormatViolationV16 = ''FormationViolation''"

lemmas code_defs = NotImplemented_def NotSupported_def InternalError_def MessageTypeNotSupported_def
  ProtocolError_def SecurityError_def PropertyConstraintViolation_def
  OccurrenceConstraintViolationV2_def OccurrenceConstraintViolationV16_def
  TypeConstraintViolation_def GenericError_def FormatViolationV2_def FormatViolationV16_def

definition ErrRequestTimeout :: go_error where
  [error_defs]: "ErrRequestTimeout = OcppError [] [] [] requestTimeoutMarker None"

definition ErrRequestCanceled :: go_error where
  [error_defs]: "ErrRequestCanceled = OcppError [] [] [] requestCanceledMarker None"

definition ErrDispatcherStopped :: go_error where
  [error_defs]: "ErrDispatcherStopped = OcppError [] [] [] dispatcherStoppedMarker None"

definition ErrLocalTransport :: go_error where
  [error_defs]: "ErrLocalTransport = OcppError [] [] [] localTransportMarker None"

fun set_marker :: "string \<Rightarrow> go_error \<Rightarrow> go_error" where
  "set_marker m (OcppError c d i _ u) = OcppError c d i m u"
| "set_marker m e = e"

definition newRequestTimeoutError :: "string \<Rightarrow> go_error" where
  [error_defs]: "newRequestTimeoutError messageID =
     set_marker requestTimeoutMarker (NewError GenericError ''Request timed out'' messageID)"

definition NewRequestCanceledError :: "string \<Rightarrow> go_error option \<Rightarrow> go_error" where
  [error_defs]: "NewRequestCanceledError messageID cause =
     (let description = (case cause of None \<Rightarrow> ''request canceled'' | Some e \<Rightarrow> error_text e)
      in OcppError GenericError description messageID requestCanceledMarker cause)"

definition newRequestCanceledError :: "string \<Rightarrow> go_error option \<Rightarrow> go_error" where
  [error_defs]: "newRequestCanceledError messageID cause = NewRequestCanceledError messageID cause"

definition newDispatcherStoppedError :: "string \<Rightarrow> go_error" where
  [error_defs]: "newDispatcherStoppedError messageID =
     set_marker dispatcherStoppedMarker (NewError GenericError ''Dispatcher stopped'' messageID)"

definition NewLocalTransportError :: "string \<Rightarrow> string \<Rightarrow> string \<Rightarrow> go_error" where
  [error_defs]: "NewLocalTransportError code description messageID =
     set_marker localTransportMarker (NewError code description messageID)"

text \<open>\<open>markLocalTransportError\<close> of \<open>dispatcher.go\<close>: the backstop of the cancel callbacks.\<close>

definition markLocalTransportError :: "go_error option \<Rightarrow> go_error option" where
  [error_defs]: "markLocalTransportError err =
     (case err of
        Some (OcppError c d i m u) \<Rightarrow>
          Some (if m = [] then OcppError c d i localTransportMarker u else OcppError c d i m u)
      | _ \<Rightarrow> err)"

section \<open>Messages\<close>

type_synonym MessageType = int

definition CALL :: MessageType where "CALL = 2"
definition CALL_RESULT :: MessageType where "CALL_RESULT = 3"
definition CALL_ERROR :: MessageType where "CALL_ERROR = 4"

lemmas type_defs = CALL_def CALL_RESULT_def CALL_ERROR_def

record Call =
  Call_MessageTypeId :: MessageType
  Call_UniqueId :: string
  Call_Action :: string
  Call_Payload :: request

record CallResult =
  CallResult_MessageTypeId :: MessageType
  CallResult_UniqueId :: string
  CallResult_Payload :: request

record CallError =
  CallError_MessageTypeId :: MessageType
  CallError_UniqueId :: string
  CallError_ErrorCode :: string
  CallError_ErrorDescription :: string
  CallError_ErrorDetails :: "json iface"

datatype Message = MCall Call | MCallResult CallResult | MCallError CallError

fun GetMessageTypeId :: "Message \<Rightarrow> MessageType" where
  "GetMessageTypeId (MCall c) = Call_MessageTypeId c"
| "GetMessageTypeId (MCallResult c) = CallResult_MessageTypeId c"
| "GetMessageTypeId (MCallError c) = CallError_MessageTypeId c"

fun GetUniqueId :: "Message \<Rightarrow> string" where
  "GetUniqueId (MCall c) = Call_UniqueId c"
| "GetUniqueId (MCallResult c) = CallResult_UniqueId c"
| "GetUniqueId (MCallError c) = CallError_UniqueId c"

text \<open>
  What the endpoint takes from outside the repository's own code: the text of \<open>%v\<close> on a decoded
  value, the (de)serialisation of message structs by \<open>encoding/json\<close> and of whole documents to
  and from bytes, and the validation package run on a message struct (\<^const>\<open>None\<close> when it accepts,
  otherwise its field errors and their text). \<open>validation_enabled\<close> is the package's switch, \<open>type_of\<close>
  the dynamic type of a body, which type assertions test.
\<close>

record env =
  sprint_v :: "json \<Rightarrow> string"
  decode_body :: "string \<Rightarrow> json \<Rightarrow> go_error + message_body"
  encode_body :: "request \<Rightarrow> go_error + json"
  json_text :: "json \<Rightarrow> string"
  json_parse :: "string \<Rightarrow> go_error + json"
  validate_struct :: "Message \<Rightarrow> (FieldError list \<times> string) option"
  validation_enabled :: bool
  type_of :: "message_body \<Rightarrow> string"

definition jsonMarshal :: "env \<Rightarrow> (go_error + json) list \<Rightarrow> go_error + string" where
  "jsonMarshal E fs =
     (case find isl fs of
        Some (Inl e) \<Rightarrow> Inl e
      | _ \<Rightarrow> Inr (json_text E (JArray (map projr fs))))"

definition Call_MarshalJSON :: "env \<Rightarrow> Call \<Rightarrow> go_error + string" where
  "Call_MarshalJSON E call =
     jsonMarshal E
       [Inr (JNumber (of_int (Call_MessageTypeId call))), Inr (JString (Call_UniqueId call)),
        Inr (JString (Call_Action call)), encode_body E (Call_Payload call)]"

definition CallResult_MarshalJSON :: "env \<Rightarrow> CallResult \<Rightarrow> go_error + string" where
  "CallResult_MarshalJSON E callResult =
     jsonMarshal E
       [Inr (JNumber (of_int (CallResult_MessageTypeId callResult))),
        Inr (JString (CallResult_UniqueId callResult)), encode_body E (CallResult_Payload callResult)]"

definition ocppMessageToJson :: "env \<Rightarrow> (go_error + json) list \<Rightarrow> go_error + string" where
  "ocppMessageToJson E fs =
     (case jsonMarshal E fs of
        Inl e \<Rightarrow> Inl e
      | Inr t \<Rightarrow> Inr ((t[0 := CHR ''['' ])[length t - 1 := CHR '']'']))"

definition CallError_MarshalJSON :: "env \<Rightarrow> CallError \<Rightarrow> go_error + string" where
  "CallError_MarshalJSON E callError =
     ocppMessageToJson E
       [Inr (JNumber (of_int (CallError_MessageTypeId callError))),
        Inr (JString (CallError_UniqueId callError)), Inr (JString (CallError_ErrorCode callError)),
        Inr (JString (CallError_ErrorDescription callError)),
        Inr (case CallError_ErrorDetails callError of None \<Rightarrow> JObject [] | Some d \<Rightarrow> d)]"

text \<open>\<open>json.Unmarshal\<close> into a slice: arrays and null are accepted, anything else is an error.\<close>

definition ParseRawJsonMessage :: "env \<Rightarrow> string \<Rightarrow> go_error + json list" where
  "ParseRawJsonMessage E dataJson =
     (case json_parse E dataJson of
        Inl e \<Rightarrow> Inl e
      | Inr (JArray arr) \<Rightarrow> Inr arr
      | Inr JNull \<Rightarrow> Inr []
      | Inr _ \<Rightarrow> Inl (Errorf ''json: cannot unmarshal into Go value of type []interface {}''))"

definition ParseJsonMessage :: "env \<Rightarrow> string \<Rightarrow> go_error + json list" where
  "ParseJsonMessage E dataJson = ParseRawJsonMessage E dataJson"

section \<open>Error codes and validation errors\<close>

definition IsErrorCodeValid :: "string \<Rightarrow> bool" where
  "IsErrorCodeValid code \<longleftrightarrow> code \<in> set
     [NotImplemented, NotSupported, InternalError, MessageTypeNotSupported, ProtocolError,
      SecurityError, FormatViolationV16, FormatViolationV2, PropertyConstraintViolation,
      OccurrenceConstraintViolationV16, OccurrenceConstraintViolationV2,
      TypeConstraintViolation, GenericError]"

definition FormatErrorType :: "Dialect \<Rightarrow> (string, string) outcome" where
  "FormatErrorType d =
     (if d = V16 then Returns FormatViolationV16
      else if d = V2 then Returns FormatViolationV2
      else Panics ''invalid dialect'')"

definition OccurrenceConstraintErrorType :: "Dialect \<Rightarrow> (string, string) outcome" where
  "OccurrenceConstraintErrorType d =
     (if d = V16 then Returns OccurrenceConstraintViolationV16
      else if d = V2 then Returns OccurrenceConstraintViolationV2
      else Panics ''invalid dialect'')"

fun getValueLength :: "field_value \<Rightarrow> int" where
  "getValueLength (FInt i) = i"
| "getValueLength (FString s) = int (length s)"
| "getValueLength FOther = 0"

definition occurrenceViolation ::
  "Dialect \<Rightarrow> FieldError \<Rightarrow> string \<Rightarrow> string \<Rightarrow> (string, go_error) outcome" where
  "occurrenceViolation d fieldError messageId feature =
     (let description = ''Field '' @ Namespace fieldError @ '' required but not found'';
          description = (if feature \<noteq> [] then description @ '' for feature '' @ feature else description)
      in case OccurrenceConstraintErrorType d of
           Panics p \<Rightarrow> Panics p
         | Returns code \<Rightarrow> Returns (NewError code description messageId))"

definition propertyConstraintViolation :: "FieldError \<Rightarrow> string \<Rightarrow> string \<Rightarrow> string \<Rightarrow> go_error" where
  "propertyConstraintViolation fieldError details messageId feature =
     (let description = ''Field '' @ Namespace fieldError @ '' must be '' @ details @ '' '' @
            Param fieldError @ '', but was '' @ show_int (getValueLength (FieldValue fieldError));
          description = (if feature \<noteq> [] then description @ '' for feature '' @ feature else description)
      in NewError PropertyConstraintViolation description messageId)"

fun errorFromValidation ::
  "Dialect \<Rightarrow> FieldError list \<Rightarrow> string \<Rightarrow> string \<Rightarrow> string \<Rightarrow> (string, go_error) outcome" where
  "errorFromValidation d [] text messageId feature = Returns (NewError GenericError text messageId)"
| "errorFromValidation d (el # els) text messageId feature =
     (if ActualTag el = ''required'' then occurrenceViolation d el messageId feature
      else if ActualTag el = ''max'' then Returns (propertyConstraintViolation el ''maximum'' messageId feature)
      else if ActualTag el = ''min'' then Returns (propertyConstraintViolation el ''minimum'' messageId feature)
      else if ActualTag el = ''gte'' then Returns (propertyConstraintViolation el ''>='' messageId feature)
      else if ActualTag el = ''gt'' then Returns (propertyConstraintViolation el ''>'' messageId feature)
      else if ActualTag el = ''lte'' then Returns (propertyConstraintViolation el ''<='' messageId feature)
      else if ActualTag el = ''lt'' then Returns (propertyConstraintViolation el ''<'' messageId feature)
      else errorFromValidation d els text messageId feature)"

section \<open>Endpoints\<close>

record Endpoint =
  endpoint_dialect :: Dialect
  Profiles :: "Profile list"

definition Endpoint_AddProfile :: "Endpoint \<Rightarrow> Profile \<Rightarrow> Endpoint" where
  "Endpoint_AddProfile ep p = ep\<lparr>Profiles := Profiles ep @ [p]\<rparr>"

definition Endpoint_SetDialect :: "Endpoint \<Rightarrow> Dialect \<Rightarrow> Endpoint" where
  "Endpoint_SetDialect ep d = ep\<lparr>endpoint_dialect := d\<rparr>"

definition GetProfile :: "Endpoint \<Rightarrow> string \<Rightarrow> Profile option" where
  "GetProfile ep name = find (\<lambda>p. ProfileName p = name) (Profiles ep)"

definition GetProfileForFeature :: "Endpoint \<Rightarrow> string \<Rightarrow> Profile option" where
  "GetProfileForFeature ep featureName =
     find (\<lambda>p. Profile_SupportsFeature p featureName) (Profiles ep)"

definition parseRawJson :: "env \<Rightarrow> json \<Rightarrow> string \<Rightarrow> go_error + message_body" where
  "parseRawJson E raw typ =
     (let raw = (if raw = JNull then JObject [] else raw) in decode_body E typ raw)"

text \<open>Conversion of a \<open>float64\<close> to an integer type drops the fraction.\<close>

definition trunc_rat :: "rat \<Rightarrow> int" where
  "trunc_rat x = (if 0 \<le> x then \<lfloor>x\<rfloor> else \<lceil>x\<rceil>)"

text \<open>
  The result of \<open>ParseMessage\<close>: a panic, an error, or an optional message (\<^const>\<open>None\<close>, a response
  that was discarded, is \<open>nil, nil\<close> in the source).
\<close>

type_synonym parse_result = "(string, go_error + Message option) outcome"

definition format_error :: "Endpoint \<Rightarrow> string \<Rightarrow> string \<Rightarrow> parse_result" where
  "format_error ep description messageId =
     (case FormatErrorType (endpoint_dialect ep) of
        Panics p \<Rightarrow> Panics p
      | Returns code \<Rightarrow> Returns (Inl (NewError code description messageId)))"

definition validated :: "env \<Rightarrow> Endpoint \<Rightarrow> Message \<Rightarrow> string \<Rightarrow> string \<Rightarrow> parse_result" where
  "validated E ep m uniqueId feature =
     (case validate_struct E m of
        None \<Rightarrow> Returns (Inr (Some m))
      | Some (errs, text) \<Rightarrow>
          (case errorFromValidation (endpoint_dialect ep) errs text uniqueId feature of
             Panics p \<Rightarrow> Panics p
           | Returns e \<Rightarrow> Returns (Inl e)))"

definition parse_call :: "env \<Rightarrow> Endpoint \<Rightarrow> json list \<Rightarrow> string \<Rightarrow> parse_result" where
  "parse_call E ep arr uniqueId =
     (if length arr \<noteq> 4 then
        format_error ep ''Invalid Call message. Expected array length 4'' uniqueId
      else
        case arr ! 2 of
          JString action \<Rightarrow>
            (case GetProfileForFeature ep action of
               None \<Rightarrow> Returns (Inl (NewError NotSupported (''Unsupported feature '' @ action) uniqueId))
             | Some profile \<Rightarrow>
                 (case Profile_ParseRequest profile action (arr ! 3) (parseRawJson E) of
                    Inl err \<Rightarrow> format_error ep (error_text err) uniqueId
                  | Inr req \<Rightarrow>
                      validated E ep
                        (MCall \<lparr>Call_MessageTypeId = CALL, Call_UniqueId = uniqueId,
                           Call_Action = action, Call_Payload = Some req\<rparr>) uniqueId action))
        | el \<Rightarrow> format_error ep (''Invalid element '' @ sprint_v E el @ '' at 2, expected action (string)'')
                  uniqueId)"

text \<open>A pending request whose payload is nil makes \<open>GetFeatureName\<close> dereference nil: a panic.\<close>

definition parse_call_result ::
  "env \<Rightarrow> Endpoint \<Rightarrow> json list \<Rightarrow> string \<Rightarrow> clientState \<Rightarrow> parse_result" where
  "parse_call_result E ep arr uniqueId pendingRequestState =
     (case ClientState_GetPendingRequest uniqueId pendingRequestState of
        (_, False) \<Rightarrow> Returns (Inr None)
      | (None, True) \<Rightarrow> Panics ''nil pointer dereference''
      | (Some req, True) \<Rightarrow>
          (case GetProfileForFeature ep (GetFeatureName req) of
             None \<Rightarrow> Returns (Inl (NewError InternalError
                        (''no profile found for feature '' @ GetFeatureName req) uniqueId))
           | Some profile \<Rightarrow>
               (case Profile_ParseResponse profile (GetFeatureName req) (arr ! 2) (parseRawJson E) of
                  Inl err \<Rightarrow> format_error ep (error_text err) uniqueId
                | Inr confirmation \<Rightarrow>
                    validated E ep
                      (MCallResult \<lparr>CallResult_MessageTypeId = CALL_RESULT,
                         CallResult_UniqueId = uniqueId, CallResult_Payload = Some confirmation\<rparr>)
                      uniqueId (GetFeatureName req))))"

text \<open>
  On a non-string error code the source passes the failed assertion's result (the empty string),
  not the unique id, as the message id of the error.
\<close>

definition parse_call_error ::
  "env \<Rightarrow> Endpoint \<Rightarrow> json list \<Rightarrow> string \<Rightarrow> clientState \<Rightarrow> parse_result" where
  "parse_call_error E ep arr uniqueId pendingRequestState =
     (if \<not> snd (ClientState_GetPendingRequest uniqueId pendingRequestState) then Returns (Inr None)
      else if length arr < 4 then
        format_error ep ''Invalid Call Error message. Expected array length >= 4'' uniqueId
      else
        let details = (if length arr > 4 then (case arr ! 4 of JNull \<Rightarrow> None | d \<Rightarrow> Some d) else None)
        in case arr ! 2 of
             JString rawErrorCode \<Rightarrow>
               (let errorDescription = (case arr ! 3 of JString v \<Rightarrow> v | _ \<Rightarrow> [])
                in validated E ep
                     (MCallError \<lparr>CallError_MessageTypeId = CALL_ERROR, CallError_UniqueId = uniqueId,
                        CallError_ErrorCode = rawErrorCode, CallError_ErrorDescription = errorDescription,
                        CallError_ErrorDetails = details\<rparr>) uniqueId [])
           | el \<Rightarrow> format_error ep
               (''Invalid element '' @ sprint_v E el @ '' at 2, expected rawErrorCode (string)'') [])"

definition ParseMessage :: "env \<Rightarrow> Endpoint \<Rightarrow> json list \<Rightarrow> clientState \<Rightarrow> parse_result" where
  "ParseMessage E ep arr pendingRequestState =
     (if length arr < 3 then
        format_error ep ''Invalid message. Expected array length >= 3'' []
      else
        case arr ! 0 of
          JNumber rawTypeId \<Rightarrow>
            (let typeId = trunc_rat rawTypeId in
             case arr ! 1 of
               JString uniqueId \<Rightarrow>
                 (if uniqueId = [] then format_error ep ''Invalid unique ID, cannot be empty'' uniqueId
                  else if typeId = CALL then parse_call E ep arr uniqueId
                  else if typeId = CALL_RESULT then parse_call_result E ep arr uniqueId pendingRequestState
                  else if typeId = CALL_ERROR then parse_call_error E ep arr uniqueId pendingRequestState
                  else Returns (Inl (NewError MessageTypeNotSupported
                         (''Invalid message type ID '' @ show_int typeId) uniqueId)))
             | el \<Rightarrow> format_error ep
                 (''Invalid element '' @ sprint_v E el @ '' at 1, expected unique ID (string)'') [])
        | el \<Rightarrow> format_error ep
            (''Invalid element '' @ sprint_v E el @ '' at 0, expected message type (int)'') [])"

text \<open>
  Creating messages. \<open>uniqueId\<close> of a new call is what the message id generator returned.
\<close>

definition validate_outgoing :: "env \<Rightarrow> Message \<Rightarrow> go_error option" where
  "validate_outgoing E m =
     (if validation_enabled E then
        (case validate_struct E m of None \<Rightarrow> None | Some (errs, text) \<Rightarrow> Some (ValidationErrors errs text))
      else None)"

definition CreateCall :: "env \<Rightarrow> string \<Rightarrow> Endpoint \<Rightarrow> message_body \<Rightarrow> go_error + Call" where
  "CreateCall E uniqueId ep req =
     (let action = GetFeatureName req in
      case GetProfileForFeature ep action of
        None \<Rightarrow> Inl (Errorf (''Couldn't create Call for unsupported action '' @ action))
      | Some _ \<Rightarrow>
          (let call = \<lparr>Call_MessageTypeId = CALL, Call_UniqueId = uniqueId, Call_Action = action,
                       Call_Payload = Some req\<rparr>
           in case validate_outgoing E (MCall call) of Some e \<Rightarrow> Inl e | None \<Rightarrow> Inr call))"

definition CreateCallResult :: "env \<Rightarrow> Endpoint \<Rightarrow> message_body \<Rightarrow> string \<Rightarrow> go_error + CallResult" where
  "CreateCallResult E ep confirmation uniqueId =
     (let action = GetFeatureName confirmation in
      case GetProfileForFeature ep action of
        None \<Rightarrow> Inl (NewError NotSupported
                  (''couldn't create Call Result for unsupported action '' @ action) uniqueId)
      | Some _ \<Rightarrow>
          (let callResult = \<lparr>CallResult_MessageTypeId = CALL_RESULT, CallResult_UniqueId = uniqueId,
                             CallResult_Payload = Some confirmation\<rparr>
           in case validate_outgoing E (MCallResult callResult) of Some e \<Rightarrow> Inl e | None \<Rightarrow> Inr callResult))"

definition CreateCallError ::
  "env \<Rightarrow> string \<Rightarrow> string \<Rightarrow> string \<Rightarrow> json iface \<Rightarrow> go_error + CallError" where
  "CreateCallError E uniqueId code description details =
     (let callError = \<lparr>CallError_MessageTypeId = CALL_ERROR, CallError_UniqueId = uniqueId,
                       CallError_ErrorCode = code, CallError_ErrorDescription = description,
                       CallError_ErrorDetails = details\<rparr>
      in case validate_outgoing E (MCallError callError) of Some e \<Rightarrow> Inl e | None \<Rightarrow> Inr callError)"

section \<open>Properties of local errors\<close>

definition sentinels :: "go_error list" where
  "sentinels = [ErrRequestTimeout, ErrRequestCanceled, ErrDispatcherStopped, ErrLocalTransport]"

text \<open>
  The markers tell local failures apart. An error built for a timeout, a canceled context, a
  stopped dispatcher or a local transport failure matches its own sentinel under \<open>errors.Is\<close> and no
  other; a canceled request also matches the context error that caused it; an error received from
  the peer (built by \<open>NewError\<close>) matches none of them; and the backstop of the cancel path leaves
  no error unmarked while keeping a marker that is already there.
\<close>

theorem local_error_classification:
  assumes "address_equality same"
  shows "filter (errors_Is same (newRequestTimeoutError i)) sentinels = [ErrRequestTimeout] \<and>
    filter (errors_Is same (newRequestCanceledError i (Some (Sentinel e)))) sentinels = [ErrRequestCanceled] \<and>
    errors_Is same (newRequestCanceledError i (Some (Sentinel e))) (Sentinel e) \<and>
    filter (errors_Is same (newDispatcherStoppedError i)) sentinels = [ErrDispatcherStopped] \<and>
    filter (errors_Is same (NewLocalTransportError c d i)) sentinels = [ErrLocalTransport] \<and>
    filter (errors_Is same (NewError c d i)) sentinels = [] \<and>
    markLocalTransportError (Some (OcppError c d i m u)) =
      Some (OcppError c d i (if m = [] then localTransportMarker else m) u)"
  using assms unfolding address_equality_def
  by (auto simp: sentinels_def error_defs marker_defs)

theorem local_error_classification_witness:
  "filter (errors_Is (=) (newRequestCanceledError ''7'' (Some (Sentinel ''context canceled'')))) sentinels
     = [ErrRequestCanceled]"
proof -
  have "address_equality (=)" by (simp add: address_equality_def)
  then show ?thesis by (simp add: local_error_classification)
qed

section \<open>Properties of parsing\<close>

abbreviation known_dialect :: "Endpoint \<Rightarrow> bool" where
  "known_dialect ep \<equiv> endpoint_dialect ep = V16 \<or> endpoint_dialect ep = V2"

text \<open>A result that is not a panic, and whose error, if any, can be sent to the peer.\<close>

fun sendable :: "string set \<Rightarrow> parse_result \<Rightarrow> bool" where
  "sendable ids (Panics _) \<longleftrightarrow> False"
| "sendable ids (Returns (Inl e)) \<longleftrightarrow>
     (\<exists>c d i. e = NewError c d i \<and> IsErrorCodeValid c \<and> i \<in> ids)"
| "sendable ids (Returns (Inr _)) \<longleftrightarrow> True"

lemma sendable_NewError [simp]:
  "sendable ids (Returns (Inl (NewError c d i))) \<longleftrightarrow> IsErrorCodeValid c \<and> i \<in> ids"
  by (auto simp: NewError_def)

declare sendable.simps(2) [simp del]

lemma V2_neq_V16 [simp]: "V2 \<noteq> V16" "V16 \<noteq> V2"
  by (simp_all add: V16_def V2_def)

lemma valid_codes [simp]:
  "IsErrorCodeValid NotSupported" "IsErrorCodeValid InternalError" "IsErrorCodeValid GenericError"
  "IsErrorCodeValid MessageTypeNotSupported" "IsErrorCodeValid PropertyConstraintViolation"
  "IsErrorCodeValid NotImplemented" "IsErrorCodeValid FormatViolationV16" "IsErrorCodeValid FormatViolationV2"
  "IsErrorCodeValid OccurrenceConstraintViolationV16" "IsErrorCodeValid OccurrenceConstraintViolationV2"
  by (simp_all add: IsErrorCodeValid_def)

lemma sendable_format_error:
  "known_dialect ep \<Longrightarrow> i \<in> ids \<Longrightarrow> sendable ids (format_error ep d i)"
  by (auto simp: format_error_def FormatErrorType_def)

definition valid_error :: "string \<Rightarrow> (string, go_error) outcome \<Rightarrow> bool" where
  "valid_error i r \<longleftrightarrow> (\<exists>c d. r = Returns (NewError c d i) \<and> IsErrorCodeValid c)"

lemma valid_errorI: "r = Returns (NewError c d i) \<Longrightarrow> IsErrorCodeValid c \<Longrightarrow> valid_error i r"
  unfolding valid_error_def by blast

lemma propertyConstraintViolation_valid:
  "valid_error i (Returns (propertyConstraintViolation el details i feature))"
  unfolding propertyConstraintViolation_def Let_def by (rule valid_errorI [OF refl]) simp

lemma occurrenceViolation_valid:
  "known_dialect ep \<Longrightarrow> valid_error i (occurrenceViolation (endpoint_dialect ep) el i feature)"
  unfolding occurrenceViolation_def OccurrenceConstraintErrorType_def Let_def
  by (auto intro: valid_errorI)

lemma errorFromValidation_valid:
  "known_dialect ep \<Longrightarrow> valid_error i (errorFromValidation (endpoint_dialect ep) errs text i feature)"
  by (induction errs)
    (auto simp: occurrenceViolation_valid propertyConstraintViolation_valid intro: valid_errorI)

lemma sendable_validated:
  assumes "known_dialect ep" and "i \<in> ids"
  shows "sendable ids (validated E ep m i feature)"
proof (cases "validate_struct E m")
  case (Some p)
  obtain errs msg where p: "p = (errs, msg)" by (cases p)
  from errorFromValidation_valid [OF assms(1), of i errs msg feature] assms(2) show ?thesis
    by (auto simp: validated_def Some p valid_error_def)
qed (simp add: validated_def)

lemmas sendable_intros = sendable_format_error sendable_validated

lemma sendable_parse_call: "known_dialect ep \<Longrightarrow> i \<in> ids \<Longrightarrow> sendable ids (parse_call E ep arr i)"
  by (auto simp: parse_call_def intro!: sendable_intros split: json.splits option.splits sum.splits)

lemma sendable_parse_call_result:
  assumes "known_dialect ep" and "i \<in> ids" and "\<And>j. slot st \<noteq> Some (j, None)" and "i \<noteq> []"
  shows "sendable ids (parse_call_result E ep arr i st)"
proof (cases "ClientState_GetPendingRequest i st")
  case (Pair req found)
  have "req \<noteq> None" if found
    using that Pair assms(3,4) cs.get_won_iff [OF assms(4), of st] cs.get_found [of st i] by fastforce
  with Pair assms(1,2) show ?thesis
    by (auto simp: parse_call_result_def intro!: sendable_intros split: bool.splits option.splits sum.splits)
qed

lemma sendable_parse_call_error:
  "known_dialect ep \<Longrightarrow> i \<in> ids \<Longrightarrow> [] \<in> ids \<Longrightarrow> sendable ids (parse_call_error E ep arr i st)"
  by (auto simp: parse_call_error_def Let_def intro!: sendable_intros split: json.splits)

lemma ParseMessage_sendable:
  assumes "known_dialect ep" and "\<And>i. slot st \<noteq> Some (i, None)"
  shows "sendable (insert [] {i. length arr > 1 \<and> arr ! 1 = JString i}) (ParseMessage E ep arr st)"
  using assms unfolding ParseMessage_def Let_def
  by (auto intro!: sendable_intros sendable_parse_call sendable_parse_call_result
      sendable_parse_call_error split: json.splits)


text \<open>The concrete environment used by witnesses: it accepts every message.\<close>

instance json :: countable
  by countable_datatype

definition sample_env :: env where
  "sample_env = \<lparr>sprint_v = (\<lambda>_. []),
     decode_body = (\<lambda>typ j. Inr \<lparr>GetFeatureName = typ, body = j\<rparr>),
     encode_body = (\<lambda>r. case r of None \<Rightarrow> Inr JNull | Some b \<Rightarrow> Inr (body b)),
     json_text = (\<lambda>j. ''['' @ replicate (to_nat j) (CHR ''x'') @ '']''),
     json_parse = (\<lambda>t. Inr (from_nat (length t - 2))),
     validate_struct = (\<lambda>_. None), validation_enabled = True, type_of = GetFeatureName\<rparr>"

definition sample_endpoint :: Endpoint where
  "sample_endpoint = \<lparr>endpoint_dialect = V16,
     Profiles = [NewProfile ''Core''
       [\<lparr>FeatureName = ''Heartbeat'', GetRequestType = ''Heartbeat'', GetResponseType = ''Heartbeat''\<rparr>]]\<rparr>"


lemma validated_accepts:
  "validated E ep m i feature = Returns (Inr (Some m')) \<longleftrightarrow> m' = m \<and> validate_struct E m = None"
  by (auto simp: validated_def split: option.splits outcome.splits)

lemma format_error_rejects [simp]: "format_error ep d i \<noteq> Returns (Inr r)"
  by (simp add: format_error_def split: outcome.splits)

lemma parse_call_accepts:
  assumes "parse_call E ep arr i = Returns (Inr (Some m))"
  shows "\<exists>c p. m = MCall c \<and> Call_MessageTypeId c = CALL \<and> Call_UniqueId c = i \<and> length arr = 4 \<and>
    arr ! 2 = JString (Call_Action c) \<and> GetProfileForFeature ep (Call_Action c) = Some p \<and>
    validate_struct E m = None"
  using assms
  by (auto simp: parse_call_def validated_accepts split: if_splits json.splits option.splits sum.splits)

lemma pending_slot:
  assumes "i \<noteq> []" and "ClientState_GetPendingRequest i st = (r, True)"
  shows "slot st = Some (i, r)"
proof -
  from assms obtain r' where "slot st = Some (i, r')"
    using cs.get_won_iff [OF assms(1), of st] by auto
  with cs.get_found [OF this] assms(2) show ?thesis by simp
qed

lemma parse_call_result_accepts:
  assumes "parse_call_result E ep arr i st = Returns (Inr (Some m))" and "i \<noteq> []"
  shows "\<exists>c req. m = MCallResult c \<and> CallResult_MessageTypeId c = CALL_RESULT \<and>
    CallResult_UniqueId c = i \<and> slot st = Some (i, Some req) \<and> validate_struct E m = None"
  using assms pending_slot [OF assms(2)]
  by (fastforce simp: parse_call_result_def validated_accepts
      split: prod.splits bool.splits option.splits sum.splits)

lemma parse_call_error_accepts:
  assumes "parse_call_error E ep arr i st = Returns (Inr (Some m))" and "i \<noteq> []"
  shows "\<exists>c req. m = MCallError c \<and> CallError_MessageTypeId c = CALL_ERROR \<and>
    CallError_UniqueId c = i \<and> slot st = Some (i, req) \<and> validate_struct E m = None"
proof -
  from assms(1) have "snd (ClientState_GetPendingRequest i st)"
    by (auto simp: parse_call_error_def split: if_splits)
  then obtain req where "slot st = Some (i, req)" using cs.get_won_iff [OF assms(2)] by blast
  with assms(1) show ?thesis
    by (auto simp: parse_call_error_def Let_def validated_accepts split: if_splits json.splits)
qed

lemma ParseMessage_accepts:
  assumes "ParseMessage E ep arr st = Returns (Inr (Some m))"
  shows "arr ! 1 = JString (GetUniqueId m) \<and> GetUniqueId m \<noteq> [] \<and> validate_struct E m = None \<and>
    (case m of
       MCall c \<Rightarrow> Call_MessageTypeId c = CALL \<and> length arr = 4 \<and> arr ! 2 = JString (Call_Action c) \<and>
         GetProfileForFeature ep (Call_Action c) \<noteq> None
     | MCallResult c \<Rightarrow> CallResult_MessageTypeId c = CALL_RESULT \<and>
         (\<exists>req. slot st = Some (CallResult_UniqueId c, Some req))
     | MCallError c \<Rightarrow> CallError_MessageTypeId c = CALL_ERROR \<and>
         (\<exists>req. slot st = Some (CallError_UniqueId c, req)))"
  using assms unfolding ParseMessage_def Let_def
  by (auto split: if_splits json.splits dest!: parse_call_accepts parse_call_result_accepts
      parse_call_error_accepts)

text \<open>
  C21: what \<open>ParseMessage\<close> accepts. An accepted message carries the (non-empty) unique id of the
  wire message and passed validation; a CALL has four elements and names a feature some profile
  supports; a CALL\_RESULT or CALL\_ERROR answers exactly the request that is pending.
\<close>

theorem ParseMessage_sound:
  assumes "ParseMessage E ep arr st = Returns (Inr (Some m))"
  shows "arr ! 1 = JString (GetUniqueId m) \<and> GetUniqueId m \<noteq> [] \<and> validate_struct E m = None \<and>
    (case m of
       MCall c \<Rightarrow> Call_MessageTypeId c = CALL \<and> length arr = 4 \<and> arr ! 2 = JString (Call_Action c) \<and>
         GetProfileForFeature ep (Call_Action c) \<noteq> None
     | MCallResult c \<Rightarrow> CallResult_MessageTypeId c = CALL_RESULT \<and>
         (\<exists>req. slot st = Some (CallResult_UniqueId c, Some req))
     | MCallError c \<Rightarrow> CallError_MessageTypeId c = CALL_ERROR \<and>
         (\<exists>req. slot st = Some (CallError_UniqueId c, req)))"
  using assms by (rule ParseMessage_accepts)

theorem ParseMessage_sound_witness:
  "ParseMessage sample_env sample_endpoint [JNumber 2, JString ''1'', JString ''Heartbeat'', JObject []]
      NewClientState =
    Returns (Inr (Some (MCall \<lparr>Call_MessageTypeId = CALL, Call_UniqueId = ''1'',
      Call_Action = ''Heartbeat'',
      Call_Payload = Some \<lparr>GetFeatureName = ''Heartbeat'', body = JObject []\<rparr>\<rparr>))) \<and>
   GetProfileForFeature sample_endpoint ''Heartbeat'' \<noteq> None"
proof -
  have parse: "ParseMessage sample_env sample_endpoint
      [JNumber 2, JString ''1'', JString ''Heartbeat'', JObject []] NewClientState =
    Returns (Inr (Some (MCall \<lparr>Call_MessageTypeId = CALL, Call_UniqueId = ''1'',
      Call_Action = ''Heartbeat'',
      Call_Payload = Some \<lparr>GetFeatureName = ''Heartbeat'', body = JObject []\<rparr>\<rparr>)))"
    by (simp add: ParseMessage_def parse_call_def trunc_rat_def CALL_def sample_endpoint_def
        GetProfileForFeature_def NewProfile_def Profile_AddFeature_def Profile_SupportsFeature_def
        Profile_ParseRequest_def parseRawJson_def sample_env_def validated_def)
  from ParseMessage_sound [OF parse] parse show ?thesis by simp
qed

text \<open>The body of an accepted message was decoded into the type its feature names.\<close>

lemma parse_call_payload:
  assumes "parse_call E ep arr i = Returns (Inr (Some (MCall c)))"
  obtains p f req raw where "GetProfileForFeature ep (Call_Action c) = Some p"
    "Profile_GetFeature p (Call_Action c) = Some f" "Call_Payload c = Some req"
    "decode_body E (GetRequestType f) raw = Inr req"
  using assms
  by (auto simp: parse_call_def format_error_def validated_def Profile_ParseRequest_def Profile_GetFeature_def
      parseRawJson_def Let_def split: if_splits json.splits option.splits sum.splits outcome.splits)

lemma parse_call_result_payload:
  assumes "parse_call_result E ep arr i st = Returns (Inr (Some (MCallResult c)))"
  obtains p f q conf raw where "ClientState_GetPendingRequest i st = (Some q, True)"
    "GetProfileForFeature ep (GetFeatureName q) = Some p" "Profile_GetFeature p (GetFeatureName q) = Some f"
    "CallResult_Payload c = Some conf" "decode_body E (GetResponseType f) raw = Inr conf"
  using assms
  by (auto simp: parse_call_result_def format_error_def validated_def Profile_ParseResponse_def
      Profile_GetFeature_def parseRawJson_def Let_def
      split: if_splits option.splits sum.splits outcome.splits prod.splits bool.splits)

definition has_payload :: "Message \<Rightarrow> bool" where
  "has_payload m =
     (case m of MCall c \<Rightarrow> Call_Payload c \<noteq> None | MCallResult r \<Rightarrow> CallResult_Payload r \<noteq> None | MCallError _ \<Rightarrow> True)"

lemma ParseMessage_branch:
  assumes "ParseMessage E ep arr st = Returns (Inr (Some m))"
  obtains i where "parse_call E ep arr i = Returns (Inr (Some m))"
  | i where "parse_call_result E ep arr i st = Returns (Inr (Some m))"
  | i where "parse_call_error E ep arr i st = Returns (Inr (Some m))"
  using assms
  by (auto simp: ParseMessage_def format_error_def Let_def split: if_splits json.splits outcome.splits)

lemma ParseMessage_has_payload:
  assumes "ParseMessage E ep arr st = Returns (Inr (Some m))"
  shows "has_payload m"
proof (rule ParseMessage_branch [OF assms])
  fix i assume "parse_call E ep arr i = Returns (Inr (Some m))"
  then show ?thesis
    by (auto simp: has_payload_def parse_call_def format_error_def validated_def
        split: if_splits json.splits option.splits sum.splits outcome.splits)
next
  fix i assume "parse_call_result E ep arr i st = Returns (Inr (Some m))"
  then show ?thesis
    by (auto simp: has_payload_def parse_call_result_def format_error_def validated_def
        split: if_splits option.splits sum.splits outcome.splits prod.splits bool.splits)
next
  fix i assume "parse_call_error E ep arr i st = Returns (Inr (Some m))"
  then show ?thesis
    by (auto simp: has_payload_def parse_call_error_def format_error_def validated_def Let_def
        split: if_splits json.splits option.splits outcome.splits)
qed

text \<open>A response for which no request is pending is discarded, not an error.\<close>

lemma ParseMessage_discards:
  assumes "arr = JNumber n # JString i # rest" and "rest \<noteq> []" and "i \<noteq> []"
    and "trunc_rat n = CALL_RESULT \<or> trunc_rat n = CALL_ERROR" and "\<forall>r. slot st \<noteq> Some (i, r)"
  shows "ParseMessage E ep arr st = Returns (Inr None)"
  using assms cs.get_other [OF assms(3,5)]
  by (cases rest) (auto simp: ParseMessage_def parse_call_result_def parse_call_error_def type_defs)

text \<open>An answer that was accepted once is ignored wherever its id is not pending.\<close>

lemma ParseMessage_again:
  assumes "ParseMessage E ep arr st = Returns (Inr (Some m))" and "\<And>call. m \<noteq> MCall call"
    and "\<forall>r. slot st' \<noteq> Some (GetUniqueId m, r)"
  shows "ParseMessage E ep' arr st' = Returns (Inr None)"
proof -
  note acc = ParseMessage_accepts [OF assms(1)]
  have len: "\<not> length arr < 3" using assms(1) by (auto simp: ParseMessage_def split: if_splits)
  obtain n where n: "arr ! 0 = JNumber n" "trunc_rat n = CALL_RESULT \<or> trunc_rat n = CALL_ERROR"
  proof (cases "arr ! 0")
    case (JNumber n)
    with assms acc len that show ?thesis
      by (auto simp: ParseMessage_def Let_def dest!: parse_call_accepts split: if_splits)
  qed (use assms(1) len in \<open>simp_all add: ParseMessage_def\<close>)
  from len obtain x y rest where "arr = x # y # rest" "rest \<noteq> []"
    by (cases arr; cases "tl arr"; cases "tl (tl arr)") auto
  with n acc assms(3) show ?thesis by (intro ParseMessage_discards) auto
qed

text \<open>
  Finding: a CALL\_ERROR for the pending request whose error code is not a string is reported with
  an empty message id, so neither endpoint can be told which request it concerned.
\<close>

lemma CallError_bad_code_loses_id:
  assumes "arr = [JNumber 4, JString i, code, descr]" and "i \<noteq> []" and "\<And>s. code \<noteq> JString s"
    and "slot st = Some (i, req)" and "endpoint_dialect ep = V16"
  shows "\<exists>d. ParseMessage E ep arr st = Returns (Inl (NewError FormatViolationV16 d []))"
proof (cases code)
  case (JString s)
  with assms(3) show ?thesis by blast
qed (use assms cs.get_found [OF assms(4)] in
    \<open>auto simp: ParseMessage_def parse_call_error_def trunc_rat_def type_defs format_error_def FormatErrorType_def\<close>)

section \<open>Round trips\<close>

text \<open>
  What is relied on of \<open>encoding/json\<close>: decoding the text of an array gives the array back, and
  the text of an array is bracketed.
\<close>

definition json_array_laws :: "env \<Rightarrow> bool" where
  "json_array_laws E \<longleftrightarrow> (\<forall>js. json_parse E (json_text E (JArray js)) = Inr (JArray js) \<and>
     (\<exists>t. json_text E (JArray js) = ''['' @ t @ '']''))"

lemma find_isl_Inr [simp]: "find isl (map Inr js) = None"
  by (auto simp: find_None_iff)

lemma jsonMarshal_Inr: "jsonMarshal E (map Inr js) = Inr (json_text E (JArray js))"
  by (simp add: jsonMarshal_def comp_def)

lemma ParseRaw_json_text:
  "json_array_laws E \<Longrightarrow> ParseRawJsonMessage E (json_text E (JArray js)) = Inr js"
  by (simp add: json_array_laws_def ParseRawJsonMessage_def)

lemma ocppMessageToJson_brackets:
  assumes "json_array_laws E"
  shows "ocppMessageToJson E (map Inr js) = Inr (json_text E (JArray js))"
proof -
  obtain t where "json_text E (JArray js) = ''['' @ t @ '']''"
    using assms by (auto simp: json_array_laws_def)
  then show ?thesis by (simp add: ocppMessageToJson_def jsonMarshal_Inr list_update_append)
qed

lemma trunc_of_int [simp]: "trunc_rat (of_int n) = n"
  by (simp add: trunc_rat_def)

lemma type_distinct [simp]:
  "CALL_RESULT \<noteq> CALL" "CALL_ERROR \<noteq> CALL" "CALL_ERROR \<noteq> CALL_RESULT"
  by (simp_all add: type_defs)

lemma ParseMessage_typed [simp]:
  assumes "i \<noteq> []" and "arr = JNumber (of_int n) # JString i # x # rest"
  shows "n = CALL \<Longrightarrow> ParseMessage E ep arr st = parse_call E ep arr i"
    and "n = CALL_RESULT \<Longrightarrow> ParseMessage E ep arr st = parse_call_result E ep arr i st"
    and "n = CALL_ERROR \<Longrightarrow> ParseMessage E ep arr st = parse_call_error E ep arr i st"
  using assms by (simp_all add: ParseMessage_def Let_def)

lemma CreateCall_result:
  "CreateCall E i ep req = Inr call \<Longrightarrow> validation_enabled E \<Longrightarrow>
   call = \<lparr>Call_MessageTypeId = CALL, Call_UniqueId = i, Call_Action = GetFeatureName req,
           Call_Payload = Some req\<rparr> \<and>
   GetProfileForFeature ep (GetFeatureName req) \<noteq> None \<and> validate_struct E (MCall call) = None"
  by (auto simp: CreateCall_def validate_outgoing_def Let_def split: option.splits)

lemma CreateCallResult_result:
  "CreateCallResult E ep conf i = Inr cr \<Longrightarrow> validation_enabled E \<Longrightarrow>
   cr = \<lparr>CallResult_MessageTypeId = CALL_RESULT, CallResult_UniqueId = i,
         CallResult_Payload = Some conf\<rparr> \<and>
   GetProfileForFeature ep (GetFeatureName conf) \<noteq> None \<and> validate_struct E (MCallResult cr) = None"
  by (auto simp: CreateCallResult_def validate_outgoing_def Let_def split: option.splits)

text \<open>
  \<open>decodes E ep typ req j\<close>: the body of \<open>req\<close> is serialised as the object \<open>j\<close>, and decoding \<open>j\<close>
  into the type the endpoint's profile registers for the feature gives \<open>req\<close> back.
\<close>

definition decodes :: "env \<Rightarrow> Endpoint \<Rightarrow> (Feature \<Rightarrow> string) \<Rightarrow> message_body \<Rightarrow> json \<Rightarrow> bool" where
  "decodes E ep typ req j \<longleftrightarrow> encode_body E (Some req) = Inr j \<and> j \<noteq> JNull \<and>
     (\<forall>p f. GetProfileForFeature ep (GetFeatureName req) = Some p \<longrightarrow>
        map_of (Features p) (GetFeatureName req) = Some f \<longrightarrow> decode_body E (typ f) j = Inr req)"

lemma profile_feature:
  "GetProfileForFeature ep n = Some p \<Longrightarrow> \<exists>f. map_of (Features p) n = Some f"
  by (auto simp: GetProfileForFeature_def find_Some_iff Profile_SupportsFeature_def)

lemma Call_wire:
  assumes "json_array_laws E" and "validation_enabled E" and "i \<noteq> []"
    and "CreateCall E i ep req = Inr call" and "decodes E ep GetRequestType req j"
  shows "\<exists>t arr. Call_MarshalJSON E call = Inr t \<and> ParseRawJsonMessage E t = Inr arr \<and>
    ParseMessage E ep arr st = Returns (Inr (Some (MCall call)))"
proof -
  let ?arr = "[JNumber (of_int CALL), JString i, JString (GetFeatureName req), j]"
  note c = CreateCall_result [OF assms(4,2)]
  then obtain p where p: "GetProfileForFeature ep (GetFeatureName req) = Some p" by blast
  then obtain f where f: "map_of (Features p) (GetFeatureName req) = Some f"
    using profile_feature by blast
  have j: "encode_body E (Some req) = Inr j" "j \<noteq> JNull" "decode_body E (GetRequestType f) j = Inr req"
    using assms(5) p f by (auto simp: decodes_def)
  have "Call_MarshalJSON E call = jsonMarshal E (map Inr ?arr)"
    using c j(1) by (simp add: Call_MarshalJSON_def)
  moreover have "ParseMessage E ep ?arr st = Returns (Inr (Some (MCall call)))"
    using c p f j(2,3) assms(3)
    by (auto simp: parse_call_def Profile_ParseRequest_def parseRawJson_def validated_accepts)
  ultimately show ?thesis
    using ParseRaw_json_text [OF assms(1), of ?arr] by (simp only: jsonMarshal_Inr) blast
qed


lemma sample_laws: "json_array_laws sample_env" "validation_enabled sample_env"
  by (auto simp: json_array_laws_def sample_env_def)


lemma CallResult_wire:
  assumes "json_array_laws E" and "validation_enabled E" and "i \<noteq> []"
    and "slot st = Some (i, Some req)" and "GetFeatureName conf = GetFeatureName req"
    and "CreateCallResult E ep conf i = Inr cr" and "decodes E ep GetResponseType conf j"
  shows "\<exists>t arr. CallResult_MarshalJSON E cr = Inr t \<and> ParseRawJsonMessage E t = Inr arr \<and>
      ParseMessage E ep arr st = Returns (Inr (Some (MCallResult cr)))"
proof -
  note get = cs.get_found [OF assms(4)]
  let ?arr = "[JNumber (of_int CALL_RESULT), JString i, j]"
  note c = CreateCallResult_result [OF assms(6,2)]
  then obtain p where p: "GetProfileForFeature ep (GetFeatureName req) = Some p"
    using assms(5) by auto
  then obtain f where f: "map_of (Features p) (GetFeatureName req) = Some f"
    using profile_feature by blast
  have j: "encode_body E (Some conf) = Inr j" "j \<noteq> JNull" "decode_body E (GetResponseType f) j = Inr conf"
    using assms(5,7) p f by (auto simp: decodes_def)
  have "CallResult_MarshalJSON E cr = jsonMarshal E (map Inr ?arr)"
    using c j(1) by (simp add: CallResult_MarshalJSON_def)
  moreover have "ParseMessage E ep ?arr st = Returns (Inr (Some (MCallResult cr)))"
    using c p f j(2,3) assms(3) get
    by (auto simp: parse_call_result_def Profile_ParseResponse_def parseRawJson_def validated_accepts)
  ultimately show ?thesis
    using ParseRaw_json_text [OF assms(1), of ?arr] by (simp only: jsonMarshal_Inr) blast
qed

lemma CallError_wire:
  assumes "json_array_laws E" and "validation_enabled E" and "i \<noteq> []" and "slot st = Some (i, req)"
    and "CreateCallError E i code descr (Some d) = Inr ce" and "d \<noteq> JNull"
  shows "\<exists>t arr. CallError_MarshalJSON E ce = Inr t \<and> ParseRawJsonMessage E t = Inr arr \<and>
      ParseMessage E ep arr st = Returns (Inr (Some (MCallError ce)))"
proof -
  note get = cs.get_found [OF assms(4)]
  let ?arr = "[JNumber (of_int CALL_ERROR), JString i, JString code, JString descr, d]"
  have c: "ce = \<lparr>CallError_MessageTypeId = CALL_ERROR, CallError_UniqueId = i, CallError_ErrorCode = code,
      CallError_ErrorDescription = descr, CallError_ErrorDetails = Some d\<rparr>"
    "validate_struct E (MCallError ce) = None"
    using assms(2,5) by (auto simp: CreateCallError_def validate_outgoing_def Let_def split: option.splits)
  have "CallError_MarshalJSON E ce = ocppMessageToJson E (map Inr ?arr)"
    by (simp add: CallError_MarshalJSON_def c(1))
  moreover have "ParseMessage E ep ?arr st = Returns (Inr (Some (MCallError ce)))"
    using c assms(3,6) get
    by (cases d) (auto simp: parse_call_error_def validated_accepts)
  ultimately show ?thesis
    using ParseRaw_json_text [OF assms(1), of ?arr]
    by (simp only: ocppMessageToJson_brackets [OF assms(1)]) blast
qed



section \<open>Error frames\<close>

text \<open>
  The tags of \<open>CallError\<close> ask for an id of 1 to 36 characters and for a known error code; this is
  what is relied on of the validation package when an endpoint answers with an error.
\<close>

definition id_ok :: "string \<Rightarrow> bool" where
  "id_ok i \<longleftrightarrow> 0 < length i \<and> length i \<le> 36"

definition accepts_call_errors :: "env \<Rightarrow> bool" where
  "accepts_call_errors E \<longleftrightarrow>
     (\<forall>i code d. id_ok i \<longrightarrow> IsErrorCodeValid code \<longrightarrow>
        validate_struct E (MCallError \<lparr>CallError_MessageTypeId = CALL_ERROR, CallError_UniqueId = i,
          CallError_ErrorCode = code, CallError_ErrorDescription = d, CallError_ErrorDetails = None\<rparr>) = None)"

text \<open>Decoding into a value of a type gives a value of that type.\<close>

definition typed_decoding :: "env \<Rightarrow> bool" where
  "typed_decoding E \<longleftrightarrow> (\<forall>typ raw m. decode_body E typ raw = Inr m \<longrightarrow> type_of E m = typ)"

text \<open>The bytes of a CALL\_ERROR without details.\<close>

definition error_frame :: "env \<Rightarrow> string \<Rightarrow> string \<Rightarrow> string \<Rightarrow> string" where
  "error_frame E i code d =
     json_text E (JArray [JNumber (of_int CALL_ERROR), JString i, JString code, JString d, JObject []])"

lemma CallError_frame_text:
  assumes "json_array_laws E"
  shows "CallError_MarshalJSON E \<lparr>CallError_MessageTypeId = CALL_ERROR, CallError_UniqueId = i,
      CallError_ErrorCode = code, CallError_ErrorDescription = d, CallError_ErrorDetails = None\<rparr> =
    Inr (error_frame E i code d)"
  using ocppMessageToJson_brackets [OF assms, of
      "[JNumber (of_int CALL_ERROR), JString i, JString code, JString d, JObject []]"]
  by (simp add: CallError_MarshalJSON_def error_frame_def)

lemma CreateCallError_frame:
  assumes "json_array_laws E" and "accepts_call_errors E" and "id_ok i" and "IsErrorCodeValid code"
  shows "\<exists>ce. CreateCallError E i code d None = Inr ce \<and> CallError_MarshalJSON E ce = Inr (error_frame E i code d)"
  using assms(2-4) CallError_frame_text [OF assms(1)]
  by (simp add: CreateCallError_def validate_outgoing_def accepts_call_errors_def Let_def)

lemma CreateCallResult_errors:
  assumes "CreateCallResult E ep resp i = Inl err"
  shows "err = NewError NotSupported (''couldn't create Call Result for unsupported action '' @ GetFeatureName resp) i \<or>
    (\<exists>errs t. err = ValidationErrors errs t)"
  using assms by (auto simp: CreateCallResult_def validate_outgoing_def Let_def split: option.splits if_splits)

lemma sample_typed_decoding: "typed_decoding sample_env"
  by (simp add: typed_decoding_def sample_env_def)

lemma sample_accepts_call_errors: "accepts_call_errors sample_env"
  by (simp add: accepts_call_errors_def sample_env_def)

text \<open>The sample environment and endpoint on three messages.\<close>

definition heartbeat :: message_body where
  "heartbeat = \<lparr>GetFeatureName = ''Heartbeat'', body = JObject []\<rparr>"

definition heartbeat_call :: "string \<Rightarrow> Call" where
  "heartbeat_call i = \<lparr>Call_MessageTypeId = CALL, Call_UniqueId = i, Call_Action = ''Heartbeat'',
     Call_Payload = Some heartbeat\<rparr>"

definition heartbeat_result :: "string \<Rightarrow> CallResult" where
  "heartbeat_result i = \<lparr>CallResult_MessageTypeId = CALL_RESULT, CallResult_UniqueId = i,
     CallResult_Payload = Some heartbeat\<rparr>"

lemmas sample_endpoint_simps = sample_endpoint_def GetProfileForFeature_def NewProfile_def
  Profile_AddFeature_def Profile_SupportsFeature_def

lemma sample_call_parsed:
  "i \<noteq> [] \<Longrightarrow> ParseMessage sample_env sample_endpoint
     [JNumber (of_int CALL), JString i, JString ''Heartbeat'', JObject []] st =
   Returns (Inr (Some (MCall (heartbeat_call i))))"
  by (subst ParseMessage_typed(1) [OF _ refl refl])
    (simp_all add: parse_call_def sample_endpoint_simps Profile_ParseRequest_def parseRawJson_def
      sample_env_def validated_def heartbeat_call_def heartbeat_def)

lemma sample_result_parsed:
  assumes "slot st = Some (i, Some heartbeat)"
  shows "ParseMessage sample_env sample_endpoint [JNumber (of_int CALL_RESULT), JString i, JObject []] st =
   Returns (Inr (Some (MCallResult (heartbeat_result i))))"
  using cs.pending_id [OF assms] cs.get_found [OF assms]
  by (subst ParseMessage_typed(2) [OF _ refl refl])
    (simp_all add: parse_call_result_def sample_endpoint_simps Profile_ParseResponse_def parseRawJson_def
      sample_env_def validated_def heartbeat_result_def heartbeat_def)

lemma sample_unsupported_parsed:
  "i \<noteq> [] \<Longrightarrow> ParseMessage sample_env sample_endpoint
     [JNumber (of_int CALL), JString i, JString ''Foo'', JObject []] st =
   Returns (Inl (NewError NotSupported ''Unsupported feature Foo'' i))"
  by (subst ParseMessage_typed(1) [OF _ refl refl]) (simp_all add: parse_call_def sample_endpoint_simps)

end
