(* ===== verification/Client_Dispatcher.thy ===== *)
theory Client_Dispatcher
  imports Ocppj_Queue Ocppj_Message
begin

text \<open>
  \<open>ocppj/dispatcher.go\<close>, first half: \<open>DefaultClientDispatcher\<close>. This theory translates its methods
  as functions on the dispatcher's state and proves what each of them does when nothing runs beside
  it; theory \<open>Client_Protocol\<close> interleaves their atomic parts.
\<close>

section \<open>Bundles and contexts\<close>

text \<open>
  A context: the background context (whose \<open>Done\<close> channel is nil and which never fires) or one the
  caller may cancel. Which contexts have fired, and with which error, is part of the outside world.
\<close>

datatype ctx = Background | Cancelable nat

record RequestBundle =
  bundle_Call :: "Call option"
  bundle_Data :: "string option"
  bundle_Ctx :: "ctx option"

definition bundleCtx :: "RequestBundle \<Rightarrow> ctx" where
  "bundleCtx b = (case bundle_Ctx b of Some c \<Rightarrow> c | None \<Rightarrow> Background)"

text \<open>
  A queue element is any non-nil Go value; the type assertion \<open>el.(RequestBundle)\<close> followed by the
  check for a nil \<open>Call\<close> is \<open>well_formed\<close>.
\<close>

datatype element = Bundle RequestBundle | OtherElement

fun well_formed :: "element iface \<Rightarrow> (RequestBundle \<times> Call) option" where
  "well_formed (Some (Bundle b)) = (case bundle_Call b of Some c \<Rightarrow> Some (b, c) | None \<Rightarrow> None)"
| "well_formed _ = None"

definition has_id :: "string \<Rightarrow> element iface \<Rightarrow> bool" where
  "has_id rid el \<longleftrightarrow> (case well_formed el of Some (b, c) \<Rightarrow> Call_UniqueId c = rid | None \<Rightarrow> False)"

section \<open>The dispatcher\<close>

text \<open>
  What happens at the boundary: bytes handed to the network client, and invocations of the
  cancel callback with the error it receives.
\<close>

datatype boundary_event =
    Wrote string
  | CancelCallback string request go_error

text \<open>The pump's token for the request in flight; the zero value of the source is \<^const>\<open>None\<close>.\<close>

record pumpPending =
  pp_id :: string
  pp_action :: string
  pp_ctx :: ctx
  pp_payload :: request

record ClientDispatcher =
  requestQueue :: "element FIFOClientQueue"
  requestChannel :: "bool chan option"
  readyForDispatch :: "bool chan"
  running :: bool
  pendingState :: clientState
  network :: bool
  onRequestCancel :: bool
  cd_timer :: timer
  paused :: bool
  cd_timeout :: int
  timeoutOnPause :: bool
  events :: "boundary_event list"

text \<open>Durations are in nanoseconds: 24 hours and 30 seconds.\<close>

definition defaultTimeoutTick :: int where "defaultTimeoutTick = 86400000000000"
definition defaultMessageTimeout :: int where "defaultMessageTimeout = 30000000000"

definition NewDefaultClientDispatcher :: "element FIFOClientQueue \<Rightarrow> ClientDispatcher" where
  "NewDefaultClientDispatcher q =
     \<lparr>requestQueue = q, requestChannel = None, readyForDispatch = new_chan 1, running = False,
      pendingState = NewClientState, network = False, onRequestCancel = False,
      cd_timer = \<lparr>armed = None, tick = False\<rparr>, paused = False, cd_timeout = defaultMessageTimeout,
      timeoutOnPause = False, events = []\<rparr>"

definition CD_SetOnRequestCanceled :: "bool \<Rightarrow> ClientDispatcher \<Rightarrow> ClientDispatcher" where
  "CD_SetOnRequestCanceled cb d = d\<lparr>onRequestCancel := cb\<rparr>"

definition CD_SetTimeout :: "int \<Rightarrow> ClientDispatcher \<Rightarrow> ClientDispatcher" where
  "CD_SetTimeout t d = d\<lparr>cd_timeout := t\<rparr>"

definition CD_SetTimeoutOnPause :: "bool \<Rightarrow> ClientDispatcher \<Rightarrow> ClientDispatcher" where
  "CD_SetTimeoutOnPause b d = d\<lparr>timeoutOnPause := b\<rparr>"

definition CD_SetNetworkClient :: "bool \<Rightarrow> ClientDispatcher \<Rightarrow> ClientDispatcher" where
  "CD_SetNetworkClient n d = d\<lparr>network := n\<rparr>"

definition CD_SetPendingRequestState :: "clientState \<Rightarrow> ClientDispatcher \<Rightarrow> ClientDispatcher" where
  "CD_SetPendingRequestState s d = d\<lparr>pendingState := s\<rparr>"

text \<open>
  \<open>Start\<close> launches the pump with a fresh request channel and a timer at its 24 hour tick.
\<close>

definition CD_Start :: "ClientDispatcher \<Rightarrow> ClientDispatcher" where
  [disp_defs]: "CD_Start d =
     d\<lparr>requestChannel := Some (new_chan 1), running := True,
       cd_timer := \<lparr>armed = Some defaultTimeoutTick, tick = False\<rparr>\<rparr>"

definition CD_IsRunning :: "ClientDispatcher \<Rightarrow> bool" where
  [disp_defs]: "CD_IsRunning d \<longleftrightarrow> requestChannel d \<noteq> None"

definition CD_IsPaused :: "ClientDispatcher \<Rightarrow> bool" where
  [disp_defs]: "CD_IsPaused d \<longleftrightarrow> paused d"

text \<open>
  \<open>Stop\<close> closes the request channel; it then waits for the pump, which drains (\<open>stop_drain\<close>
  below) when it receives from the closed channel.
\<close>

definition CD_Stop :: "ClientDispatcher \<Rightarrow> ClientDispatcher" where
  [disp_defs]: "CD_Stop d =
     (if \<not> running d then d
      else d\<lparr>running := False,
             requestChannel := map_option (\<lambda>c. c\<lparr>chan_closed := True\<rparr>) (requestChannel d)\<rparr>)"

definition fireRequestCancel :: "string \<Rightarrow> request \<Rightarrow> go_error \<Rightarrow> ClientDispatcher \<Rightarrow> ClientDispatcher" where
  [disp_defs]: "fireRequestCancel rid req err d =
     (if \<not> onRequestCancel d then d
      else d\<lparr>events := events d @ [CancelCallback rid req (the (markLocalTransportError (Some err)))]\<rparr>)"

text \<open>
  \<open>SendRequest\<close> pushes first and checks that the dispatcher runs afterwards; the blocking send on
  the request channel is \<^const>\<open>chan_send\<close> (theory \<open>Client_Protocol\<close> makes it wait for room). The
  text of the last error reads the call's id, which panics when the bundle has no call.
\<close>

datatype send_error = NoNetwork | PushFailed queue_error | NotRunning string | NilCallPanic

definition CD_SendRequest ::
  "RequestBundle \<Rightarrow> ClientDispatcher \<Rightarrow> send_error option \<times> ClientDispatcher" where
  [disp_defs]: "CD_SendRequest req d =
     (if \<not> network d then (Some NoNetwork, d)
      else case FIFO_Push (Some (Bundle req)) (requestQueue d) of
             Inl e \<Rightarrow> (Some (PushFailed e), d)
           | Inr q \<Rightarrow>
               (let d = d\<lparr>requestQueue := q\<rparr> in
                if \<not> running d then
                  (Some (case bundle_Call req of Some c \<Rightarrow> NotRunning (Call_UniqueId c) | None \<Rightarrow> NilCallPanic), d)
                else (None, d\<lparr>requestChannel := map_option (chan_send True) (requestChannel d)\<rparr>)))"

text \<open>The three atomic parts of \<open>CompleteRequest\<close>, and the whole.\<close>

definition complete_pop :: "string \<Rightarrow> ClientDispatcher \<Rightarrow> bool \<times> ClientDispatcher" where
  [disp_defs]: "complete_pop rid d =
     (let ((el, ok), q) = FIFO_PopIf (has_id rid) (requestQueue d) in (ok, d\<lparr>requestQueue := q\<rparr>))"

definition complete_delete :: "string \<Rightarrow> ClientDispatcher \<Rightarrow> ClientDispatcher" where
  [disp_defs]: "complete_delete rid d =
     d\<lparr>pendingState := ClientState_DeletePendingRequest rid (pendingState d)\<rparr>"

definition signal_ready :: "ClientDispatcher \<Rightarrow> ClientDispatcher" where
  [disp_defs]: "signal_ready d = d\<lparr>readyForDispatch := chan_put True (readyForDispatch d)\<rparr>"

definition CD_CompleteRequest :: "string \<Rightarrow> ClientDispatcher \<Rightarrow> bool \<times> ClientDispatcher" where
  [disp_defs]: "CD_CompleteRequest rid d =
     (let (won, d) = complete_pop rid d in
      if won then (True, signal_ready (complete_delete rid d)) else (False, d))"

section \<open>Dispatching and the message pump\<close>

text \<open>The outside world at one moment: the result of a network write, and the contexts' errors.\<close>

record outside =
  net_write :: "string \<Rightarrow> go_error option"
  ctx_err :: "nat \<Rightarrow> go_error option"

fun Ctx_Err :: "outside \<Rightarrow> ctx \<Rightarrow> go_error option" where
  "Ctx_Err W Background = None"
| "Ctx_Err W (Cancelable n) = ctx_err W n"

definition complete_and_cancel ::
  "string \<Rightarrow> request \<Rightarrow> go_error \<Rightarrow> ClientDispatcher \<Rightarrow> ClientDispatcher" where
  [disp_defs]: "complete_and_cancel rid req err d =
     (let (won, d) = CD_CompleteRequest rid d in if won then fireRequestCancel rid req err d else d)"

definition CD_dispatchNextRequest ::
  "outside \<Rightarrow> ClientDispatcher \<Rightarrow> (pumpPending option \<times> bool) \<times> ClientDispatcher" where
  [disp_defs]: "CD_dispatchNextRequest W d =
     (case well_formed (FIFO_Peek (requestQueue d)) of
        None \<Rightarrow> ((None, False), d)
      | Some (bundle, call) \<Rightarrow>
          (case bundle_Data bundle of
             None \<Rightarrow> ((None, False), d)
           | Some jsonMessage \<Rightarrow>
               (let ctx = bundleCtx bundle; rid = Call_UniqueId call in
                case Ctx_Err W ctx of
                  Some e \<Rightarrow>
                    ((None, False),
                     complete_and_cancel rid (Call_Payload call) (newRequestCanceledError rid (Some e)) d)
                | None \<Rightarrow>
                    (let d = d\<lparr>pendingState :=
                           ClientState_AddPendingRequest rid (Call_Payload call) (pendingState d)\<rparr> in
                     case net_write W jsonMessage of
                       Some err \<Rightarrow>
                         ((None, True),
                          complete_and_cancel rid (Call_Payload call)
                            (NewLocalTransportError InternalError (error_text err) rid) d)
                     | None \<Rightarrow>
                         ((Some \<lparr>pp_id = rid, pp_action = Call_Action call, pp_ctx = ctx,
                                 pp_payload = Call_Payload call\<rparr>, True),
                          d\<lparr>events := events d @ [Wrote jsonMessage]\<rparr>)))))"

text \<open>The branch of the pump taken when the request channel is closed and empty.\<close>

fun cancel_outstanding :: "element iface list \<Rightarrow> ClientDispatcher \<Rightarrow> ClientDispatcher" where
  "cancel_outstanding [] d = d"
| "cancel_outstanding (el # els) d =
     cancel_outstanding els
       (case well_formed el of
          None \<Rightarrow> d
        | Some (b, c) \<Rightarrow>
            fireRequestCancel (Call_UniqueId c) (Call_Payload c) (newDispatcherStoppedError (Call_UniqueId c)) d)"

definition stop_drain :: "ClientDispatcher \<Rightarrow> ClientDispatcher" where
  [disp_defs]: "stop_drain d =
     (let (outstanding, q) = FIFO_DrainAll (requestQueue d);
          d = d\<lparr>requestQueue := q, pendingState := ClientState_ClearPendingRequests (pendingState d)\<rparr>;
          d = cancel_outstanding outstanding d
      in d\<lparr>requestQueue := FIFO_Init (requestQueue d), requestChannel := None\<rparr>)"

text \<open>
  One iteration of the pump's loop. The pump keeps \<open>rdy\<close> and the token of the request in flight;
  the iteration starts by reconciling the token, then takes one enabled branch of the \<open>select\<close>, and
  ends with the dispatch step. \<^const>\<open>None\<close> means that the pump returned.
\<close>

record pump =
  rdy :: bool
  pump_pending :: "pumpPending option"

datatype arm = ArmRequest | ArmTimer | ArmReady | ArmContext

definition pump_start :: pump where
  "pump_start = \<lparr>rdy = True, pump_pending = None\<rparr>"

definition reconcile :: "ClientDispatcher \<Rightarrow> pump \<Rightarrow> pump" where
  [disp_defs]: "reconcile d p =
     (case pump_pending p of
        Some tok \<Rightarrow>
          (if pp_id tok = [] \<or> snd (ClientState_GetPendingRequest (pp_id tok) (pendingState d)) then p
           else p\<lparr>pump_pending := None\<rparr>)
      | None \<Rightarrow> p)"

definition arm_request :: "ClientDispatcher \<Rightarrow> pump \<Rightarrow> (ClientDispatcher \<times> pump option) option" where
  "arm_request d p =
     (case requestChannel d of
        None \<Rightarrow> None
      | Some c \<Rightarrow>
          (case chan_recv c of
             Some (_, c') \<Rightarrow> Some (d\<lparr>requestChannel := Some c'\<rparr>, Some p)
           | None \<Rightarrow> (if chan_closed c then Some (stop_drain d, None) else None)))"

definition arm_timer :: "ClientDispatcher \<Rightarrow> pump \<Rightarrow> (ClientDispatcher \<times> pump option) option" where
  "arm_timer d p =
     (if \<not> tick (cd_timer d) then None
      else
        let d = d\<lparr>cd_timer := (cd_timer d)\<lparr>tick := False\<rparr>\<rparr>;
            d = (if ClientState_HasPendingRequest (pendingState d) then
                   (case well_formed (FIFO_Peek (requestQueue d)) of
                      Some (b, c) \<Rightarrow>
                        complete_and_cancel (Call_UniqueId c) (Call_Payload c)
                          (newRequestTimeoutError (Call_UniqueId c)) d
                    | None \<Rightarrow> d)
                 else d)
        in Some (d\<lparr>cd_timer := timer_reset defaultTimeoutTick (cd_timer d)\<rparr>,
                 Some (p\<lparr>pump_pending := None\<rparr>)))"

definition arm_ready :: "ClientDispatcher \<Rightarrow> pump \<Rightarrow> (ClientDispatcher \<times> pump option) option" where
  "arm_ready d p =
     (case chan_recv (readyForDispatch d) of
        None \<Rightarrow> None
      | Some (b, c) \<Rightarrow> Some (d\<lparr>readyForDispatch := c\<rparr>, Some (p\<lparr>rdy := b\<rparr>)))"

definition arm_context ::
  "outside \<Rightarrow> ClientDispatcher \<Rightarrow> pump \<Rightarrow> (ClientDispatcher \<times> pump option) option" where
  "arm_context W d p =
     (case pump_pending p of
        None \<Rightarrow> None
      | Some tok \<Rightarrow>
          (case (if pp_id tok = [] then None else Ctx_Err W (pp_ctx tok)) of
             None \<Rightarrow> None
           | Some e \<Rightarrow>
               Some (if snd (ClientState_GetPendingRequest (pp_id tok) (pendingState d)) then
                       complete_and_cancel (pp_id tok) (pp_payload tok)
                         (newRequestCanceledError (pp_id tok) (Some e)) d
                     else d,
                     Some (p\<lparr>pump_pending := None\<rparr>))))"

fun take_arm ::
  "outside \<Rightarrow> arm \<Rightarrow> ClientDispatcher \<Rightarrow> pump \<Rightarrow> (ClientDispatcher \<times> pump option) option" where
  "take_arm W ArmRequest d p = arm_request d p"
| "take_arm W ArmTimer d p = arm_timer d p"
| "take_arm W ArmReady d p = arm_ready d p"
| "take_arm W ArmContext d p = arm_context W d p"

definition pump_dispatch :: "outside \<Rightarrow> ClientDispatcher \<Rightarrow> pump \<Rightarrow> ClientDispatcher \<times> pump" where
  [disp_defs]: "pump_dispatch W d p =
     (if CD_IsPaused d then (d, p)
      else if rdy p \<and> \<not> FIFO_IsEmpty (requestQueue d) \<and>
              \<not> ClientState_HasPendingRequest (pendingState d) then
        (let ((tok, dispatched), d) = CD_dispatchNextRequest W d in
         if dispatched then
           (d\<lparr>cd_timer := timer_reset (cd_timeout d) (timer_stop_drain (cd_timer d))\<rparr>,
            p\<lparr>pump_pending := tok, rdy := False\<rparr>)
         else (d, p))
      else (d, p))"

definition messagePump_iteration ::
  "outside \<Rightarrow> arm \<Rightarrow> ClientDispatcher \<Rightarrow> pump \<Rightarrow> (ClientDispatcher \<times> pump option) option" where
  "messagePump_iteration W a d p =
     (case take_arm W a d (reconcile d p) of
        None \<Rightarrow> None
      | Some (d, None) \<Rightarrow> Some (d, None)
      | Some (d, Some p) \<Rightarrow> (let (d, p) = pump_dispatch W d p in Some (d, Some p)))"

section \<open>Pausing and resuming\<close>

definition CD_Pause :: "ClientDispatcher \<Rightarrow> ClientDispatcher" where
  [disp_defs]: "CD_Pause d =
     (let t = timer_stop_drain (cd_timer d);
          tck = (if timeoutOnPause d \<and> cd_timeout d > 0 then cd_timeout d else defaultTimeoutTick)
      in d\<lparr>cd_timer := timer_reset tck t, paused := True\<rparr>)"

definition CD_Resume :: "ClientDispatcher \<Rightarrow> ClientDispatcher" where
  [disp_defs]: "CD_Resume d =
     (let d = d\<lparr>paused := False\<rparr> in
      if ClientState_HasPendingRequest (pendingState d) then
        d\<lparr>cd_timer := timer_reset (cd_timeout d) (timer_stop_drain (cd_timer d))\<rparr>
      else signal_ready d)"

section \<open>What the operations do\<close>

fun bundle_ids :: "element iface list \<Rightarrow> string list" where
  "bundle_ids [] = []"
| "bundle_ids (el # els) =
     (case well_formed el of Some (b, c) \<Rightarrow> Call_UniqueId c # bundle_ids els | None \<Rightarrow> bundle_ids els)"

lemma has_id_bundle_ids: "el \<in> set els \<Longrightarrow> has_id rid el \<Longrightarrow> rid \<in> set (bundle_ids els)"
  by (induction els) (auto simp: has_id_def split: option.splits)

lemma complete_pop_cases:
  "complete_pop rid d =
     (case elements (requestQueue d) of
        el # els \<Rightarrow> if has_id rid el then (True, d\<lparr>requestQueue := (requestQueue d)\<lparr>elements := els\<rparr>\<rparr>)
                    else (False, d)
      | [] \<Rightarrow> (False, d))"
  by (simp add: complete_pop_def FIFO_PopIf_def split: list.splits)

lemma CompleteRequest_cases:
  "CD_CompleteRequest rid d =
     (case elements (requestQueue d) of
        el # els \<Rightarrow>
          if has_id rid el
          then (True, signal_ready (complete_delete rid (d\<lparr>requestQueue := (requestQueue d)\<lparr>elements := els\<rparr>\<rparr>)))
          else (False, d)
      | [] \<Rightarrow> (False, d))"
  by (simp add: CD_CompleteRequest_def complete_pop_cases split: list.splits)

lemma chan_put_nonempty: "chan_cap c > 0 \<Longrightarrow> chan_buf (chan_put x c) \<noteq> []"
  by (auto simp: chan_put_def chan_full_def chan_send_def)

text \<open>
  Completion ownership. \<open>CompleteRequest\<close> reports true exactly when the given id is that of the
  front request. It then has removed that request and nothing else, cleared its pending entry, and
  left a token in \<open>readyForDispatch\<close>; and as long as ids are distinct no later call with the same id
  can win again. When it reports false it has changed nothing.
\<close>

theorem CompleteRequest_ownership:
  assumes "chan_cap (readyForDispatch d) > 0" and "CD_CompleteRequest rid d = (won, d')"
  shows "(won \<longleftrightarrow> (\<exists>el els. elements (requestQueue d) = el # els \<and> has_id rid el)) \<and>
    (\<not> won \<longrightarrow> d' = d) \<and>
    (won \<longrightarrow> elements (requestQueue d') = tl (elements (requestQueue d)) \<and>
       (\<forall>r. slot (pendingState d') \<noteq> Some (rid, r)) \<and> chan_buf (readyForDispatch d') \<noteq> [] \<and>
       (distinct (bundle_ids (elements (requestQueue d))) \<longrightarrow> CD_CompleteRequest rid d' = (False, d')))"
proof (cases "elements (requestQueue d)")
  case Nil
  with assms show ?thesis by (auto simp: CompleteRequest_cases)
next
  case (Cons el els)
  show ?thesis
  proof (cases "has_id rid el")
    case False
    with Cons assms(2) show ?thesis by (auto simp: CompleteRequest_cases)
  next
    case True
    then have d': "won" "d' = signal_ready (complete_delete rid
        (d\<lparr>requestQueue := (requestQueue d)\<lparr>elements := els\<rparr>\<rparr>))"
      using Cons assms(2) by (auto simp: CompleteRequest_cases)
    then have q: "elements (requestQueue d') = els" "chan_buf (readyForDispatch d') \<noteq> []"
      "pendingState d' = ClientState_DeletePendingRequest rid (pendingState d)"
      using chan_put_nonempty [OF assms(1)] by (auto simp: signal_ready_def complete_delete_def)
    have "CD_CompleteRequest rid d' = (False, d')" if "distinct (bundle_ids (el # els))"
    proof -
      have "rid \<notin> set (bundle_ids els)"
        using that True by (auto simp: has_id_def split: option.splits)
      then have "\<not> has_id rid x" if "x \<in> set els" for x using has_id_bundle_ids that by blast
      with q(1) show ?thesis by (auto simp: CompleteRequest_cases split: list.splits)
    qed
    with Cons True d'(1) q show ?thesis by (auto simp: cs.pending_del)
  qed
qed

definition sample_call :: "string \<Rightarrow> Call" where
  "sample_call i = \<lparr>Call_MessageTypeId = CALL, Call_UniqueId = i, Call_Action = ''Heartbeat'',
     Call_Payload = Some \<lparr>GetFeatureName = ''Heartbeat'', body = JObject []\<rparr>\<rparr>"

definition sample_bundle :: "string \<Rightarrow> RequestBundle" where
  "sample_bundle i = \<lparr>bundle_Call = Some (sample_call i), bundle_Data = Some i, bundle_Ctx = None\<rparr>"

definition sample_dispatcher :: "string list \<Rightarrow> ClientDispatcher" where
  "sample_dispatcher rids =
     (NewDefaultClientDispatcher \<lparr>elements = map (\<lambda>i. Some (Bundle (sample_bundle i))) rids, capacity = 10\<rparr>)
       \<lparr>onRequestCancel := True, network := True\<rparr>"

lemmas sample_defs = sample_call_def sample_bundle_def sample_dispatcher_def
  NewDefaultClientDispatcher_def new_chan_def

theorem CompleteRequest_ownership_witness:
  "fst (CD_CompleteRequest ''1'' (sample_dispatcher [''1'', ''2''])) \<and>
   \<not> fst (CD_CompleteRequest ''1'' (snd (CD_CompleteRequest ''1'' (sample_dispatcher [''1'', ''2'']))))"
  using CompleteRequest_ownership [of "sample_dispatcher [''1'', ''2'']" "''1''"
      "fst (CD_CompleteRequest ''1'' (sample_dispatcher [''1'', ''2'']))"
      "snd (CD_CompleteRequest ''1'' (sample_dispatcher [''1'', ''2'']))"]
  by (simp add: sample_defs has_id_def)

lemma fireRequestCancel_frame [simp]:
  "requestQueue (fireRequestCancel i r e d) = requestQueue d"
  "pendingState (fireRequestCancel i r e d) = pendingState d"
  "requestChannel (fireRequestCancel i r e d) = requestChannel d"
  "readyForDispatch (fireRequestCancel i r e d) = readyForDispatch d"
  "onRequestCancel (fireRequestCancel i r e d) = onRequestCancel d"
  "running (fireRequestCancel i r e d) = running d"
  "paused (fireRequestCancel i r e d) = paused d"
  by (simp_all add: fireRequestCancel_def)

lemma fireRequestCancel_marked:
  "onRequestCancel d \<Longrightarrow> m \<noteq> [] \<Longrightarrow>
   events (fireRequestCancel i r (OcppError c t j m u) d) = events d @ [CancelCallback i r (OcppError c t j m u)]"
  by (simp add: fireRequestCancel_def markLocalTransportError_def)

text \<open>The calls a list of elements holds, in order.\<close>

definition calls_of :: "element iface list \<Rightarrow> Call list" where
  "calls_of els = map snd (List.map_filter well_formed els)"

lemma cancel_outstanding_frame [simp]:
  "requestQueue (cancel_outstanding els d) = requestQueue d"
  "pendingState (cancel_outstanding els d) = pendingState d"
  "requestChannel (cancel_outstanding els d) = requestChannel d"
  "onRequestCancel (cancel_outstanding els d) = onRequestCancel d"
  "running (cancel_outstanding els d) = running d"
  by (induction els arbitrary: d) (auto split: option.splits prod.splits)

lemma stopped_error_marker: "\<exists>c t j u. newDispatcherStoppedError i = OcppError c t j dispatcherStoppedMarker u"
  by (simp add: error_defs)

lemma cancel_outstanding_events:
  "onRequestCancel d \<Longrightarrow>
   events (cancel_outstanding els d) = events d @
     map (\<lambda>c. CancelCallback (Call_UniqueId c) (Call_Payload c) (newDispatcherStoppedError (Call_UniqueId c)))
       (calls_of els)"
proof (induction els arbitrary: d)
  case (Cons el els)
  show ?case
  proof (cases "well_formed el")
    case None
    with Cons show ?thesis by (simp add: calls_of_def List.map_filter_simps)
  next
    case (Some bc)
    obtain b c where bc: "bc = (b, c)" by (cases bc)
    have "dispatcherStoppedMarker \<noteq> []" by (simp add: marker_defs)
    then have "events (fireRequestCancel (Call_UniqueId c) (Call_Payload c)
        (newDispatcherStoppedError (Call_UniqueId c)) d) =
      events d @ [CancelCallback (Call_UniqueId c) (Call_Payload c) (newDispatcherStoppedError (Call_UniqueId c))]"
      using stopped_error_marker [of "Call_UniqueId c"] fireRequestCancel_marked [OF Cons.prems] by metis
    with Cons Some bc show ?thesis by (simp add: calls_of_def List.map_filter_simps)
  qed
qed (simp add: calls_of_def List.map_filter_simps)

text \<open>
  Stopping. When the pump sees the closed request channel, every request still queued (the one
  in flight included) is reported to the cancel callback exactly once, in queue order, with an error
  that matches \<open>ErrDispatcherStopped\<close>; afterwards the queue is empty, nothing is pending and the
  dispatcher no longer reports that it runs.
\<close>

theorem stop_drain_cancels_all:
  assumes "onRequestCancel d" and "address_equality same"
  shows "events (stop_drain d) = events d @
      map (\<lambda>c. CancelCallback (Call_UniqueId c) (Call_Payload c) (newDispatcherStoppedError (Call_UniqueId c)))
        (calls_of (elements (requestQueue d))) \<and>
    (\<forall>i. errors_Is same (newDispatcherStoppedError i) ErrDispatcherStopped) \<and>
    elements (requestQueue (stop_drain d)) = [] \<and> slot (pendingState (stop_drain d)) = None \<and>
    \<not> CD_IsRunning (stop_drain d)"
proof -
  have "events (stop_drain d) = events d @
      map (\<lambda>c. CancelCallback (Call_UniqueId c) (Call_Payload c) (newDispatcherStoppedError (Call_UniqueId c)))
        (calls_of (elements (requestQueue d)))"
    using assms(1) by (simp add: stop_drain_def FIFO_DrainAll_def cancel_outstanding_events)
  moreover have "errors_Is same (newDispatcherStoppedError i) ErrDispatcherStopped" for i
    using assms(2) by (simp add: error_defs marker_defs)
  ultimately show ?thesis
    by (simp add: stop_drain_def FIFO_DrainAll_def FIFO_Init_def CD_IsRunning_def cs.pending_clear)
qed

theorem stop_drain_cancels_all_witness:
  "length (events (stop_drain (sample_dispatcher [''1'', ''2'']))) = 2"
  using stop_drain_cancels_all [of "sample_dispatcher [''1'', ''2'']" "(=)"]
  by (simp add: sample_defs address_equality_def calls_of_def List.map_filter_simps)

lemma complete_and_cancel_front:
  assumes "elements (requestQueue d) = el # els" and "has_id rid el" and "onRequestCancel d" and "m \<noteq> []"
  shows "complete_and_cancel rid req (OcppError c t j m u) d =
    (signal_ready (complete_delete rid (d\<lparr>requestQueue := (requestQueue d)\<lparr>elements := els\<rparr>\<rparr>)))
      \<lparr>events := events d @ [CancelCallback rid req (OcppError c t j m u)]\<rparr>"
  using assms
  by (simp add: complete_and_cancel_def CompleteRequest_cases fireRequestCancel_def signal_ready_def
      complete_delete_def markLocalTransportError_def)

text \<open>
  One dispatch. With nothing pending and a well-formed request at the front,
  \<open>dispatchNextRequest\<close> does exactly one of three things. If the request's context has fired, the
  request is dropped unsent and reported as canceled with the context's error. If the write fails it
  is removed and reported as a local transport failure. Otherwise its bytes are written, it stays at
  the front, and it becomes the pending request.
\<close>

theorem dispatchNextRequest_outcomes:
  assumes front: "elements (requestQueue d) = Some (Bundle b) # els"
    and b: "bundle_Call b = Some c" "bundle_Data b = Some msg" "Call_UniqueId c \<noteq> []"
    and idle: "slot (pendingState d) = None" and cb: "onRequestCancel d"
    and disp: "CD_dispatchNextRequest W d = ((tok, dispatched), d')"
  shows "case Ctx_Err W (bundleCtx b) of
      Some e \<Rightarrow> \<not> dispatched \<and> elements (requestQueue d') = els \<and> slot (pendingState d') = None \<and>
        events d' = events d @ [CancelCallback (Call_UniqueId c) (Call_Payload c)
          (newRequestCanceledError (Call_UniqueId c) (Some e))]
    | None \<Rightarrow>
        (case net_write W msg of
           Some err \<Rightarrow> dispatched \<and> tok = None \<and> elements (requestQueue d') = els \<and>
             slot (pendingState d') = None \<and>
             events d' = events d @ [CancelCallback (Call_UniqueId c) (Call_Payload c)
               (NewLocalTransportError InternalError (error_text err) (Call_UniqueId c))]
         | None \<Rightarrow> dispatched \<and> map_option pp_id tok = Some (Call_UniqueId c) \<and>
             elements (requestQueue d') = elements (requestQueue d) \<and>
             slot (pendingState d') = Some (Call_UniqueId c, Call_Payload c) \<and>
             events d' = events d @ [Wrote msg])"
proof -
  have hd: "has_id (Call_UniqueId c) (Some (Bundle b))" by (simp add: has_id_def b(1))
  have front': "elements (requestQueue (d\<lparr>pendingState := s\<rparr>)) = Some (Bundle b) # els" for s
    by (simp add: front)
  have m: "requestCanceledMarker \<noteq> []" "localTransportMarker \<noteq> []" by (simp_all add: marker_defs)
  note cancel = complete_and_cancel_front [OF front hd cb m(1)]
    complete_and_cancel_front [OF front' hd _ m(2)]
  show ?thesis
  proof (cases "Ctx_Err W (bundleCtx b)")
    case (Some e)
    with disp show ?thesis
      by (auto simp: CD_dispatchNextRequest_def FIFO_Peek_def front b Let_def error_defs cancel
          signal_ready_def complete_delete_def cs.pending_del idle)
  next
    case None
    note ctx = None
    show ?thesis
    proof (cases "net_write W msg")
      case (Some err)
      with ctx disp cb show ?thesis
        by (auto simp: CD_dispatchNextRequest_def FIFO_Peek_def front b Let_def error_defs cancel
            signal_ready_def complete_delete_def cs.pending_del cs.pending_add idle)
    next
      case None
      with ctx disp show ?thesis
        by (auto simp: CD_dispatchNextRequest_def FIFO_Peek_def front b Let_def cs.pending_add idle)
    qed
  qed
qed

theorem dispatchNextRequest_outcomes_witness:
  "events (snd (CD_dispatchNextRequest \<lparr>net_write = \<lambda>_. None, ctx_err = \<lambda>_. None\<rparr> (sample_dispatcher [''1'', ''2''])))
     = [Wrote ''1'']"
  using dispatchNextRequest_outcomes [of "sample_dispatcher [''1'', ''2'']" "sample_bundle ''1''"
      "[Some (Bundle (sample_bundle ''2''))]" "sample_call ''1''" "''1''"
      "\<lparr>net_write = \<lambda>_. None, ctx_err = \<lambda>_. None\<rparr>"
      "fst (fst (CD_dispatchNextRequest \<lparr>net_write = \<lambda>_. None, ctx_err = \<lambda>_. None\<rparr> (sample_dispatcher [''1'', ''2''])))"
      "snd (fst (CD_dispatchNextRequest \<lparr>net_write = \<lambda>_. None, ctx_err = \<lambda>_. None\<rparr> (sample_dispatcher [''1'', ''2''])))"
      "snd (CD_dispatchNextRequest \<lparr>net_write = \<lambda>_. None, ctx_err = \<lambda>_. None\<rparr> (sample_dispatcher [''1'', ''2'']))"]
  by (simp add: sample_defs bundleCtx_def)

text \<open>A timer whose channel holds a tick is not running any more.\<close>

definition timer_ok :: "timer \<Rightarrow> bool" where
  "timer_ok t \<longleftrightarrow> (tick t \<longrightarrow> armed t = None)"

lemma timer_stop_drain_reset [simp]:
  "timer_ok t \<Longrightarrow> timer_reset x (timer_stop_drain t) = \<lparr>armed = Some x, tick = False\<rparr>"
  by (cases t) (auto simp: timer_ok_def timer_reset_def timer_stop_drain_def)

text \<open>
  Pausing and resuming. \<open>Pause\<close> parks the timer at the 24 hour tick, or at the request timeout
  when the opt-in is set and the timeout positive, and leaves no elapsed tick behind. \<open>Resume\<close> gives
  a pending request a full new timeout with no stale tick that could cancel it at once; with nothing
  pending it wakes the pump instead and leaves the timer alone.
\<close>

theorem Pause_Resume_timer:
  assumes "timer_ok (cd_timer d)" and "chan_cap (readyForDispatch d) > 0"
  shows "paused (CD_Pause d) \<and>
    cd_timer (CD_Pause d) = \<lparr>armed = Some (if timeoutOnPause d \<and> cd_timeout d > 0 then cd_timeout d
      else defaultTimeoutTick), tick = False\<rparr> \<and>
    \<not> paused (CD_Resume d) \<and>
    (if slot (pendingState d) \<noteq> None
     then cd_timer (CD_Resume d) = \<lparr>armed = Some (cd_timeout d), tick = False\<rparr> \<and>
          readyForDispatch (CD_Resume d) = readyForDispatch d
     else cd_timer (CD_Resume d) = cd_timer d \<and> chan_buf (readyForDispatch (CD_Resume d)) \<noteq> [])"
  using assms chan_put_nonempty [OF assms(2)]
  by (simp add: CD_Pause_def CD_Resume_def Let_def cs.has_pending signal_ready_def)

theorem Pause_Resume_timer_witness:
  "cd_timer (CD_Resume (sample_dispatcher [''1'']\<lparr>pendingState := \<lparr>requestID = ''1'', pendingRequest = None\<rparr>,
       cd_timer := \<lparr>armed = None, tick = True\<rparr>\<rparr>)) = \<lparr>armed = Some defaultMessageTimeout, tick = False\<rparr>"
  using Pause_Resume_timer [of "sample_dispatcher [''1'']\<lparr>pendingState := \<lparr>requestID = ''1'', pendingRequest = None\<rparr>,
       cd_timer := \<lparr>armed = None, tick = True\<rparr>\<rparr>"]
  by (simp add: sample_defs timer_ok_def slot_def)

lemma SendRequest_not_running_keeps_bundle:
  assumes "network d" and "\<not> running d" and "FIFO_Push (Some (Bundle b)) (requestQueue d) = Inr q"
  shows "fst (CD_SendRequest b d) \<noteq> None \<and> requestQueue (snd (CD_SendRequest b d)) = q"
  using assms by (simp add: CD_SendRequest_def)


end
