(* ===== verification/Client_Protocol.thy ===== *)
theory Client_Protocol
  imports Client_Dispatcher "HOL-Library.Multiset" "HOL-Library.Sublist"
begin

text \<open>
  The goroutines around one running \<open>DefaultClientDispatcher\<close>, interleaved. A step is one access
  to state that goroutines share (a queue or pending-state method, which holds its own mutex, a
  channel operation, the atomic \<open>paused\<close> flag), so every schedule of the methods of theory
  \<open>Client_Dispatcher\<close> is a run of the step relation. The goroutines are the message pump, callers of
  \<open>SendRequest\<close>, readers that received a response and call \<open>CompleteRequest\<close>, and callers of
  \<open>Pause\<close>, \<open>Resume\<close> and \<open>Stop\<close>.

  The timer may fire whenever the pump waits: this covers every interleaving of the timer
  operations of \<open>Pause\<close>, \<open>Resume\<close> and the pump, which only decide when it fires. A network write
  may succeed or fail, and a context may fire at any time. Message ids are fresh, as the id
  generators document.
\<close>

section \<open>Program counters\<close>

text \<open>
  Where a call of \<open>CompleteRequest\<close> is: before \<open>PopIf\<close>, before \<open>DeletePendingRequest\<close>, before the
  readiness signal, and returned true, with the response or the cancellation still to be handed over.
\<close>

datatype stage = AtPop | AtDelete | AtSignal | AtHandOver

text \<open>Why the pump completes a request itself.\<close>

datatype origin = FromTimer | FromContext | FromDrop | FromWrite

datatype resume_stage = ResumeCheck | ResumeTimer | ResumeSignal

datatype pump_pc =
    LoopTop
  | AtSelect
  | TimerHasPending
  | TimerPeek
  | ContextGet go_error
  | Completing origin string request go_error stage
  | PausedCheck
  | QueueCheck
  | PendingCheck
  | Peeking
  | ContextCheck RequestBundle Call string
  | Adding RequestBundle Call string
  | Writing RequestBundle Call string
  | DrainQueue
  | DrainClear "element iface list"
  | DrainFire "element iface list"
  | DrainInit
  | DrainNil
  | Stopped

text \<open>
  The state of the system: the dispatcher, the pump's position and locals, the other goroutines
  inside a call, and the history (requests pushed, requests whose \<open>SendRequest\<close> returned nil,
  requests handed to the network, responses handed to the caller, requests thrown away by the
  queue's final \<open>Init\<close>).
\<close>

record csys =
  disp :: ClientDispatcher
  pc :: pump_pc
  pmp :: pump
  senders :: "string multiset"
  completers :: "(string \<times> stage) multiset"
  resumers :: "resume_stage multiset"
  accepted :: "string list"
  confirmed :: "string list"
  dispatched :: "string list"
  delivered :: "string list"
  discarded :: "string list"

text \<open>Where the pump continues, and with which locals, after it completed a request itself.\<close>

fun after_completing :: "origin \<Rightarrow> pump \<Rightarrow> pump_pc \<times> pump" where
  "after_completing FromTimer p = (PausedCheck, p\<lparr>pump_pending := None\<rparr>)"
| "after_completing FromContext p = (PausedCheck, p\<lparr>pump_pending := None\<rparr>)"
| "after_completing FromDrop p = (LoopTop, p)"
| "after_completing FromWrite p = (LoopTop, p\<lparr>pump_pending := None, rdy := False\<rparr>)"

definition leave_completing :: "origin \<Rightarrow> csys \<Rightarrow> csys" where
  "leave_completing k s = s\<lparr>pc := fst (after_completing k (pmp s)), pmp := snd (after_completing k (pmp s))\<rparr>"

section \<open>Steps\<close>

inductive client_step :: "csys \<Rightarrow> csys \<Rightarrow> bool" where
  \<comment> \<open>\<open>SendRequest\<close>: push, then the check and the send, which \<open>Stop\<close> cannot separate (both hold the mutex)\<close>
  send_push:
    "network (disp s) \<Longrightarrow> bundle_Call b = Some c \<Longrightarrow> bundle_Data b \<noteq> None \<Longrightarrow>
     Call_UniqueId c \<noteq> [] \<Longrightarrow> Call_UniqueId c \<notin> set (accepted s) \<Longrightarrow>
     FIFO_Push (Some (Bundle b)) (requestQueue (disp s)) = Inr q \<Longrightarrow>
     client_step s (s\<lparr>disp := (disp s)\<lparr>requestQueue := q\<rparr>,
       accepted := accepted s @ [Call_UniqueId c], senders := add_mset (Call_UniqueId c) (senders s)\<rparr>)"
| send_signal:
    "i \<in># senders s \<Longrightarrow> running (disp s) \<Longrightarrow> requestChannel (disp s) = Some ch \<Longrightarrow> \<not> chan_full ch \<Longrightarrow>
     client_step s (s\<lparr>disp := (disp s)\<lparr>requestChannel := Some (chan_send True ch)\<rparr>,
       senders := senders s - {#i#}, confirmed := confirmed s @ [i]\<rparr>)"
| send_not_running:
    "i \<in># senders s \<Longrightarrow> \<not> running (disp s) \<Longrightarrow> client_step s (s\<lparr>senders := senders s - {#i#}\<rparr>)"
  \<comment> \<open>a response: \<open>ParseMessage\<close> finds its id pending, then \<open>CompleteRequest\<close> runs\<close>
| response_parsed:
    "i \<noteq> [] \<Longrightarrow> snd (ClientState_GetPendingRequest i (pendingState (disp s))) \<Longrightarrow>
     client_step s (s\<lparr>completers := add_mset (i, AtPop) (completers s)\<rparr>)"
| completer_wins:
    "(i, AtPop) \<in># completers s \<Longrightarrow> complete_pop i (disp s) = (True, d) \<Longrightarrow>
     client_step s (s\<lparr>disp := d, completers := add_mset (i, AtDelete) (completers s - {#(i, AtPop)#})\<rparr>)"
| completer_loses:
    "(i, AtPop) \<in># completers s \<Longrightarrow> complete_pop i (disp s) = (False, d) \<Longrightarrow>
     client_step s (s\<lparr>disp := d, completers := completers s - {#(i, AtPop)#}\<rparr>)"
| completer_delete:
    "(i, AtDelete) \<in># completers s \<Longrightarrow>
     client_step s (s\<lparr>disp := complete_delete i (disp s),
       completers := add_mset (i, AtSignal) (completers s - {#(i, AtDelete)#})\<rparr>)"
| completer_signal:
    "(i, AtSignal) \<in># completers s \<Longrightarrow>
     client_step s (s\<lparr>disp := signal_ready (disp s),
       completers := add_mset (i, AtHandOver) (completers s - {#(i, AtSignal)#})\<rparr>)"
| completer_delivers:
    "(i, AtHandOver) \<in># completers s \<Longrightarrow>
     client_step s (s\<lparr>completers := completers s - {#(i, AtHandOver)#}, delivered := delivered s @ [i]\<rparr>)"
  \<comment> \<open>\<open>Pause\<close>, \<open>Resume\<close>, \<open>Stop\<close>\<close>
| pause: "client_step s (s\<lparr>disp := (disp s)\<lparr>paused := True\<rparr>\<rparr>)"
| resume:
    "client_step s (s\<lparr>disp := (disp s)\<lparr>paused := False\<rparr>, resumers := add_mset ResumeCheck (resumers s)\<rparr>)"
| resume_check:
    "ResumeCheck \<in># resumers s \<Longrightarrow>
     client_step s (s\<lparr>resumers := add_mset
       (if ClientState_HasPendingRequest (pendingState (disp s)) then ResumeTimer else ResumeSignal)
       (resumers s - {#ResumeCheck#})\<rparr>)"
| resume_timer:
    "ResumeTimer \<in># resumers s \<Longrightarrow> client_step s (s\<lparr>resumers := resumers s - {#ResumeTimer#}\<rparr>)"
| resume_signal:
    "ResumeSignal \<in># resumers s \<Longrightarrow>
     client_step s (s\<lparr>disp := signal_ready (disp s), resumers := resumers s - {#ResumeSignal#}\<rparr>)"
| stop: "client_step s (s\<lparr>disp := CD_Stop (disp s)\<rparr>)"
  \<comment> \<open>the pump: reconciliation and the branches of its \<open>select\<close>\<close>
| pump_reconcile:
    "pc s = LoopTop \<Longrightarrow> client_step s (s\<lparr>pc := AtSelect, pmp := reconcile (disp s) (pmp s)\<rparr>)"
| pump_request:
    "pc s = AtSelect \<Longrightarrow> requestChannel (disp s) = Some ch \<Longrightarrow> chan_recv ch = Some (x, ch') \<Longrightarrow>
     client_step s (s\<lparr>pc := PausedCheck, disp := (disp s)\<lparr>requestChannel := Some ch'\<rparr>\<rparr>)"
| pump_closed:
    "pc s = AtSelect \<Longrightarrow> requestChannel (disp s) = Some ch \<Longrightarrow> chan_recv ch = None \<Longrightarrow> chan_closed ch \<Longrightarrow>
     client_step s (s\<lparr>pc := DrainQueue\<rparr>)"
| pump_timer: "pc s = AtSelect \<Longrightarrow> client_step s (s\<lparr>pc := TimerHasPending\<rparr>)"
| pump_ready:
    "pc s = AtSelect \<Longrightarrow> chan_recv (readyForDispatch (disp s)) = Some (x, ch) \<Longrightarrow>
     client_step s (s\<lparr>pc := PausedCheck, pmp := (pmp s)\<lparr>rdy := x\<rparr>,
       disp := (disp s)\<lparr>readyForDispatch := ch\<rparr>\<rparr>)"
| pump_context:
    "pc s = AtSelect \<Longrightarrow> pump_pending (pmp s) = Some tok \<Longrightarrow> pp_id tok \<noteq> [] \<Longrightarrow>
     pp_ctx tok = Cancelable n \<Longrightarrow> client_step s (s\<lparr>pc := ContextGet e\<rparr>)"
| timer_none:
    "pc s = TimerHasPending \<Longrightarrow> \<not> ClientState_HasPendingRequest (pendingState (disp s)) \<Longrightarrow>
     client_step s (s\<lparr>pc := PausedCheck, pmp := (pmp s)\<lparr>pump_pending := None\<rparr>\<rparr>)"
| timer_some:
    "pc s = TimerHasPending \<Longrightarrow> ClientState_HasPendingRequest (pendingState (disp s)) \<Longrightarrow>
     client_step s (s\<lparr>pc := TimerPeek\<rparr>)"
| timer_peek:
    "pc s = TimerPeek \<Longrightarrow> well_formed (FIFO_Peek (requestQueue (disp s))) = Some (b, c) \<Longrightarrow>
     client_step s (s\<lparr>pc := Completing FromTimer (Call_UniqueId c) (Call_Payload c)
       (newRequestTimeoutError (Call_UniqueId c)) AtPop\<rparr>)"
| timer_peek_none:
    "pc s = TimerPeek \<Longrightarrow> well_formed (FIFO_Peek (requestQueue (disp s))) = None \<Longrightarrow>
     client_step s (s\<lparr>pc := PausedCheck, pmp := (pmp s)\<lparr>pump_pending := None\<rparr>\<rparr>)"
| context_get:
    "pc s = ContextGet e \<Longrightarrow> pump_pending (pmp s) = Some tok \<Longrightarrow>
     snd (ClientState_GetPendingRequest (pp_id tok) (pendingState (disp s))) \<Longrightarrow>
     client_step s (s\<lparr>pc := Completing FromContext (pp_id tok) (pp_payload tok)
       (newRequestCanceledError (pp_id tok) (Some e)) AtPop\<rparr>)"
| context_gone:
    "pc s = ContextGet e \<Longrightarrow> pump_pending (pmp s) = Some tok \<Longrightarrow>
     \<not> snd (ClientState_GetPendingRequest (pp_id tok) (pendingState (disp s))) \<Longrightarrow>
     client_step s (s\<lparr>pc := PausedCheck, pmp := (pmp s)\<lparr>pump_pending := None\<rparr>\<rparr>)"
  \<comment> \<open>the pump inside \<open>CompleteRequest\<close>, then \<open>fireRequestCancel\<close>\<close>
| pump_wins:
    "pc s = Completing k i r e AtPop \<Longrightarrow> complete_pop i (disp s) = (True, d) \<Longrightarrow>
     client_step s (s\<lparr>pc := Completing k i r e AtDelete, disp := d\<rparr>)"
| pump_loses:
    "pc s = Completing k i r e AtPop \<Longrightarrow> complete_pop i (disp s) = (False, d) \<Longrightarrow>
     client_step s (leave_completing k (s\<lparr>disp := d\<rparr>))"
| pump_delete:
    "pc s = Completing k i r e AtDelete \<Longrightarrow>
     client_step s (s\<lparr>pc := Completing k i r e AtSignal, disp := complete_delete i (disp s)\<rparr>)"
| pump_signal:
    "pc s = Completing k i r e AtSignal \<Longrightarrow>
     client_step s (s\<lparr>pc := Completing k i r e AtHandOver, disp := signal_ready (disp s)\<rparr>)"
| pump_fires:
    "pc s = Completing k i r e AtHandOver \<Longrightarrow>
     client_step s (leave_completing k (s\<lparr>disp := fireRequestCancel i r e (disp s)\<rparr>))"
  \<comment> \<open>the pump after the \<open>select\<close>: the guards and \<open>dispatchNextRequest\<close>\<close>
| pump_paused: "pc s = PausedCheck \<Longrightarrow> paused (disp s) \<Longrightarrow> client_step s (s\<lparr>pc := LoopTop\<rparr>)"
| pump_not_paused: "pc s = PausedCheck \<Longrightarrow> \<not> paused (disp s) \<Longrightarrow> client_step s (s\<lparr>pc := QueueCheck\<rparr>)"
| pump_nothing:
    "pc s = QueueCheck \<Longrightarrow> \<not> rdy (pmp s) \<or> FIFO_IsEmpty (requestQueue (disp s)) \<Longrightarrow>
     client_step s (s\<lparr>pc := LoopTop\<rparr>)"
| pump_something:
    "pc s = QueueCheck \<Longrightarrow> rdy (pmp s) \<Longrightarrow> \<not> FIFO_IsEmpty (requestQueue (disp s)) \<Longrightarrow>
     client_step s (s\<lparr>pc := PendingCheck\<rparr>)"
| pump_busy:
    "pc s = PendingCheck \<Longrightarrow> ClientState_HasPendingRequest (pendingState (disp s)) \<Longrightarrow>
     client_step s (s\<lparr>pc := LoopTop\<rparr>)"
| pump_free:
    "pc s = PendingCheck \<Longrightarrow> \<not> ClientState_HasPendingRequest (pendingState (disp s)) \<Longrightarrow>
     client_step s (s\<lparr>pc := Peeking\<rparr>)"
| pump_peek:
    "pc s = Peeking \<Longrightarrow> well_formed (FIFO_Peek (requestQueue (disp s))) = Some (b, c) \<Longrightarrow>
     bundle_Data b = Some msg \<Longrightarrow> client_step s (s\<lparr>pc := ContextCheck b c msg\<rparr>)"
| pump_peek_malformed:
    "pc s = Peeking \<Longrightarrow>
     (case well_formed (FIFO_Peek (requestQueue (disp s))) of Some (b, c) \<Rightarrow> bundle_Data b = None | None \<Rightarrow> True) \<Longrightarrow>
     client_step s (s\<lparr>pc := LoopTop\<rparr>)"
| pump_expired:
    "pc s = ContextCheck b c msg \<Longrightarrow> bundleCtx b = Cancelable n \<Longrightarrow>
     client_step s (s\<lparr>pc := Completing FromDrop (Call_UniqueId c) (Call_Payload c)
       (newRequestCanceledError (Call_UniqueId c) (Some e)) AtPop\<rparr>)"
| pump_live: "pc s = ContextCheck b c msg \<Longrightarrow> client_step s (s\<lparr>pc := Adding b c msg\<rparr>)"
| pump_add:
    "pc s = Adding b c msg \<Longrightarrow>
     client_step s (s\<lparr>pc := Writing b c msg, dispatched := dispatched s @ [Call_UniqueId c],
       disp := (disp s)\<lparr>pendingState :=
         ClientState_AddPendingRequest (Call_UniqueId c) (Call_Payload c) (pendingState (disp s))\<rparr>\<rparr>)"
| pump_written:
    "pc s = Writing b c msg \<Longrightarrow>
     client_step s (s\<lparr>pc := LoopTop, disp := (disp s)\<lparr>events := events (disp s) @ [Wrote msg]\<rparr>,
       pmp := \<lparr>rdy = False, pump_pending = Some \<lparr>pp_id = Call_UniqueId c, pp_action = Call_Action c,
         pp_ctx = bundleCtx b, pp_payload = Call_Payload c\<rparr>\<rparr>\<rparr>)"
| pump_write_failed:
    "pc s = Writing b c msg \<Longrightarrow>
     client_step s (s\<lparr>pc := Completing FromWrite (Call_UniqueId c) (Call_Payload c)
       (NewLocalTransportError InternalError (error_text err) (Call_UniqueId c)) AtPop\<rparr>)"
  \<comment> \<open>the pump after the channel was closed\<close>
| drain_queue:
    "pc s = DrainQueue \<Longrightarrow> FIFO_DrainAll (requestQueue (disp s)) = (els, q) \<Longrightarrow>
     client_step s (s\<lparr>pc := DrainClear els, disp := (disp s)\<lparr>requestQueue := q\<rparr>\<rparr>)"
| drain_clear:
    "pc s = DrainClear els \<Longrightarrow>
     client_step s (s\<lparr>pc := DrainFire els, disp := (disp s)\<lparr>pendingState :=
       ClientState_ClearPendingRequests (pendingState (disp s))\<rparr>\<rparr>)"
| drain_fire:
    "pc s = DrainFire (el # els) \<Longrightarrow>
     client_step s (s\<lparr>pc := DrainFire els, disp := cancel_outstanding [el] (disp s)\<rparr>)"
| drain_fired: "pc s = DrainFire [] \<Longrightarrow> client_step s (s\<lparr>pc := DrainInit\<rparr>)"
| drain_init:
    "pc s = DrainInit \<Longrightarrow>
     client_step s (s\<lparr>pc := DrainNil, discarded := discarded s @ bundle_ids (elements (requestQueue (disp s))),
       disp := (disp s)\<lparr>requestQueue := FIFO_Init (requestQueue (disp s))\<rparr>\<rparr>)"
| drain_nil:
    "pc s = DrainNil \<Longrightarrow> client_step s (s\<lparr>pc := Stopped, disp := (disp s)\<lparr>requestChannel := None\<rparr>\<rparr>)"

text \<open>
  A run begins when \<open>Start\<close> launches the pump of a configured dispatcher whose queue is empty.
\<close>

definition started :: "ClientDispatcher \<Rightarrow> csys" where
  "started d = \<lparr>disp = CD_Start d, pc = LoopTop, pmp = pump_start, senders = {#}, completers = {#},
     resumers = {#}, accepted = [], confirmed = [], dispatched = [], delivered = [], discarded = []\<rparr>"

definition client_start :: "csys \<Rightarrow> bool" where
  "client_start s \<longleftrightarrow> (\<exists>d. s = started d \<and> elements (requestQueue d) = [] \<and> slot (pendingState d) = None \<and>
     chan_cap (readyForDispatch d) = 1 \<and> chan_buf (readyForDispatch d) = [] \<and> network d \<and> onRequestCancel d \<and> events d = [])"

section \<open>Reading a state\<close>

abbreviation qids :: "csys \<Rightarrow> string list" where
  "qids s \<equiv> bundle_ids (elements (requestQueue (disp s)))"

definition pid :: "clientState \<Rightarrow> string option" where
  "pid ps = map_option fst (slot ps)"

abbreviation pending_id :: "csys \<Rightarrow> string option" where
  "pending_id s \<equiv> pid (pendingState (disp s))"

fun canceled_in :: "boundary_event list \<Rightarrow> string list" where
  "canceled_in [] = []"
| "canceled_in (CancelCallback i r e # es) = i # canceled_in es"
| "canceled_in (Wrote m # es) = canceled_in es"

definition canceled :: "csys \<Rightarrow> string list" where
  "canceled s = canceled_in (events (disp s))"

text \<open>Requests that left the queue and whose outcome the pump still has to report.\<close>

fun held :: "pump_pc \<Rightarrow> string list" where
  "held (Completing k i r e st) = (if st = AtPop then [] else [i])"
| "held (DrainClear els) = bundle_ids els"
| "held (DrainFire els) = bundle_ids els"
| "held _ = []"

definition winners :: "(string \<times> stage) multiset \<Rightarrow> string multiset" where
  "winners cs = image_mset fst (filter_mset (\<lambda>(i, st). st \<noteq> AtPop) cs)"

fun draining :: "pump_pc \<Rightarrow> bool" where
  "draining DrainQueue = True"
| "draining (DrainClear els) = True"
| "draining (DrainFire els) = True"
| "draining DrainInit = True"
| "draining DrainNil = True"
| "draining Stopped = True"
| "draining _ = False"

definition good :: "element iface \<Rightarrow> bool" where
  "good el \<longleftrightarrow> (\<exists>b c. el = Some (Bundle b) \<and> bundle_Call b = Some c \<and> bundle_Data b \<noteq> None \<and> Call_UniqueId c \<noteq> [])"

section \<open>Effects of the shared accesses\<close>

lemma bundle_ids_append [simp]: "bundle_ids (xs @ ys) = bundle_ids xs @ bundle_ids ys"
  by (induction xs) (auto split: option.splits)

lemma canceled_in_append [simp]: "canceled_in (xs @ ys) = canceled_in xs @ canceled_in ys"
  by (induction xs rule: canceled_in.induct) auto

lemma complete_pop_True:
  "complete_pop i d = (True, d') \<longleftrightarrow> (\<exists>el els. elements (requestQueue d) = el # els \<and> has_id i el \<and>
     d' = d\<lparr>requestQueue := (requestQueue d)\<lparr>elements := els\<rparr>\<rparr>)"
  by (auto simp: complete_pop_cases split: list.splits if_splits)

lemma complete_pop_False:
  "complete_pop i d = (False, d') \<longleftrightarrow> d' = d \<and> (\<forall>el els. elements (requestQueue d) = el # els \<longrightarrow> \<not> has_id i el)"
  by (auto simp: complete_pop_cases split: list.splits if_splits)

lemma has_id_front: "has_id i el \<Longrightarrow> bundle_ids (el # els) = i # bundle_ids els"
  by (auto simp: has_id_def split: option.splits)

lemma popped:
  assumes "complete_pop i d = (True, d')"
  shows "bundle_ids (elements (requestQueue d)) = i # bundle_ids (elements (requestQueue d'))"
    and "d' = d\<lparr>requestQueue := requestQueue d'\<rparr>"
  using assms by (auto simp: complete_pop_True has_id_front simp del: bundle_ids.simps)

lemma FIFO_Push_Inr: "FIFO_Push x q = Inr q' \<Longrightarrow> q' = q\<lparr>elements := elements q @ [x]\<rparr>"
  by (auto simp: FIFO_Push_def split: if_splits)

lemma signal_ready_frame [simp]:
  "requestQueue (signal_ready d) = requestQueue d" "pendingState (signal_ready d) = pendingState d"
  "events (signal_ready d) = events d" "requestChannel (signal_ready d) = requestChannel d"
  "running (signal_ready d) = running d" "paused (signal_ready d) = paused d"
  "onRequestCancel (signal_ready d) = onRequestCancel d"
  by (simp_all add: signal_ready_def)

lemma complete_delete_frame [simp]:
  "requestQueue (complete_delete i d) = requestQueue d" "readyForDispatch (complete_delete i d) = readyForDispatch d"
  "events (complete_delete i d) = events d" "requestChannel (complete_delete i d) = requestChannel d"
  "running (complete_delete i d) = running d" "paused (complete_delete i d) = paused d"
  "onRequestCancel (complete_delete i d) = onRequestCancel d"
  by (simp_all add: complete_delete_def)

lemma CD_Stop_frame [simp]:
  "requestQueue (CD_Stop d) = requestQueue d" "pendingState (CD_Stop d) = pendingState d"
  "events (CD_Stop d) = events d" "readyForDispatch (CD_Stop d) = readyForDispatch d"
  "paused (CD_Stop d) = paused d" "onRequestCancel (CD_Stop d) = onRequestCancel d" "\<not> running (CD_Stop d)"
  by (simp_all add: CD_Stop_def)

lemma leave_completing_frame [simp]:
  "disp (leave_completing k s) = disp s" "senders (leave_completing k s) = senders s"
  "completers (leave_completing k s) = completers s" "resumers (leave_completing k s) = resumers s"
  "accepted (leave_completing k s) = accepted s" "confirmed (leave_completing k s) = confirmed s"
  "dispatched (leave_completing k s) = dispatched s" "delivered (leave_completing k s) = delivered s"
  "discarded (leave_completing k s) = discarded s"
  by (simp_all add: leave_completing_def)

lemma leave_completing_pc:
  "pc (leave_completing k s) = (if k = FromTimer \<or> k = FromContext then PausedCheck else LoopTop)"
  by (cases k) (simp_all add: leave_completing_def)

lemma fireRequestCancel_events:
  "onRequestCancel d \<Longrightarrow> canceled_in (events (fireRequestCancel i r e d)) = canceled_in (events d) @ [i]"
  by (simp add: fireRequestCancel_def)

lemma pid_delete [simp]:
  "pid (ClientState_DeletePendingRequest i ps) = (if pid ps = Some i then None else pid ps)"
  by (auto simp: pid_def cs.pending_del)

lemma pid_complete_delete [simp]:
  "pid (pendingState (complete_delete i d)) = (if pid (pendingState d) = Some i then None else pid (pendingState d))"
  by (simp add: complete_delete_def)

lemma pid_add: "i \<noteq> [] \<Longrightarrow> pid ps = None \<Longrightarrow> pid (ClientState_AddPendingRequest i r ps) = Some i"
  by (simp add: pid_def cs.pending_add)

lemma pid_clear [simp]: "pid (ClientState_ClearPendingRequests ps) = None"
  by (simp add: pid_def cs.pending_clear)

lemma pid_has: "ClientState_HasPendingRequest ps \<longleftrightarrow> pid ps \<noteq> None"
  by (simp add: pid_def cs.has_pending)

lemma pid_get: "i \<noteq> [] \<Longrightarrow> snd (ClientState_GetPendingRequest i ps) \<longleftrightarrow> pid ps = Some i"
  by (auto simp: pid_def cs.get_won_iff)

lemma winners_simps [simp]:
  "winners {#} = {#}" "winners (add_mset (i, st) cs) = (if st = AtPop then winners cs else add_mset i (winners cs))"
  by (simp_all add: winners_def)

end
