(* ===== verification/Client_Safety.thy ===== *)
theory Client_Safety
  imports Client_Protocol
begin

text \<open>
  Safety of the interleaved client dispatcher: every accepted request is accounted for exactly once
  (conservation), at most one request is in flight and requests go out in the order of their pushes,
  a stop never loses a request whose caller was told that it was accepted. Each part is an invariant
  with its preservation lemma; theory \<open>Client_Wakeup\<close> collects them.
\<close>

section \<open>Conservation\<close>

definition conserved :: "csys \<Rightarrow> bool" where
  "conserved s \<longleftrightarrow> onRequestCancel (disp s) \<and> distinct (accepted s) \<and> 
     mset (accepted s) = mset (qids s) + mset (held (pc s)) + winners (completers s) +
       mset (delivered s) + mset (canceled s) + mset (discarded s)"

lemma conserved_step: "client_step s t \<Longrightarrow> conserved s \<Longrightarrow> conserved t"
proof (induction rule: client_step.induct)
  case (completer_wins i s d)
  then show ?case using multi_member_split [OF completer_wins(1)] 
    by (auto simp: conserved_def canceled_def complete_pop_True has_id_front simp del: bundle_ids.simps)
next
  case (completer_delete i s)
  then show ?case using multi_member_split [OF completer_delete(1)] by (auto simp: conserved_def canceled_def)
next
  case (completer_signal i s)
  then show ?case using multi_member_split [OF completer_signal(1)] by (auto simp: conserved_def canceled_def)
next
  case (completer_loses i s)
  then show ?case using multi_member_split [OF completer_loses(1)] by (auto simp: conserved_def canceled_def complete_pop_False)
next
  case (completer_delivers i s)
  then show ?case using multi_member_split [OF completer_delivers(1)] by (auto simp: conserved_def canceled_def)
next
  case (send_push s b c q)
  then show ?case by (auto simp: conserved_def canceled_def dest!: FIFO_Push_Inr)
next
  case (pump_wins s k i r e d)
  then show ?case by (auto simp: conserved_def canceled_def complete_pop_True has_id_front simp del: bundle_ids.simps)
next
  case (pump_loses s k i r e d)
  then show ?case by (auto simp: conserved_def canceled_def complete_pop_False leave_completing_pc)
next
  case (pump_fires s k i r e)
  then show ?case by (auto simp: conserved_def canceled_def fireRequestCancel_events leave_completing_pc)
next
  case (drain_fire s el els)
  then show ?case
    by (cases "well_formed el") (auto simp: conserved_def canceled_def fireRequestCancel_events)
qed (auto simp: conserved_def canceled_def FIFO_DrainAll_def FIFO_Init_def)

section \<open>One request at a time, in order\<close>

text \<open>The queue is what is left of the accepted requests after some of the oldest were removed.\<close>

definition in_order :: "csys \<Rightarrow> bool" where
  "in_order s \<longleftrightarrow> (\<exists>old. accepted s = old @ qids s)"

lemma in_order_step: "client_step s t \<Longrightarrow> in_order s \<Longrightarrow> in_order t"
proof (induction rule: client_step.induct)
  case (completer_wins i s d)
  then show ?case by (auto simp: in_order_def complete_pop_True has_id_front simp del: bundle_ids.simps)
next
  case (pump_wins s k i r e d)
  then show ?case by (auto simp: in_order_def complete_pop_True has_id_front simp del: bundle_ids.simps)
next
  case (drain_fire s el els)
  then show ?case by (cases "well_formed el") (auto simp: in_order_def)
qed (auto simp: in_order_def complete_pop_False FIFO_DrainAll_def FIFO_Init_def dest!: FIFO_Push_Inr)

text \<open>
  Where the pump relies on nothing being pending, with the front of the queue it has seen.
\<close>

fun expects_front :: "pump_pc \<Rightarrow> string option" where
  "expects_front (ContextCheck b c m) = Some (Call_UniqueId c)"
| "expects_front (Adding b c m) = Some (Call_UniqueId c)"
| "expects_front (Completing k i r e st) = (if k = FromDrop \<and> st = AtPop then Some i else None)"
| "expects_front _ = None"

definition single_flight :: "csys \<Rightarrow> bool" where
  "single_flight s \<longleftrightarrow>
     (\<forall>i. pending_id s = Some i \<longrightarrow> i \<in> set (dispatched s)) \<and>
     (\<forall>x \<in># completers s. fst x \<in> set (dispatched s)) \<and>
     set (dispatched s) \<subseteq> set (accepted s) \<and>
     set (delivered s) \<subseteq> set (dispatched s) \<and>
     (\<forall>b c m. pc s = Writing b c m \<longrightarrow> pending_id s = None \<or> pending_id s = Some (Call_UniqueId c)) \<and>
     (\<forall>i \<in> set (tl (qids s)). i \<notin> set (dispatched s)) \<and>
     (qids s = [] \<or> hd (qids s) \<notin> set (dispatched s) \<or> draining (pc s) \<or> pending_id s = Some (hd (qids s))) \<and>
     (pc s = Peeking \<longrightarrow> pending_id s = None) \<and>
     (\<forall>i. expects_front (pc s) = Some i \<longrightarrow> pending_id s = None \<and> (\<exists>is. qids s = i # is))"


definition good_queue :: "csys \<Rightarrow> bool" where
  "good_queue s \<longleftrightarrow> (\<forall>el \<in> set (elements (requestQueue (disp s))). good el)"

lemma good_queue_step: "client_step s t \<Longrightarrow> good_queue s \<Longrightarrow> good_queue t"
proof (induction rule: client_step.induct)
  case (drain_fire s el els)
  then show ?case by (cases "well_formed el") (auto simp: good_queue_def)
qed (auto simp: good_queue_def good_def complete_pop_True complete_pop_False FIFO_DrainAll_def FIFO_Init_def
    dest!: FIFO_Push_Inr)

lemma good_ids: "good_queue s \<Longrightarrow> i \<in> set (qids s) \<Longrightarrow> i \<noteq> []"
proof -
  have "\<forall>el \<in> set els. good el \<Longrightarrow> i \<in> set (bundle_ids els) \<Longrightarrow> i \<noteq> []" for els
    by (induction els) (auto simp: good_def)
  then show "good_queue s \<Longrightarrow> i \<in> set (qids s) \<Longrightarrow> i \<noteq> []" by (simp add: good_queue_def)
qed

lemma conserved_count:
  "conserved s \<Longrightarrow> count (mset (qids s)) i + count (mset (held (pc s))) i + count (winners (completers s)) i +
     count (mset (delivered s)) i + count (mset (canceled s)) i + count (mset (discarded s)) i =
     (if i \<in> set (accepted s) then 1 else 0)"
  unfolding conserved_def distinct_count_atmost_1 by (metis count_union)

lemma conserved_taken:
  assumes "conserved s" and "i \<in># winners (completers s) \<or> i \<in> set (held (pc s))"
  shows "i \<notin> set (qids s)"
proof
  assume "i \<in> set (qids s)"
  then have "count (mset (qids s)) i > 0" by simp
  moreover have "count (winners (completers s)) i + count (mset (held (pc s))) i > 0"
    using assms(2) by auto
  moreover have "count (mset (qids s)) i + count (mset (held (pc s))) i + count (winners (completers s)) i \<le> 1"
    using conserved_count [OF assms(1), of i] by (simp only: split: if_splits)
  ultimately show False by linarith
qed

lemma conserved_distinct_queue: "conserved s \<Longrightarrow> in_order s \<Longrightarrow> distinct (qids s)"
  by (auto simp: conserved_def in_order_def)

lemma winner_in: "(i, st) \<in># cs \<Longrightarrow> st \<noteq> AtPop \<Longrightarrow> i \<in># winners cs"
  by (auto simp: winners_def image_iff intro!: bexI [of _ "(i, st)"])

lemma peek_front:
  "well_formed (FIFO_Peek q) = Some (b, c) \<Longrightarrow> \<exists>is. bundle_ids (elements q) = Call_UniqueId c # is"
  by (auto simp: FIFO_Peek_def split: list.splits)

lemma in_set_tlD: "x \<in> set (tl xs) \<Longrightarrow> x \<in> set xs"
  by (cases xs) auto

lemma draining_expects [simp]: "draining p \<Longrightarrow> expects_front p = None"
  by (cases p) auto

lemma single_flight_step:
  assumes "client_step s t" and "single_flight s" and "conserved s" and "in_order s" and "good_queue s"
  shows "single_flight t"
  using assms
proof (induction rule: client_step.induct)
  case (completer_wins i s d)
  have "pendingState d = pendingState (disp s)" by (subst popped(2) [OF completer_wins(2)]) simp
  with completer_wins popped(1) [OF completer_wins(2)] multi_member_split [OF completer_wins(1)] show ?case
    by (cases "bundle_ids (elements (requestQueue d))") (auto simp: single_flight_def)
next
  case (completer_delete i s)
  then have "i \<notin> set (qids s)" using conserved_taken [of s i] winner_in [OF completer_delete(1)] by simp
  with completer_delete show ?case using multi_member_split [OF completer_delete(1)]
    by (cases "qids s") (auto simp: single_flight_def)
next
  case (completer_signal i s)
  then show ?case using multi_member_split [OF completer_signal(1)] by (auto simp: single_flight_def)
next
  case (completer_loses i s)
  then show ?case using multi_member_split [OF completer_loses(1)] by (auto simp: single_flight_def complete_pop_False)
next
  case (completer_delivers i s)
  then show ?case using multi_member_split [OF completer_delivers(1)] by (auto simp: single_flight_def)
next
  case (send_push s b c q)
  then show ?case 
    by (cases "qids s") (auto simp: single_flight_def dest!: FIFO_Push_Inr)
next
  case (pump_wins s k i r e d)
  have "pendingState d = pendingState (disp s)" by (subst popped(2) [OF pump_wins(2)]) simp
  with pump_wins popped(1) [OF pump_wins(2)] show ?case
    by (cases "bundle_ids (elements (requestQueue d))") (auto simp: single_flight_def)
next
  case (pump_delete s k i r e)
  then have "i \<notin> set (qids s)" using conserved_taken [of s i] by simp
  with pump_delete show ?case
    by (cases "qids s") (simp_all add: single_flight_def, auto)
next
  case (pump_add s b c msg)
  then obtain "is" where q: "qids s = Call_UniqueId c # is" "pending_id s = None"
    by (auto simp: single_flight_def)
  then have "Call_UniqueId c \<noteq> []" using good_ids pump_add by auto
  then show ?case using pump_add conserved_distinct_queue [of s] q
    by (auto simp: single_flight_def pid_add in_order_def)
next
  case (drain_fire s el els)
  then show ?case by (cases "well_formed el") (auto simp: single_flight_def)
qed (auto simp: single_flight_def complete_pop_False leave_completing_pc pid_has pid_get FIFO_DrainAll_def FIFO_Init_def dest!: peek_front)


text \<open>No request is handed to the network twice, and requests go out in the order of their pushes.\<close>

definition ordered_dispatch :: "csys \<Rightarrow> bool" where
  "ordered_dispatch s \<longleftrightarrow> distinct (dispatched s) \<and> subseq (dispatched s) (accepted s)"

lemma subseq_prefix_only:
  assumes "subseq xs (ys @ zs)" and "set xs \<inter> set zs = {}"
  shows "subseq xs ys"
proof -
  obtain as bs where "xs = as @ bs" "subseq as ys" "subseq bs zs"
    using assms(1) by (auto simp: subseq_append_iff)
  moreover have "bs = []"
    using assms(2) calculation list_emb_set [of "(=)" bs zs] by (cases bs) auto
  ultimately show ?thesis by simp
qed

lemma ordered_dispatch_step:
  assumes "client_step s t" and "ordered_dispatch s" and "single_flight s" and "in_order s" and "conserved s"
  shows "ordered_dispatch t"
  using assms
proof (induction rule: client_step.induct)
  case (send_push s b c q)
  then show ?case by (auto simp: ordered_dispatch_def)
next
  case (pump_add s b c msg)
  then obtain old "is" where q: "qids s = Call_UniqueId c # is" "accepted s = old @ qids s"
    by (auto simp: single_flight_def in_order_def)
  with pump_add have "set (dispatched s) \<inter> set (qids s) = {}"
    by (auto simp: single_flight_def)
  with q pump_add have "subseq (dispatched s) old" using subseq_prefix_only [of "dispatched s" old "qids s"]
    by (simp add: ordered_dispatch_def)
  with q \<open>set (dispatched s) \<inter> set (qids s) = {}\<close> pump_add show ?case
    by (auto simp: ordered_dispatch_def subseq_singleton_left intro: list_emb_append_mono)
qed (simp_all add: ordered_dispatch_def)

section \<open>Stopping\<close>

text \<open>
  A request whose caller was told that it was accepted is not among those that the final \<open>Init\<close> throws
  away, nor left in the queue of a stopped dispatcher.
\<close>

fun drained :: "pump_pc \<Rightarrow> bool" where
  "drained (DrainClear els) = True"
| "drained (DrainFire els) = True"
| "drained DrainInit = True"
| "drained DrainNil = True"
| "drained Stopped = True"
| "drained _ = False"

definition orderly_stop :: "csys \<Rightarrow> bool" where
  "orderly_stop s \<longleftrightarrow>
     (draining (pc s) \<longrightarrow> \<not> running (disp s)) \<and>
     (\<forall>ch. requestChannel (disp s) = Some ch \<longrightarrow> chan_closed ch = (\<not> running (disp s))) \<and>
     (requestChannel (disp s) = None \<longrightarrow> pc s = Stopped) \<and>
     (\<not> draining (pc s) \<longrightarrow> discarded s = []) \<and>
     set (confirmed s) \<subseteq> set (accepted s) \<and>
     set_mset (senders s) \<subseteq> set (accepted s) \<and>
     (\<forall>i \<in> set (discarded s). i \<notin> set (confirmed s)) \<and>
     (drained (pc s) \<longrightarrow> (\<forall>i \<in> set (qids s). i \<notin> set (confirmed s)))"

lemma drained_draining: "drained p \<Longrightarrow> draining p"
  by (cases p) auto

lemma orderly_stop_step: "client_step s t \<Longrightarrow> orderly_stop s \<Longrightarrow> orderly_stop t"
proof (induction rule: client_step.induct)
  case (drain_fire s el els)
  then show ?case by (cases "well_formed el") (auto simp: orderly_stop_def)
next
  case (pump_wins s k i r e d)
  then show ?case by (auto simp: orderly_stop_def complete_pop_True)
next
  case (completer_wins i s d)
  then show ?case by (auto simp: orderly_stop_def complete_pop_True has_id_front simp del: bundle_ids.simps)
qed (auto simp: orderly_stop_def complete_pop_False leave_completing_pc FIFO_DrainAll_def FIFO_Init_def CD_Stop_def
    chan_send_def chan_recv_def dest!: FIFO_Push_Inr in_diffD drained_draining split: list.splits)


text \<open>A pending entry belongs to a queued request, or its request was just popped and the entry is about to go.\<close>

definition slot_live :: "csys \<Rightarrow> bool" where
  "slot_live s \<longleftrightarrow> (\<forall>i. pending_id s = Some i \<longrightarrow> i \<in> set (qids s) \<or> draining (pc s) \<or>
     (i, AtDelete) \<in># completers s \<or> (\<exists>k r e. pc s = Completing k i r e AtDelete))"

lemma slot_live_step:
  assumes "client_step s t" and "slot_live s" and "single_flight s" and "good_queue s"
  shows "slot_live t"
  using assms
proof (induction rule: client_step.induct)
  case (completer_wins i s d)
  have "pendingState d = pendingState (disp s)" by (subst popped(2) [OF completer_wins(2)]) simp
  with completer_wins popped(1) [OF completer_wins(2)] multi_member_split [OF completer_wins(1)] show ?case
    by (auto simp: slot_live_def)
next
  case (pump_wins s k i r e d)
  have "pendingState d = pendingState (disp s)" by (subst popped(2) [OF pump_wins(2)]) simp
  with pump_wins popped(1) [OF pump_wins(2)] show ?case by (auto simp: slot_live_def)
next
  case (completer_loses i s d)
  then show ?case using multi_member_split [OF completer_loses(1)] by (auto simp: slot_live_def complete_pop_False)
next
  case (completer_delete i s)
  then show ?case using multi_member_split [OF completer_delete(1)] by (auto simp: slot_live_def)
next
  case (completer_signal i s)
  then show ?case using multi_member_split [OF completer_signal(1)] by (auto simp: slot_live_def)
next
  case (completer_delivers i s)
  then show ?case using multi_member_split [OF completer_delivers(1)] by (auto simp: slot_live_def)
next
  case (pump_add s b c msg)
  then show ?case by (auto simp: slot_live_def single_flight_def pid_def cs.pending_add)
qed (auto simp: slot_live_def complete_pop_False leave_completing_pc simp del: cancel_outstanding.simps dest!: FIFO_Push_Inr)

end
