(* ===== verification/Client_Wakeup.thy ===== *)
theory Client_Wakeup
  imports Client_Safety
begin

text \<open>
  Liveness of the interleaved client dispatcher, as the absence of lost wake-ups: whenever the pump
  waits while a request could be sent, something is bound to wake it. With the invariants of theory
  \<open>Client_Safety\<close> this gives the properties of every run of the dispatcher, and two sample runs
  show the properties at work (and a race between a response and the timer).
\<close>

section \<open>No lost wake-up\<close>

fun unsignaled :: "pump_pc \<Rightarrow> bool" where
  "unsignaled (Completing k i r e st) \<longleftrightarrow> st = AtDelete \<or> st = AtSignal"
| "unsignaled _ \<longleftrightarrow> False"

text \<open>A readiness signal is there, or somebody is bound to send one.\<close>

definition signal_due :: "csys \<Rightarrow> bool" where
  "signal_due s \<longleftrightarrow> chan_buf (readyForDispatch (disp s)) \<noteq> [] \<or> unsignaled (pc s) \<or>
     (\<exists>x \<in># completers s. snd x = AtDelete \<or> snd x = AtSignal)"

text \<open>Something will make the waiting pump run an iteration.\<close>

definition wake_due :: "csys \<Rightarrow> bool" where
  "wake_due s \<longleftrightarrow> signal_due s \<or> senders s \<noteq> {#} \<or>
     (\<exists>ch. requestChannel (disp s) = Some ch \<and> (chan_buf ch \<noteq> [] \<or> chan_closed ch)) \<or>
     ResumeCheck \<in># resumers s \<or> ResumeSignal \<in># resumers s"

fun not_ready_after :: "pump_pc \<Rightarrow> bool" where
  "not_ready_after (Writing b c m) = True"
| "not_ready_after (Completing k i r e st) = (k = FromWrite)"
| "not_ready_after _ = False"

definition ready_channel :: "csys \<Rightarrow> bool" where
  "ready_channel s \<longleftrightarrow> chan_cap (readyForDispatch (disp s)) = 1 \<and>
     set (chan_buf (readyForDispatch (disp s))) \<subseteq> {True}"

definition readiness_owed :: "csys \<Rightarrow> bool" where
  "readiness_owed s \<longleftrightarrow> draining (pc s) \<or> (rdy (pmp s) \<and> \<not> not_ready_after (pc s)) \<or> signal_due s \<or> pending_id s \<noteq> None"

definition handover_signaled :: "csys \<Rightarrow> bool" where
  "handover_signaled s \<longleftrightarrow> (\<forall>k i r e. pc s = Completing k i r e AtHandOver \<longrightarrow> signal_due s)"

definition wakeup_owed :: "csys \<Rightarrow> bool" where
  "wakeup_owed s \<longleftrightarrow> (pc s = LoopTop \<or> pc s = AtSelect \<longrightarrow>
       elements (requestQueue (disp s)) = [] \<or> paused (disp s) \<or> pending_id s \<noteq> None \<or> wake_due s)"

lemma signal_ready_buf:
  "chan_cap (readyForDispatch d) = 1 \<Longrightarrow> chan_buf (readyForDispatch (signal_ready d)) \<noteq> []"
  by (simp add: signal_ready_def chan_put_nonempty)

lemma signal_ready_cap [simp]: "chan_cap (readyForDispatch (signal_ready d)) = chan_cap (readyForDispatch d)"
  by (simp add: signal_ready_def chan_put_def chan_send_def)

lemma signal_ready_True:
  "set (chan_buf (readyForDispatch d)) \<subseteq> {True} \<Longrightarrow> set (chan_buf (readyForDispatch (signal_ready d))) \<subseteq> {True}"
  by (auto simp: signal_ready_def chan_put_def chan_send_def)

lemma cancel_outstanding_ready [simp]:
  "readyForDispatch (cancel_outstanding els d) = readyForDispatch d" "paused (cancel_outstanding els d) = paused d"
  by (induction els arbitrary: d) (auto split: option.splits prod.splits)

lemma complete_pop_ready [simp]: "complete_pop i d = (w, d') \<Longrightarrow> readyForDispatch d' = readyForDispatch d"
  by (cases w) (auto simp: complete_pop_True complete_pop_False)

lemma ready_channel_step: "client_step s t \<Longrightarrow> ready_channel s \<Longrightarrow> ready_channel t"
  by (induction rule: client_step.induct)
    (auto simp: ready_channel_def chan_recv_def signal_ready_def chan_put_def chan_send_def 
      simp del: cancel_outstanding.simps split: list.splits if_splits)

lemma signal_due_step:
  assumes "client_step s t" and "ready_channel s" and "signal_due s"
  shows "signal_due t \<or> (pc t = PausedCheck \<and> rdy (pmp t))"
  using assms
proof (induction rule: client_step.induct)
  case (completer_loses i s d)
  then show ?case using multi_member_split [OF completer_loses(1)]
    by (auto simp: signal_due_def ready_channel_def)
next
  case (completer_delivers i s)
  then show ?case using multi_member_split [OF completer_delivers(1)]
    by (auto simp: signal_due_def ready_channel_def)
next
  case (pump_ready s x ch)
  then show ?case by (auto simp: ready_channel_def chan_recv_def split: list.splits)
next
  case (completer_wins i s d)
  then show ?case using multi_member_split [OF completer_wins(1)]
    by (auto simp: signal_due_def ready_channel_def)
qed (auto simp: signal_due_def ready_channel_def signal_ready_buf simp del: cancel_outstanding.simps)

lemma pending_step:
  assumes "client_step s t" and "pending_id s \<noteq> None"
  shows "pending_id t \<noteq> None \<or> signal_due t \<or> draining (pc t)"
  using assms
proof (induction rule: client_step.induct)
  case (completer_wins i s d)
  then show ?case by (auto simp: complete_pop_True)
next
  case (pump_wins s k i r e d)
  then show ?case by (auto simp: complete_pop_True)
next
  case (pump_add s b c msg)
  then show ?case by (auto simp: pid_def cs.pending_add)
qed (auto simp: signal_due_def complete_pop_False simp del: cancel_outstanding.simps)

lemma draining_step: "client_step s t \<Longrightarrow> draining (pc s) \<Longrightarrow> draining (pc t)"
  by (induction rule: client_step.induct) auto

lemma rdy_step:
  assumes "client_step s t" and "rdy (pmp s)" and "\<not> not_ready_after (pc s)" and "ready_channel s"
    and "single_flight s" and "good_queue s"
  shows "rdy (pmp t) \<and> \<not> not_ready_after (pc t) \<or> pending_id t \<noteq> None"
  using assms
proof (induction rule: client_step.induct)
  case (pump_ready s x ch)
  then show ?case by (auto simp: ready_channel_def chan_recv_def split: list.splits)
next
  case (pump_reconcile s)
  then show ?case by (auto simp: reconcile_def split: option.splits)
next
  case (pump_add s b c msg)
  then have "Call_UniqueId c \<noteq> []" using good_ids [of s "Call_UniqueId c"] by (auto simp: single_flight_def)
  with pump_add show ?case by (simp add: pid_def cs.pending_add)
next
  case (pump_loses s k i r e d)
  then show ?case by (cases k) (auto simp: leave_completing_def)
next
  case (pump_fires s k i r e)
  then show ?case by (cases k) (auto simp: leave_completing_def)
qed auto

lemma readiness_owed_step:
  assumes "client_step s t" and "readiness_owed s" and "ready_channel s" and "single_flight s" and "good_queue s"
  shows "readiness_owed t"
proof -
  consider "draining (pc s)" | "rdy (pmp s)" "\<not> not_ready_after (pc s)" | "signal_due s" | "pending_id s \<noteq> None"
    using assms(2) by (auto simp: readiness_owed_def)
  then show ?thesis
  proof cases
    case 1
    then show ?thesis using draining_step [OF assms(1)] by (simp add: readiness_owed_def)
  next
    case 2
    then show ?thesis using rdy_step [OF assms(1)] assms by (auto simp: readiness_owed_def)
  next
    case 3
    then show ?thesis using signal_due_step [OF assms(1)] assms by (auto simp: readiness_owed_def)
  next
    case 4
    then show ?thesis using pending_step [OF assms(1)] by (auto simp: readiness_owed_def)
  qed
qed

lemma handover_signaled_step:
  assumes "client_step s t" and "handover_signaled s" and "ready_channel s"
  shows "handover_signaled t"
proof (cases "\<exists>k i r e. pc s = Completing k i r e AtHandOver \<and> pc t = pc s")
  case True
  then show ?thesis using signal_due_step [OF assms(1)] assms by (auto simp: handover_signaled_def)
next
  case False
  have "pc t = pc s \<or> (\<forall>k i r e. pc t \<noteq> Completing k i r e AtHandOver) \<or> signal_due t"
    using assms(1,3)
    by (induction rule: client_step.induct)
      (auto simp: leave_completing_pc signal_due_def ready_channel_def signal_ready_buf)
  with False show ?thesis by (auto simp: handover_signaled_def)
qed


abbreviation waiting :: "csys \<Rightarrow> bool" where
  "waiting s \<equiv> pc s = LoopTop \<or> pc s = AtSelect"

lemma signal_due_wakes: "signal_due s \<Longrightarrow> wake_due s"
  by (simp add: wake_due_def)

lemma wake_due_step:
  assumes "client_step s t" and "wake_due s" and "ready_channel s" and "orderly_stop s" and "waiting t"
  shows "wake_due t \<or> pending_id t \<noteq> None"
proof (cases "signal_due s")
  case True
  with signal_due_step [OF assms(1,3)] assms(5) show ?thesis by (auto simp: signal_due_wakes)
next
  case False
  with assms(2) have "senders s \<noteq> {#} \<or>
     (\<exists>ch. requestChannel (disp s) = Some ch \<and> (chan_buf ch \<noteq> [] \<or> chan_closed ch)) \<or>
     ResumeCheck \<in># resumers s \<or> ResumeSignal \<in># resumers s"
    by (simp add: wake_due_def)
  with assms(1,3,4,5) show ?thesis
  proof (induction rule: client_step.induct)
    case (send_not_running i s)
    then show ?case
      by (cases "requestChannel (disp s)") (auto simp: wake_due_def orderly_stop_def)
  next
    case (completer_wins i s d)
    then show ?case by (auto simp: wake_due_def complete_pop_True)
  next
    case (resume_timer s)
    then show ?case using multi_member_split [OF resume_timer(1)] by (auto simp: wake_due_def)
  next
    case (resume_check s)
    then show ?case by (auto simp: wake_due_def pid_has signal_due_def)
  qed (auto simp: wake_due_def chan_send_def complete_pop_False leave_completing_pc CD_Stop_def
      signal_due_def ready_channel_def signal_ready_buf)
qed

lemma wakeup_owed_stays:
  assumes "client_step s t" and "wakeup_owed s" and "waiting s" and "waiting t"
    and "ready_channel s" and "orderly_stop s"
  shows "wakeup_owed t"
proof -
  consider "elements (requestQueue (disp s)) = []" | "paused (disp s)" | "pending_id s \<noteq> None" | "wake_due s"
    using assms(2,3) by (auto simp: wakeup_owed_def)
  then show ?thesis
  proof cases
    case 1
    with assms(1,3,4) show ?thesis
      by (induction rule: client_step.induct)
        (auto simp: wakeup_owed_def wake_due_def complete_pop_True complete_pop_False)
  next
    case 2
    with assms(1,3,4) show ?thesis
      by (induction rule: client_step.induct)
        (auto simp: wakeup_owed_def wake_due_def complete_pop_True complete_pop_False)
  next
    case 3
    with pending_step [OF assms(1)] assms(4) show ?thesis
      by (auto simp: wakeup_owed_def signal_due_wakes)
  next
    case 4
    with wake_due_step [OF assms(1)] assms show ?thesis
      by (auto simp: wakeup_owed_def)
  qed
qed

lemma good_peek:
  "good_queue s \<Longrightarrow> (case well_formed (FIFO_Peek (requestQueue (disp s))) of Some (b, c) \<Rightarrow> bundle_Data b = None | None \<Rightarrow> True)
   \<Longrightarrow> elements (requestQueue (disp s)) = []"
  by (auto simp: good_queue_def good_def FIFO_Peek_def split: list.splits)

lemma good_front:
  "good_queue s \<Longrightarrow> qids s = i # is \<Longrightarrow> \<exists>el els. elements (requestQueue (disp s)) = el # els \<and> has_id i el"
  by (cases "elements (requestQueue (disp s))") (auto simp: good_queue_def good_def has_id_def)

lemma wakeup_owed_arrives:
  assumes "client_step s t" and "\<not> waiting s" and "waiting t" and "readiness_owed s" and "handover_signaled s"
    and "single_flight s" and "good_queue s"
  shows "wakeup_owed t"
  using assms
proof (induction rule: client_step.induct)
  case (pump_loses s k i r e d)
  then have "k \<noteq> FromDrop" using good_front [of s i] by (auto simp: single_flight_def complete_pop_False)
  with pump_loses show ?case
    by (cases k) (auto simp: wakeup_owed_def leave_completing_pc complete_pop_False readiness_owed_def wake_due_def signal_due_def)
next
  case (pump_fires s k i r e)
  then show ?case
    by (auto simp: wakeup_owed_def leave_completing_pc handover_signaled_def wake_due_def signal_due_def)
next
  case (pump_nothing s)
  then show ?case
    by (auto simp: wakeup_owed_def readiness_owed_def wake_due_def signal_due_def FIFO_IsEmpty_def)
next
  case (pump_peek_malformed s)
  then show ?case using good_peek [of s] by (auto simp: wakeup_owed_def)
next
  case (pump_written s b c msg)
  then show ?case
    by (auto simp: wakeup_owed_def readiness_owed_def wake_due_def signal_due_def)
qed (auto simp: wakeup_owed_def pid_has)


section \<open>The invariant of every run\<close>

definition client_invariant :: "csys \<Rightarrow> bool" where
  "client_invariant s \<longleftrightarrow> conserved s \<and> in_order s \<and> good_queue s \<and> single_flight s \<and> ordered_dispatch s \<and>
     orderly_stop s \<and> ready_channel s \<and> readiness_owed s \<and> handover_signaled s \<and> wakeup_owed s \<and> slot_live s"

lemma new_chan_fields [simp]: "chan_buf (new_chan n) = []" "chan_cap (new_chan n) = n" "\<not> chan_closed (new_chan n)"
  by (simp_all add: new_chan_def)

lemma client_invariant_start: "client_start s \<Longrightarrow> client_invariant s"
  by (auto simp: client_start_def started_def client_invariant_def conserved_def in_order_def good_queue_def
      single_flight_def ordered_dispatch_def orderly_stop_def ready_channel_def readiness_owed_def
      handover_signaled_def wakeup_owed_def slot_live_def canceled_def CD_Start_def pid_def pump_start_def)

lemma wakeup_owed_step:
  assumes "client_step s t" and "client_invariant s"
  shows "wakeup_owed t"
proof (cases "waiting t")
  case False
  then show ?thesis by (simp add: wakeup_owed_def)
next
  case True
  then show ?thesis
    using wakeup_owed_stays [OF assms(1)] wakeup_owed_arrives [OF assms(1)] assms(2)
    unfolding client_invariant_def by blast
qed

lemma client_invariant_step:
  assumes "client_step s t" and "client_invariant s"
  shows "client_invariant t"
  using assms(2) wakeup_owed_step [OF assms]
    conserved_step [OF assms(1)] in_order_step [OF assms(1)] good_queue_step [OF assms(1)]
    single_flight_step [OF assms(1)] ordered_dispatch_step [OF assms(1)] orderly_stop_step [OF assms(1)]
    ready_channel_step [OF assms(1)] readiness_owed_step [OF assms(1)] handover_signaled_step [OF assms(1)]
    slot_live_step [OF assms(1)]
  unfolding client_invariant_def by blast

lemma client_reachable_invariant: "reachable client_start client_step s \<Longrightarrow> client_invariant s"
  by (rule reachable_invariant [of client_start client_step s client_invariant])
    (auto intro: client_invariant_start client_invariant_step)


section \<open>A sample run\<close>

text \<open>
  One request is sent and written; a second one is queued; the response to the first is parsed
  while the timer fires; the dispatcher is stopped. The states along the run are computed by the
  simplifier from the step rules.
\<close>

abbreviation client_reachable :: "csys \<Rightarrow> bool" where
  "client_reachable \<equiv> reachable client_start client_step"

lemma client_run: "client_reachable s \<Longrightarrow> client_step s t \<Longrightarrow> client_reachable t"
  by (rule reach_step)

lemma sample_start: "client_reachable (started (sample_dispatcher []))"
proof (rule reach_start)
  have "elements (requestQueue (sample_dispatcher [])) = [] \<and> slot (pendingState (sample_dispatcher [])) = None \<and>
    chan_cap (readyForDispatch (sample_dispatcher [])) = 1 \<and> chan_buf (readyForDispatch (sample_dispatcher [])) = [] \<and>
    network (sample_dispatcher []) \<and> onRequestCancel (sample_dispatcher []) \<and> events (sample_dispatcher []) = []"
    by (simp add: sample_defs slot_def NewClientState_def)
  then show "client_start (started (sample_dispatcher []))" unfolding client_start_def by blast
qed

lemma sample_fields [simp]:
  "bundle_Call (sample_bundle i) = Some (sample_call i)" "bundle_Data (sample_bundle i) = Some i"
  "bundleCtx (sample_bundle i) = Background" "Call_UniqueId (sample_call i) = i"
  by (simp_all add: sample_bundle_def sample_call_def bundleCtx_def)

lemma timeout_error_marked: "markLocalTransportError (Some (newRequestTimeoutError i)) = Some (newRequestTimeoutError i)"
  by (simp add: markLocalTransportError_def error_defs marker_defs)

lemmas sample_run = FIFO_Push_def pump_start_def reconcile_def new_chan_def
  chan_send_def chan_recv_def chan_full_def chan_put_def signal_ready_def complete_delete_def complete_pop_def
  FIFO_PopIf_def FIFO_Peek_def FIFO_IsEmpty_def has_id_def state_defs leave_completing_def CD_Stop_def fireRequestCancel_def FIFO_DrainAll_def FIFO_Init_def
  timeout_error_marked

lemmas refl2 = conjI [OF refl refl]
lemmas refl3 = conjI [OF refl refl2]
lemmas refl4 = conjI [OF refl refl3]
lemmas true_refl = conjI [OF TrueI refl]

declare sample_run [simp]

definition sample_writing :: csys where
  "sample_writing = \<lparr>disp = (sample_dispatcher [''1''])
        \<lparr>requestChannel := Some \<lparr>chan_buf = [], chan_cap = 1, chan_closed = False\<rparr>,
         readyForDispatch := \<lparr>chan_buf = [], chan_cap = 1, chan_closed = False\<rparr>, running := True,
         pendingState := \<lparr>requestID = ''1'', pendingRequest = Call_Payload (sample_call ''1'')\<rparr>,
         cd_timer := \<lparr>armed = Some defaultTimeoutTick, tick = False\<rparr>, events := []\<rparr>,
      pc = Writing (sample_bundle ''1'') (sample_call ''1'') ''1'',
      pmp = \<lparr>rdy = True, pump_pending = None\<rparr>, senders = {#}, completers = {#}, resumers = {#},
      accepted = [''1''], confirmed = [''1''], dispatched = [''1''], delivered = [], discarded = []\<rparr>"

lemma sample_writing_reachable: "client_reachable sample_writing"
proof -
  note r = sample_start [unfolded started_def CD_Start_def sample_dispatcher_def NewDefaultClientDispatcher_def, simplified]
  note r = client_run [OF r client_step.send_push [where b = "sample_bundle ''1''" and c = "sample_call ''1''"], simplified, OF refl, simplified]
  note r = client_run [OF r client_step.send_signal [where i = "''1''"], simplified, OF refl, simplified]
  note r = client_run [OF r client_step.pump_reconcile, simplified]
  note r = client_run [OF r client_step.pump_request, simplified, OF refl, simplified, OF true_refl, simplified]
  note r = client_run [OF r client_step.pump_not_paused, simplified]
  note r = client_run [OF r client_step.pump_something, simplified]
  note r = client_run [OF r client_step.pump_free, simplified]
  note r = client_run [OF r client_step.pump_peek, simplified, OF refl2, simplified, OF refl, simplified]
  note r = client_run [OF r client_step.pump_live, simplified, OF refl3, simplified]
  note r = client_run [OF r client_step.pump_add, simplified, OF refl3, simplified]
  show ?thesis using r by (simp add: sample_writing_def sample_dispatcher_def NewDefaultClientDispatcher_def)
qed

definition sample_idle :: csys where
  "sample_idle = \<lparr>disp = (sample_dispatcher [''1''])
        \<lparr>requestChannel := Some \<lparr>chan_buf = [], chan_cap = 1, chan_closed = False\<rparr>,
         readyForDispatch := \<lparr>chan_buf = [], chan_cap = 1, chan_closed = False\<rparr>, running := True,
         pendingState := \<lparr>requestID = ''1'', pendingRequest = Call_Payload (sample_call ''1'')\<rparr>,
         cd_timer := \<lparr>armed = Some defaultTimeoutTick, tick = False\<rparr>, events := [Wrote ''1'']\<rparr>,
      pc = AtSelect,
      pmp = \<lparr>rdy = False, pump_pending = Some \<lparr>pp_id = ''1'', pp_action = Call_Action (sample_call ''1''),
        pp_ctx = Background, pp_payload = Call_Payload (sample_call ''1'')\<rparr>\<rparr>, senders = {#}, completers = {#}, resumers = {#},
      accepted = [''1''], confirmed = [''1''], dispatched = [''1''], delivered = [], discarded = []\<rparr>"

lemma sample_idle_reachable: "client_reachable sample_idle"
proof -
  note r = sample_writing_reachable [unfolded sample_writing_def sample_dispatcher_def NewDefaultClientDispatcher_def, simplified]
  note r = client_run [OF r client_step.pump_written, simplified, OF refl3, simplified]
  note r = client_run [OF r client_step.pump_reconcile, simplified]
  show ?thesis using r by (simp add: sample_idle_def sample_dispatcher_def NewDefaultClientDispatcher_def)
qed

definition sample_raced :: csys where
  "sample_raced = \<lparr>disp = (sample_dispatcher [])
        \<lparr>requestChannel := Some \<lparr>chan_buf = [True], chan_cap = 1, chan_closed = False\<rparr>,
         readyForDispatch := \<lparr>chan_buf = [True], chan_cap = 1, chan_closed = False\<rparr>, running := True,
         pendingState := \<lparr>requestID = ''1'', pendingRequest = Call_Payload (sample_call ''1'')\<rparr>,
         cd_timer := \<lparr>armed = Some defaultTimeoutTick, tick = False\<rparr>, events := [Wrote ''1'', CancelCallback ''2'' (Call_Payload (sample_call ''2'')) (newRequestTimeoutError ''2'')]\<rparr>,
      pc = PausedCheck,
      pmp = \<lparr>rdy = False, pump_pending = None\<rparr>, senders = {#}, completers = {#(''1'', AtDelete)#}, resumers = {#},
      accepted = [''1'', ''2''], confirmed = [''1'', ''2''], dispatched = [''1''], delivered = [], discarded = []\<rparr>"

lemma sample_raced_reachable: "client_reachable sample_raced"
proof -
  note r = sample_idle_reachable [unfolded sample_idle_def sample_dispatcher_def NewDefaultClientDispatcher_def, simplified]
  note r = client_run [OF r client_step.send_push [where b = "sample_bundle ''2''" and c = "sample_call ''2''"], simplified, OF refl, simplified]
  note r = client_run [OF r client_step.send_signal [where i = "''2''"], simplified, OF refl, simplified]
  note r = client_run [OF r client_step.response_parsed [where i = "''1''"], simplified]
  note r = client_run [OF r client_step.pump_timer, simplified]
  note r = client_run [OF r client_step.timer_some, simplified]
  note r = client_run [OF r client_step.completer_wins [where i = "''1''"], simplified, OF refl, simplified]
  note r = client_run [OF r client_step.timer_peek, simplified, OF refl2, simplified]
  note r = client_run [OF r client_step.pump_wins, simplified, OF refl4, simplified, OF refl, simplified]
  note r = client_run [OF r client_step.pump_delete, simplified, OF refl4, simplified]
  note r = client_run [OF r client_step.pump_signal, simplified, OF refl4, simplified]
  note r = client_run [OF r client_step.pump_fires, simplified, OF refl4, simplified]
  show ?thesis using r by (simp add: sample_raced_def sample_dispatcher_def NewDefaultClientDispatcher_def)
qed

definition sample_stopped :: csys where
  "sample_stopped = \<lparr>disp = (sample_dispatcher [])
        \<lparr>requestChannel := None,
         readyForDispatch := \<lparr>chan_buf = [True], chan_cap = 1, chan_closed = False\<rparr>, running := False,
         pendingState := \<lparr>requestID = [], pendingRequest = Call_Payload (sample_call ''1'')\<rparr>,
         cd_timer := \<lparr>armed = Some defaultTimeoutTick, tick = False\<rparr>, events := [Wrote ''1'', CancelCallback ''2'' (Call_Payload (sample_call ''2'')) (newRequestTimeoutError ''2'')]\<rparr>,
      pc = Stopped,
      pmp = \<lparr>rdy = False, pump_pending = None\<rparr>, senders = {#}, completers = {#}, resumers = {#},
      accepted = [''1'', ''2''], confirmed = [''1'', ''2''], dispatched = [''1''], delivered = [''1''], discarded = []\<rparr>"

lemma sample_stopped_reachable: "client_reachable sample_stopped"
proof -
  note r = sample_raced_reachable [unfolded sample_raced_def sample_dispatcher_def NewDefaultClientDispatcher_def, simplified]
  note r = client_run [OF r client_step.completer_delete [where i = "''1''"], simplified]
  note r = client_run [OF r client_step.completer_signal [where i = "''1''"], simplified]
  note r = client_run [OF r client_step.completer_delivers [where i = "''1''"], simplified]
  note r = client_run [OF r client_step.stop, simplified]
  note r = client_run [OF r client_step.pump_not_paused, simplified]
  note r = client_run [OF r client_step.pump_nothing, simplified]
  note r = client_run [OF r client_step.pump_reconcile, simplified]
  note r = client_run [OF r client_step.pump_request, simplified, OF refl, simplified, OF true_refl, simplified]
  note r = client_run [OF r client_step.pump_not_paused, simplified]
  note r = client_run [OF r client_step.pump_nothing, simplified]
  note r = client_run [OF r client_step.pump_reconcile, simplified]
  note r = client_run [OF r client_step.pump_closed, simplified, OF refl, simplified]
  note r = client_run [OF r client_step.drain_queue, simplified, OF refl2, simplified]
  note r = client_run [OF r client_step.drain_clear, simplified, OF refl, simplified]
  note r = client_run [OF r client_step.drain_fired, simplified]
  note r = client_run [OF r client_step.drain_init, simplified]
  note r = client_run [OF r client_step.drain_nil, simplified]
  show ?thesis using r by (simp add: sample_stopped_def sample_dispatcher_def NewDefaultClientDispatcher_def)
qed

declare sample_run [simp del]

section \<open>Properties of every run\<close>

lemma in_set_count: "x \<in> set xs \<longleftrightarrow> count (mset xs) x \<noteq> 0"
  by (simp add: count_mset_0_iff)

text \<open>
  C1: exactly one outcome per request. In every interleaving of senders, responses, timeouts,
  context cancellations, failed writes, pauses and a stop, a request is answered, canceled or
  discarded at most once; only requests that were handed to the network are answered; and once the
  pump has exited and no completion is under way, every request whose \<open>SendRequest\<close> returned nil
  was either answered or reported to the cancel callback, not both.
\<close>

theorem client_outcomes:
  assumes "reachable client_start client_step s"
  shows "(\<forall>i. count (mset (delivered s)) i + count (mset (canceled s)) i + count (mset (discarded s)) i \<le> 1) \<and>
    set (delivered s) \<subseteq> set (dispatched s) \<and>
    (pc s = Stopped \<and> completers s = {#} \<longrightarrow>
      (\<forall>i \<in> set (confirmed s). (i \<in> set (delivered s)) \<noteq> (i \<in> set (canceled s))))"
proof -
  have inv: "client_invariant s" using assms by (rule client_reachable_invariant)
  then have c: "conserved s" by (simp add: client_invariant_def)
  have once: "count (mset (delivered s)) i + count (mset (canceled s)) i + count (mset (discarded s)) i \<le> 1" for i
    using conserved_count [OF c, of i] by (simp only: split: if_splits)
  have "(i \<in> set (delivered s)) \<noteq> (i \<in> set (canceled s))"
    if "pc s = Stopped" "completers s = {#}" "i \<in> set (confirmed s)" for i
  proof -
    have "i \<in> set (accepted s)" "i \<notin> set (discarded s)" "i \<notin> set (qids s)"
      using inv that by (auto simp: client_invariant_def orderly_stop_def)
    then have "count (mset (delivered s)) i + count (mset (canceled s)) i = 1"
      using conserved_count [OF c, of i] that by (simp add: count_mset_0_iff [THEN iffD2])
    then show ?thesis unfolding in_set_count by arith
  qed
  with once inv show ?thesis by (auto simp: client_invariant_def single_flight_def)
qed

theorem client_outcomes_witness:
  "confirmed sample_stopped = [''1'', ''2''] \<and>
   (''1'' \<in> set (delivered sample_stopped)) \<noteq> (''1'' \<in> set (canceled sample_stopped)) \<and>
   (''2'' \<in> set (delivered sample_stopped)) \<noteq> (''2'' \<in> set (canceled sample_stopped))"
  using client_outcomes [OF sample_stopped_reachable] by (simp add: sample_stopped_def)

text \<open>
  C3: one request in flight, in order. No request is handed to the network twice, requests are handed
  over in the order of their pushes, and while one is being written every request handed over before
  it has left the queue (it was answered or canceled).
\<close>

theorem client_one_in_flight:
  assumes "reachable client_start client_step s"
  shows "distinct (dispatched s) \<and> subseq (dispatched s) (accepted s) \<and>
    (\<forall>b c msg. pc s = Writing b c msg \<longrightarrow> (\<forall>i \<in> set (dispatched s). i \<noteq> Call_UniqueId c \<longrightarrow> i \<notin> set (qids s)))"
proof -
  have inv: "single_flight s" "ordered_dispatch s"
    using client_reachable_invariant [OF assms] by (auto simp: client_invariant_def)
  have "i \<notin> set (qids s)" if "pc s = Writing b c msg" "i \<in> set (dispatched s)" "i \<noteq> Call_UniqueId c" for i b c msg
    using inv(1) that by (cases "qids s") (auto simp: single_flight_def)
  with inv(2) show ?thesis by (auto simp: ordered_dispatch_def)
qed

theorem client_one_in_flight_witness:
  "pc sample_writing = Writing (sample_bundle ''1'') (sample_call ''1'') ''1'' \<and>
   distinct (dispatched sample_writing) \<and> subseq (dispatched sample_writing) (accepted sample_writing)"
  using client_one_in_flight [OF sample_writing_reachable] by (simp add: sample_writing_def)

text \<open>
  C2: no lost wake-up. When the pump waits in its \<open>select\<close> with both channels empty, and no call of
  \<open>SendRequest\<close>, \<open>CompleteRequest\<close> or \<open>Resume\<close> is under way, then an unpaused dispatcher either has
  nothing queued or the front request is in flight and still pending (so a response, its context or
  the timer will end it): no request waits in the queue forever.
\<close>

theorem client_no_lost_wakeup:
  assumes "reachable client_start client_step s" and "pc s = AtSelect"
    and "requestChannel (disp s) = Some ch" "chan_buf ch = []" "\<not> chan_closed ch"
    and "chan_buf (readyForDispatch (disp s)) = []"
    and "senders s = {#}" "completers s = {#}" "resumers s = {#}" and "\<not> paused (disp s)"
  shows "qids s = [] \<or> (\<exists>i is. qids s = i # is \<and> pending_id s = Some i \<and> i \<in> set (dispatched s))"
proof -
  have inv: "single_flight s" "wakeup_owed s" "slot_live s"
    using client_reachable_invariant [OF assms(1)] by (auto simp: client_invariant_def)
  have "\<not> wake_due s" using assms by (simp add: wake_due_def signal_due_def)
  with inv(2) assms(2,10) consider "elements (requestQueue (disp s)) = []" | i where "pending_id s = Some i"
    by (auto simp: wakeup_owed_def)
  then show ?thesis
  proof cases
    case (2 i)
    with inv(1) have d: "i \<in> set (dispatched s)" by (auto simp: single_flight_def)
    moreover have "i \<in> set (qids s)" using inv(3) 2 assms by (auto simp: slot_live_def)
    ultimately show ?thesis using inv(1) 2 by (cases "qids s") (auto simp: single_flight_def)
  qed simp
qed

theorem client_no_lost_wakeup_witness:
  "\<exists>is. qids sample_idle = ''1'' # is \<and> pending_id sample_idle = Some ''1''"
  using client_no_lost_wakeup [OF sample_idle_reachable, of "\<lparr>chan_buf = [], chan_cap = 1, chan_closed = False\<rparr>"]
  by (simp add: sample_idle_def sample_dispatcher_def NewDefaultClientDispatcher_def)

text \<open>
  C27: a race in the timer branch, which reads \<open>HasPendingRequest\<close> and then the front of the queue in two steps.
  When the response to the request in flight is completed in between, the front is the next request,
  and the pump cancels it as timed out although it was never handed to the network.
\<close>

theorem timeout_cancels_unsent_request:
  "\<exists>s. client_reachable s \<and> ''2'' \<in> set (confirmed s) \<and> ''2'' \<notin> set (dispatched s) \<and>
     CancelCallback ''2'' (Call_Payload (sample_call ''2'')) (newRequestTimeoutError ''2'') \<in> set (events (disp s))"
  using sample_raced_reachable by (intro exI [of _ sample_raced]) (simp add: sample_raced_def)

end
