(* ===== verification/Ocppj_Panic.thy ===== *)
theory Ocppj_Panic
  imports Ocppj_Message
begin

text \<open>
  \<open>ocppj/panic.go\<close>: recovering from panics of user code. User code is a function from the state of
  the endpoint to an outcome (it returns or panics with a value) and a new state; it may call any
  method of the endpoint, so the state after it is arbitrary. The module is built with Go 1.21, where
  \<open>recover\<close> returns a non-nil value after every panic, \<open>panic(nil)\<close> included.
\<close>

type_synonym ('s, 'a) code = "'s \<Rightarrow> (string, 'a) outcome \<times> 's"

datatype HandlerKind =
    RequestHandlerKind | ResponseHandlerKind | ErrorHandlerKind | ConnectHandlerKind
  | DisconnectHandlerKind | CancelHandlerKind | ReconnectHandlerKind | InvalidMessageHandlerKind

fun kind_text :: "HandlerKind \<Rightarrow> string" where
  "kind_text RequestHandlerKind = ''request''"
| "kind_text ResponseHandlerKind = ''response''"
| "kind_text ErrorHandlerKind = ''error''"
| "kind_text ConnectHandlerKind = ''connect''"
| "kind_text DisconnectHandlerKind = ''disconnect''"
| "kind_text CancelHandlerKind = ''cancel''"
| "kind_text ReconnectHandlerKind = ''reconnect''"
| "kind_text InvalidMessageHandlerKind = ''invalid-message''"

record HandlerPanic =
  hp_ClientID :: string
  hp_Kind :: HandlerKind
  hp_Action :: string
  hp_RequestID :: string
  hp_Value :: string
  hp_Stack :: string

definition guardedCall :: "('s, unit) code \<Rightarrow> 's \<Rightarrow> 's" where
  "guardedCall fn s = snd (fn s)"

text \<open>\<open>stack\<close> is what \<open>debug.Stack\<close> returned.\<close>

definition reportHandlerPanic ::
  "string \<Rightarrow> string \<Rightarrow> HandlerKind \<Rightarrow> string \<Rightarrow> string \<Rightarrow> string \<Rightarrow>
     (HandlerPanic \<Rightarrow> ('s, unit) code) option \<Rightarrow> ('s, unit) code option \<Rightarrow> 's \<Rightarrow> 's" where
  "reportHandlerPanic stack v kind clientID action rid cb afterRecover s =
     (let s = (case cb of
                 None \<Rightarrow> s
               | Some f \<Rightarrow>
                   guardedCall (f \<lparr>hp_ClientID = clientID, hp_Kind = kind, hp_Action = action,
                     hp_RequestID = rid, hp_Value = v, hp_Stack = stack\<rparr>) s)
      in case afterRecover of None \<Rightarrow> s | Some g \<Rightarrow> guardedCall g s)"

text \<open>
  A function body with \<open>recoverHandler\<close> deferred: the body runs, and a panic of it ends here.
\<close>

definition recoverHandler ::
  "string \<Rightarrow> HandlerKind \<Rightarrow> string \<Rightarrow> string \<Rightarrow> string \<Rightarrow>
     (HandlerPanic \<Rightarrow> ('s, unit) code) option \<Rightarrow> ('s, unit) code option \<Rightarrow> ('s, unit) code \<Rightarrow> 's \<Rightarrow> 's" where
  "recoverHandler stack kind clientID action rid cb afterRecover handler s =
     (case handler s of
        (Returns _, s) \<Rightarrow> s
      | (Panics v, s) \<Rightarrow> reportHandlerPanic stack v kind clientID action rid cb afterRecover s)"

text \<open>User code that stays within a set of states.\<close>

definition keeps :: "'s set \<Rightarrow> ('s, 'a) code \<Rightarrow> bool" where
  "keeps S f \<longleftrightarrow> (\<forall>s \<in> S. snd (f s) \<in> S)"

lemma keepsD: "keeps S f \<Longrightarrow> s \<in> S \<Longrightarrow> f s = (r, s') \<Longrightarrow> s' \<in> S"
  by (metis keeps_def snd_conv)

lemma guardedCall_keeps: "keeps S f \<Longrightarrow> s \<in> S \<Longrightarrow> guardedCall f s \<in> S"
  by (simp add: keeps_def guardedCall_def)

lemma reportHandlerPanic_keeps:
  assumes "\<And>f hp. cb = Some f \<Longrightarrow> keeps S (f hp)" and "\<And>g. after = Some g \<Longrightarrow> keeps S g" and "s \<in> S"
  shows "reportHandlerPanic stack v kind c a i cb after s \<in> S"
  using assms by (cases cb; cases after) (simp_all add: reportHandlerPanic_def guardedCall_keeps)

lemma recoverHandler_into:
  assumes "snd (h s) \<in> S" and "\<And>f hp. cb = Some f \<Longrightarrow> keeps S (f hp)"
    and "\<And>g. after = Some g \<Longrightarrow> keeps S g"
  shows "recoverHandler stack kind c a i cb after h s \<in> S"
proof (cases "h s")
  case (Pair r s')
  with assms show ?thesis by (cases r) (simp_all add: recoverHandler_def reportHandlerPanic_keeps)
qed

lemma recoverHandler_keeps:
  assumes "keeps S h" and "\<And>f hp. cb = Some f \<Longrightarrow> keeps S (f hp)"
    and "\<And>g. after = Some g \<Longrightarrow> keeps S g" and "s \<in> S"
  shows "recoverHandler stack kind c a i cb after h s \<in> S"
  using assms by (intro recoverHandler_into) (simp_all add: keeps_def)

end
