(* ===== verification/Ocppj_Endpoint.thy ===== *)
theory Ocppj_Endpoint
  imports Ocppj_Panic
begin

text \<open>
  What \<open>ocppj/client.go\<close> and \<open>ocppj/server.go\<close> have in common: adding profiles, overwriting the
  message id of an error, and turning the failure to send a response into an error for the peer. The
  contract of an endpoint that answers requests is the locale \<open>responder\<close>.
\<close>

fun add_profiles :: "Endpoint \<Rightarrow> Profile list \<Rightarrow> Endpoint" where
  "add_profiles ep [] = ep"
| "add_profiles ep (p # ps) = add_profiles (Endpoint_AddProfile ep p) ps"

fun set_MessageId :: "string \<Rightarrow> go_error \<Rightarrow> go_error" where
  "set_MessageId i (OcppError c d _ m u) = OcppError c d i m u"
| "set_MessageId i e = e"

text \<open>
  The \<open>switch\<close> of \<open>HandleFailedResponseError\<close>; a nil error leaves \<open>responseErr\<close> nil, and reading its
  code panics.
\<close>

definition failed_response_error ::
  "Dialect \<Rightarrow> string \<Rightarrow> go_error option \<Rightarrow> string \<Rightarrow> (string, go_error) outcome" where
  "failed_response_error dialect rid err featureName =
     (case err of
        None \<Rightarrow> Panics ''nil pointer dereference''
      | Some (ValidationErrors errs txt) \<Rightarrow> errorFromValidation dialect errs txt rid featureName
      | Some (OcppError co de mi ma ca) \<Rightarrow> Returns (OcppError co de mi ma ca)
      | Some e \<Rightarrow> Returns (NewError GenericError (error_text e) rid))"

text \<open>The errors \<open>SendResponse\<close> returns.\<close>

definition response_error :: "string \<Rightarrow> go_error \<Rightarrow> bool" where
  "response_error rid err \<longleftrightarrow>
     (\<exists>co d. err = NewError co d rid \<and> IsErrorCodeValid co) \<or> (\<exists>errs t. err = ValidationErrors errs t)"

lemma response_errorI [simp, intro]:
  "IsErrorCodeValid co \<Longrightarrow> response_error rid (NewError co d rid)"
  "response_error rid (ValidationErrors errs t)"
  by (auto simp: response_error_def)

lemma CreateCallResult_response_error:
  "CreateCallResult E ep resp rid = Inl err \<Longrightarrow> response_error rid err"
  using CreateCallResult_errors [of E ep resp rid err]
  by (metis valid_codes(1) response_errorI)

lemma failed_response_error_valid:
  assumes "known_dialect ep" and "response_error rid err"
  shows "\<exists>co d. failed_response_error (endpoint_dialect ep) rid (Some err) featureName = Returns (NewError co d rid) \<and>
    IsErrorCodeValid co"
  using assms(2) errorFromValidation_valid [OF assms(1), of rid]
  by (auto simp: response_error_def failed_response_error_def NewError_def valid_error_def)

text \<open>The messages an endpoint may act on without panicking.\<close>

lemma ParseMessage_total:
  assumes "known_dialect ep" and "\<And>i. slot st \<noteq> Some (i, None)"
  obtains co d i where "ParseMessage E ep arr st = Returns (Inl (NewError co d i))"
  | m where "ParseMessage E ep arr st = Returns (Inr m)"
proof (cases "ParseMessage E ep arr st")
  case (Returns r)
  with that ParseMessage_sendable [OF assms, of arr E] show ?thesis
    by (cases r) (auto simp: sendable.simps(2))
next
  case (Panics v)
  with ParseMessage_sendable [OF assms, of arr E] show ?thesis by simp
qed

text \<open>
  An endpoint that answers requests: sending a response puts its frame on the wire or reports an
  error and does nothing; with the network up, sending an error with a valid code puts its frame on
  the wire.
\<close>

locale responder =
  fixes E :: env and rid :: string and up :: bool
    and endpoint :: "'s \<Rightarrow> Endpoint"
    and put :: "string \<Rightarrow> 's \<Rightarrow> 's"
    and send_response :: "message_body \<Rightarrow> 's \<Rightarrow> go_error option \<times> 's"
    and send_error :: "string \<Rightarrow> string \<Rightarrow> 's \<Rightarrow> go_error option \<times> 's"
  assumes response:
      "(\<exists>cr t. CreateCallResult E (endpoint s) resp rid = Inr cr \<and> CallResult_MarshalJSON E cr = Inr t \<and>
          send_response resp s = (None, put t s)) \<or>
       (\<exists>err. send_response resp s = (Some err, s) \<and> response_error rid err)"
    and error: "up \<Longrightarrow> json_array_laws E \<Longrightarrow> accepts_call_errors E \<Longrightarrow> id_ok rid \<Longrightarrow> IsErrorCodeValid code \<Longrightarrow>
      send_error code d s = (None, put (error_frame E rid code d) s)"
begin

definition handle_failed :: "go_error \<Rightarrow> string \<Rightarrow> 's \<Rightarrow> 's" where
  "handle_failed err featureName s =
     (case failed_response_error (endpoint_dialect (endpoint s)) rid (Some err) featureName of
        Panics v \<Rightarrow> s
      | Returns e \<Rightarrow> snd (send_error (Code e) (Description e) s))"

definition reply :: "message_body \<Rightarrow> string \<Rightarrow> 's \<Rightarrow> 's" where
  "reply resp featureName s =
     (case send_response resp s of (None, s) \<Rightarrow> s | (Some err, s) \<Rightarrow> handle_failed err featureName s)"

lemma reply_exactly_one:
  assumes "json_array_laws E" and "accepts_call_errors E" and "up" and "id_ok rid" and "known_dialect (endpoint s)"
  shows "\<exists>frame. reply resp featureName s = put frame s \<and>
    (if fst (send_response resp s) = None
     then \<exists>cr. CreateCallResult E (endpoint s) resp rid = Inr cr \<and> CallResult_MarshalJSON E cr = Inr frame
     else \<exists>code d. IsErrorCodeValid code \<and> frame = error_frame E rid code d)"
  using response [of s resp]
proof (elim disjE exE conjE)
  fix err assume err: "send_response resp s = (Some err, s)" and "response_error rid err"
  then obtain co d where "failed_response_error (endpoint_dialect (endpoint s)) rid (Some err) featureName
      = Returns (NewError co d rid)" and co: "IsErrorCodeValid co"
    using failed_response_error_valid [OF assms(5)] by blast
  with err error [OF assms(3,1,2,4) co, of d s]
  have "reply resp featureName s = put (error_frame E rid co d) s"
    by (simp add: reply_def handle_failed_def NewError_def)
  with err co show ?thesis by auto
qed (auto simp: reply_def)

end

end
