(* ===== verification/Ocppj_Client.thy ===== *)
theory Ocppj_Client
  imports Ocppj_Endpoint Client_Dispatcher
begin

text \<open>
  \<open>ocppj/client.go\<close> and the client half of \<open>ocppj/panic.go\<close>: the endpoint of a charge point. The
  endpoint uses the default dispatcher, whose pending state is the endpoint's \<open>RequestState\<close>. The
  handlers the user registers are arbitrary code (theory \<open>Ocppj_Panic\<close>); the websocket client is its
  connection flag and the handlers installed on it. All operations are on the record scheme: a facade
  adds its own fields to the endpoint, and the handlers it registers are code on the extended state.
\<close>

section \<open>State\<close>

text \<open>The function installed as the websocket's disconnection handler.\<close>

datatype ws_disconnect_handler = NoHandler | EndpointHandler | CleanupHandler

record ws_client =
  ws_connected :: bool
  ws_url :: string
  ws_onMessage :: bool
  ws_onDisconnected :: ws_disconnect_handler
  ws_onReconnected :: bool

record Client =
  c_Endpoint :: Endpoint
  c_client :: ws_client
  c_Id :: string
  c_dispatcher :: ClientDispatcher
  c_sent :: "string list"

text \<open>
  The user's code; a nil handler is \<^const>\<open>None\<close>. The hook for invalid messages receives a pointer
  to the error and may write through it: it returns its result and the value it leaves behind.
  \<open>debug_Stack\<close> is the text of the stack at a recovery.
\<close>

record 's client_handlers =
  requestHandler :: "(request \<Rightarrow> string \<Rightarrow> string \<Rightarrow> ('s, unit) code) option"
  responseHandler :: "(request \<Rightarrow> string \<Rightarrow> ('s, unit) code) option"
  errorHandler :: "(go_error \<Rightarrow> json iface \<Rightarrow> ('s, unit) code) option"
  onHandlerPanic :: "(HandlerPanic \<Rightarrow> ('s, unit) code) option"
  onDisconnectedHandler :: "(go_error \<Rightarrow> ('s, unit) code) option"
  onReconnectedHandler :: "('s, unit) code option"
  invalidMessageHook ::
    "(go_error \<Rightarrow> string \<Rightarrow> json list \<Rightarrow> ('s, go_error option \<times> go_error) code) option"
  debug_Stack :: string

definition no_client_handlers :: "'s client_handlers" where
  "no_client_handlers = \<lparr>requestHandler = None, responseHandler = None, errorHandler = None,
     onHandlerPanic = None, onDisconnectedHandler = None, onReconnectedHandler = None,
     invalidMessageHook = None, debug_Stack = []\<rparr>"

definition SetRequestHandler where "SetRequestHandler h H = H\<lparr>requestHandler := h\<rparr>"
definition SetResponseHandler where "SetResponseHandler h H = H\<lparr>responseHandler := h\<rparr>"
definition SetErrorHandler where "SetErrorHandler h H = H\<lparr>errorHandler := h\<rparr>"
definition SetInvalidMessageHook where "SetInvalidMessageHook h H = H\<lparr>invalidMessageHook := h\<rparr>"
definition SetOnDisconnectedHandler where "SetOnDisconnectedHandler h H = H\<lparr>onDisconnectedHandler := h\<rparr>"
definition SetOnReconnectedHandler where "SetOnReconnectedHandler h H = H\<lparr>onReconnectedHandler := h\<rparr>"
definition SetOnHandlerPanic where "SetOnHandlerPanic h H = H\<lparr>onHandlerPanic := h\<rparr>"

text \<open>The constructor; the websocket client is nil or a value, the two optional parts may be nil.\<close>

definition NewClient ::
  "string \<Rightarrow> ws_client option \<Rightarrow> ClientDispatcher option \<Rightarrow> clientState option \<Rightarrow> Profile list \<Rightarrow>
     (string, Client) outcome" where
  "NewClient i wsClient disp stateHandler profiles =
     (case wsClient of
        None \<Rightarrow> Panics ''wsClient parameter cannot be nil''
      | Some ws \<Rightarrow>
          (let ep = add_profiles \<lparr>endpoint_dialect = 0, Profiles = []\<rparr> profiles;
               d = (case disp of
                      Some d \<Rightarrow> d
                    | None \<Rightarrow> NewDefaultClientDispatcher (the (NewFIFOClientQueue 10)));
               st = (case stateHandler of Some st \<Rightarrow> st | None \<Rightarrow> NewClientState)
           in Returns \<lparr>c_Endpoint = ep, c_client = ws, c_Id = i,
                c_dispatcher = CD_SetPendingRequestState st (CD_SetNetworkClient True d), c_sent = []\<rparr>))"

section \<open>Starting and stopping\<close>

definition set_ws_handlers :: "ws_client \<Rightarrow> ws_client" where
  "set_ws_handlers ws = ws\<lparr>ws_onMessage := True, ws_onDisconnected := EndpointHandler, ws_onReconnected := True\<rparr>"

text \<open>\<open>result\<close> is what the websocket client's own \<open>Start\<close> returns for the URL.\<close>

definition Client_Start :: "(string \<Rightarrow> go_error option) \<Rightarrow> string \<Rightarrow> 'z Client_scheme \<Rightarrow> go_error option \<times> 'z Client_scheme" where
  "Client_Start result serverURL c =
     (let fullUrl = serverURL @ ''/'' @ c_Id c;
          ws = (set_ws_handlers (c_client c))\<lparr>ws_url := fullUrl\<rparr>
      in case result fullUrl of
           Some err \<Rightarrow> (Some err, c\<lparr>c_client := ws\<rparr>)
         | None \<Rightarrow> (None, c\<lparr>c_client := ws\<lparr>ws_connected := True\<rparr>, c_dispatcher := CD_Start (c_dispatcher c)\<rparr>))"

text \<open>\<open>StartWithRetries\<close>, once the websocket client's own \<open>StartWithRetries\<close> has returned.\<close>

definition Client_StartWithRetries :: "bool \<Rightarrow> string \<Rightarrow> 'z Client_scheme \<Rightarrow> 'z Client_scheme" where
  "Client_StartWithRetries conn serverURL c =
     (let fullUrl = serverURL @ ''/'' @ c_Id c
      in c\<lparr>c_client := (set_ws_handlers (c_client c))\<lparr>ws_url := fullUrl, ws_connected := conn\<rparr>,
           c_dispatcher := CD_Start (c_dispatcher c)\<rparr>)"

definition Client_IsConnected :: "'z Client_scheme \<Rightarrow> bool" where
  "Client_IsConnected c \<longleftrightarrow> ws_connected (c_client c)"

text \<open>
  \<open>Stop\<close>. The dispatcher's own \<open>Stop\<close> closes the request channel and waits for the pump, whose last
  branch is \<^const>\<open>stop_drain\<close>; the final wait is for the replaced disconnection handler.
\<close>

definition Client_Stop :: "'z Client_scheme \<Rightarrow> 'z Client_scheme" where
  "Client_Stop c =
     (let ws = c_client c;
          ws = (if Client_IsConnected c then ws\<lparr>ws_onDisconnected := CleanupHandler\<rparr> else ws);
          c = c\<lparr>c_client := ws\<lparr>ws_connected := False\<rparr>\<rparr>
      in if CD_IsRunning (c_dispatcher c) then c\<lparr>c_dispatcher := CD_Stop (c_dispatcher c)\<rparr> else c)"

section \<open>Sending\<close>

text \<open>
  The errors of the dispatcher's \<open>SendRequest\<close>. The bundle always has a call, so the last case does
  not arise (lemma \<open>SendRequest_no_panic\<close>).
\<close>

fun send_error_value :: "send_error \<Rightarrow> go_error" where
  "send_error_value NoNetwork = Errorf ''cannot SendRequest, no network client was set''"
| "send_error_value (PushFailed QueueFull) = Errorf ''request queue is full, cannot push new element''"
| "send_error_value (NotRunning i) = Errorf (''cannot send request '' @ i @ '', dispatcher not running'')"
| "send_error_value NilCallPanic = Errorf []"

text \<open>\<open>uniqueId\<close> is what the message id generator returns.\<close>

definition Client_SendRequestCtx ::
  "env \<Rightarrow> string \<Rightarrow> ctx option \<Rightarrow> message_body \<Rightarrow> 'z Client_scheme \<Rightarrow> (go_error + string) \<times> 'z Client_scheme" where
  "Client_SendRequestCtx E uniqueId ctx req c =
     (let ctx = (case ctx of None \<Rightarrow> Background | Some x \<Rightarrow> x) in
      if \<not> CD_IsRunning (c_dispatcher c) then
        (Inl (Errorf ''ocppj client is not started, couldn't send request''), c)
      else case CreateCall E uniqueId (c_Endpoint c) req of
             Inl err \<Rightarrow> (Inl err, c)
           | Inr call \<Rightarrow>
               (case Call_MarshalJSON E call of
                  Inl err \<Rightarrow> (Inl err, c)
                | Inr jsonMessage \<Rightarrow>
                    (case CD_SendRequest \<lparr>bundle_Call = Some call, bundle_Data = Some jsonMessage,
                            bundle_Ctx = Some ctx\<rparr> (c_dispatcher c) of
                       (Some err, d) \<Rightarrow> (Inl (send_error_value err), c\<lparr>c_dispatcher := d\<rparr>)
                     | (None, d) \<Rightarrow> (Inr (Call_UniqueId call), c\<lparr>c_dispatcher := d\<rparr>))))"

definition Client_SendRequest ::
  "env \<Rightarrow> string \<Rightarrow> message_body \<Rightarrow> 'z Client_scheme \<Rightarrow> (go_error + string) \<times> 'z Client_scheme" where
  "Client_SendRequest E uniqueId req c = Client_SendRequestCtx E uniqueId (Some Background) req c"

definition client_write :: "outside \<Rightarrow> string \<Rightarrow> string \<Rightarrow> 'z Client_scheme \<Rightarrow> go_error option \<times> 'z Client_scheme" where
  "client_write W rid jsonMessage c =
     (case net_write W jsonMessage of
        Some err \<Rightarrow> (Some (NewError GenericError (error_text err) rid), c)
      | None \<Rightarrow> (None, c\<lparr>c_sent := c_sent c @ [jsonMessage]\<rparr>))"

definition Client_SendResponse ::
  "env \<Rightarrow> outside \<Rightarrow> string \<Rightarrow> message_body \<Rightarrow> 'z Client_scheme \<Rightarrow> go_error option \<times> 'z Client_scheme" where
  "Client_SendResponse E W rid response c =
     (case CreateCallResult E (c_Endpoint c) response rid of
        Inl err \<Rightarrow> (Some err, c)
      | Inr callResult \<Rightarrow>
          (case CallResult_MarshalJSON E callResult of
             Inl err \<Rightarrow> (Some (NewError GenericError (error_text err) rid), c)
           | Inr jsonMessage \<Rightarrow> client_write W rid jsonMessage c))"

definition Client_SendError ::
  "env \<Rightarrow> outside \<Rightarrow> string \<Rightarrow> string \<Rightarrow> string \<Rightarrow> json iface \<Rightarrow> 'z Client_scheme \<Rightarrow> go_error option \<times> 'z Client_scheme" where
  "Client_SendError E W rid errorCode description details c =
     (case CreateCallError E rid errorCode description details of
        Inl err \<Rightarrow> (Some err, c)
      | Inr callError \<Rightarrow>
          (case CallError_MarshalJSON E callError of
             Inl err \<Rightarrow> (Some (NewError GenericError (error_text err) rid), c)
           | Inr jsonMessage \<Rightarrow> client_write W rid jsonMessage c))"

definition client_internal_error :: "env \<Rightarrow> outside \<Rightarrow> string \<Rightarrow> ('z Client_scheme, unit) code" where
  "client_internal_error E W rid c =
     (Returns (), snd (Client_SendError E W rid InternalError ''internal error while handling request'' None c))"

definition Client_RecoverPanicGoroutine ::
  "env \<Rightarrow> outside \<Rightarrow> 'z Client_scheme client_handlers \<Rightarrow> HandlerKind \<Rightarrow> string \<Rightarrow> string \<Rightarrow> bool \<Rightarrow>
     ('z Client_scheme, unit) code \<Rightarrow> 'z Client_scheme \<Rightarrow> 'z Client_scheme" where
  "Client_RecoverPanicGoroutine E W H kind action rid sendCallError handler c =
     recoverHandler (debug_Stack H) kind [] action rid (onHandlerPanic H)
       (if sendCallError then Some (client_internal_error E W rid) else None) handler c"

section \<open>Receiving\<close>

text \<open>
  The error branch of \<open>ocppMessageHandler\<close>: run the hook on the error, choose the error to send, send
  it when it has a message id. The error is a pointer: what the hook writes through it stays, unless
  the hook panics.
\<close>

definition client_run_hook ::
  "'z Client_scheme client_handlers \<Rightarrow> go_error \<Rightarrow> string \<Rightarrow> json list \<Rightarrow> 'z Client_scheme \<Rightarrow> go_error \<times> 'z Client_scheme" where
  "client_run_hook H ocppErr rawMessage parsedJson c =
     (case invalidMessageHook H of
        None \<Rightarrow> (ocppErr, c)
      | Some hook \<Rightarrow>
          (case hook ocppErr rawMessage parsedJson c of
             (Panics v, c) \<Rightarrow>
               (ocppErr, reportHandlerPanic (debug_Stack H) v InvalidMessageHandlerKind [] [] (MessageId ocppErr)
                           (onHandlerPanic H) None c)
           | (Returns (Some err2, _), c) \<Rightarrow> (set_MessageId (MessageId ocppErr) err2, c)
           | (Returns (None, written), c) \<Rightarrow> (written, c)))"

definition client_invalid_message ::
  "env \<Rightarrow> outside \<Rightarrow> 'z Client_scheme client_handlers \<Rightarrow> go_error \<Rightarrow> string \<Rightarrow> json list \<Rightarrow> 'z Client_scheme \<Rightarrow> go_error \<times> 'z Client_scheme" where
  "client_invalid_message E W H ocppErr rawMessage parsedJson c =
     (let (err, c) = client_run_hook H ocppErr rawMessage parsedJson c in
      if MessageId err \<noteq> [] then
        (case Client_SendError E W (MessageId err) (Code err) (Description err) None c of
           (Some err2, c) \<Rightarrow> (err2, c)
         | (None, c) \<Rightarrow> (err, c))
      else (err, c))"

text \<open>
  The \<open>switch\<close> over a parsed message. \<open>ParseMessage\<close> gives every message the type id of its struct,
  so selecting by the id is selecting by the constructor.
\<close>

definition client_complete :: "string \<Rightarrow> 'z Client_scheme \<Rightarrow> bool \<times> 'z Client_scheme" where
  "client_complete rid c =
     (let (won, d) = CD_CompleteRequest rid (c_dispatcher c) in (won, c\<lparr>c_dispatcher := d\<rparr>))"

fun client_route :: "env \<Rightarrow> outside \<Rightarrow> 'z Client_scheme client_handlers \<Rightarrow> Message \<Rightarrow> 'z Client_scheme \<Rightarrow> 'z Client_scheme" where
  "client_route E W H (MCall call) c =
     (case requestHandler H of
        None \<Rightarrow> c
      | Some h \<Rightarrow>
          recoverHandler (debug_Stack H) RequestHandlerKind [] (Call_Action call) (Call_UniqueId call)
            (onHandlerPanic H) (Some (client_internal_error E W (Call_UniqueId call)))
            (h (Call_Payload call) (Call_UniqueId call) (Call_Action call)) c)"
| "client_route E W H (MCallResult callResult) c =
     (let (won, c) = client_complete (CallResult_UniqueId callResult) c in
      case (if won then responseHandler H else None) of
        None \<Rightarrow> c
      | Some h \<Rightarrow>
          recoverHandler (debug_Stack H) ResponseHandlerKind [] [] (CallResult_UniqueId callResult)
            (onHandlerPanic H) None (h (CallResult_Payload callResult) (CallResult_UniqueId callResult)) c)"
| "client_route E W H (MCallError callError) c =
     (let (won, c) = client_complete (CallError_UniqueId callError) c in
      case (if won then errorHandler H else None) of
        None \<Rightarrow> c
      | Some h \<Rightarrow>
          recoverHandler (debug_Stack H) ErrorHandlerKind [] [] (CallError_UniqueId callError)
            (onHandlerPanic H) None
            (h (NewError (CallError_ErrorCode callError) (CallError_ErrorDescription callError)
                  (CallError_UniqueId callError)) (CallError_ErrorDetails callError)) c)"

text \<open>
  The whole handler. A failing type assertion \<open>err.(*ocpp.Error)\<close> panics, and so does a panic of
  \<open>ParseMessage\<close>, which is outside every recovery.
\<close>

definition Client_ocppMessageHandler ::
  "env \<Rightarrow> outside \<Rightarrow> 'z Client_scheme client_handlers \<Rightarrow> string \<Rightarrow> 'z Client_scheme \<Rightarrow> (string, go_error option) outcome \<times> 'z Client_scheme" where
  "Client_ocppMessageHandler E W H rawData c =
     (case ParseRawJsonMessage E rawData of
        Inl err \<Rightarrow> (Returns (Some err), c)
      | Inr parsedJson \<Rightarrow>
          (case ParseMessage E (c_Endpoint c) parsedJson (pendingState (c_dispatcher c)) of
             Panics v \<Rightarrow> (Panics v, c)
           | Returns (Inl (OcppError co de mi ma ca)) \<Rightarrow>
               (let (err, c) = client_invalid_message E W H (OcppError co de mi ma ca) rawData parsedJson c
                in (Returns (Some err), c))
           | Returns (Inl _) \<Rightarrow> (Panics ''interface conversion'', c)
           | Returns (Inr None) \<Rightarrow> (Returns None, c)
           | Returns (Inr (Some message)) \<Rightarrow> (Returns None, client_route E W H message c)))"

definition Client_HandleFailedResponseError ::
  "env \<Rightarrow> outside \<Rightarrow> string \<Rightarrow> go_error option \<Rightarrow> string \<Rightarrow> ('z Client_scheme, unit) code" where
  "Client_HandleFailedResponseError E W rid err featureName c =
     (case failed_response_error (endpoint_dialect (c_Endpoint c)) rid err featureName of
        Panics v \<Rightarrow> (Panics v, c)
      | Returns responseErr \<Rightarrow>
          (Returns (), snd (Client_SendError E W rid (Code responseErr) (Description responseErr) None c)))"

definition Client_onDisconnected ::
  "env \<Rightarrow> outside \<Rightarrow> 'z Client_scheme client_handlers \<Rightarrow> go_error \<Rightarrow> 'z Client_scheme \<Rightarrow> 'z Client_scheme" where
  "Client_onDisconnected E W H err c =
     (let c = c\<lparr>c_dispatcher := CD_Pause (c_dispatcher c)\<rparr> in
      case onDisconnectedHandler H of
        None \<Rightarrow> c
      | Some h \<Rightarrow> Client_RecoverPanicGoroutine E W H DisconnectHandlerKind [] [] False (h err) c)"

definition Client_onReconnected :: "env \<Rightarrow> outside \<Rightarrow> 'z Client_scheme client_handlers \<Rightarrow> 'z Client_scheme \<Rightarrow> 'z Client_scheme" where
  "Client_onReconnected E W H c =
     (let c = (case onReconnectedHandler H of
                 None \<Rightarrow> c
               | Some h \<Rightarrow> Client_RecoverPanicGoroutine E W H ReconnectHandlerKind [] [] False h c)
      in c\<lparr>c_dispatcher := CD_Resume (c_dispatcher c)\<rparr>)"

section \<open>Lemmas\<close>

lemma SendRequest_no_panic: "bundle_Call b = Some call \<Longrightarrow> fst (CD_SendRequest b d) \<noteq> Some NilCallPanic"
  by (simp add: CD_SendRequest_def Let_def split: sum.splits)

definition network_up :: "outside \<Rightarrow> bool" where
  "network_up W \<longleftrightarrow> (\<forall>t. net_write W t = None)"

lemma Client_SendError_sent:
  assumes "json_array_laws E" and "accepts_call_errors E" and "network_up W" and "id_ok rid" and "IsErrorCodeValid code"
  shows "Client_SendError E W rid code descr None c = (None, c\<lparr>c_sent := c_sent c @ [error_frame E rid code descr]\<rparr>)"
  using CreateCallError_frame [OF assms(1,2,4,5), of descr] assms(3)
  by (auto simp: Client_SendError_def client_write_def network_up_def)

lemma client_write_cases:
  "client_write W rid t c = (None, c\<lparr>c_sent := c_sent c @ [t]\<rparr>) \<or>
   (\<exists>e. client_write W rid t c = (Some (NewError GenericError e rid), c))"
  by (auto simp: client_write_def split: option.splits)

lemma Client_SendResponse_cases:
  "(\<exists>cr t. CreateCallResult E (c_Endpoint c) resp rid = Inr cr \<and> CallResult_MarshalJSON E cr = Inr t \<and>
     Client_SendResponse E W rid resp c = (None, c\<lparr>c_sent := c_sent c @ [t]\<rparr>)) \<or>
   (\<exists>err. Client_SendResponse E W rid resp c = (Some err, c) \<and> response_error rid err)"
proof (cases "CreateCallResult E (c_Endpoint c) resp rid")
  case (Inl err)
  with CreateCallResult_response_error [OF Inl] show ?thesis by (auto simp: Client_SendResponse_def)
next
  case (Inr cr)
  show ?thesis
  proof (cases "CallResult_MarshalJSON E cr")
    case (Inr t)
    with \<open>CreateCallResult E (c_Endpoint c) resp rid = Inr cr\<close> client_write_cases [of W rid t c]
    show ?thesis by (auto simp: Client_SendResponse_def)
  qed (use Inr in \<open>auto simp: Client_SendResponse_def\<close>)
qed

interpretation cr: responder E rid "network_up W" c_Endpoint "\<lambda>t c. c\<lparr>c_sent := c_sent c @ [t]\<rparr>"
    "Client_SendResponse E W rid" "\<lambda>code d. Client_SendError E W rid code d None"
  for E rid W
  by unfold_locales (use Client_SendResponse_cases Client_SendError_sent in blast)+

text \<open>What the facades do with a response: send it, and on an error send that error instead.\<close>

definition client_reply :: "env \<Rightarrow> outside \<Rightarrow> string \<Rightarrow> message_body \<Rightarrow> 'z Client_scheme \<Rightarrow> 'z Client_scheme" where
  "client_reply E W rid resp c =
     (case Client_SendResponse E W rid resp c of
        (None, c) \<Rightarrow> c
      | (Some err, c) \<Rightarrow> snd (Client_HandleFailedResponseError E W rid (Some err) (GetFeatureName resp) c))"

text \<open>
  A response is never silently dropped. With the network up and a known dialect,
  \<open>SendResponse\<close> followed by \<open>HandleFailedResponseError\<close> on its error puts exactly one frame on the
  wire for the request id: the serialised result, or, when the response is unsupported, fails
  validation or cannot be serialised, a CALL\_ERROR for that id with a valid code.
\<close>

theorem client_reply_exactly_one:
  assumes "json_array_laws E" and "accepts_call_errors E" and "network_up W" and "id_ok rid"
    and "known_dialect (c_Endpoint c)"
  shows "\<exists>frame. client_reply E W rid resp c = c\<lparr>c_sent := c_sent c @ [frame]\<rparr> \<and>
    (if fst (Client_SendResponse E W rid resp c) = None
     then \<exists>cr. CreateCallResult E (c_Endpoint c) resp rid = Inr cr \<and> CallResult_MarshalJSON E cr = Inr frame
     else \<exists>code d. IsErrorCodeValid code \<and> frame = error_frame E rid code d)"
proof -
  have "client_reply E W rid resp c = cr.reply rid E W resp (GetFeatureName resp) c"
    by (auto simp: client_reply_def cr.reply_def cr.handle_failed_def Client_HandleFailedResponseError_def
        split: prod.splits option.splits outcome.splits)
  with cr.reply_exactly_one [OF assms(1-5)] show ?thesis by simp
qed

lemma client_message_returns:
  assumes "known_dialect (c_Endpoint c)" and "\<And>i. slot (pendingState (c_dispatcher c)) \<noteq> Some (i, None)"
  shows "\<exists>err c'. Client_ocppMessageHandler E W H t c = (Returns err, c')"
proof (cases "ParseRawJsonMessage E t")
  case (Inr arr)
  show ?thesis
  proof (rule ParseMessage_total [OF assms, of E arr])
    fix m assume "ParseMessage E (c_Endpoint c) arr (pendingState (c_dispatcher c)) = Returns (Inr m)"
    with Inr show ?thesis by (cases m) (simp_all add: Client_ocppMessageHandler_def)
  next
    fix co d i
    assume "ParseMessage E (c_Endpoint c) arr (pendingState (c_dispatcher c)) = Returns (Inl (NewError co d i))"
    with Inr show ?thesis by (simp add: Client_ocppMessageHandler_def NewError_def split: prod.splits)
  qed
qed (simp add: Client_ocppMessageHandler_def)

text \<open>
  No message and no user code brings the read loop down. On an endpoint with a known dialect,
  with no request with a nil payload pending, the message handler returns (it does not panic) for every
  input, whatever the registered handlers, the hook and the panic callback do, panicking included.
\<close>

theorem client_handler_never_panics:
  assumes "known_dialect (c_Endpoint c)" and "\<And>i. slot (pendingState (c_dispatcher c)) \<noteq> Some (i, None)"
  shows "\<exists>err c'. Client_ocppMessageHandler E W H t c = (Returns err, c')"
  using client_message_returns [OF assms] .

text \<open>The invocation of the handler for a response or an error, with its recovery.\<close>

fun client_deliver :: "'z Client_scheme client_handlers \<Rightarrow> Message \<Rightarrow> 'z Client_scheme \<Rightarrow> 'z Client_scheme" where
  "client_deliver H (MCallResult r) c =
     (case responseHandler H of
        None \<Rightarrow> c
      | Some h \<Rightarrow> recoverHandler (debug_Stack H) ResponseHandlerKind [] [] (CallResult_UniqueId r)
                    (onHandlerPanic H) None (h (CallResult_Payload r) (CallResult_UniqueId r)) c)"
| "client_deliver H (MCallError e) c =
     (case errorHandler H of
        None \<Rightarrow> c
      | Some h \<Rightarrow> recoverHandler (debug_Stack H) ErrorHandlerKind [] [] (CallError_UniqueId e)
                    (onHandlerPanic H) None
                    (h (NewError (CallError_ErrorCode e) (CallError_ErrorDescription e) (CallError_UniqueId e))
                       (CallError_ErrorDetails e)) c)"
| "client_deliver H (MCall call) c = c"

lemma client_route_answer:
  assumes "\<And>call. m \<noteq> MCall call"
  shows "client_route E W H m c =
    (let (won, c1) = client_complete (GetUniqueId m) c in if won then client_deliver H m c1 else c1)"
  using assms by (cases m) (auto split: prod.splits)

lemma client_complete_front:
  assumes "elements (requestQueue (c_dispatcher c)) = el # els" and "has_id rid el"
    and "slot (pendingState (c_dispatcher c)) = Some (rid, r)"
  shows "\<exists>d. client_complete rid c = (True, c\<lparr>c_dispatcher := d\<rparr>) \<and> elements (requestQueue d) = els \<and>
    slot (pendingState d) = None \<and> events d = events (c_dispatcher c)"
  using assms
  by (intro exI [of _ "snd (CD_CompleteRequest rid (c_dispatcher c))"])
    (simp add: client_complete_def CompleteRequest_cases complete_delete_def signal_ready_def cs.pending_del)

lemma client_complete_lost:
  "(\<And>el els. elements (requestQueue (c_dispatcher c)) = el # els \<Longrightarrow> \<not> has_id rid el) \<Longrightarrow>
   client_complete rid c = (False, c)"
  by (auto simp: client_complete_def CompleteRequest_cases split: list.splits)

text \<open>
  C34: a response or an error is delivered exactly once and only to the request it answers. When the
  answered request is at the front of the queue, it is removed and its pending entry cleared, and the
  handler runs once, on the resulting state, with the payload and id of the message; when another
  completion has taken the request already, nothing happens. On every state in which the id is not
  pending any more, in particular when the same bytes arrive again, the message is ignored.
\<close>

theorem client_answers_delivered_once:
  fixes H :: "'z Client_scheme client_handlers"
  assumes "ParseRawJsonMessage E t = Inr arr"
    and "ParseMessage E (c_Endpoint c) arr (pendingState (c_dispatcher c)) = Returns (Inr (Some m))"
    and "\<And>call. m \<noteq> MCall call"
  shows "(case elements (requestQueue (c_dispatcher c)) of
      el # els \<Rightarrow>
        if has_id (GetUniqueId m) el then
          \<exists>d. elements (requestQueue d) = els \<and> slot (pendingState d) = None \<and> events d = events (c_dispatcher c) \<and>
            Client_ocppMessageHandler E W H t c = (Returns None, client_deliver H m (c\<lparr>c_dispatcher := d\<rparr>))
        else Client_ocppMessageHandler E W H t c = (Returns None, c)
    | [] \<Rightarrow> Client_ocppMessageHandler E W H t c = (Returns None, c)) \<and>
    (\<forall>c'. (\<forall>r. slot (pendingState (c_dispatcher c')) \<noteq> Some (GetUniqueId m, r)) \<longrightarrow>
       Client_ocppMessageHandler E W H t c' = (Returns None, c'))"
proof (intro conjI allI impI)
  have h: "Client_ocppMessageHandler E W H t c = (Returns None, client_route E W H m c)"
    using assms(1,2) by (simp add: Client_ocppMessageHandler_def)
  obtain r where r: "slot (pendingState (c_dispatcher c)) = Some (GetUniqueId m, r)"
    using ParseMessage_accepts [OF assms(2)] assms(3) by (cases m) auto
  note route = h client_route_answer [OF assms(3)]
  show "case elements (requestQueue (c_dispatcher c)) of
      el # els \<Rightarrow>
        if has_id (GetUniqueId m) el then
          \<exists>d. elements (requestQueue d) = els \<and> slot (pendingState d) = None \<and> events d = events (c_dispatcher c) \<and>
            Client_ocppMessageHandler E W H t c = (Returns None, client_deliver H m (c\<lparr>c_dispatcher := d\<rparr>))
        else Client_ocppMessageHandler E W H t c = (Returns None, c)
    | [] \<Rightarrow> Client_ocppMessageHandler E W H t c = (Returns None, c)"
  proof (cases "\<exists>el els. elements (requestQueue (c_dispatcher c)) = el # els \<and> has_id (GetUniqueId m) el")
    case True
    then obtain el els where q: "elements (requestQueue (c_dispatcher c)) = el # els" "has_id (GetUniqueId m) el"
      by blast
    from client_complete_front [OF q r] q show ?thesis by (fastforce simp: route)
  next
    case False
    then have "client_complete (GetUniqueId m) c = (False, c)" by (intro client_complete_lost) blast
    with False show ?thesis by (auto simp: route split: list.split)
  qed
next
  fix c' :: "'z Client_scheme" assume "\<forall>r. slot (pendingState (c_dispatcher c')) \<noteq> Some (GetUniqueId m, r)"
  then show "Client_ocppMessageHandler E W H t c' = (Returns None, c')"
    using ParseMessage_again [OF assms(2,3)] assms(1) by (simp add: Client_ocppMessageHandler_def)
qed

text \<open>
  C35: the answer to an invalid message. When parsing fails for a message with a usable id, exactly one
  CALL\_ERROR goes back. Without a hook, and when the hook panics, it carries the id, code and text of
  the parse error, and the caller gets the parse error; when the hook returns an error, its code and
  text are sent, but still for the id of the message. When the hook returns nil, the error is sent as
  the hook left it behind the pointer it was given: the hook can even change the id.
\<close>

theorem client_invalid_message_reply:
  assumes "json_array_laws E" and "accepts_call_errors E" and "network_up W"
    and "ParseRawJsonMessage E t = Inr arr"
    and "ParseMessage E (c_Endpoint c) arr (pendingState (c_dispatcher c)) = Returns (Inl (NewError code descr i))"
    and "id_ok i" and "IsErrorCodeValid code"
  shows "(invalidMessageHook H = None \<longrightarrow>
      Client_ocppMessageHandler E W H t c =
        (Returns (Some (NewError code descr i)), c\<lparr>c_sent := c_sent c @ [error_frame E i code descr]\<rparr>)) \<and>
    (\<forall>hook v c1. invalidMessageHook H = Some hook \<longrightarrow> hook (NewError code descr i) t arr c = (Panics v, c1) \<longrightarrow>
      (\<exists>c2. c2 = reportHandlerPanic (debug_Stack H) v InvalidMessageHandlerKind [] [] i (onHandlerPanic H) None c1 \<and>
        Client_ocppMessageHandler E W H t c =
          (Returns (Some (NewError code descr i)), c2\<lparr>c_sent := c_sent c2 @ [error_frame E i code descr]\<rparr>))) \<and>
    (\<forall>hook co de j ma ca w c1. invalidMessageHook H = Some hook \<longrightarrow> IsErrorCodeValid co \<longrightarrow>
      hook (NewError code descr i) t arr c = (Returns (Some (OcppError co de j ma ca), w), c1) \<longrightarrow>
        Client_ocppMessageHandler E W H t c =
          (Returns (Some (OcppError co de i ma ca)), c1\<lparr>c_sent := c_sent c1 @ [error_frame E i co de]\<rparr>)) \<and>
    (\<forall>hook co de j ma ca c1. invalidMessageHook H = Some hook \<longrightarrow> IsErrorCodeValid co \<longrightarrow> id_ok j \<longrightarrow>
      hook (NewError code descr i) t arr c = (Returns (None, OcppError co de j ma ca), c1) \<longrightarrow>
        Client_ocppMessageHandler E W H t c =
          (Returns (Some (OcppError co de j ma ca)), c1\<lparr>c_sent := c_sent c1 @ [error_frame E j co de]\<rparr>))"
proof -
  have ne: "j \<noteq> []" if "id_ok j" for j using that by (auto simp: id_ok_def)
  note sent = Client_SendError_sent [OF assms(1-3)]
  have h: "Client_ocppMessageHandler E W H t c =
    (let (err, c) = client_invalid_message E W H (NewError code descr i) t arr c in (Returns (Some err), c))"
    using assms(4,5) by (simp add: Client_ocppMessageHandler_def NewError_def)
  have run: "client_invalid_message E W H (NewError code descr i) t arr c =
      (OcppError co de j ma ca, c1\<lparr>c_sent := c_sent c1 @ [error_frame E j co de]\<rparr>)"
    if "client_run_hook H (NewError code descr i) t arr c = (OcppError co de j ma ca, c1)"
      "id_ok j" "IsErrorCodeValid co" for co de j ma ca c1
    using that ne by (simp add: client_invalid_message_def sent)
  show ?thesis
    using assms(6,7) run by (auto simp: h client_run_hook_def NewError_def)
qed

text \<open>
  A request whose handler panics is still answered. The panic is reported once, with the action,
  the id and the panic's value, to the panic callback; then, even if that callback panics too, a
  CALL\_ERROR with code InternalError and the request's id goes back to the peer.
\<close>

theorem client_panicking_request_answered:
  assumes "json_array_laws E" and "accepts_call_errors E" and "network_up W"
    and "ParseRawJsonMessage E t = Inr arr"
    and "ParseMessage E (c_Endpoint c) arr (pendingState (c_dispatcher c)) = Returns (Inr (Some (MCall call)))"
    and "id_ok (Call_UniqueId call)" and "requestHandler H = Some h"
    and "h (Call_Payload call) (Call_UniqueId call) (Call_Action call) c = (Panics v, c1)"
    and "c2 = (case onHandlerPanic H of
        None \<Rightarrow> c1
      | Some f \<Rightarrow> snd (f \<lparr>hp_ClientID = [], hp_Kind = RequestHandlerKind, hp_Action = Call_Action call,
          hp_RequestID = Call_UniqueId call, hp_Value = v, hp_Stack = debug_Stack H\<rparr> c1))"
  shows "Client_ocppMessageHandler E W H t c =
    (Returns None, c2\<lparr>c_sent := c_sent c2 @
       [error_frame E (Call_UniqueId call) InternalError ''internal error while handling request'']\<rparr>)"
  using assms(4-8)
  by (simp add: Client_SendError_sent [OF assms(1-3,6)] Client_ocppMessageHandler_def recoverHandler_def reportHandlerPanic_def guardedCall_def
      client_internal_error_def assms(9) Let_def split: option.split)

section \<open>Witnesses\<close>

definition up_outside :: outside where
  "up_outside = \<lparr>net_write = \<lambda>_. None, ctx_err = \<lambda>_. None\<rparr>"

definition sample_client :: Client where
  "sample_client = \<lparr>c_Endpoint = sample_endpoint,
     c_client = \<lparr>ws_connected = True, ws_url = [], ws_onMessage = True, ws_onDisconnected = EndpointHandler,
       ws_onReconnected = True\<rparr>,
     c_Id = ''cp'',
     c_dispatcher = (sample_dispatcher [''1'', ''2''])\<lparr>pendingState :=
       \<lparr>requestID = ''1'', pendingRequest = Some heartbeat\<rparr>\<rparr>,
     c_sent = []\<rparr>"

definition panicking :: "(Client, unit) code" where
  "panicking c = (Panics ''boom'', c)"

definition panicking_handlers :: "Client client_handlers" where
  "panicking_handlers = no_client_handlers
     \<lparr>requestHandler := Some (\<lambda>_ _ _. panicking), responseHandler := Some (\<lambda>_ _. panicking),
      onHandlerPanic := Some (\<lambda>_. panicking), invalidMessageHook := Some (\<lambda>_ _ _ c. (Panics ''hook'', c))\<rparr>"

lemma sample_client_slot [simp]:
  "slot (pendingState (c_dispatcher sample_client)) =
     Some (''1'', Some heartbeat)"
  by (simp add: sample_client_def slot_def)

lemma up_outside_up [simp]: "network_up up_outside"
  by (simp add: network_up_def up_outside_def)

lemma sample_client_endpoint [simp]:
  "c_Endpoint sample_client = sample_endpoint" "endpoint_dialect sample_endpoint = V16" "c_sent sample_client = []"
  by (simp_all add: sample_client_def sample_endpoint_def)

lemma sample_client_queue [simp]:
  "elements (requestQueue (c_dispatcher sample_client)) =
     [Some (Bundle (sample_bundle ''1'')), Some (Bundle (sample_bundle ''2''))]"
  by (simp add: sample_client_def sample_dispatcher_def NewDefaultClientDispatcher_def)

lemma has_id_sample [simp]: "has_id i (Some (Bundle (sample_bundle j))) \<longleftrightarrow> i = j"
  by (auto simp: has_id_def sample_bundle_def sample_call_def)

lemma no_handlers_deliver [simp]: "client_deliver no_client_handlers m c = c"
  by (cases m) (simp_all add: no_client_handlers_def)

theorem client_reply_exactly_one_witness:
  "\<exists>frame. c_sent (client_reply sample_env up_outside ''7'' \<lparr>GetFeatureName = ''Unknown'', body = JObject []\<rparr>
     sample_client) = [frame]"
  using client_reply_exactly_one [OF sample_laws(1) sample_accepts_call_errors, of up_outside "''7''" sample_client
      "\<lparr>GetFeatureName = ''Unknown'', body = JObject []\<rparr>"]
  by (auto simp: id_ok_def sample_client_def sample_endpoint_def)

theorem client_handler_never_panics_witness:
  "\<exists>err c'. Client_ocppMessageHandler sample_env up_outside panicking_handlers ''text'' sample_client =
     (Returns err, c')"
  by (rule client_handler_never_panics) simp_all

theorem client_answers_delivered_once_witness:
  "\<exists>d. elements (requestQueue d) = [Some (Bundle (sample_bundle ''2''))] \<and>
     Client_ocppMessageHandler sample_env up_outside no_client_handlers
       (json_text sample_env (JArray [JNumber (of_int CALL_RESULT), JString ''1'', JObject []])) sample_client =
       (Returns None, sample_client\<lparr>c_dispatcher := d\<rparr>)"
  using client_answers_delivered_once [OF ParseRaw_json_text [OF sample_laws(1)], of sample_client
      "[JNumber (of_int CALL_RESULT), JString ''1'', JObject []]" "MCallResult (heartbeat_result ''1'')"
      up_outside no_client_handlers]
  by (simp add: sample_result_parsed heartbeat_result_def del: client_deliver.simps) blast

theorem client_invalid_message_reply_witness:
  "c_sent (snd (Client_ocppMessageHandler sample_env up_outside panicking_handlers
     (json_text sample_env (JArray [JNumber (of_int CALL), JString ''9'', JString ''Foo'', JObject []])) sample_client)) =
   [error_frame sample_env ''9'' NotSupported ''Unsupported feature Foo'']"
  using client_invalid_message_reply [OF sample_laws(1) sample_accepts_call_errors up_outside_up
      ParseRaw_json_text [OF sample_laws(1)], of sample_client
      "[JNumber (of_int CALL), JString ''9'', JString ''Foo'', JObject []]" NotSupported
      "''Unsupported feature Foo''" "''9''" panicking_handlers]
  by (simp add: sample_unsupported_parsed id_ok_def panicking_handlers_def reportHandlerPanic_def
      guardedCall_def panicking_def)

theorem client_panicking_request_answered_witness:
  "c_sent (snd (Client_ocppMessageHandler sample_env up_outside panicking_handlers
     (json_text sample_env (JArray [JNumber (of_int CALL), JString ''9'', JString ''Heartbeat'', JObject []])) sample_client)) =
   [error_frame sample_env ''9'' InternalError ''internal error while handling request'']"
  using client_panicking_request_answered [OF sample_laws(1) sample_accepts_call_errors up_outside_up
      ParseRaw_json_text [OF sample_laws(1)], of sample_client
      "[JNumber (of_int CALL), JString ''9'', JString ''Heartbeat'', JObject []]" "heartbeat_call ''9''"
      panicking_handlers "\<lambda>_ _ _. panicking" "''boom''" sample_client sample_client]
  by (simp add: sample_call_parsed id_ok_def panicking_handlers_def panicking_def heartbeat_call_def)

end
