(* ===== verification/Ocpp16_Profiles.thy ===== *)
theory Ocpp16_Profiles
  imports Ocpp_Core
begin

text \<open>
  The features and profiles of OCPP 1.6: the packages under \<open>ocpp1.6\<close> and \<open>DefaultProfiles\<close> of
  \<open>v16.go\<close>. A \<open>reflect.Type\<close> is the qualified name of the type. The theory shows that the default
  profiles are a partition of the features, so that every action has exactly one profile and one pair
  of types.
\<close>

section \<open>Features\<close>

named_theorems names16 "the names of the profiles and features of OCPP 1.6"
named_theorems features16 "the features of OCPP 1.6"

text \<open>Package \<open>core\<close>.\<close>

definition core_ProfileName :: string where
  [names16]: "core_ProfileName = ''Core''"

definition AuthorizeFeatureName :: string where
  [names16]: "AuthorizeFeatureName = ''Authorize''"

definition AuthorizeFeature :: Feature where
  [features16]: "AuthorizeFeature = \<lparr>FeatureName = AuthorizeFeatureName, GetRequestType = ''core.AuthorizeRequest'',
     GetResponseType = ''core.AuthorizeConfirmation''\<rparr>"

definition BootNotificationFeatureName :: string where
  [names16]: "BootNotificationFeatureName = ''BootNotification''"

definition BootNotificationFeature :: Feature where
  [features16]: "BootNotificationFeature = \<lparr>FeatureName = BootNotificationFeatureName, GetRequestType = ''core.BootNotificationRequest'',
     GetResponseType = ''core.BootNotificationConfirmation''\<rparr>"

definition ChangeAvailabilityFeatureName :: string where
  [names16]: "ChangeAvailabilityFeatureName = ''ChangeAvailability''"

definition ChangeAvailabilityFeature :: Feature where
  [features16]: "ChangeAvailabilityFeature = \<lparr>FeatureName = ChangeAvailabilityFeatureName, GetRequestType = ''core.ChangeAvailabilityRequest'',
     GetResponseType = ''core.ChangeAvailabilityConfirmation''\<rparr>"

definition ChangeConfigurationFeatureName :: string where
  [names16]: "ChangeConfigurationFeatureName = ''ChangeConfiguration''"

definition ChangeConfigurationFeature :: Feature where
  [features16]: "ChangeConfigurationFeature = \<lparr>FeatureName = ChangeConfigurationFeatureName, GetRequestType = ''core.ChangeConfigurationRequest'',
     GetResponseType = ''core.ChangeConfigurationConfirmation''\<rparr>"

definition ClearCacheFeatureName :: string where
  [names16]: "ClearCacheFeatureName = ''ClearCache''"

definition ClearCacheFeature :: Feature where
  [features16]: "ClearCacheFeature = \<lparr>FeatureName = ClearCacheFeatureName, GetRequestType = ''core.ClearCacheRequest'',
     GetResponseType = ''core.ClearCacheConfirmation''\<rparr>"

definition DataTransferFeatureName :: string where
  [names16]: "DataTransferFeatureName = ''DataTransfer''"

definition DataTransferFeature :: Feature where
  [features16]: "DataTransferFeature = \<lparr>FeatureName = DataTransferFeatureName, GetRequestType = ''core.DataTransferRequest'',
     GetResponseType = ''core.DataTransferConfirmation''\<rparr>"

definition GetConfigurationFeatureName :: string where
  [names16]: "GetConfigurationFeatureName = ''GetConfiguration''"

definition GetConfigurationFeature :: Feature where
  [features16]: "GetConfigurationFeature = \<lparr>FeatureName = GetConfigurationFeatureName, GetRequestType = ''core.GetConfigurationRequest'',
     GetResponseType = ''core.GetConfigurationConfirmation''\<rparr>"

definition HeartbeatFeatureName :: string where
  [names16]: "HeartbeatFeatureName = ''Heartbeat''"

definition HeartbeatFeature :: Feature where
  [features16]: "HeartbeatFeature = \<lparr>FeatureName = HeartbeatFeatureName, GetRequestType = ''core.HeartbeatRequest'',
     GetResponseType = ''core.HeartbeatConfirmation''\<rparr>"

definition MeterValuesFeatureName :: string where
  [names16]: "MeterValuesFeatureName = ''MeterValues''"

definition MeterValuesFeature :: Feature where
  [features16]: "MeterValuesFeature = \<lparr>FeatureName = MeterValuesFeatureName, GetRequestType = ''core.MeterValuesRequest'',
     GetResponseType = ''core.MeterValuesConfirmation''\<rparr>"

definition RemoteStartTransactionFeatureName :: string where
  [names16]: "RemoteStartTransactionFeatureName = ''RemoteStartTransaction''"

definition RemoteStartTransactionFeature :: Feature where
  [features16]: "RemoteStartTransactionFeature = \<lparr>FeatureName = RemoteStartTransactionFeatureName, GetRequestType = ''core.RemoteStartTransactionRequest'',
     GetResponseType = ''core.RemoteStartTransactionConfirmation''\<rparr>"

definition RemoteStopTransactionFeatureName :: string where
  [names16]: "RemoteStopTransactionFeatureName = ''RemoteStopTransaction''"

definition RemoteStopTransactionFeature :: Feature where
  [features16]: "RemoteStopTransactionFeature = \<lparr>FeatureName = RemoteStopTransactionFeatureName, GetRequestType = ''core.RemoteStopTransactionRequest'',
     GetResponseType = ''core.RemoteStopTransactionConfirmation''\<rparr>"

definition ResetFeatureName :: string where
  [names16]: "ResetFeatureName = ''Reset''"

definition ResetFeature :: Feature where
  [features16]: "ResetFeature = \<lparr>FeatureName = ResetFeatureName, GetRequestType = ''core.ResetRequest'',
     GetResponseType = ''core.ResetConfirmation''\<rparr>"

definition StartTransactionFeatureName :: string where
  [names16]: "StartTransactionFeatureName = ''StartTransaction''"

definition StartTransactionFeature :: Feature where
  [features16]: "StartTransactionFeature = \<lparr>FeatureName = StartTransactionFeatureName, GetRequestType = ''core.StartTransactionRequest'',
     GetResponseType = ''core.StartTransactionConfirmation''\<rparr>"

definition StatusNotificationFeatureName :: string where
  [names16]: "StatusNotificationFeatureName = ''StatusNotification''"

definition StatusNotificationFeature :: Feature where
  [features16]: "StatusNotificationFeature = \<lparr>FeatureName = StatusNotificationFeatureName, GetRequestType = ''core.StatusNotificationRequest'',
     GetResponseType = ''core.StatusNotificationConfirmation''\<rparr>"

definition StopTransactionFeatureName :: string where
  [names16]: "StopTransactionFeatureName = ''StopTransaction''"

definition StopTransactionFeature :: Feature where
  [features16]: "StopTransactionFeature = \<lparr>FeatureName = StopTransactionFeatureName, GetRequestType = ''core.StopTransactionRequest'',
     GetResponseType = ''core.StopTransactionConfirmation''\<rparr>"

definition UnlockConnectorFeatureName :: string where
  [names16]: "UnlockConnectorFeatureName = ''UnlockConnector''"

definition UnlockConnectorFeature :: Feature where
  [features16]: "UnlockConnectorFeature = \<lparr>FeatureName = UnlockConnectorFeatureName, GetRequestType = ''core.UnlockConnectorRequest'',
     GetResponseType = ''core.UnlockConnectorConfirmation''\<rparr>"

text \<open>Package \<open>localauth\<close>.\<close>

definition localauth_ProfileName :: string where
  [names16]: "localauth_ProfileName = ''LocalAuthListManagement''"

definition GetLocalListVersionFeatureName :: string where
  [names16]: "GetLocalListVersionFeatureName = ''GetLocalListVersion''"

definition GetLocalListVersionFeature :: Feature where
  [features16]: "GetLocalListVersionFeature = \<lparr>FeatureName = GetLocalListVersionFeatureName, GetRequestType = ''localauth.GetLocalListVersionRequest'',
     GetResponseType = ''localauth.GetLocalListVersionConfirmation''\<rparr>"

definition SendLocalListFeatureName :: string where
  [names16]: "SendLocalListFeatureName = ''SendLocalList''"

definition SendLocalListFeature :: Feature where
  [features16]: "SendLocalListFeature = \<lparr>FeatureName = SendLocalListFeatureName, GetRequestType = ''localauth.SendLocalListRequest'',
     GetResponseType = ''localauth.SendLocalListConfirmation''\<rparr>"

text \<open>Package \<open>firmware\<close>.\<close>

definition firmware_ProfileName :: string where
  [names16]: "firmware_ProfileName = ''FirmwareManagement''"

definition DiagnosticsStatusNotificationFeatureName :: string where
  [names16]: "DiagnosticsStatusNotificationFeatureName = ''DiagnosticsStatusNotification''"

definition DiagnosticsStatusNotificationFeature :: Feature where
  [features16]: "DiagnosticsStatusNotificationFeature = \<lparr>FeatureName = DiagnosticsStatusNotificationFeatureName, GetRequestType = ''firmware.DiagnosticsStatusNotificationRequest'',
     GetResponseType = ''firmware.DiagnosticsStatusNotificationConfirmation''\<rparr>"

definition FirmwareStatusNotificationFeatureName :: string where
  [names16]: "FirmwareStatusNotificationFeatureName = ''FirmwareStatusNotification''"

definition FirmwareStatusNotificationFeature :: Feature where
  [features16]: "FirmwareStatusNotificationFeature = \<lparr>FeatureName = FirmwareStatusNotificationFeatureName, GetRequestType = ''firmware.FirmwareStatusNotificationRequest'',
     GetResponseType = ''firmware.FirmwareStatusNotificationConfirmation''\<rparr>"

definition GetDiagnosticsFeatureName :: string where
  [names16]: "GetDiagnosticsFeatureName = ''GetDiagnostics''"

definition GetDiagnosticsFeature :: Feature where
  [features16]: "GetDiagnosticsFeature = \<lparr>FeatureName = GetDiagnosticsFeatureName, GetRequestType = ''firmware.GetDiagnosticsRequest'',
     GetResponseType = ''firmware.GetDiagnosticsConfirmation''\<rparr>"

definition UpdateFirmwareFeatureName :: string where
  [names16]: "UpdateFirmwareFeatureName = ''UpdateFirmware''"

definition UpdateFirmwareFeature :: Feature where
  [features16]: "UpdateFirmwareFeature = \<lparr>FeatureName = UpdateFirmwareFeatureName, GetRequestType = ''firmware.UpdateFirmwareRequest'',
     GetResponseType = ''firmware.UpdateFirmwareConfirmation''\<rparr>"

text \<open>Package \<open>reservation\<close>.\<close>

definition reservation_ProfileName :: string where
  [names16]: "reservation_ProfileName = ''Reservation''"

definition CancelReservationFeatureName :: string where
  [names16]: "CancelReservationFeatureName = ''CancelReservation''"

definition CancelReservationFeature :: Feature where
  [features16]: "CancelReservationFeature = \<lparr>FeatureName = CancelReservationFeatureName, GetRequestType = ''reservation.CancelReservationRequest'',
     GetResponseType = ''reservation.CancelReservationConfirmation''\<rparr>"

definition ReserveNowFeatureName :: string where
  [names16]: "ReserveNowFeatureName = ''ReserveNow''"

definition ReserveNowFeature :: Feature where
  [features16]: "ReserveNowFeature = \<lparr>FeatureName = ReserveNowFeatureName, GetRequestType = ''reservation.ReserveNowRequest'',
     GetResponseType = ''reservation.ReserveNowConfirmation''\<rparr>"

text \<open>Package \<open>remotetrigger\<close>.\<close>

definition remotetrigger_ProfileName :: string where
  [names16]: "remotetrigger_ProfileName = ''RemoteTrigger''"

definition TriggerMessageFeatureName :: string where
  [names16]: "TriggerMessageFeatureName = ''TriggerMessage''"

definition TriggerMessageFeature :: Feature where
  [features16]: "TriggerMessageFeature = \<lparr>FeatureName = TriggerMessageFeatureName, GetRequestType = ''remotetrigger.TriggerMessageRequest'',
     GetResponseType = ''remotetrigger.TriggerMessageConfirmation''\<rparr>"

text \<open>Package \<open>smartcharging\<close>.\<close>

definition smartcharging_ProfileName :: string where
  [names16]: "smartcharging_ProfileName = ''SmartCharging''"

definition ClearChargingProfileFeatureName :: string where
  [names16]: "ClearChargingProfileFeatureName = ''ClearChargingProfile''"

definition ClearChargingProfileFeature :: Feature where
  [features16]: "ClearChargingProfileFeature = \<lparr>FeatureName = ClearChargingProfileFeatureName, GetRequestType = ''smartcharging.ClearChargingProfileRequest'',
     GetResponseType = ''smartcharging.ClearChargingProfileConfirmation''\<rparr>"

definition GetCompositeScheduleFeatureName :: string where
  [names16]: "GetCompositeScheduleFeatureName = ''GetCompositeSchedule''"

definition GetCompositeScheduleFeature :: Feature where
  [features16]: "GetCompositeScheduleFeature = \<lparr>FeatureName = GetCompositeScheduleFeatureName, GetRequestType = ''smartcharging.GetCompositeScheduleRequest'',
     GetResponseType = ''smartcharging.GetCompositeScheduleConfirmation''\<rparr>"

definition SetChargingProfileFeatureName :: string where
  [names16]: "SetChargingProfileFeatureName = ''SetChargingProfile''"

definition SetChargingProfileFeature :: Feature where
  [features16]: "SetChargingProfileFeature = \<lparr>FeatureName = SetChargingProfileFeatureName, GetRequestType = ''smartcharging.SetChargingProfileRequest'',
     GetResponseType = ''smartcharging.SetChargingProfileConfirmation''\<rparr>"

text \<open>Package \<open>logging\<close>.\<close>

definition logging_ProfileName :: string where
  [names16]: "logging_ProfileName = ''Log''"

definition GetLogFeatureName :: string where
  [names16]: "GetLogFeatureName = ''GetLog''"

definition GetLogFeature :: Feature where
  [features16]: "GetLogFeature = \<lparr>FeatureName = GetLogFeatureName, GetRequestType = ''logging.GetLogRequest'',
     GetResponseType = ''logging.GetLogResponse''\<rparr>"

definition LogStatusNotificationFeatureName :: string where
  [names16]: "LogStatusNotificationFeatureName = ''LogStatusNotification''"

definition LogStatusNotificationFeature :: Feature where
  [features16]: "LogStatusNotificationFeature = \<lparr>FeatureName = LogStatusNotificationFeatureName, GetRequestType = ''logging.LogStatusNotificationRequest'',
     GetResponseType = ''logging.LogStatusNotificationResponse''\<rparr>"

text \<open>Package \<open>security\<close>.\<close>

definition security_ProfileName :: string where
  [names16]: "security_ProfileName = ''Security''"

definition CertificateSignedFeatureName :: string where
  [names16]: "CertificateSignedFeatureName = ''CertificateSigned''"

definition CertificateSignedFeature :: Feature where
  [features16]: "CertificateSignedFeature = \<lparr>FeatureName = CertificateSignedFeatureName, GetRequestType = ''security.CertificateSignedRequest'',
     GetResponseType = ''security.CertificateSignedResponse''\<rparr>"

definition SecurityEventNotificationFeatureName :: string where
  [names16]: "SecurityEventNotificationFeatureName = ''SecurityEventNotification''"

definition SecurityEventNotificationFeature :: Feature where
  [features16]: "SecurityEventNotificationFeature = \<lparr>FeatureName = SecurityEventNotificationFeatureName, GetRequestType = ''security.SecurityEventNotificationRequest'',
     GetResponseType = ''security.SecurityEventNotificationResponse''\<rparr>"

definition SignCertificateFeatureName :: string where
  [names16]: "SignCertificateFeatureName = ''SignCertificate''"

definition SignCertificateFeature :: Feature where
  [features16]: "SignCertificateFeature = \<lparr>FeatureName = SignCertificateFeatureName, GetRequestType = ''security.SignCertificateRequest'',
     GetResponseType = ''security.SignCertificateResponse''\<rparr>"

text \<open>Package \<open>extendedtriggermessage\<close>.\<close>

definition extendedtriggermessage_ProfileName :: string where
  [names16]: "extendedtriggermessage_ProfileName = ''ExtendedTriggerMessage''"

definition ExtendedTriggerMessageFeatureName :: string where
  [names16]: "ExtendedTriggerMessageFeatureName = ''ExtendedTriggerMessage''"

definition ExtendedTriggerMessageFeature :: Feature where
  [features16]: "ExtendedTriggerMessageFeature = \<lparr>FeatureName = ExtendedTriggerMessageFeatureName, GetRequestType = ''extendedtriggermessage.ExtendedTriggerMessageRequest'',
     GetResponseType = ''extendedtriggermessage.ExtendedTriggerMessageResponse''\<rparr>"

text \<open>Package \<open>certificates\<close>.\<close>

definition certificates_ProfileName :: string where
  [names16]: "certificates_ProfileName = ''Certificates''"

definition DeleteCertificateFeatureName :: string where
  [names16]: "DeleteCertificateFeatureName = ''DeleteCertificate''"

definition DeleteCertificateFeature :: Feature where
  [features16]: "DeleteCertificateFeature = \<lparr>FeatureName = DeleteCertificateFeatureName, GetRequestType = ''certificates.DeleteCertificateRequest'',
     GetResponseType = ''certificates.DeleteCertificateResponse''\<rparr>"

definition GetInstalledCertificateIdsFeatureName :: string where
  [names16]: "GetInstalledCertificateIdsFeatureName = ''GetInstalledCertificateIds''"

definition GetInstalledCertificateIdsFeature :: Feature where
  [features16]: "GetInstalledCertificateIdsFeature = \<lparr>FeatureName = GetInstalledCertificateIdsFeatureName, GetRequestType = ''certificates.GetInstalledCertificateIdsRequest'',
     GetResponseType = ''certificates.GetInstalledCertificateIdsResponse''\<rparr>"

definition InstallCertificateFeatureName :: string where
  [names16]: "InstallCertificateFeatureName = ''InstallCertificate''"

definition InstallCertificateFeature :: Feature where
  [features16]: "InstallCertificateFeature = \<lparr>FeatureName = InstallCertificateFeatureName, GetRequestType = ''certificates.InstallCertificateRequest'',
     GetResponseType = ''certificates.InstallCertificateResponse''\<rparr>"

text \<open>Package \<open>securefirmware\<close>.\<close>

definition securefirmware_ProfileName :: string where
  [names16]: "securefirmware_ProfileName = ''SecureFirmwareUpdate''"

definition SignedUpdateFirmwareFeatureName :: string where
  [names16]: "SignedUpdateFirmwareFeatureName = ''SignedUpdateFirmware''"

definition SignedUpdateFirmwareFeature :: Feature where
  [features16]: "SignedUpdateFirmwareFeature = \<lparr>FeatureName = SignedUpdateFirmwareFeatureName, GetRequestType = ''securefirmware.SignedUpdateFirmwareRequest'',
     GetResponseType = ''securefirmware.SignedUpdateFirmwareResponse''\<rparr>"

definition SignedFirmwareStatusNotificationFeatureName :: string where
  [names16]: "SignedFirmwareStatusNotificationFeatureName = ''SignedFirmwareStatusNotification''"

definition SignedFirmwareStatusNotificationFeature :: Feature where
  [features16]: "SignedFirmwareStatusNotificationFeature = \<lparr>FeatureName = SignedFirmwareStatusNotificationFeatureName, GetRequestType = ''securefirmware.SignedFirmwareStatusNotificationRequest'',
     GetResponseType = ''securefirmware.SignedFirmwareStatusNotificationResponse''\<rparr>"

section \<open>Profiles\<close>

named_theorems profiles16 "the profiles of OCPP 1.6"

definition core_Profile :: Profile where
  [profiles16]: "core_Profile = NewProfile core_ProfileName
    [BootNotificationFeature, AuthorizeFeature, ChangeAvailabilityFeature, ChangeConfigurationFeature,
     ClearCacheFeature, DataTransferFeature, GetConfigurationFeature, HeartbeatFeature,
     MeterValuesFeature, RemoteStartTransactionFeature, RemoteStopTransactionFeature,
     StartTransactionFeature, StopTransactionFeature, StatusNotificationFeature, ResetFeature,
     UnlockConnectorFeature]"

definition localauth_Profile :: Profile where
  [profiles16]: "localauth_Profile = NewProfile localauth_ProfileName
    [GetLocalListVersionFeature, SendLocalListFeature]"

definition firmware_Profile :: Profile where
  [profiles16]: "firmware_Profile = NewProfile firmware_ProfileName
    [GetDiagnosticsFeature, DiagnosticsStatusNotificationFeature, FirmwareStatusNotificationFeature,
     UpdateFirmwareFeature]"

definition reservation_Profile :: Profile where
  [profiles16]: "reservation_Profile = NewProfile reservation_ProfileName
    [ReserveNowFeature, CancelReservationFeature]"

definition remotetrigger_Profile :: Profile where
  [profiles16]: "remotetrigger_Profile = NewProfile remotetrigger_ProfileName
    [TriggerMessageFeature]"

definition smartcharging_Profile :: Profile where
  [profiles16]: "smartcharging_Profile = NewProfile smartcharging_ProfileName
    [SetChargingProfileFeature, ClearChargingProfileFeature, GetCompositeScheduleFeature]"

definition logging_Profile :: Profile where
  [profiles16]: "logging_Profile = NewProfile logging_ProfileName
    [GetLogFeature, LogStatusNotificationFeature]"

definition security_Profile :: Profile where
  [profiles16]: "security_Profile = NewProfile security_ProfileName
    [CertificateSignedFeature, SecurityEventNotificationFeature, SignCertificateFeature]"

definition extendedtriggermessage_Profile :: Profile where
  [profiles16]: "extendedtriggermessage_Profile = NewProfile extendedtriggermessage_ProfileName
    [ExtendedTriggerMessageFeature]"

definition certificates_Profile :: Profile where
  [profiles16]: "certificates_Profile = NewProfile certificates_ProfileName
    [InstallCertificateFeature, DeleteCertificateFeature, GetInstalledCertificateIdsFeature]"

definition securefirmware_Profile :: Profile where
  [profiles16]: "securefirmware_Profile = NewProfile securefirmware_ProfileName
    [SignedFirmwareStatusNotificationFeature, SignedUpdateFirmwareFeature]"

definition DefaultProfiles :: "Profile list" where
  "DefaultProfiles =
    [core_Profile,
     localauth_Profile,
     firmware_Profile,
     reservation_Profile,
     remotetrigger_Profile,
     smartcharging_Profile,
     logging_Profile,
     security_Profile,
     extendedtriggermessage_Profile,
     certificates_Profile,
     securefirmware_Profile]"

section \<open>Lemmas\<close>

lemmas defs16 = names16 features16 profiles16 DefaultProfiles_def NewProfile_def Profile_AddFeature_def

lemma DefaultProfiles_distinct: "distinct (concat (map (map fst \<circ> Features) DefaultProfiles))"
  by (simp add: defs16)

end
