(* ===== verification/Config_Keys.thy ===== *)
theory Config_Keys
  imports Ocpp16_Profiles
begin

text \<open>
  \<open>ocpp1.6/configmanager/keys.go\<close>, \<open>configuration.go\<close>, \<open>helpers.go\<close> and \<open>defaults.go\<close>: the
  configuration keys of OCPP 1.6, the mandatory keys of each profile, the configuration as a list of
  keys with values behind pointers, and the default configurations. Values are \<open>*string\<close>: references
  into a store of strings, so that sharing and copying them is visible.
\<close>

section \<open>Keys\<close>

definition AllowOfflineTxForUnknownId :: string where "AllowOfflineTxForUnknownId = ''AllowOfflineTxForUnknownId''"
definition AuthorizationCacheEnabled :: string where "AuthorizationCacheEnabled = ''AuthorizationCacheEnabled''"
definition AuthorizeRemoteTxRequests :: string where "AuthorizeRemoteTxRequests = ''AuthorizeRemoteTxRequests''"
definition BlinkRepeat :: string where "BlinkRepeat = ''BlinkRepeat''"
definition ClockAlignedDataInterval :: string where "ClockAlignedDataInterval = ''ClockAlignedDataInterval''"
definition ConnectionTimeOut :: string where "ConnectionTimeOut = ''ConnectionTimeOut''"
definition GetConfigurationMaxKeys :: string where "GetConfigurationMaxKeys = ''GetConfigurationMaxKeys''"
definition HeartbeatInterval :: string where "HeartbeatInterval = ''HeartbeatInterval''"
definition LightIntensity :: string where "LightIntensity = ''LightIntensity''"
definition LocalAuthorizeOffline :: string where "LocalAuthorizeOffline = ''LocalAuthorizeOffline''"
definition LocalPreAuthorize :: string where "LocalPreAuthorize = ''LocalPreAuthorize''"
definition MaxEnergyOnInvalidId :: string where "MaxEnergyOnInvalidId = ''MaxEnergyOnInvalidId''"
definition MeterValuesAlignedData :: string where "MeterValuesAlignedData = ''MeterValuesAlignedData''"
definition MeterValuesAlignedDataMaxLength :: string where "MeterValuesAlignedDataMaxLength = ''MeterValuesAlignedDataMaxLength''"
definition MeterValuesSampledData :: string where "MeterValuesSampledData = ''MeterValuesSampledData''"
definition MeterValuesSampledDataMaxLength :: string where "MeterValuesSampledDataMaxLength = ''MeterValuesSampledDataMaxLength''"
definition MeterValueSampleInterval :: string where "MeterValueSampleInterval = ''MeterValueSampleInterval''"
definition MinimumStatusDuration :: string where "MinimumStatusDuration = ''MinimumStatusDuration''"
definition NumberOfConnectors :: string where "NumberOfConnectors = ''NumberOfConnectors''"
definition ResetRetries :: string where "ResetRetries = ''ResetRetries''"
definition ConnectorPhaseRotation :: string where "ConnectorPhaseRotation = ''ConnectorPhaseRotation''"
definition ConnectorPhaseRotationMaxLength :: string where "ConnectorPhaseRotationMaxLength = ''ConnectorPhaseRotationMaxLength''"
definition StopTransactionOnEVSideDisconnect :: string where "StopTransactionOnEVSideDisconnect = ''StopTransactionOnEVSideDisconnect''"
definition StopTransactionOnInvalidId :: string where "StopTransactionOnInvalidId = ''StopTransactionOnInvalidId''"
definition StopTxnAlignedData :: string where "StopTxnAlignedData = ''StopTxnAlignedData''"
definition StopTxnAlignedDataMaxLength :: string where "StopTxnAlignedDataMaxLength = ''StopTxnAlignedDataMaxLength''"
definition StopTxnSampledData :: string where "StopTxnSampledData = ''StopTxnSampledData''"
definition StopTxnSampledDataMaxLength :: string where "StopTxnSampledDataMaxLength = ''StopTxnSampledDataMaxLength''"
definition SupportedFeatureProfiles :: string where "SupportedFeatureProfiles = ''SupportedFeatureProfiles''"
definition SupportedFeatureProfilesMaxLength :: string where "SupportedFeatureProfilesMaxLength = ''SupportedFeatureProfilesMaxLength''"
definition TransactionMessageAttempts :: string where "TransactionMessageAttempts = ''TransactionMessageAttempts''"
definition TransactionMessageRetryInterval :: string where "TransactionMessageRetryInterval = ''TransactionMessageRetryInterval''"
definition UnlockConnectorOnEVSideDisconnect :: string where "UnlockConnectorOnEVSideDisconnect = ''UnlockConnectorOnEVSideDisconnect''"
definition WebSocketPingInterval :: string where "WebSocketPingInterval = ''WebSocketPingInterval''"
definition LocalAuthListEnabled :: string where "LocalAuthListEnabled = ''LocalAuthListEnabled''"
definition LocalAuthListMaxLength :: string where "LocalAuthListMaxLength = ''LocalAuthListMaxLength''"
definition SendLocalListMaxLength :: string where "SendLocalListMaxLength = ''SendLocalListMaxLength''"
definition ReserveConnectorZeroSupported :: string where "ReserveConnectorZeroSupported = ''ReserveConnectorZeroSupported''"
definition SupportedFileTransferProtocols :: string where "SupportedFileTransferProtocols = ''SupportedFileTransferProtocols''"
definition ChargeProfileMaxStackLevel :: string where "ChargeProfileMaxStackLevel = ''ChargeProfileMaxStackLevel''"
definition ChargingScheduleAllowedChargingRateUnit :: string where "ChargingScheduleAllowedChargingRateUnit = ''ChargingScheduleAllowedChargingRateUnit''"
definition ChargingScheduleMaxPeriods :: string where "ChargingScheduleMaxPeriods = ''ChargingScheduleMaxPeriods''"
definition MaxChargingProfilesInstalled :: string where "MaxChargingProfilesInstalled = ''MaxChargingProfilesInstalled''"
definition ConnectorSwitch3to1PhaseSupported :: string where "ConnectorSwitch3to1PhaseSupported = ''ConnectorSwitch3to1PhaseSupported''"
definition CentralContractValidationAllowed :: string where "CentralContractValidationAllowed = ''CentralContractValidationAllowed''"
definition CertificateSignedMaxChainSize :: string where "CertificateSignedMaxChainSize = ''CertificateSignedMaxChainSize''"
definition CertSigningWaitMinimum :: string where "CertSigningWaitMinimum = ''CertSigningWaitMinimum''"
definition CertSigningRepeatTimes :: string where "CertSigningRepeatTimes = ''CertSigningRepeatTimes''"
definition CertificateStoreMaxLength :: string where "CertificateStoreMaxLength = ''CertificateStoreMaxLength''"
definition ContractValidationOffline :: string where "ContractValidationOffline = ''ContractValidationOffline''"
definition ISO15118PnCEnabled :: string where "ISO15118PnCEnabled = ''ISO15118PnCEnabled''"
definition AuthorizationData :: string where "AuthorizationData = ''AuthorizationData''"
definition AdditionalRootCertificateCheck :: string where "AdditionalRootCertificateCheck = ''AdditionalRootCertificateCheck''"
definition CpoName :: string where "CpoName = ''CpoName''"
definition SecurityProfile :: string where "SecurityProfile = ''SecurityProfile''"

definition ISO15118ProfileName :: string where "ISO15118ProfileName = ''ISO15118''"

definition MandatoryCoreKeys :: "string list" where
  "MandatoryCoreKeys =
    [AuthorizeRemoteTxRequests, ClockAlignedDataInterval, ConnectionTimeOut,
     GetConfigurationMaxKeys, HeartbeatInterval, LocalPreAuthorize, MeterValuesAlignedData,
     MeterValuesSampledData, MeterValueSampleInterval, NumberOfConnectors, ResetRetries,
     ConnectorPhaseRotation, StopTransactionOnEVSideDisconnect, StopTransactionOnInvalidId,
     StopTxnAlignedData, StopTxnSampledData, SupportedFeatureProfiles,
     TransactionMessageAttempts, TransactionMessageRetryInterval,
     UnlockConnectorOnEVSideDisconnect]"

definition MandatoryLocalAuthKeys :: "string list" where
  "MandatoryLocalAuthKeys =
    [LocalAuthListEnabled, LocalAuthListMaxLength, SendLocalListMaxLength]"

definition MandatorySmartChargingKeys :: "string list" where
  "MandatorySmartChargingKeys =
    [MaxChargingProfilesInstalled, ChargingScheduleMaxPeriods,
     ChargingScheduleAllowedChargingRateUnit, ChargeProfileMaxStackLevel]"

definition MandatoryFirmwareKeys :: "string list" where
  "MandatoryFirmwareKeys =
    [SupportedFileTransferProtocols]"

definition MandatoryISO15118Keys :: "string list" where
  "MandatoryISO15118Keys =
    [ISO15118PnCEnabled, ContractValidationOffline]"

definition mandatory_of :: "string \<Rightarrow> string list" where
  "mandatory_of profile =
     (if profile = core_ProfileName then MandatoryCoreKeys
      else if profile = smartcharging_ProfileName then MandatorySmartChargingKeys
      else if profile = localauth_ProfileName then MandatoryLocalAuthKeys
      else if profile = firmware_ProfileName then MandatoryFirmwareKeys
      else if profile = ISO15118ProfileName then MandatoryISO15118Keys
      else [])"

fun GetMandatoryKeysForProfile :: "string list \<Rightarrow> string list" where
  "GetMandatoryKeysForProfile [] = []"
| "GetMandatoryKeysForProfile (profile # profiles) =
     mandatory_of profile @ GetMandatoryKeysForProfile profiles"

section \<open>Configurations\<close>

definition ErrKeyNotFound :: go_error where "ErrKeyNotFound = Sentinel ''key not found''"
definition ErrReadOnly :: go_error where "ErrReadOnly = Sentinel ''attribute is read-only''"

type_synonym heap = "string store"

record ConfigurationKey =
  ck_Key :: string
  Readonly :: bool
  ck_Value :: "ref option"

record Config =
  Version :: int
  Keys :: "ConfigurationKey list"

text \<open>The Go function returns the entry, its index and a flag; \<^const>\<open>None\<close> is the unset flag.\<close>

fun find_from :: "nat \<Rightarrow> ConfigurationKey list \<Rightarrow> string \<Rightarrow> (ConfigurationKey \<times> nat) option" where
  "find_from i [] key = None"
| "find_from i (k # ks) key = (if ck_Key k = key then Some (k, i) else find_from (Suc i) ks key)"

definition findKeyIndex :: "ConfigurationKey list \<Rightarrow> string \<Rightarrow> (ConfigurationKey \<times> nat) option" where
  "findKeyIndex ks key = find_from 0 ks key"

definition containsKey :: "string list \<Rightarrow> string \<Rightarrow> bool" where
  "containsKey ks key \<longleftrightarrow> list_ex (\<lambda>k. k = key) ks"

definition set_value :: "nat \<Rightarrow> ref option \<Rightarrow> Config \<Rightarrow> Config" where
  "set_value i v cfg = cfg\<lparr>Keys := (Keys cfg)[i := (Keys cfg ! i)\<lparr>ck_Value := v\<rparr>]\<rparr>"

definition Config_UpdateKey :: "string \<Rightarrow> ref option \<Rightarrow> Config \<Rightarrow> go_error option \<times> Config" where
  "Config_UpdateKey key v cfg =
     (case findKeyIndex (Keys cfg) key of
        None \<Rightarrow> (Some ErrKeyNotFound, cfg)
      | Some (item, index) \<Rightarrow>
          if Readonly item then (Some ErrReadOnly, cfg) else (None, set_value index v cfg))"

definition Config_UpdateKeyReadability :: "string \<Rightarrow> bool \<Rightarrow> Config \<Rightarrow> go_error option \<times> Config" where
  "Config_UpdateKeyReadability key readonly cfg =
     (case findKeyIndex (Keys cfg) key of
        None \<Rightarrow> (Some ErrKeyNotFound, cfg)
      | Some (_, index) \<Rightarrow>
          (None, cfg\<lparr>Keys := (Keys cfg)[index := (Keys cfg ! index)\<lparr>Readonly := readonly\<rparr>]\<rparr>))"

definition Config_GetConfigurationValue :: "string \<Rightarrow> Config \<Rightarrow> go_error + ref option" where
  "Config_GetConfigurationValue key cfg =
     (case findKeyIndex (Keys cfg) key of None \<Rightarrow> Inl ErrKeyNotFound | Some (item, _) \<Rightarrow> Inr (ck_Value item))"

definition Config_GetConfig :: "Config \<Rightarrow> ConfigurationKey list" where "Config_GetConfig cfg = Keys cfg"
definition Config_GetVersion :: "Config \<Rightarrow> int" where "Config_GetVersion cfg = Version cfg"
definition Config_SetVersion :: "int \<Rightarrow> Config \<Rightarrow> Config" where "Config_SetVersion v cfg = cfg\<lparr>Version := v\<rparr>"

fun strings_Join :: "string list \<Rightarrow> string \<Rightarrow> string" where
  "strings_Join [] sep = []"
| "strings_Join [s] sep = s"
| "strings_Join (s # t # ts) sep = s @ sep @ strings_Join (t # ts) sep"

definition Config_Validate :: "string list \<Rightarrow> Config \<Rightarrow> go_error option" where
  "Config_Validate mandatory cfg =
     (let missing = filter (\<lambda>k. findKeyIndex (Keys cfg) k = None) mandatory
      in if missing \<noteq> [] then Some (Errorf (''missing mandatory keys: '' @ strings_Join missing '', '')) else None)"

section \<open>Copies\<close>

definition new_ptr :: "string \<Rightarrow> heap \<Rightarrow> ref \<times> heap" where
  "new_ptr v h = alloc h v"

definition deepCopyKey :: "ConfigurationKey \<Rightarrow> heap \<Rightarrow> ConfigurationKey \<times> heap" where
  "deepCopyKey k h =
     (case ck_Value k of
        None \<Rightarrow> (k, h)
      | Some r \<Rightarrow> (let (r', h) = new_ptr (deref h r) h in (k\<lparr>ck_Value := Some r'\<rparr>, h)))"

text \<open>The source keeps a nil slice nil; both are the empty list here.\<close>

fun deepCopyKeys :: "ConfigurationKey list \<Rightarrow> heap \<Rightarrow> ConfigurationKey list \<times> heap" where
  "deepCopyKeys [] h = ([], h)"
| "deepCopyKeys (k # ks) h =
     (let (k, h) = deepCopyKey k h; (ks, h) = deepCopyKeys ks h in (k # ks, h))"

definition deepCopyConfig :: "Config \<Rightarrow> heap \<Rightarrow> Config \<times> heap" where
  "deepCopyConfig cfg h =
     (let (ks, h) = deepCopyKeys (Keys cfg) h in (\<lparr>Version = Version cfg, Keys = ks\<rparr>, h))"

section \<open>Defaults\<close>

definition NewEmptyConfiguration :: Config where
  "NewEmptyConfiguration = \<lparr>Version = 1, Keys = []\<rparr>"

text \<open>A slice literal of entries: name, read-only flag, and a fresh pointer to the value.\<close>

fun new_keys :: "(string \<times> bool \<times> string) list \<Rightarrow> heap \<Rightarrow> ConfigurationKey list \<times> heap" where
  "new_keys [] h = ([], h)"
| "new_keys ((name, ro, v) # es) h =
     (let (r, h) = new_ptr v h; (ks, h) = new_keys es h
      in (\<lparr>ck_Key = name, Readonly = ro, ck_Value = Some r\<rparr> # ks, h))"

definition standardMeasurands :: string where
  "standardMeasurands = strings_Join
     [''Voltage'', ''Current.Import'', ''Power.Active.Import'', ''Energy.Active.Import.Interval'', ''SoC''] '',''"

definition DefaultCoreConfiguration :: "heap \<Rightarrow> ConfigurationKey list \<times> heap" where
  "DefaultCoreConfiguration = new_keys
    [(AuthorizeRemoteTxRequests, False, ''true''),
     (ClockAlignedDataInterval, False, ''0''),
     (ConnectionTimeOut, False, ''60''),
     (GetConfigurationMaxKeys, False, ''100''),
     (HeartbeatInterval, False, ''60''),
     (LocalPreAuthorize, False, ''false''),
     (MeterValuesAlignedData, False, ''true''),
     (MeterValuesSampledData, False, standardMeasurands),
     (MeterValueSampleInterval, False, ''20''),
     (NumberOfConnectors, True, ''1''),
     (ResetRetries, False, ''3''),
     (ConnectorPhaseRotation, True, ''Unknown''),
     (StopTransactionOnEVSideDisconnect, False, ''true''),
     (StopTransactionOnInvalidId, False, ''true''),
     (StopTxnAlignedData, False, standardMeasurands),
     (StopTxnSampledData, False, standardMeasurands),
     (SupportedFeatureProfiles, True, ''Core''),
     (TransactionMessageAttempts, False, ''3''),
     (TransactionMessageRetryInterval, False, ''30''),
     (UnlockConnectorOnEVSideDisconnect, False, ''true'')]"

definition DefaultLocalAuthConfiguration :: "heap \<Rightarrow> ConfigurationKey list \<times> heap" where
  "DefaultLocalAuthConfiguration = new_keys
    [(LocalAuthListEnabled, False, ''true''),
     (LocalAuthListMaxLength, True, ''100''),
     (SendLocalListMaxLength, True, ''100'')]"

definition DefaultSmartChargingConfiguration :: "heap \<Rightarrow> ConfigurationKey list \<times> heap" where
  "DefaultSmartChargingConfiguration = new_keys
    [(ChargeProfileMaxStackLevel, True, ''5''),
     (ChargingScheduleAllowedChargingRateUnit, True, ''Current,Power''),
     (ChargingScheduleMaxPeriods, True, ''6''),
     (MaxChargingProfilesInstalled, True, ''5'')]"

definition DefaultFirmwareConfiguration :: "heap \<Rightarrow> ConfigurationKey list \<times> heap" where
  "DefaultFirmwareConfiguration = new_keys
    [(SupportedFileTransferProtocols, True, ''HTTP,HTTPS,FTP,FTPS,SFTP'')]"

definition DefaultISO15118Configuration :: "heap \<Rightarrow> ConfigurationKey list \<times> heap" where
  "DefaultISO15118Configuration = new_keys
    [(CentralContractValidationAllowed, False, ''true''),
     (CertificateSignedMaxChainSize, True, ''5''),
     (CertSigningWaitMinimum, False, ''300''),
     (CertSigningRepeatTimes, False, ''3''),
     (CertificateStoreMaxLength, True, ''10''),
     (ContractValidationOffline, False, ''true''),
     (ISO15118PnCEnabled, False, ''false'')]"

text \<open>The keys a profile contributes; \<^const>\<open>None\<close> for an unknown profile.\<close>

definition default_of :: "string \<Rightarrow> (heap \<Rightarrow> ConfigurationKey list \<times> heap) option" where
  "default_of profile =
     (if profile = core_ProfileName then Some DefaultCoreConfiguration
      else if profile = localauth_ProfileName then Some DefaultLocalAuthConfiguration
      else if profile = smartcharging_ProfileName then Some DefaultSmartChargingConfiguration
      else if profile = firmware_ProfileName then Some DefaultFirmwareConfiguration
      else if profile = ISO15118ProfileName then Some DefaultISO15118Configuration
      else None)"

fun default_keys :: "string list \<Rightarrow> heap \<Rightarrow> (go_error + ConfigurationKey list) \<times> heap" where
  "default_keys [] h = (Inr [], h)"
| "default_keys (profile # profiles) h =
     (case default_of profile of
        None \<Rightarrow> (Inl (Errorf (''unknown profile '' @ profile)), h)
      | Some f \<Rightarrow>
          (let (ks, h) = f h in
           case default_keys profiles h of
             (Inl e, h) \<Rightarrow> (Inl e, h)
           | (Inr ks', h) \<Rightarrow> (Inr (ks @ ks'), h)))"

definition DefaultConfigurationFromProfiles :: "string list \<Rightarrow> heap \<Rightarrow> (go_error + Config) \<times> heap" where
  "DefaultConfigurationFromProfiles profiles h =
     (if profiles = [] then (Inl (Errorf ''no profiles provided''), h)
      else case default_keys profiles h of
             (Inl e, h) \<Rightarrow> (Inl e, h)
           | (Inr ks, h) \<Rightarrow> (Inr \<lparr>Version = 1, Keys = ks\<rparr>, h))"

section \<open>Lookups\<close>

lemma find_from_Some:
  "find_from i ks key = Some (k, j) \<longleftrightarrow>
     i \<le> j \<and> j - i < length ks \<and> ks ! (j - i) = k \<and> ck_Key k = key \<and> (\<forall>n < j - i. ck_Key (ks ! n) \<noteq> key)"
proof (induction ks arbitrary: i)
  case (Cons a ks)
  show ?case
  proof (cases "j - i")
    case 0
    with Cons show ?thesis by (auto simp: nth_Cons')
  next
    case (Suc n)
    then have "j - Suc i = n" "i \<le> j" "Suc i \<le> j" by auto
    with Cons Suc show ?thesis by (auto simp: All_less_Suc2)
  qed
qed simp

lemma findKeyIndex_Some:
  "findKeyIndex ks key = Some (k, j) \<longleftrightarrow>
     j < length ks \<and> ks ! j = k \<and> ck_Key k = key \<and> (\<forall>n < j. ck_Key (ks ! n) \<noteq> key)"
  by (simp add: findKeyIndex_def find_from_Some)

lemma find_from_None: "find_from i ks key = None \<longleftrightarrow> key \<notin> ck_Key ` set ks"
  by (induction ks arbitrary: i) auto

lemma findKeyIndex_None: "findKeyIndex ks key = None \<longleftrightarrow> key \<notin> ck_Key ` set ks"
  by (simp add: findKeyIndex_def find_from_None)

lemma containsKey_set [simp]: "containsKey ks key \<longleftrightarrow> key \<in> set ks"
  by (auto simp: containsKey_def list_ex_iff)

lemma Validate_accepts: "Config_Validate m cfg = None \<longleftrightarrow> set m \<subseteq> ck_Key ` set (Keys cfg)"
proof -
  have "Config_Validate m cfg = None \<longleftrightarrow> (\<forall>k \<in> set m. findKeyIndex (Keys cfg) k \<noteq> None)"
    by (simp add: Config_Validate_def Let_def filter_empty_conv)
  then show ?thesis unfolding findKeyIndex_None by blast
qed

lemma set_value_keys [simp]:
  "map ck_Key (Keys (set_value i v cfg)) = map ck_Key (Keys cfg)" "length (Keys (set_value i v cfg)) = length (Keys cfg)"
proof -
  show "map ck_Key (Keys (set_value i v cfg)) = map ck_Key (Keys cfg)"
    by (cases "i < length (Keys cfg)") (simp_all add: set_value_def map_update list_update_same_conv list_update_beyond)
qed (simp add: set_value_def)

section \<open>What a configuration shows\<close>

text \<open>An entry as a reader sees it, with the pointer followed; and all addresses being allocated.\<close>

definition key_view :: "heap \<Rightarrow> ConfigurationKey \<Rightarrow> string \<times> bool \<times> string option" where
  "key_view h k = (ck_Key k, Readonly k, map_option (deref h) (ck_Value k))"

definition refs :: "ConfigurationKey list \<Rightarrow> ref set" where
  "refs ks = {r. \<exists>k \<in> set ks. ck_Value k = Some r}"

definition keys_ok :: "heap \<Rightarrow> ConfigurationKey list \<Rightarrow> bool" where
  "keys_ok h ks \<longleftrightarrow> (\<forall>r \<in> refs ks. r < next_ref h)"

text \<open>A heap that grew: old addresses hold what they held.\<close>

definition extends :: "heap \<Rightarrow> heap \<Rightarrow> bool" where
  "extends h h' \<longleftrightarrow> next_ref h \<le> next_ref h' \<and> (\<forall>r < next_ref h. deref h' r = deref h r)"

lemma extends_refl [simp]: "extends h h"
  by (simp add: extends_def)

lemma extends_trans: "extends h h' \<Longrightarrow> extends h' h'' \<Longrightarrow> extends h h''"
  by (auto simp: extends_def)

lemma new_ptr_extends:
  "new_ptr v h = (r, h') \<Longrightarrow> extends h h' \<and> r = next_ref h \<and> next_ref h' = Suc r \<and> deref h' r = v"
  by (auto simp: new_ptr_def alloc_def extends_def deref_def)

lemma refs_Cons [simp]: "refs (k # ks) = set_option (ck_Value k) \<union> refs ks"
  by (auto simp: refs_def)

lemma refs_Nil [simp]: "refs [] = {}"
  by (simp add: refs_def)

lemma keys_ok_extends: "keys_ok h ks \<Longrightarrow> extends h h' \<Longrightarrow> keys_ok h' ks"
  by (fastforce simp: keys_ok_def extends_def)

lemma views_agree:
  "(\<And>r. r \<in> refs ks \<Longrightarrow> deref h' r = deref h r) \<Longrightarrow> map (key_view h') ks = map (key_view h) ks"
  by (induction ks) (auto simp: key_view_def option.map_ident_strong intro!: option.map_cong)

lemma views_extends: "keys_ok h ks \<Longrightarrow> extends h h' \<Longrightarrow> map (key_view h') ks = map (key_view h) ks"
  by (rule views_agree) (simp add: keys_ok_def extends_def)

text \<open>A deep copy shows the same and shares no pointer with anything allocated before.\<close>

definition fresh_copy :: "heap \<Rightarrow> heap \<Rightarrow> ConfigurationKey list \<Rightarrow> ConfigurationKey list \<Rightarrow> bool" where
  "fresh_copy h h' ks ks' \<longleftrightarrow> extends h h' \<and> map (key_view h') ks' = map (key_view h) ks \<and>
     (\<forall>r \<in> refs ks'. next_ref h \<le> r \<and> r < next_ref h')"

lemma deepCopyKey_fresh:
  assumes "keys_ok h [k]" and "deepCopyKey k h = (k', h')"
  shows "fresh_copy h h' [k] [k']"
  using assms new_ptr_extends [of "deref h (the (ck_Value k))" h]
  by (auto simp: deepCopyKey_def fresh_copy_def key_view_def split: option.splits prod.splits)

lemma fresh_copy_Cons:
  assumes "fresh_copy h h1 [k] [k']" and "fresh_copy h1 h2 ks ks'" and "keys_ok h ks"
  shows "fresh_copy h h2 (k # ks) (k' # ks')"
proof -
  have ext: "extends h h1" "extends h1 h2" using assms(1,2) by (simp_all add: fresh_copy_def)
  have "keys_ok h1 [k']" using assms(1) by (auto simp: fresh_copy_def keys_ok_def)
  then have "key_view h2 k' = key_view h k" using views_extends [OF _ ext(2), of "[k']"] assms(1) by (simp add: fresh_copy_def)
  moreover have "map (key_view h2) ks' = map (key_view h) ks"
    using assms(2) views_extends [OF assms(3) ext(1)] by (simp add: fresh_copy_def)
  ultimately show ?thesis
    using assms(1,2) extends_trans [OF ext] ext by (auto simp: fresh_copy_def extends_def)
qed

lemma deepCopyKeys_fresh: "keys_ok h ks \<Longrightarrow> deepCopyKeys ks h = (ks', h') \<Longrightarrow> fresh_copy h h' ks ks'"
proof (induction ks arbitrary: h ks' h')
  case Nil
  then show ?case by (simp add: fresh_copy_def)
next
  case (Cons k ks)
  obtain k1 h1 where k: "deepCopyKey k h = (k1, h1)" by (cases "deepCopyKey k h")
  obtain ks1 h2 where ks: "deepCopyKeys ks h1 = (ks1, h2)" by (cases "deepCopyKeys ks h1")
  have ok: "keys_ok h [k]" "keys_ok h ks" using Cons.prems(1) by (auto simp: keys_ok_def)
  note c = deepCopyKey_fresh [OF ok(1) k]
  have "keys_ok h1 ks" using keys_ok_extends [OF ok(2)] c by (simp add: fresh_copy_def)
  from fresh_copy_Cons [OF c Cons.IH [OF this ks] ok(2)] k ks Cons.prems(2) show ?case by simp
qed

section \<open>Defaults fulfil what is mandatory\<close>

lemma new_keys_names: "new_keys es h = (ks, h') \<Longrightarrow> map ck_Key ks = map fst es"
  by (induction es h arbitrary: ks h' rule: new_keys.induct) (auto split: prod.splits)

lemma default_of_mandatory:
  assumes "default_of profile = Some f" and "f h = (ks, h')"
  shows "set (mandatory_of profile) \<subseteq> ck_Key ` set ks"
proof -
  have names: "ck_Key ` set ks = fst ` set es" if "new_keys es h = (ks, h')" for es
    using new_keys_names [OF that] by (metis list.set_map)
  have "distinct [core_ProfileName, localauth_ProfileName, smartcharging_ProfileName, firmware_ProfileName,
      ISO15118ProfileName]"
    by (simp add: core_ProfileName_def localauth_ProfileName_def smartcharging_ProfileName_def
        firmware_ProfileName_def ISO15118ProfileName_def)
  then show ?thesis
    using assms names
    by (auto simp: default_of_def mandatory_of_def MandatoryCoreKeys_def MandatoryLocalAuthKeys_def
        MandatorySmartChargingKeys_def MandatoryFirmwareKeys_def MandatoryISO15118Keys_def
        DefaultCoreConfiguration_def DefaultLocalAuthConfiguration_def DefaultSmartChargingConfiguration_def
        DefaultFirmwareConfiguration_def DefaultISO15118Configuration_def simp del: new_keys.simps split: if_splits)
qed

lemma default_keys_mandatory:
  "default_keys profiles h = (Inr ks, h') \<Longrightarrow> set (GetMandatoryKeysForProfile profiles) \<subseteq> ck_Key ` set ks"
proof (induction profiles arbitrary: h ks h')
  case (Cons profile profiles)
  then obtain f ks1 h1 ks2 h2 where f: "default_of profile = Some f" "f h = (ks1, h1)"
    and "default_keys profiles h1 = (Inr ks2, h2)" "ks = ks1 @ ks2"
    by (auto split: option.splits prod.splits sum.splits)
  with Cons.IH default_of_mandatory [OF f] show ?case by fastforce
qed simp

lemma new_keys_ok: "new_keys es h = (ks, h') \<Longrightarrow> extends h h' \<and> keys_ok h' ks"
proof (induction es h arbitrary: ks h' rule: new_keys.induct)
  case (2 name ro v es h)
  obtain r h1 where p: "new_ptr v h = (r, h1)" by (cases "new_ptr v h")
  obtain ks1 h2 where n: "new_keys es h1 = (ks1, h2)" by (cases "new_keys es h1")
  from "2.IH" [OF p [symmetric] refl n] new_ptr_extends [OF p]
  have "extends h1 h2" "keys_ok h2 ks1" "extends h h1" "r < next_ref h2" by (auto simp: extends_def)
  then show ?case using "2.prems" p n extends_trans [of h h1 h2] by (auto simp: keys_ok_def)
qed (simp add: keys_ok_def)

lemma default_of_ok: "default_of profile = Some f \<Longrightarrow> f h = (ks, h') \<Longrightarrow> extends h h' \<and> keys_ok h' ks"
  by (auto simp: default_of_def DefaultCoreConfiguration_def DefaultLocalAuthConfiguration_def
      DefaultSmartChargingConfiguration_def DefaultFirmwareConfiguration_def DefaultISO15118Configuration_def
      simp del: new_keys.simps dest!: new_keys_ok split: if_splits)

lemma default_keys_ok: "default_keys profiles h = (Inr ks, h') \<Longrightarrow> extends h h' \<and> keys_ok h' ks"
proof (induction profiles arbitrary: h ks h')
  case (Cons profile profiles)
  then obtain f ks1 h1 ks2 where f: "default_of profile = Some f" "f h = (ks1, h1)"
    and d: "default_keys profiles h1 = (Inr ks2, h')" "ks = ks1 @ ks2"
    by (auto split: option.splits prod.splits sum.splits)
  from Cons.IH [OF d(1)] default_of_ok [OF f] keys_ok_extends [of h1 ks1 h']
  have "extends h1 h'" "keys_ok h' ks2" "extends h h1" "keys_ok h' ks1" by auto
  then show ?case using extends_trans [of h h1 h'] by (auto simp: d(2) keys_ok_def refs_def)
qed (simp add: keys_ok_def)

lemma default_keys_succeeds:
  "(\<exists>ks h'. default_keys profiles h = (Inr ks, h')) \<longleftrightarrow> (\<forall>p \<in> set profiles. default_of p \<noteq> None)"
proof (induction profiles arbitrary: h)
  case (Cons p ps)
  show ?case
  proof (cases "default_of p")
    case (Some f)
    obtain ks h1 where f: "f h = (ks, h1)" by (cases "f h")
    obtain r h2 where d: "default_keys ps h1 = (r, h2)" by (cases "default_keys ps h1")
    with Some f Cons.IH [of h1] show ?thesis by (cases r) auto
  qed simp
qed simp

end
