(* ===== verification/Config_Manager.thy ===== *)
theory Config_Manager
  imports Config_Keys
begin

text \<open>
  \<open>ocpp1.6/configmanager/manager.go\<close> and \<open>wiring.go\<close>: the configuration manager of a charge point. Every
  method holds the manager's mutex throughout, so each is one atomic operation. Validators and update
  handlers are the user's code: they receive a pointer and work on the heap of strings; they may panic,
  and a panic leaves the method after the rollback.
\<close>

section \<open>State\<close>

definition ErrKeyCannotBeEmpty :: go_error where "ErrKeyCannotBeEmpty = Sentinel ''key cannot be empty''"
definition ErrNilHandler :: go_error where "ErrNilHandler = Sentinel ''update handler cannot be nil''"

type_synonym KeyValidator = "string \<Rightarrow> ref option \<Rightarrow> heap \<Rightarrow> (string, bool) outcome \<times> heap"
type_synonym OnUpdateHandler = "ref option \<Rightarrow> heap \<Rightarrow> (string, go_error option) outcome \<times> heap"

record ManagerV16 =
  ocppConfig :: Config
  mandatoryKeys :: "string list"
  rebootRequiredKeys :: "string list"
  keyValidator :: "KeyValidator option"
  onUpdateHandlers :: "(string, OnUpdateHandler) gomap"

definition NewManagerV16 :: "Config \<Rightarrow> string list \<Rightarrow> heap \<Rightarrow> (go_error + ManagerV16) \<times> heap" where
  "NewManagerV16 defaultConfiguration profiles h =
     (let mandatory = GetMandatoryKeysForProfile profiles in
      case Config_Validate mandatory defaultConfiguration of
        Some err \<Rightarrow> (Inl err, h)
      | None \<Rightarrow>
          (let (cfg, h) = deepCopyConfig defaultConfiguration h
           in (Inr \<lparr>ocppConfig = cfg, mandatoryKeys = mandatory, rebootRequiredKeys = [],
                    keyValidator = None, onUpdateHandlers = []\<rparr>, h)))"

definition SetConfiguration :: "Config \<Rightarrow> ManagerV16 \<Rightarrow> heap \<Rightarrow> go_error option \<times> ManagerV16 \<times> heap" where
  "SetConfiguration configuration m h =
     (case Config_Validate (mandatoryKeys m) configuration of
        Some err \<Rightarrow> (Some err, m, h)
      | None \<Rightarrow> (let (cfg, h) = deepCopyConfig configuration h in (None, m\<lparr>ocppConfig := cfg\<rparr>, h)))"

definition RegisterCustomKeyValidator :: "KeyValidator option \<Rightarrow> ManagerV16 \<Rightarrow> ManagerV16" where
  "RegisterCustomKeyValidator validator m = m\<lparr>keyValidator := validator\<rparr>"

definition GetMandatoryKeys :: "ManagerV16 \<Rightarrow> string list" where
  "GetMandatoryKeys m = mandatoryKeys m"

fun add_mandatory :: "string list \<Rightarrow> string list \<Rightarrow> string list" where
  "add_mandatory ks [] = ks"
| "add_mandatory ks (key # keys) =
     (if containsKey ks key then add_mandatory ks keys else add_mandatory (ks @ [key]) keys)"

definition SetMandatoryKeys :: "string list \<Rightarrow> ManagerV16 \<Rightarrow> ManagerV16" where
  "SetMandatoryKeys ks m = m\<lparr>mandatoryKeys := add_mandatory (mandatoryKeys m) ks\<rparr>"

definition SetRebootRequiredKeys :: "string list \<Rightarrow> ManagerV16 \<Rightarrow> ManagerV16" where
  "SetRebootRequiredKeys ks m = m\<lparr>rebootRequiredKeys := ks\<rparr>"

section \<open>Validating and updating\<close>

definition validateKeyLocked ::
  "ManagerV16 \<Rightarrow> string \<Rightarrow> ref option \<Rightarrow> heap \<Rightarrow> (string, go_error option) outcome \<times> heap" where
  "validateKeyLocked m key v h =
     (case keyValidator m of
        None \<Rightarrow> (Returns None, h)
      | Some validator \<Rightarrow>
          (case validator key v h of
             (Panics p, h) \<Rightarrow> (Panics p, h)
           | (Returns ok, h) \<Rightarrow>
               (Returns (if ok then None else Some (Errorf (''key validation failed for key '' @ key))), h)))"

definition ValidateKey ::
  "ManagerV16 \<Rightarrow> string \<Rightarrow> ref option \<Rightarrow> heap \<Rightarrow> (string, go_error option) outcome \<times> heap" where
  "ValidateKey m key v h = validateKeyLocked m key v h"

definition store_value :: "nat \<Rightarrow> ref option \<Rightarrow> ManagerV16 \<Rightarrow> ManagerV16" where
  "store_value i v m = m\<lparr>ocppConfig := set_value i v (ocppConfig m)\<rparr>"

definition runHandlerLocked ::
  "OnUpdateHandler \<Rightarrow> ref option \<Rightarrow> nat \<Rightarrow> ref option \<Rightarrow> ManagerV16 \<Rightarrow> heap \<Rightarrow>
     (string, go_error option) outcome \<times> ManagerV16 \<times> heap" where
  "runHandlerLocked handler v index origValue m h =
     (case handler v h of
        (Panics p, h) \<Rightarrow> (Panics p, store_value index origValue m, h)
      | (Returns (Some err), h) \<Rightarrow> (Returns (Some err), store_value index origValue m, h)
      | (Returns None, h) \<Rightarrow> (Returns None, m, h))"

definition updateKeyLocked ::
  "string \<Rightarrow> ref option \<Rightarrow> ManagerV16 \<Rightarrow> heap \<Rightarrow> (string, go_error option) outcome \<times> ManagerV16 \<times> heap" where
  "updateKeyLocked key v m h =
     (if key = [] then (Returns (Some ErrKeyCannotBeEmpty), m, h)
      else case validateKeyLocked m key v h of
             (Panics p, h) \<Rightarrow> (Panics p, m, h)
           | (Returns (Some err), h) \<Rightarrow> (Returns (Some err), m, h)
           | (Returns None, h) \<Rightarrow>
               (case findKeyIndex (Keys (ocppConfig m)) key of
                  None \<Rightarrow> (Returns (Some ErrKeyNotFound), m, h)
                | Some (original, index) \<Rightarrow>
                    if Readonly original then (Returns (Some ErrReadOnly), m, h)
                    else
                      let m = store_value index v m in
                      case map_of (onUpdateHandlers m) key of
                        Some handler \<Rightarrow> runHandlerLocked handler v index (ck_Value original) m h
                      | None \<Rightarrow> (Returns None, m, h)))"

definition UpdateKey ::
  "string \<Rightarrow> ref option \<Rightarrow> ManagerV16 \<Rightarrow> heap \<Rightarrow> (string, go_error option) outcome \<times> ManagerV16 \<times> heap" where
  "UpdateKey key v m h = updateKeyLocked key v m h"

definition GetConfiguration :: "ManagerV16 \<Rightarrow> heap \<Rightarrow> ConfigurationKey list \<times> heap" where
  "GetConfiguration m h = deepCopyKeys (Keys (ocppConfig m)) h"

definition GetConfigurationValue :: "string \<Rightarrow> ManagerV16 \<Rightarrow> heap \<Rightarrow> (go_error + ref option) \<times> heap" where
  "GetConfigurationValue key m h =
     (case Config_GetConfigurationValue key (ocppConfig m) of
        Inl err \<Rightarrow> (Inl err, h)
      | Inr None \<Rightarrow> (Inr None, h)
      | Inr (Some r) \<Rightarrow> (let (r', h) = new_ptr (deref h r) h in (Inr (Some r'), h)))"

definition OnUpdateKey :: "string \<Rightarrow> OnUpdateHandler option \<Rightarrow> ManagerV16 \<Rightarrow> go_error option \<times> ManagerV16" where
  "OnUpdateKey key handler m =
     (if key = [] then (Some ErrKeyCannotBeEmpty, m)
      else case handler of
             None \<Rightarrow> (Some ErrNilHandler, m)
           | Some f \<Rightarrow>
               (case Config_GetConfigurationValue key (ocppConfig m) of
                  Inl err \<Rightarrow> (Some err, m)
                | Inr _ \<Rightarrow> (None, m\<lparr>onUpdateHandlers := AList.update key f (onUpdateHandlers m)\<rparr>)))"

section \<open>Answering requests\<close>

datatype ConfigurationStatus =
    ConfigurationStatusAccepted | ConfigurationStatusRejected
  | ConfigurationStatusRebootRequired | ConfigurationStatusNotSupported

fun split_keys ::
  "ConfigurationKey list \<Rightarrow> string list \<Rightarrow> heap \<Rightarrow> (ConfigurationKey list \<times> string list) \<times> heap" where
  "split_keys store [] h = (([], []), h)"
| "split_keys store (k # ks) h =
     (case findKeyIndex store k of
        None \<Rightarrow> (let ((known, unknown), h) = split_keys store ks h in ((known, k # unknown), h))
      | Some (item, _) \<Rightarrow>
          (let (c, h) = deepCopyKey item h; ((known, unknown), h) = split_keys store ks h
           in ((c # known, unknown), h)))"

text \<open>The request is nil or a list of keys; the confirmation has the known keys and the unknown names.\<close>

definition OnGetConfiguration ::
  "string list option \<Rightarrow> ManagerV16 \<Rightarrow> heap \<Rightarrow> (ConfigurationKey list \<times> string list) \<times> heap" where
  "OnGetConfiguration req m h =
     (case req of
        None \<Rightarrow> (([], []), h)
      | Some ks \<Rightarrow>
          (if ks = [] then (let (all, h) = deepCopyKeys (Keys (ocppConfig m)) h in ((all, []), h))
           else split_keys (Keys (ocppConfig m)) ks h))"

definition OnChangeConfiguration ::
  "(go_error \<Rightarrow> go_error \<Rightarrow> bool) \<Rightarrow> (string \<times> string) option \<Rightarrow> ManagerV16 \<Rightarrow> heap \<Rightarrow>
     (string, ConfigurationStatus) outcome \<times> ManagerV16 \<times> heap" where
  "OnChangeConfiguration same req m h =
     (case req of
        None \<Rightarrow> (Returns ConfigurationStatusRejected, m, h)
      | Some (key, v) \<Rightarrow>
          (let (r, h) = new_ptr v h in
           case updateKeyLocked key (Some r) m h of
             (Panics p, m, h) \<Rightarrow> (Panics p, m, h)
           | (Returns (Some err), m, h) \<Rightarrow>
               (if errors_Is same err ErrKeyNotFound then (Returns ConfigurationStatusNotSupported, m, h)
                else (Returns ConfigurationStatusRejected, m, h))
           | (Returns None, m, h) \<Rightarrow>
               (if containsKey (rebootRequiredKeys m) key then (Returns ConfigurationStatusRebootRequired, m, h)
                else (Returns ConfigurationStatusAccepted, m, h))))"

section \<open>Atomic updates\<close>

text \<open>The configuration as a reader sees it.\<close>

definition view :: "ManagerV16 \<Rightarrow> heap \<Rightarrow> (string \<times> bool \<times> string option) list" where
  "view m h = map (key_view h) (Keys (ocppConfig m))"

definition manager_ok :: "ManagerV16 \<Rightarrow> heap \<Rightarrow> bool" where
  "manager_ok m h \<longleftrightarrow> keys_ok h (Keys (ocppConfig m))"

text \<open>User code that does not overwrite strings that existed before it ran.\<close>

definition respects_heap :: "ManagerV16 \<Rightarrow> bool" where
  "respects_heap m \<longleftrightarrow>
     (\<forall>f key v h. keyValidator m = Some f \<longrightarrow> extends h (snd (f key v h))) \<and>
     (\<forall>key f v h. map_of (onUpdateHandlers m) key = Some f \<longrightarrow> extends h (snd (f v h)))"

lemma set_value_back:
  "findKeyIndex (Keys cfg) key = Some (k, i) \<Longrightarrow> set_value i (ck_Value k) (set_value i v cfg) = cfg"
  by (cases cfg) (auto simp: set_value_def findKeyIndex_Some)

lemma store_value_back:
  "findKeyIndex (Keys (ocppConfig m)) key = Some (k, i) \<Longrightarrow> store_value i (ck_Value k) (store_value i v m) = m"
  by (simp add: store_value_def set_value_back)

lemma validate_extends:
  assumes "respects_heap m" and "validateKeyLocked m key v h = (r, h')"
  shows "extends h h'"
proof (cases "keyValidator m")
  case None
  with assms(2) show ?thesis by (simp add: validateKeyLocked_def)
next
  case (Some f)
  obtain r1 h1 where f: "f key v h = (r1, h1)" by (cases "f key v h")
  from assms(1) Some have "extends h (snd (f key v h))" by (simp add: respects_heap_def)
  with Some f assms(2) show ?thesis by (auto simp: validateKeyLocked_def split: outcome.splits)
qed

lemma runHandler_state:
  assumes "runHandlerLocked f v i orig m h = (res, m', h')"
  shows "m' = (if res = Returns None then m else store_value i orig m) \<and> h' = snd (f v h)"
proof -
  obtain r h1 where f: "f v h = (r, h1)" by (cases "f v h")
  with assms show ?thesis by (cases r) (auto simp: runHandlerLocked_def split: option.splits)
qed

text \<open>An update is all or nothing, whatever the validator and the handler do.\<close>

lemma updateKeyLocked_state:
  assumes "updateKeyLocked key v m h = (res, m', h')"
  shows "if res = Returns None
     then \<exists>k i. findKeyIndex (Keys (ocppConfig m)) key = Some (k, i) \<and> \<not> Readonly k \<and> m' = store_value i v m
     else m' = m"
proof (cases "key = []")
  case False
  obtain r1 h1 where val: "validateKeyLocked m key v h = (r1, h1)" by (cases "validateKeyLocked m key v h")
  show ?thesis
  proof (cases "r1 = Returns None \<and> (\<exists>k i. findKeyIndex (Keys (ocppConfig m)) key = Some (k, i) \<and> \<not> Readonly k)")
    case True
    then obtain k i where k: "findKeyIndex (Keys (ocppConfig m)) key = Some (k, i)" "\<not> Readonly k" by blast
    show ?thesis
    proof (cases "map_of (onUpdateHandlers m) key")
      case None
      with True k assms val False show ?thesis by (auto simp: updateKeyLocked_def store_value_def)
    next
      case (Some f)
      with True k assms val False
      have "runHandlerLocked f v i (ck_Value k) (store_value i v m) h1 = (res, m', h')"
        by (simp add: updateKeyLocked_def store_value_def)
      from runHandler_state [OF this] k show ?thesis by (simp add: store_value_back [OF k(1)])
    qed
  next
    case False
    have "res \<noteq> Returns None \<and> m' = m"
    proof (cases r1)
      case (Returns e)
      with False \<open>key \<noteq> []\<close> assms val show ?thesis
        by (cases e; cases "findKeyIndex (Keys (ocppConfig m)) key") (auto simp: updateKeyLocked_def)
    qed (use \<open>key \<noteq> []\<close> assms val in \<open>auto simp: updateKeyLocked_def\<close>)
    then show ?thesis by simp
  qed
qed (use assms in \<open>auto simp: updateKeyLocked_def\<close>)

lemma updateKeyLocked_extends:
  assumes "respects_heap m" and "updateKeyLocked key v m h = (res, m', h')"
  shows "extends h h'"
proof (cases "key = []")
  case False
  obtain r1 h1 where val: "validateKeyLocked m key v h = (r1, h1)" by (cases "validateKeyLocked m key v h")
  have ext: "extends h h1" by (rule validate_extends [OF assms(1) val])
  have "h' = h1 \<or> (\<exists>f. map_of (onUpdateHandlers m) key = Some f \<and> h' = snd (f v h1))"
    using assms(2) val False
    by (auto simp: updateKeyLocked_def store_value_def Let_def dest!: runHandler_state
        split: outcome.splits option.splits if_splits)
  then show ?thesis
  proof
    assume "\<exists>f. map_of (onUpdateHandlers m) key = Some f \<and> h' = snd (f v h1)"
    with assms(1) have "extends h1 h'" by (auto simp: respects_heap_def)
    with ext show ?thesis by (rule extends_trans)
  qed (use ext in simp)
qed (use assms in \<open>auto simp: updateKeyLocked_def\<close>)

lemma view_store:
  assumes "findKeyIndex (Keys (ocppConfig m)) key = Some (k, i)" and "manager_ok m h" and "extends h h'"
  shows "view (store_value i (Some r) m) h' = (view m h)[i := (key, Readonly k, Some (deref h' r))]"
proof -
  have eq: "map (key_view h') (Keys (ocppConfig m)) = view m h"
    using views_extends [OF _ assms(3)] assms(2) by (simp add: view_def manager_ok_def)
  have "i < length (Keys (ocppConfig m))" "Keys (ocppConfig m) ! i = k" "ck_Key k = key"
    using assms(1) by (auto simp: findKeyIndex_Some)
  moreover have "key_view h' (k\<lparr>ck_Value := Some r\<rparr>) = (ck_Key k, Readonly k, Some (deref h' r))"
    by (simp add: key_view_def)
  ultimately show ?thesis
    unfolding eq [symmetric] by (simp add: view_def store_value_def set_value_def map_update)
qed

lemma view_same: "manager_ok m h \<Longrightarrow> extends h h' \<Longrightarrow> view m h' = view m h"
  unfolding view_def manager_ok_def by (rule views_extends)

text \<open>
  C37: changing a configuration key is atomic. Accepted and RebootRequired mean that the first entry
  with the key, which was not read-only, now shows the requested value and nothing else changed
  (RebootRequired exactly for the keys registered for it); every other status, and a panic of the
  update handler or of the validator, leave the whole configuration as it was, handler and custom
  validator being arbitrary code that does not overwrite existing strings.
\<close>

theorem OnChangeConfiguration_atomic:
  assumes "manager_ok m h" and "respects_heap m"
    and "OnChangeConfiguration same (Some (key, v)) m h = (res, m', h')"
  shows "case res of
      Returns st \<Rightarrow>
        if st = ConfigurationStatusAccepted \<or> st = ConfigurationStatusRebootRequired
        then (\<exists>k i. findKeyIndex (Keys (ocppConfig m)) key = Some (k, i) \<and> \<not> Readonly k \<and>
               view m' h' = (view m h)[i := (key, False, Some v)]) \<and>
             (st = ConfigurationStatusRebootRequired \<longleftrightarrow> key \<in> set (rebootRequiredKeys m))
        else view m' h' = view m h
    | Panics _ \<Rightarrow> view m' h' = view m h"
proof -
  obtain r h1 where p: "new_ptr v h = (r, h1)" by (cases "new_ptr v h")
  note ptr = new_ptr_extends [OF p]
  obtain res1 m1 h2 where u: "updateKeyLocked key (Some r) m h1 = (res1, m1, h2)"
    by (metis prod_cases3)
  note eff = updateKeyLocked_state [OF u]
  note grown = updateKeyLocked_extends [OF assms(2) u]
  have ext: "extends h h2" using ptr grown extends_trans by blast
  have val: "deref h2 r = v" using ptr grown by (auto simp: extends_def)
  have m'h': "m' = m1" "h' = h2" using assms(3) p u
    by (auto simp: OnChangeConfiguration_def split: outcome.splits option.splits if_splits)
  show ?thesis
  proof (cases "res1 = Returns None")
    case True
    with eff obtain k i where k: "findKeyIndex (Keys (ocppConfig m)) key = Some (k, i)" "\<not> Readonly k"
      "m1 = store_value i (Some r) m" by auto
    have "rebootRequiredKeys m1 = rebootRequiredKeys m" by (simp add: k(3) store_value_def)
    with True assms(3) p u have "res = Returns (if key \<in> set (rebootRequiredKeys m)
        then ConfigurationStatusRebootRequired else ConfigurationStatusAccepted)"
      by (auto simp: OnChangeConfiguration_def split: if_splits)
    with k view_store [OF k(1) assms(1) ext, of r] val show ?thesis by (simp add: m'h')
  next
    case False
    with eff have "m1 = m" by simp
    moreover have "res \<noteq> Returns ConfigurationStatusAccepted" "res \<noteq> Returns ConfigurationStatusRebootRequired"
      using False assms(3) p u
      by (auto simp: OnChangeConfiguration_def split: outcome.splits option.splits if_splits)
    ultimately show ?thesis using view_same [OF assms(1) ext] by (cases res) (auto simp: m'h')
  qed
qed

section \<open>Reading the configuration\<close>

definition first_view :: "ManagerV16 \<Rightarrow> heap \<Rightarrow> string \<Rightarrow> (string \<times> bool \<times> string option) option" where
  "first_view m h key = find (\<lambda>(k, _, _). k = key) (view m h)"

lemma find_from_view:
  "find (\<lambda>(k, _, _). k = key) (map (key_view h) ks) = map_option (\<lambda>(k, _). key_view h k) (find_from i ks key)"
  by (induction ks arbitrary: i) (auto simp: key_view_def)

lemma first_view_find:
  "first_view m h key = map_option (\<lambda>(k, _). key_view h k) (findKeyIndex (Keys (ocppConfig m)) key)"
  by (simp add: first_view_def view_def findKeyIndex_def find_from_view [where i = 0])

lemma split_keys_correct:
  assumes "manager_ok m h" and "split_keys (Keys (ocppConfig m)) ks h = ((known, unknown), h')"
  shows "extends h h' \<and> unknown = filter (\<lambda>k. first_view m h k = None) ks \<and>
    map (key_view h') known = List.map_filter (first_view m h) ks \<and>
    (\<forall>r \<in> refs known. next_ref h \<le> r \<and> r < next_ref h')"
  using assms
proof (induction ks arbitrary: h known unknown h')
  case Nil
  then show ?case by (auto simp: map_filter_simps)
next
  case (Cons k ks)
  show ?case
  proof (cases "findKeyIndex (Keys (ocppConfig m)) k")
    case None
    then have none: "first_view m h k = None" for h by (simp add: first_view_find)
    from Cons.prems(2) None obtain unknown' where
      "split_keys (Keys (ocppConfig m)) ks h = ((known, unknown'), h')" "unknown = k # unknown'"
      by (auto split: prod.splits)
    with Cons.IH [OF Cons.prems(1)] none show ?thesis by (simp add: map_filter_simps)
  next
    case (Some p)
    then obtain item i where item: "findKeyIndex (Keys (ocppConfig m)) k = Some (item, i)" by (cases p) auto
    from Cons.prems(2) item obtain c h1 known' where c: "deepCopyKey item h = (c, h1)"
      and rest: "split_keys (Keys (ocppConfig m)) ks h1 = ((known', unknown), h')" and known: "known = c # known'"
      by (auto split: prod.splits)
    have "item \<in> set (Keys (ocppConfig m))" using item by (auto simp: findKeyIndex_Some)
    then have "keys_ok h [item]" using Cons.prems(1) by (auto simp: manager_ok_def keys_ok_def refs_def)
    note copy = deepCopyKey_fresh [OF this c]
    then have ext: "extends h h1" by (simp add: fresh_copy_def)
    have ok1: "manager_ok m h1" using keys_ok_extends [OF _ ext] Cons.prems(1) by (simp add: manager_ok_def)
    note IH = Cons.IH [OF ok1 rest]
    have same: "first_view m h1 = first_view m h"
      unfolding first_view_def view_same [OF Cons.prems(1) ext] by simp
    have "keys_ok h1 [c]" using copy by (auto simp: fresh_copy_def keys_ok_def)
    then have "key_view h' c = key_view h item"
      using views_extends [of h1 "[c]" h'] IH copy by (simp add: fresh_copy_def)
    moreover have "first_view m h k = Some (key_view h item)" by (simp add: first_view_find item)
    moreover have "extends h h'" using extends_trans [OF ext] IH by blast
    moreover have "\<forall>r \<in> refs known. next_ref h \<le> r \<and> r < next_ref h'"
    proof -
      have "next_ref h \<le> next_ref h1" "next_ref h1 \<le> next_ref h'" using ext IH by (auto simp: extends_def)
      then show ?thesis using IH copy by (fastforce simp: known fresh_copy_def)
    qed
    ultimately show ?thesis using IH by (simp add: known map_filter_simps same)
  qed
qed

text \<open>
  C38: reading the configuration. An empty key list returns every entry; otherwise the confirmation
  lists, in request order, the current entry of each known key and the name of each unknown one. The
  answer shares no pointer with the store: writing through any pointer of it does not change what the
  store shows. A nil request is answered with an empty confirmation.
\<close>

theorem OnGetConfiguration_partition:
  assumes "manager_ok m h" and "OnGetConfiguration req m h = ((known, unknown), h')"
  shows "(case req of
      None \<Rightarrow> known = [] \<and> unknown = []
    | Some ks \<Rightarrow>
        if ks = [] then map (key_view h') known = view m h \<and> unknown = []
        else map (key_view h') known = List.map_filter (first_view m h) ks \<and>
             unknown = filter (\<lambda>k. first_view m h k = None) ks) \<and>
    (\<forall>r \<in> refs known. \<forall>x. view m (assign h' r x) = view m h)"
proof -
  have fresh: "extends h h' \<and> (\<forall>r \<in> refs known. next_ref h \<le> r)"
  proof (cases req)
    case (Some ks)
    show ?thesis
    proof (cases "ks = []")
      case True
      with Some assms(2) have "deepCopyKeys (Keys (ocppConfig m)) h = (known, h')"
        by (auto simp: OnGetConfiguration_def split: prod.splits)
      from deepCopyKeys_fresh [OF _ this] assms(1) show ?thesis by (auto simp: manager_ok_def fresh_copy_def)
    next
      case False
      with Some assms(2) have "split_keys (Keys (ocppConfig m)) ks h = ((known, unknown), h')"
        by (simp add: OnGetConfiguration_def)
      from split_keys_correct [OF assms(1) this] show ?thesis by blast
    qed
  qed (use assms(2) in \<open>auto simp: OnGetConfiguration_def\<close>)
  have unaliased: "view m (assign h' r x) = view m h" if "r \<in> refs known" for r x
  proof -
    have "r \<notin> refs (Keys (ocppConfig m))" using fresh that assms(1) by (fastforce simp: manager_ok_def keys_ok_def)
    then have "map (key_view (assign h' r x)) (Keys (ocppConfig m)) = map (key_view h') (Keys (ocppConfig m))"
      by (intro views_agree) auto
    moreover have "view m h' = view m h" using view_same [OF assms(1)] fresh by blast
    ultimately show ?thesis by (simp add: view_def)
  qed
  have "case req of
      None \<Rightarrow> known = [] \<and> unknown = []
    | Some ks \<Rightarrow>
        if ks = [] then map (key_view h') known = view m h \<and> unknown = []
        else map (key_view h') known = List.map_filter (first_view m h) ks \<and>
             unknown = filter (\<lambda>k. first_view m h k = None) ks"
  proof (cases req)
    case (Some ks)
    then show ?thesis
      using assms split_keys_correct [OF assms(1), of ks known unknown h']
        deepCopyKeys_fresh [of h "Keys (ocppConfig m)" known h']
      by (auto simp: OnGetConfiguration_def manager_ok_def fresh_copy_def view_def split: prod.splits)
  qed (use assms(2) in \<open>auto simp: OnGetConfiguration_def\<close>)
  with unaliased show ?thesis by blast
qed

section \<open>Mandatory keys\<close>

text \<open>
  The default configuration of any non-empty list of known profiles exists and is accepted by
  \<open>NewManagerV16\<close> for the same profiles: it has every mandatory key of all of them, and the manager
  shows exactly its entries. For an empty list, and as soon as one profile is unknown, it is an error.
\<close>

theorem default_configuration_accepted:
  "(\<exists>cfg h1. DefaultConfigurationFromProfiles profiles h = (Inr cfg, h1) \<and>
      (\<exists>m h2. NewManagerV16 cfg profiles h1 = (Inr m, h2) \<and> manager_ok m h2 \<and>
         view m h2 = map (key_view h1) (Keys cfg))) =
   (profiles \<noteq> [] \<and> None \<notin> default_of ` set profiles)"
  (is "?L = ?R")
proof
  assume ?L
  then show ?R
    using default_keys_succeeds [of profiles h]
    by (auto simp: DefaultConfigurationFromProfiles_def split: if_splits prod.splits sum.splits)
next
  assume r: ?R
  then obtain ks h1 where d: "default_keys profiles h = (Inr ks, h1)"
    using default_keys_succeeds [of profiles h] by (metis image_eqI)
  let ?cfg = "\<lparr>Version = 1, Keys = ks\<rparr>"
  have "Config_Validate (GetMandatoryKeysForProfile profiles) ?cfg = None"
    using default_keys_mandatory [OF d] by (simp add: Validate_accepts)
  moreover obtain ks' h2 where c: "deepCopyKeys ks h1 = (ks', h2)" by (cases "deepCopyKeys ks h1")
  moreover have "fresh_copy h1 h2 ks ks'" using deepCopyKeys_fresh [OF _ c] default_keys_ok [OF d] by blast
  ultimately have "\<exists>m. NewManagerV16 ?cfg profiles h1 = (Inr m, h2) \<and> manager_ok m h2 \<and>
      view m h2 = map (key_view h1) ks"
    by (auto simp: NewManagerV16_def deepCopyConfig_def manager_ok_def keys_ok_def view_def fresh_copy_def)
  moreover have "DefaultConfigurationFromProfiles profiles h = (Inr ?cfg, h1)"
    using r d by (simp add: DefaultConfigurationFromProfiles_def)
  ultimately show ?L by fastforce
qed

text \<open>The operations that change a manager, with the heap they work on.\<close>

datatype manager_op =
    OpSetConfiguration Config
  | OpSetMandatoryKeys "string list"
  | OpSetRebootRequiredKeys "string list"
  | OpRegisterValidator "KeyValidator option"
  | OpOnUpdateKey string "OnUpdateHandler option"
  | OpUpdateKey string "ref option"
  | OpOnChangeConfiguration "(string \<times> string) option"

fun manager_apply ::
  "(go_error \<Rightarrow> go_error \<Rightarrow> bool) \<Rightarrow> ManagerV16 \<times> heap \<Rightarrow> manager_op \<Rightarrow> ManagerV16 \<times> heap" where
  "manager_apply same (m, h) (OpSetConfiguration cfg) = snd (SetConfiguration cfg m h)"
| "manager_apply same (m, h) (OpSetMandatoryKeys ks) = (SetMandatoryKeys ks m, h)"
| "manager_apply same (m, h) (OpSetRebootRequiredKeys ks) = (SetRebootRequiredKeys ks m, h)"
| "manager_apply same (m, h) (OpRegisterValidator f) = (RegisterCustomKeyValidator f m, h)"
| "manager_apply same (m, h) (OpOnUpdateKey key f) = (snd (OnUpdateKey key f m), h)"
| "manager_apply same (m, h) (OpUpdateKey key v) = snd (UpdateKey key v m h)"
| "manager_apply same (m, h) (OpOnChangeConfiguration req) = snd (OnChangeConfiguration same req m h)"

definition has_keys :: "string set \<Rightarrow> ManagerV16 \<Rightarrow> bool" where
  "has_keys M m \<longleftrightarrow> M \<subseteq> set (mandatoryKeys m) \<and> M \<subseteq> ck_Key ` set (Keys (ocppConfig m))"

lemma has_keys_store [simp]: "has_keys M (store_value i v m) \<longleftrightarrow> has_keys M m"
proof -
  have "ck_Key ` set (Keys (set_value i v (ocppConfig m))) = ck_Key ` set (Keys (ocppConfig m))"
    using set_value_keys(1) [of i v "ocppConfig m"] by (metis list.set_map)
  then show ?thesis by (simp add: has_keys_def store_value_def)
qed

lemma add_mandatory_mono: "set ks \<subseteq> set (add_mandatory ks keys)"
  by (induction ks keys rule: add_mandatory.induct) auto

lemma updateKeyLocked_has_keys:
  assumes "has_keys M m" and "updateKeyLocked key v m h = (res, m', h')"
  shows "has_keys M m'"
  using assms(1) updateKeyLocked_state [OF assms(2)] by (auto split: if_splits)

lemma deepCopyKeys_names: "deepCopyKeys ks h = (ks', h') \<Longrightarrow> map ck_Key ks' = map ck_Key ks"
proof (induction ks arbitrary: h ks' h')
  case (Cons k ks)
  obtain k1 h1 where k: "deepCopyKey k h = (k1, h1)" by (cases "deepCopyKey k h")
  have "ck_Key k1 = ck_Key k" using k by (auto simp: deepCopyKey_def split: option.splits prod.splits)
  with Cons k show ?case by (auto split: prod.splits)
qed simp

lemma deepCopyConfig_names:
  assumes "deepCopyConfig cfg h = (cfg', h')"
  shows "ck_Key ` set (Keys cfg') = ck_Key ` set (Keys cfg)"
proof -
  obtain ks where "deepCopyKeys (Keys cfg) h = (ks, h')" "cfg' = \<lparr>Version = Version cfg, Keys = ks\<rparr>"
    using assms by (auto simp: deepCopyConfig_def split: prod.splits)
  with deepCopyKeys_names have "map ck_Key (Keys cfg') = map ck_Key (Keys cfg)" by fastforce
  then show ?thesis by (metis list.set_map)
qed

lemma manager_apply_has_keys:
  assumes "has_keys M m" and "manager_apply same (m, h) op = (m', h')"
  shows "has_keys M m'"
proof (cases op)
  case (OpSetConfiguration cfg)
  show ?thesis
  proof (cases "Config_Validate (mandatoryKeys m) cfg")
    case None
    obtain cfg' h1 where c: "deepCopyConfig cfg h = (cfg', h1)" by (cases "deepCopyConfig cfg h")
    with None OpSetConfiguration assms(2) have "m' = m\<lparr>ocppConfig := cfg'\<rparr>" by (simp add: SetConfiguration_def)
    moreover have "set (mandatoryKeys m) \<subseteq> ck_Key ` set (Keys cfg')"
      using None deepCopyConfig_names [OF c] by (simp add: Validate_accepts)
    ultimately show ?thesis using assms(1) by (auto simp: has_keys_def)
  qed (use OpSetConfiguration assms in \<open>simp add: SetConfiguration_def\<close>)
next
  case (OpSetMandatoryKeys ks)
  then show ?thesis using assms add_mandatory_mono [of "mandatoryKeys m" ks] by (auto simp: has_keys_def SetMandatoryKeys_def)
next
  case (OpUpdateKey key v)
  then show ?thesis using assms updateKeyLocked_has_keys [OF assms(1)] by (metis UpdateKey_def manager_apply.simps(6) prod.collapse)
next
  case (OpOnChangeConfiguration req)
  then show ?thesis
    using assms updateKeyLocked_has_keys [OF assms(1)]
    by (auto simp: OnChangeConfiguration_def split: option.splits prod.splits outcome.splits if_splits)
next
  case (OpOnUpdateKey key f)
  then show ?thesis
    using assms by (auto simp: has_keys_def OnUpdateKey_def split: if_splits option.splits sum.splits)
qed (use assms in \<open>auto simp: has_keys_def SetRebootRequiredKeys_def RegisterCustomKeyValidator_def\<close>)


section \<open>Findings\<close>

text \<open>
  C40: the stored value aliases the caller's pointer. After a successful \<open>UpdateKey\<close>, writing through
  the pointer that was passed in changes the stored value, bypassing the validator, the update handler
  and a later read-only mark.
\<close>

theorem UpdateKey_keeps_callers_pointer:
  assumes "UpdateKey key (Some r) m h = (Returns None, m', h')"
  shows "\<exists>r' h3. GetConfigurationValue key m' (assign h' r x) = (Inr (Some r'), h3) \<and> deref h3 r' = x"
proof -
  have u: "updateKeyLocked key (Some r) m h = (Returns None, m', h')" using assms by (simp add: UpdateKey_def)
  then obtain k i where k: "findKeyIndex (Keys (ocppConfig m)) key = Some (k, i)" "m' = store_value i (Some r) m"
    using updateKeyLocked_state [OF u] by auto
  then have "i < length (Keys (ocppConfig m))" "ck_Key (Keys (ocppConfig m) ! i) = key"
    "\<forall>n < i. ck_Key (Keys (ocppConfig m) ! n) \<noteq> key" by (auto simp: findKeyIndex_Some)
  then have "findKeyIndex (Keys (ocppConfig m')) key = Some ((Keys (ocppConfig m) ! i)\<lparr>ck_Value := Some r\<rparr>, i)"
    by (simp add: findKeyIndex_Some k(2) store_value_def set_value_def)
  moreover obtain r' h3 where p: "new_ptr x (assign h' r x) = (r', h3)" by (cases "new_ptr x (assign h' r x)")
  ultimately show ?thesis
    using new_ptr_extends [OF p]
    by (intro exI [of _ r'] exI [of _ h3]) (auto simp: GetConfigurationValue_def Config_GetConfigurationValue_def)
qed

definition sample_manager :: "(string, OnUpdateHandler) gomap \<Rightarrow> ManagerV16" where
  "sample_manager hs = \<lparr>ocppConfig = \<lparr>Version = 1, Keys = [\<lparr>ck_Key = ''A'', Readonly = True, ck_Value = None\<rparr>,
       \<lparr>ck_Key = ''B'', Readonly = False, ck_Value = Some 0\<rparr>]\<rparr>,
     mandatoryKeys = [], rebootRequiredKeys = [''B''], keyValidator = None, onUpdateHandlers = hs\<rparr>"

definition sample_heap :: heap where
  "sample_heap = \<lparr>cells = \<lambda>_. ''old'', next_ref = 2\<rparr>"

lemmas config_eval = sample_manager_def sample_heap_def updateKeyLocked_def
  validateKeyLocked_def store_value_def set_value_def findKeyIndex_def new_ptr_def alloc_def deref_def

theorem UpdateKey_keeps_callers_pointer_witness:
  "\<exists>m' h'. UpdateKey ''B'' (Some 1) (sample_manager []) sample_heap = (Returns None, m', h') \<and>
     (\<exists>r' h3. GetConfigurationValue ''B'' m' (assign h' 1 ''changed'') = (Inr (Some r'), h3) \<and> deref h3 r' = ''changed'')"
proof -
  obtain m' h' where u: "UpdateKey ''B'' (Some 1) (sample_manager []) sample_heap = (Returns None, m', h')"
    by (simp add: UpdateKey_def config_eval)
  from u UpdateKey_keeps_callers_pointer [OF u, of "''changed''"] show ?thesis by blast
qed

text \<open>
  The status of a failed update handler. The documentation of \<open>OnChangeConfiguration\<close> says that a
  handler's error is reported as Rejected; when the error is, or wraps, \<open>ErrKeyNotFound\<close>, the status is
  NotSupported although the key exists and was applied and rolled back.
\<close>

theorem handler_error_reported_NotSupported:
  "fst (OnChangeConfiguration same (Some (''B'', ''new''))
     (sample_manager [(''B'', \<lambda>_ h. (Returns (Some (Wrapped ''no route'' ErrKeyNotFound)), h))]) sample_heap) =
   Returns ConfigurationStatusNotSupported"
  by (simp add: OnChangeConfiguration_def config_eval runHandlerLocked_def ErrKeyNotFound_def)

section \<open>Witnesses\<close>

lemma sample_manager_ok: "manager_ok (sample_manager hs) sample_heap"
  by (simp add: manager_ok_def keys_ok_def sample_manager_def sample_heap_def)

theorem OnChangeConfiguration_atomic_witness:
  "\<exists>m' h'. OnChangeConfiguration (=) (Some (''B'', ''new''))
       (sample_manager [(''B'', \<lambda>_ h. (Panics ''boom'', h))]) sample_heap = (Panics ''boom'', m', h') \<and>
     view m' h' = [(''A'', True, None), (''B'', False, Some ''old'')]"
proof -
  let ?m = "sample_manager [(''B'', \<lambda>_ h. (Panics ''boom'', h))]"
  obtain m' h' where c: "OnChangeConfiguration (=) (Some (''B'', ''new'')) ?m sample_heap = (Panics ''boom'', m', h')"
    by (simp add: OnChangeConfiguration_def config_eval runHandlerLocked_def)
  have "respects_heap ?m" by (simp add: respects_heap_def sample_manager_def)
  moreover have "view ?m sample_heap = [(''A'', True, None), (''B'', False, Some ''old'')]"
    by (simp add: view_def key_view_def config_eval)
  ultimately show ?thesis using OnChangeConfiguration_atomic [OF sample_manager_ok _ c] c by auto
qed

theorem OnGetConfiguration_partition_witness:
  "\<exists>known h'. OnGetConfiguration (Some [''B'', ''C'']) (sample_manager []) sample_heap = ((known, [''C'']), h') \<and>
     map (key_view h') known = [(''B'', False, Some ''old'')]"
proof -
  obtain known unknown h' where g: "OnGetConfiguration (Some [''B'', ''C'']) (sample_manager []) sample_heap =
      ((known, unknown), h')" by (metis surj_pair)
  from OnGetConfiguration_partition [OF sample_manager_ok g] g show ?thesis
    by (auto simp: first_view_find map_filter_simps key_view_def config_eval)
qed


end
