(* ===== verification/Server_Dispatcher.thy ===== *)
theory Server_Dispatcher
  imports Client_Dispatcher
begin

text \<open>
  \<open>ocppj/dispatcher.go\<close>, second half: \<open>DefaultServerDispatcher\<close>. One message pump serves the queues
  of all clients; a watcher goroutine per request in flight reports its timeout or its caller's
  cancellation through channels. The methods are functions on the dispatcher's state, the branches
  of the pump's \<open>select\<close> functions on that state and the pump's local maps.
\<close>

section \<open>State\<close>

record serverDispatchRequest =
  sdr_clientID :: string
  deleteAck :: bool

record serverReadyToken =
  srt_clientID :: string
  srt_requestID :: string

text \<open>
  A \<open>clientTimeoutContext\<close> is a context made by \<open>context.WithTimeout\<close> or \<open>context.WithCancel\<close>,
  compared by identity; its two fields are nil together (\<^const>\<open>None\<close>).
\<close>

type_synonym clientTimeoutContext = "nat option"

definition isActive :: "clientTimeoutContext \<Rightarrow> bool" where
  [sdisp_defs]: "isActive c \<longleftrightarrow> c \<noteq> None"

record serverTimeoutToken =
  stt_clientID :: string
  stt_ctx :: clientTimeoutContext

record serverCancelToken =
  sct_clientID :: string
  sct_requestID :: string
  sct_ctx :: ctx

datatype dispatchStatus = dispatchIdle | dispatchWritten | dispatchCompletedNoWrite

text \<open>A goroutine running \<open>waitForTimeout\<close>.\<close>

record watcher =
  w_clientID :: string
  w_requestID :: string
  w_clientCtx :: nat
  w_userCtx :: ctx

datatype server_event =
    ServerWrote string string
  | ServerCancelCallback string string request go_error
  | DeleteAcked string

record ServerDispatcher =
  queueMap :: FIFOQueueMap
  queueStore :: "element queue_store"
  sd_requestChannel :: "serverDispatchRequest chan option"
  sd_readyForDispatch :: "serverReadyToken chan"
  sd_pending :: "serverState \<times> state_store"
  sd_timeout :: int
  timerC :: "serverTimeoutToken chan"
  cancelC :: "serverCancelToken chan"
  sd_running :: bool
  stoppedC :: bool
  sd_onRequestCancel :: bool
  sd_network :: bool
  next_ctx :: nat
  canceled_ctxs :: "nat list"
  watchers :: "watcher list"
  sd_events :: "server_event list"

definition NewDefaultServerDispatcher :: "FIFOQueueMap \<Rightarrow> element queue_store \<Rightarrow> state_store \<Rightarrow> ServerDispatcher" where
  "NewDefaultServerDispatcher qm qs ss =
     \<lparr>queueMap = qm, queueStore = qs, sd_requestChannel = None, sd_readyForDispatch = new_chan 1,
      sd_pending = ([], ss), sd_timeout = defaultMessageTimeout, timerC = new_chan 0, cancelC = new_chan 0,
      sd_running = False, stoppedC = False, sd_onRequestCancel = False, sd_network = False,
      next_ctx = 0, canceled_ctxs = [], watchers = [], sd_events = []\<rparr>"

definition SD_Start :: "ServerDispatcher \<Rightarrow> ServerDispatcher" where
  [sdisp_defs]: "SD_Start d =
     d\<lparr>sd_requestChannel := Some (new_chan 20), timerC := new_chan 10, cancelC := new_chan 10,
       stoppedC := False, sd_running := True\<rparr>"

definition SD_IsRunning :: "ServerDispatcher \<Rightarrow> bool" where
  [sdisp_defs]: "SD_IsRunning d \<longleftrightarrow> sd_running d"

definition SD_Stop :: "ServerDispatcher \<Rightarrow> ServerDispatcher" where
  [sdisp_defs]: "SD_Stop d = (if \<not> sd_running d then d else d\<lparr>sd_running := False, stoppedC := True\<rparr>)"

definition SD_SetTimeout :: "int \<Rightarrow> ServerDispatcher \<Rightarrow> ServerDispatcher" where
  [sdisp_defs]: "SD_SetTimeout t d = d\<lparr>sd_timeout := t\<rparr>"

definition SD_SetNetworkServer :: "bool \<Rightarrow> ServerDispatcher \<Rightarrow> ServerDispatcher" where
  [sdisp_defs]: "SD_SetNetworkServer n d = d\<lparr>sd_network := n\<rparr>"

definition SD_SetOnRequestCanceled :: "bool \<Rightarrow> ServerDispatcher \<Rightarrow> ServerDispatcher" where
  [sdisp_defs]: "SD_SetOnRequestCanceled cb d = d\<lparr>sd_onRequestCancel := cb\<rparr>"

definition SD_SetPendingRequestState :: "serverState \<times> state_store \<Rightarrow> ServerDispatcher \<Rightarrow> ServerDispatcher" where
  [sdisp_defs]: "SD_SetPendingRequestState s d = d\<lparr>sd_pending := s\<rparr>"

section \<open>Clients and requests\<close>

text \<open>\<open>CreateClient\<close>; \<^const>\<open>None\<close> where \<open>NewFIFOClientQueue\<close> panics on a negative capacity.\<close>

definition CreateClient :: "string \<Rightarrow> ServerDispatcher \<Rightarrow> ServerDispatcher option" where
  [sdisp_defs]: "CreateClient c d =
     (if \<not> sd_running d then Some d
      else map_option (\<lambda>(r, qm, qs). d\<lparr>queueMap := qm, queueStore := qs\<rparr>)
             (QueueMap_GetOrCreate (queueMap d) (queueStore d) c))"

definition post_request :: "serverDispatchRequest \<Rightarrow> ServerDispatcher \<Rightarrow> ServerDispatcher" where
  [sdisp_defs]: "post_request x d = d\<lparr>sd_requestChannel := map_option (chan_send x) (sd_requestChannel d)\<rparr>"

definition DeleteClient :: "string \<Rightarrow> ServerDispatcher \<Rightarrow> ServerDispatcher" where
  [sdisp_defs]: "DeleteClient c d =
     (let d = d\<lparr>queueMap := QueueMap_Remove (queueMap d) c\<rparr> in
      if sd_running d then post_request \<lparr>sdr_clientID = c, deleteAck = False\<rparr> d else d)"

text \<open>\<open>DeleteClientAndWait\<close> up to its final \<open>select\<close>, which waits for the pump's acknowledgement.\<close>

definition DeleteClientAndWait :: "string \<Rightarrow> ServerDispatcher \<Rightarrow> ServerDispatcher" where
  [sdisp_defs]: "DeleteClientAndWait c d =
     (let d = d\<lparr>queueMap := QueueMap_Remove (queueMap d) c\<rparr> in
      if \<not> sd_running d then d else post_request \<lparr>sdr_clientID = c, deleteAck = True\<rparr> d)"

definition SD_fireRequestCancel ::
  "string \<Rightarrow> string \<Rightarrow> request \<Rightarrow> go_error \<Rightarrow> ServerDispatcher \<Rightarrow> ServerDispatcher" where
  [sdisp_defs]: "SD_fireRequestCancel c rid req err d =
     (if \<not> sd_onRequestCancel d then d
      else d\<lparr>sd_events := sd_events d @ [ServerCancelCallback c rid req (the (markLocalTransportError (Some err)))]\<rparr>)"

datatype server_send_error =
    SNoNetwork string
  | SNoClient string string
  | SPushFailed queue_error
  | SNotRunning string
  | SNilCallPanic

definition call_id :: "(string \<Rightarrow> server_send_error) \<Rightarrow> RequestBundle \<Rightarrow> server_send_error" where
  "call_id err b = (case bundle_Call b of Some c \<Rightarrow> err (Call_UniqueId c) | None \<Rightarrow> SNilCallPanic)"

definition SD_SendRequest ::
  "string \<Rightarrow> RequestBundle \<Rightarrow> ServerDispatcher \<Rightarrow> server_send_error option \<times> ServerDispatcher" where
  [sdisp_defs]: "SD_SendRequest c req d =
     (if \<not> sd_network d then (Some (call_id SNoNetwork req), d)
      else case QueueMap_Get (queueMap d) c of
             None \<Rightarrow> (Some (call_id (\<lambda>i. SNoClient i c) req), d)
           | Some r \<Rightarrow>
               (case FIFO_Push (Some (Bundle req)) (deref (queueStore d) r) of
                  Inl e \<Rightarrow> (Some (SPushFailed e), d)
                | Inr q \<Rightarrow>
                    (let d = d\<lparr>queueStore := assign (queueStore d) r q\<rparr> in
                     if \<not> sd_running d then (Some (call_id SNotRunning req), d)
                     else (None, post_request \<lparr>sdr_clientID = c, deleteAck = False\<rparr> d))))"

definition completeRequestOwned ::
  "string \<Rightarrow> string \<Rightarrow> ServerDispatcher \<Rightarrow> (RequestBundle \<times> Call) option \<times> ServerDispatcher" where
  [sdisp_defs]: "completeRequestOwned c rid d =
     (case QueueMap_Get (queueMap d) c of
        None \<Rightarrow> (None, d)
      | Some r \<Rightarrow>
          (let ((el, popped), q) = FIFO_PopIf (has_id rid) (deref (queueStore d) r) in
           if \<not> popped then (None, d)
           else (well_formed el,
                 d\<lparr>queueStore := assign (queueStore d) r q,
                   sd_pending := ServerState_DeletePendingRequest c rid (sd_pending d)\<rparr>)))"

definition SD_CompleteRequest :: "string \<Rightarrow> string \<Rightarrow> ServerDispatcher \<Rightarrow> bool \<times> ServerDispatcher" where
  [sdisp_defs]: "SD_CompleteRequest c rid d =
     (case completeRequestOwned c rid d of
        (None, d) \<Rightarrow> (False, d)
      | (Some _, d) \<Rightarrow>
          (True, d\<lparr>sd_readyForDispatch :=
             chan_send \<lparr>srt_clientID = c, srt_requestID = rid\<rparr> (sd_readyForDispatch d)\<rparr>))"

section \<open>Dispatching\<close>

text \<open>The outside world at one moment: results of network writes to a client, and the contexts' errors.\<close>

record server_outside =
  snet_write :: "string \<Rightarrow> string \<Rightarrow> go_error option"
  sctx_err :: "nat \<Rightarrow> go_error option"

fun SCtx_Err :: "server_outside \<Rightarrow> ctx \<Rightarrow> go_error option" where
  "SCtx_Err W Background = None"
| "SCtx_Err W (Cancelable n) = sctx_err W n"

definition own_and_cancel ::
  "string \<Rightarrow> string \<Rightarrow> request \<Rightarrow> go_error \<Rightarrow> ServerDispatcher \<Rightarrow> ServerDispatcher" where
  [sdisp_defs]: "own_and_cancel c rid req err d =
     (case completeRequestOwned c rid d of
        (Some _, d) \<Rightarrow> SD_fireRequestCancel c rid req err d
      | (None, d) \<Rightarrow> d)"

definition new_client_ctx :: "ctx \<Rightarrow> ServerDispatcher \<Rightarrow> clientTimeoutContext \<times> ServerDispatcher" where
  [sdisp_defs]: "new_client_ctx userCtx d =
     (if sd_timeout d > 0 \<or> userCtx \<noteq> Background
      then (Some (next_ctx d), d\<lparr>next_ctx := Suc (next_ctx d)\<rparr>) else (None, d))"

definition SD_dispatchNextRequest ::
  "server_outside \<Rightarrow> string \<Rightarrow> ServerDispatcher \<Rightarrow>
     (clientTimeoutContext \<times> string \<times> ctx option \<times> dispatchStatus) \<times> ServerDispatcher" where
  [sdisp_defs]: "SD_dispatchNextRequest W c d =
     (case QueueMap_Get (queueMap d) c of
        None \<Rightarrow> ((None, [], None, dispatchIdle), d)
      | Some r \<Rightarrow>
          (case well_formed (FIFO_Peek (deref (queueStore d) r)) of
             None \<Rightarrow> ((None, [], None, dispatchIdle), d)
           | Some (bundle, call) \<Rightarrow>
               (case bundle_Data bundle of
                  None \<Rightarrow> ((None, [], None, dispatchIdle), d)
                | Some jsonMessage \<Rightarrow>
                    (let userCtx = bundleCtx bundle; callID = Call_UniqueId call in
                     case SCtx_Err W userCtx of
                       Some e \<Rightarrow>
                         ((None, [], None, dispatchCompletedNoWrite),
                          own_and_cancel c callID (Call_Payload call) (newRequestCanceledError callID (Some e)) d)
                     | None \<Rightarrow>
                         (let d = d\<lparr>sd_pending :=
                                ServerState_AddPendingRequest c callID (Call_Payload call) (sd_pending d)\<rparr> in
                          case snet_write W c jsonMessage of
                            Some err \<Rightarrow>
                              ((None, [], None, dispatchCompletedNoWrite),
                               own_and_cancel c callID (Call_Payload call)
                                 (NewLocalTransportError InternalError (error_text err) callID) d)
                          | None \<Rightarrow>
                              (let d = d\<lparr>sd_events := sd_events d @ [ServerWrote c jsonMessage]\<rparr>;
                                   (clientCtx, d) = new_client_ctx userCtx d
                               in ((clientCtx, callID, Some userCtx, dispatchWritten), d)))))))"

text \<open>The locals of the pump: its two maps, and the variables that survive an iteration.\<close>

record server_pump =
  clientContextMap :: "(string, clientTimeoutContext) gomap"
  dispatchedRequestIDMap :: "(string, string) gomap"
  sp_clientID :: string
  sp_rdy :: bool
  clientQueue :: "ref option"

definition server_pump_start :: server_pump where
  "server_pump_start = \<lparr>clientContextMap = [], dispatchedRequestIDMap = [], sp_clientID = [],
     sp_rdy = False, clientQueue = None\<rparr>"

text \<open>Reading a missing key of a Go map gives the zero value.\<close>

definition ctx_of :: "server_pump \<Rightarrow> string \<Rightarrow> clientTimeoutContext" where
  [sdisp_defs]: "ctx_of p c = (case map_of (clientContextMap p) c of Some x \<Rightarrow> x | None \<Rightarrow> None)"

definition dispatched_of :: "server_pump \<Rightarrow> string \<Rightarrow> string" where
  [sdisp_defs]: "dispatched_of p c = (case map_of (dispatchedRequestIDMap p) c of Some i \<Rightarrow> i | None \<Rightarrow> [])"

definition cancel_ctx :: "clientTimeoutContext \<Rightarrow> ServerDispatcher \<Rightarrow> ServerDispatcher" where
  [sdisp_defs]: "cancel_ctx x d = (case x of Some n \<Rightarrow> d\<lparr>canceled_ctxs := n # canceled_ctxs d\<rparr> | None \<Rightarrow> d)"

text \<open>One turn of the inner loop: dispatch, record the context and the request, spawn the watcher.\<close>

definition dispatch_turn ::
  "server_outside \<Rightarrow> string \<Rightarrow> ServerDispatcher \<times> server_pump \<Rightarrow> dispatchStatus \<times> ServerDispatcher \<times> server_pump" where
  "dispatch_turn W c = (\<lambda>(d, p).
     (let ((clientCtx, requestID, userCtx, status), d) = SD_dispatchNextRequest W c d;
          p = p\<lparr>clientContextMap := AList.update c clientCtx (clientContextMap p)\<rparr>;
          p = (if requestID \<noteq> [] \<and> ServerState_HasPendingRequest c (sd_pending d)
               then p\<lparr>dispatchedRequestIDMap := AList.update c requestID (dispatchedRequestIDMap p)\<rparr>
               else p\<lparr>dispatchedRequestIDMap := AList.delete c (dispatchedRequestIDMap p)\<rparr>);
          d = (case clientCtx of
                 Some n \<Rightarrow> d\<lparr>watchers := watchers d @ [\<lparr>w_clientID = c, w_requestID = requestID,
                             w_clientCtx = n, w_userCtx = the userCtx\<rparr>]\<rparr>
               | None \<Rightarrow> d)
      in (status, d, p\<lparr>sp_rdy := False\<rparr>)))"

text \<open>The queue of a client, and the requests in it.\<close>

definition client_elements :: "ServerDispatcher \<Rightarrow> string \<Rightarrow> element iface list" where
  "client_elements d c =
     (case QueueMap_Get (queueMap d) c of Some r \<Rightarrow> elements (deref (queueStore d) r) | None \<Rightarrow> [])"

lemma dispatch_turn_shrinks:
  assumes "dispatch_turn W c (d, p) = (dispatchCompletedNoWrite, d', p')"
  shows "length (client_elements d' c) < length (client_elements d c)"
proof (cases "QueueMap_Get (queueMap d) c")
  case None
  with assms show ?thesis by (simp add: dispatch_turn_def SD_dispatchNextRequest_def)
next
  case (Some r)
  note get = this
  show ?thesis
  proof (cases "well_formed (FIFO_Peek (deref (queueStore d) r))")
    case None
    with assms get show ?thesis by (simp add: dispatch_turn_def SD_dispatchNextRequest_def)
  next
    case (Some bc)
    then obtain b call el els where q: "elements (deref (queueStore d) r) = el # els"
      "well_formed el = Some (b, call)" "bc = (b, call)"
      by (cases bc) (auto simp: FIFO_Peek_def split: list.splits)
    have own: "client_elements (own_and_cancel c (Call_UniqueId call) x e (d\<lparr>sd_pending := s\<rparr>)) c = els" for x e s
      using get q by (auto simp: own_and_cancel_def completeRequestOwned_def FIFO_PopIf_def has_id_def
          client_elements_def SD_fireRequestCancel_def)
    from own [of _ _ "sd_pending d"]
    have own': "client_elements (own_and_cancel c (Call_UniqueId call) x e d) c = els" for x e by simp
    have "client_elements d c = el # els" using get q by (simp add: client_elements_def)
    with assms get q show ?thesis
      by (auto simp: own own' dispatch_turn_def SD_dispatchNextRequest_def FIFO_Peek_def Let_def new_client_ctx_def
          split: option.splits prod.splits if_splits)
  qed
qed

function dispatch_loop ::
  "server_outside \<Rightarrow> string \<Rightarrow> ServerDispatcher \<times> server_pump \<Rightarrow> ServerDispatcher \<times> server_pump" where
  "dispatch_loop W c (d, p) =
     (case dispatch_turn W c (d, p) of
        (status, d', p') \<Rightarrow>
          if status \<noteq> dispatchCompletedNoWrite then (d', p')
          else (case QueueMap_Get (queueMap d') c of
                  None \<Rightarrow> (d', p')
                | Some r \<Rightarrow> if FIFO_IsEmpty (deref (queueStore d') r) then (d', p')
                            else dispatch_loop W c (d', p')))"
  by pat_completeness auto

text \<open>The loop is bounded by the queue: every turn that goes on has removed a request.\<close>

termination dispatch_loop
  by (relation "measure (\<lambda>(W, c, d, p). length (client_elements d c))") (auto dest: dispatch_turn_shrinks [OF sym])

section \<open>The message pump\<close>

text \<open>The branch taken when the dispatcher was stopped; a bundle with a nil payload is skipped.\<close>

fun cancel_client :: "string \<Rightarrow> element iface list \<Rightarrow> ServerDispatcher \<Rightarrow> ServerDispatcher" where
  "cancel_client c [] d = d"
| "cancel_client c (el # els) d =
     cancel_client c els
       (case well_formed el of
          None \<Rightarrow> d
        | Some (b, call) \<Rightarrow>
            if Call_Payload call = None then d
            else SD_fireRequestCancel c (Call_UniqueId call) (Call_Payload call)
                   (newDispatcherStoppedError (Call_UniqueId call)) d)"

fun cancel_clients :: "(string, ref) gomap \<Rightarrow> ServerDispatcher \<Rightarrow> ServerDispatcher" where
  "cancel_clients [] d = d"
| "cancel_clients ((c, r) # m) d =
     (let (outstanding, q) = FIFO_DrainAll (deref (queueStore d) r)
      in cancel_clients m (cancel_client c outstanding (d\<lparr>queueStore := assign (queueStore d) r q\<rparr>)))"

definition server_stop_drain :: "ServerDispatcher \<Rightarrow> ServerDispatcher" where
  [sdisp_defs]: "server_stop_drain d =
     (let (detached, qm) = QueueMap_DrainAll (queueMap d);
          d = d\<lparr>queueMap := qm, sd_pending := ServerState_ClearAllPendingRequests (sd_pending d)\<rparr>
      in cancel_clients detached d)"

text \<open>
  A branch of the \<open>select\<close> makes the pump return, continue with its loop, or fall through to the
  dispatch guard; it is \<^const>\<open>None\<close> when it is not enabled.
\<close>

datatype arm_result =
    PumpReturn ServerDispatcher
  | PumpContinue ServerDispatcher server_pump
  | PumpDispatch ServerDispatcher server_pump

definition drop_client_ctx :: "string \<Rightarrow> ServerDispatcher \<times> server_pump \<Rightarrow> ServerDispatcher \<times> server_pump" where
  [sdisp_defs]: "drop_client_ctx c = (\<lambda>(d, p).
     (cancel_ctx (ctx_of p c) d,
      p\<lparr>clientContextMap := AList.delete c (clientContextMap p),
        dispatchedRequestIDMap := AList.delete c (dispatchedRequestIDMap p)\<rparr>))"

definition ack_delete :: "serverDispatchRequest \<Rightarrow> ServerDispatcher \<Rightarrow> ServerDispatcher" where
  [sdisp_defs]: "ack_delete req d =
     (if deleteAck req then d\<lparr>sd_events := sd_events d @ [DeleteAcked (sdr_clientID req)]\<rparr> else d)"

definition handle_request :: "serverDispatchRequest \<Rightarrow> ServerDispatcher \<Rightarrow> server_pump \<Rightarrow> arm_result" where
  [sdisp_defs]: "handle_request req d p =
     (let c = sdr_clientID req; p = p\<lparr>sp_clientID := c, clientQueue := QueueMap_Get (queueMap d) c\<rparr> in
      case QueueMap_Get (queueMap d) c of
        None \<Rightarrow> (let (d, p) = drop_client_ctx c (d, p) in PumpContinue (ack_delete req d) p)
      | Some r \<Rightarrow>
          (let (d, p) = (if deleteAck req then drop_client_ctx c (d, p) else (d, p));
               d = ack_delete req d
           in PumpDispatch d (p\<lparr>sp_rdy := (case map_of (clientContextMap p) c of
                                             None \<Rightarrow> True | Some x \<Rightarrow> \<not> isActive x)\<rparr>)))"

definition release_client :: "string \<Rightarrow> ServerDispatcher \<times> server_pump \<Rightarrow> ServerDispatcher \<times> server_pump" where
  [sdisp_defs]: "release_client c = (\<lambda>(d, p).
     (cancel_ctx (ctx_of p c) d,
      p\<lparr>clientContextMap := AList.update c None (clientContextMap p),
        dispatchedRequestIDMap := AList.delete c (dispatchedRequestIDMap p)\<rparr>))"

definition handle_timeout :: "serverTimeoutToken \<Rightarrow> ServerDispatcher \<Rightarrow> server_pump \<Rightarrow> arm_result" where
  [sdisp_defs]: "handle_timeout tok d p =
     (let c = stt_clientID tok; p = p\<lparr>sp_clientID := c\<rparr> in
      if ctx_of p c \<noteq> stt_ctx tok then PumpContinue d p
      else
        (let timedOutRequestID = dispatched_of p c;
             (d, p) = release_client c (d, p)
         in if ServerState_HasPendingRequest c (sd_pending d) then
              (case completeRequestOwned c timedOutRequestID d of
                 (None, d) \<Rightarrow> PumpContinue d p
               | (Some (bundle, call), d) \<Rightarrow>
                   PumpDispatch
                     (SD_fireRequestCancel c (Call_UniqueId call) (Call_Payload call)
                        (newRequestTimeoutError (Call_UniqueId call)) d)
                     (p\<lparr>clientQueue := QueueMap_Get (queueMap d) c, sp_rdy := True\<rparr>))
            else
              (case QueueMap_Get (queueMap d) c of
                 Some r \<Rightarrow> PumpDispatch d (p\<lparr>clientQueue := Some r, sp_rdy := True\<rparr>)
               | None \<Rightarrow> PumpDispatch d p)))"

definition handle_ready :: "serverReadyToken \<Rightarrow> ServerDispatcher \<Rightarrow> server_pump \<Rightarrow> arm_result" where
  [sdisp_defs]: "handle_ready tok d p =
     (let c = srt_clientID tok; p = p\<lparr>sp_clientID := c\<rparr> in
      if dispatched_of p c \<noteq> [] \<and> dispatched_of p c \<noteq> srt_requestID tok then PumpContinue d p
      else
        (let (d, p) = (case map_of (clientContextMap p) c of
                         Some (Some n) \<Rightarrow> (cancel_ctx (Some n) d,
                           p\<lparr>clientContextMap := AList.update c None (clientContextMap p)\<rparr>)
                       | _ \<Rightarrow> (d, p));
             p = p\<lparr>dispatchedRequestIDMap := AList.delete c (dispatchedRequestIDMap p),
                   clientQueue := QueueMap_Get (queueMap d) c\<rparr>
         in PumpDispatch d (if QueueMap_Get (queueMap d) c \<noteq> None then p\<lparr>sp_rdy := True\<rparr> else p)))"

definition handle_cancel ::
  "server_outside \<Rightarrow> serverCancelToken \<Rightarrow> ServerDispatcher \<Rightarrow> server_pump \<Rightarrow> arm_result" where
  [sdisp_defs]: "handle_cancel W tok d p =
     (let c = sct_clientID tok; p = p\<lparr>sp_clientID := c\<rparr> in
      if dispatched_of p c \<noteq> sct_requestID tok
      then PumpContinue d (p\<lparr>sp_rdy := False, clientQueue := None\<rparr>)
      else
        (case completeRequestOwned c (sct_requestID tok) d of
           (None, d) \<Rightarrow> PumpContinue d (p\<lparr>sp_rdy := False, clientQueue := None\<rparr>)
         | (Some (bundle, call), d) \<Rightarrow>
             (let (d, p) = release_client c (d, p) in
              PumpDispatch
                (SD_fireRequestCancel c (Call_UniqueId call) (Call_Payload call)
                   (newRequestCanceledError (Call_UniqueId call) (SCtx_Err W (sct_ctx tok))) d)
                (p\<lparr>clientQueue := QueueMap_Get (queueMap d) c, sp_rdy := True\<rparr>))))"

datatype server_arm = ArmStop | ArmServerRequest | ArmTimeout | ArmServerReady | ArmCancel

fun take_server_arm :: "server_outside \<Rightarrow> server_arm \<Rightarrow> ServerDispatcher \<Rightarrow> server_pump \<Rightarrow> arm_result option" where
  "take_server_arm W ArmStop d p = (if stoppedC d then Some (PumpReturn (server_stop_drain d)) else None)"
| "take_server_arm W ArmServerRequest d p =
     (case sd_requestChannel d of
        None \<Rightarrow> None
      | Some ch \<Rightarrow> map_option (\<lambda>(req, ch'). handle_request req (d\<lparr>sd_requestChannel := Some ch'\<rparr>) p) (chan_recv ch))"
| "take_server_arm W ArmTimeout d p =
     map_option (\<lambda>(tok, ch). handle_timeout tok (d\<lparr>timerC := ch\<rparr>) p) (chan_recv (timerC d))"
| "take_server_arm W ArmServerReady d p =
     map_option (\<lambda>(tok, ch). handle_ready tok (d\<lparr>sd_readyForDispatch := ch\<rparr>) p) (chan_recv (sd_readyForDispatch d))"
| "take_server_arm W ArmCancel d p =
     map_option (\<lambda>(tok, ch). handle_cancel W tok (d\<lparr>cancelC := ch\<rparr>) p) (chan_recv (cancelC d))"

definition server_pump_dispatch ::
  "server_outside \<Rightarrow> ServerDispatcher \<Rightarrow> server_pump \<Rightarrow> ServerDispatcher \<times> server_pump" where
  [sdisp_defs]: "server_pump_dispatch W d p =
     (case clientQueue p of
        None \<Rightarrow> (d, p)
      | Some r \<Rightarrow>
          if sp_rdy p \<and> \<not> FIFO_IsEmpty (deref (queueStore d) r) \<and>
             \<not> ServerState_HasPendingRequest (sp_clientID p) (sd_pending d)
          then dispatch_loop W (sp_clientID p) (d, p) else (d, p))"

definition server_pump_iteration ::
  "server_outside \<Rightarrow> server_arm \<Rightarrow> ServerDispatcher \<Rightarrow> server_pump \<Rightarrow>
     (ServerDispatcher \<times> server_pump option) option" where
  "server_pump_iteration W a d p =
     map_option (\<lambda>res. case res of
         PumpReturn d \<Rightarrow> (d, None)
       | PumpContinue d p \<Rightarrow> (d, Some p)
       | PumpDispatch d p \<Rightarrow> (let (d, p) = server_pump_dispatch W d p in (d, Some p)))
       (take_server_arm W a d p)"

text \<open>
  \<open>waitForTimeout\<close>: what the watcher saw first, and what it posts. Its deferred \<open>cancel\<close> ends its
  context in every case; the posts are the blocking sends (theory \<open>Prelude\<close>), abandoned on a stop.
\<close>

datatype watch = DeadlineExceeded | ContextCanceled | CallerDone | WatchStopped

definition waitForTimeout :: "watcher \<Rightarrow> watch \<Rightarrow> ServerDispatcher \<Rightarrow> ServerDispatcher" where
  [sdisp_defs]: "waitForTimeout w e d =
     cancel_ctx (Some (w_clientCtx w))
       (case e of
          DeadlineExceeded \<Rightarrow>
            if stoppedC d then d
            else d\<lparr>timerC := chan_send \<lparr>stt_clientID = w_clientID w, stt_ctx = Some (w_clientCtx w)\<rparr> (timerC d)\<rparr>
        | CallerDone \<Rightarrow>
            if stoppedC d then d
            else d\<lparr>cancelC := chan_send \<lparr>sct_clientID = w_clientID w, sct_requestID = w_requestID w,
                     sct_ctx = w_userCtx w\<rparr> (cancelC d)\<rparr>
        | _ \<Rightarrow> d)"

section \<open>Well-formedness and views\<close>

definition SD_ok :: "ServerDispatcher \<Rightarrow> bool" where
  "SD_ok d \<longleftrightarrow> QueueMap_ok (queueMap d) (queueStore d) \<and> ServerState_ok (sd_pending d)"

abbreviation client_slots :: "ServerDispatcher \<Rightarrow> slots" where
  "client_slots d \<equiv> server_slots (sd_pending d)"

lemma client_elements_assign:
  assumes "QueueMap_ok (queueMap d) (queueStore d)" and "QueueMap_Get (queueMap d) c = Some r"
  shows "client_elements (d\<lparr>queueStore := assign (queueStore d) r q\<rparr>) = (client_elements d)(c := elements q)"
proof
  fix c'
  show "client_elements (d\<lparr>queueStore := assign (queueStore d) r q\<rparr>) c' = ((client_elements d)(c := elements q)) c'"
  proof (cases "QueueMap_Get (queueMap d) c' = Some r")
    case True
    then have "c' = c" using QueueMap_get_inj [OF assms(1) _ assms(2)] by blast
    with assms(2) show ?thesis by (simp add: client_elements_def)
  next
    case False
    then have "c' \<noteq> c" using assms(2) by auto
    with False show ?thesis by (auto simp: client_elements_def split: option.splits)
  qed
qed

lemma client_elements_cong:
  "queueMap d' = queueMap d \<Longrightarrow> queueStore d' = queueStore d \<Longrightarrow> client_elements d' = client_elements d"
  by (auto simp: client_elements_def fun_eq_iff split: option.splits)

lemma pending_add_slots:
  assumes "ServerState_ok s"
  shows "ServerState_ok (ServerState_AddPendingRequest c i r s)"
    and "server_slots (ServerState_AddPendingRequest c i r s) = slots_apply (SAdd c i r) (server_slots s)"
  using state_apply_simulation [OF assms, of "SAdd c i r"] by simp_all

lemma pending_delete_slots:
  assumes "ServerState_ok s"
  shows "ServerState_ok (ServerState_DeletePendingRequest c i s)"
    and "server_slots (ServerState_DeletePendingRequest c i s) = slots_apply (SDelete c i) (server_slots s)"
  using state_apply_simulation [OF assms, of "SDelete c i"] by simp_all

lemma completeRequestOwned_None:
  "completeRequestOwned c rid d = (None, d') \<longleftrightarrow>
     d' = d \<and> (\<forall>el els. client_elements d c = el # els \<longrightarrow> \<not> has_id rid el)"
  by (auto simp: completeRequestOwned_def client_elements_def FIFO_PopIf_def has_id_def
      split: option.splits list.splits if_splits)

lemma completeRequestOwned_Some:
  assumes "SD_ok d" and "completeRequestOwned c rid d = (Some bc, d')"
  obtains el els where "client_elements d c = el # els" "well_formed el = Some bc" "has_id rid el"
    "SD_ok d'" "client_elements d' = (client_elements d)(c := els)"
    "client_slots d' = slots_apply (SDelete c rid) (client_slots d)"
    "d' = d\<lparr>queueStore := queueStore d', sd_pending := sd_pending d'\<rparr>"
proof -
  have ok: "QueueMap_ok (queueMap d) (queueStore d)" "ServerState_ok (sd_pending d)"
    using assms(1) by (simp_all add: SD_ok_def)
  obtain r el els where q: "QueueMap_Get (queueMap d) c = Some r"
      "elements (deref (queueStore d) r) = el # els" "has_id rid el" "well_formed el = Some bc"
    and d': "d' = d\<lparr>queueStore := assign (queueStore d) r ((deref (queueStore d) r)\<lparr>elements := els\<rparr>),
      sd_pending := ServerState_DeletePendingRequest c rid (sd_pending d)\<rparr>"
    using assms(2) by (auto simp: completeRequestOwned_def FIFO_PopIf_def split: option.splits list.splits if_splits)
  have "FIFO_ok (deref (queueStore d) r)"
    using ok(1) q(1) by (auto simp: QueueMap_ok_def QueueMap_Get_def dest: map_of_range)
  then have "FIFO_ok ((deref (queueStore d) r)\<lparr>elements := els\<rparr>)" using q(2) by (auto simp: FIFO_ok_def)
  then have "SD_ok d'" using ok by (simp add: d' SD_ok_def QueueMap_ok_assign pending_delete_slots)
  moreover have "client_elements d' = (client_elements d)(c := els)"
    using client_elements_assign [OF ok(1) q(1), of "(deref (queueStore d) r)\<lparr>elements := els\<rparr>"]
      client_elements_cong [of d' "d\<lparr>queueStore := queueStore d'\<rparr>"] by (simp add: d')
  ultimately show thesis
    using that [of el els] q ok(2) by (simp add: d' client_elements_def pending_delete_slots)
qed

section \<open>Ownership of completions\<close>

lemma fire_frame [simp]:
  "queueMap (SD_fireRequestCancel c i r e d) = queueMap d"
  "queueStore (SD_fireRequestCancel c i r e d) = queueStore d"
  "sd_pending (SD_fireRequestCancel c i r e d) = sd_pending d"
  "sd_onRequestCancel (SD_fireRequestCancel c i r e d) = sd_onRequestCancel d"
  by (simp_all add: SD_fireRequestCancel_def)

lemma fire_views [simp]:
  "client_elements (SD_fireRequestCancel c i r e d) = client_elements d"
  "SD_ok (SD_fireRequestCancel c i r e d) = SD_ok d"
  by (rule client_elements_cong, simp_all) (simp add: SD_ok_def)

lemma SD_CompleteRequest_effect:
  assumes "SD_ok d" and "SD_CompleteRequest c rid d = (won, d')"
  shows "(won \<longleftrightarrow> (\<exists>el els. client_elements d c = el # els \<and> has_id rid el)) \<and>
    (\<not> won \<longrightarrow> d' = d) \<and>
    (won \<longrightarrow> SD_ok d' \<and> client_elements d' = (client_elements d)(c := tl (client_elements d c)) \<and>
       (\<forall>r. client_slots d' c \<noteq> Some (rid, r)) \<and> (\<forall>c'. c' \<noteq> c \<longrightarrow> client_slots d' c' = client_slots d c') \<and>
       chan_buf (sd_readyForDispatch d') =
         chan_buf (sd_readyForDispatch d) @ [\<lparr>srt_clientID = c, srt_requestID = rid\<rparr>])"
proof (cases "completeRequestOwned c rid d")
  case (Pair w d1)
  show ?thesis
  proof (cases w)
    case None
    with Pair have own: "completeRequestOwned c rid d = (None, d1)" by simp
    with assms(2) have "\<not> won" "d' = d1" by (auto simp: SD_CompleteRequest_def)
    then show ?thesis using iffD1 [OF completeRequestOwned_None own] by blast
  next
    case (Some bc)
    with Pair have own: "completeRequestOwned c rid d = (Some bc, d1)" by simp
    then obtain el els where e: "client_elements d c = el # els" "has_id rid el" "SD_ok d1"
      "client_elements d1 = (client_elements d)(c := els)"
      "client_slots d1 = slots_apply (SDelete c rid) (client_slots d)"
      "d1 = d\<lparr>queueStore := queueStore d1, sd_pending := sd_pending d1\<rparr>"
      by (rule completeRequestOwned_Some [OF assms(1)])
    have d': "won" "d' = d1\<lparr>sd_readyForDispatch :=
        chan_send \<lparr>srt_clientID = c, srt_requestID = rid\<rparr> (sd_readyForDispatch d1)\<rparr>"
      using own assms(2) by (auto simp: SD_CompleteRequest_def)
    have "sd_readyForDispatch d1 = sd_readyForDispatch d" by (subst e(6)) simp
    moreover have "client_elements d' = client_elements d1" by (rule client_elements_cong) (simp_all add: d')
    ultimately show ?thesis using e(1-5) d' by (auto simp: SD_ok_def chan_send_def)
  qed
qed

text \<open>
  C18: completion ownership at the server. \<open>CompleteRequest\<close> for a client reports true exactly when the
  given id is that of the front request of that client's queue. It then has removed that request,
  cleared the client's pending entry for it, and posted a ready token for this client and request;
  a call that reports false has changed nothing. No other client's queue or pending entry is touched.
\<close>

theorem server_CompleteRequest_ownership:
  assumes "SD_ok d" and "SD_CompleteRequest c rid d = (won, d')"
  shows "(won \<longleftrightarrow> (\<exists>el els. client_elements d c = el # els \<and> has_id rid el)) \<and>
    (\<not> won \<longrightarrow> d' = d) \<and>
    (won \<longrightarrow> SD_ok d' \<and> client_elements d' = (client_elements d)(c := tl (client_elements d c)) \<and>
       (\<forall>r. client_slots d' c \<noteq> Some (rid, r)) \<and> (\<forall>c'. c' \<noteq> c \<longrightarrow> client_slots d' c' = client_slots d c') \<and>
       chan_buf (sd_readyForDispatch d') =
         chan_buf (sd_readyForDispatch d) @ [\<lparr>srt_clientID = c, srt_requestID = rid\<rparr>])"
  using assms by (rule SD_CompleteRequest_effect)

definition sample_queues :: "element queue_store" where
  "sample_queues = \<lparr>cells = \<lambda>r. \<lparr>elements = (if r = 0 then map (\<lambda>i. Some (Bundle (sample_bundle i))) [''1'', ''2'']
     else [Some (Bundle (sample_bundle ''3''))]), capacity = 10\<rparr>, next_ref = 2\<rparr>"

definition sample_server :: ServerDispatcher where
  "sample_server = (NewDefaultServerDispatcher \<lparr>qm_data = [(''CP1'', 0), (''CP2'', 1)], queueCapacity = 10\<rparr>
     sample_queues \<lparr>cells = \<lambda>_. NewClientState, next_ref = 0\<rparr>)\<lparr>sd_network := True, sd_onRequestCancel := True\<rparr>"

lemma sample_server_ok: "SD_ok sample_server"
  by (auto simp: SD_ok_def sample_server_def NewDefaultServerDispatcher_def QueueMap_ok_def gomap_ok_def
      sample_queues_def deref_def FIFO_ok_def)

lemma sample_server_elements:
  "client_elements sample_server ''CP1'' = map (\<lambda>i. Some (Bundle (sample_bundle i))) [''1'', ''2'']"
  "client_elements sample_server ''CP2'' = [Some (Bundle (sample_bundle ''3''))]"
  by (simp_all add: client_elements_def sample_server_def NewDefaultServerDispatcher_def QueueMap_Get_def
      sample_queues_def deref_def)

theorem server_CompleteRequest_ownership_witness:
  "fst (SD_CompleteRequest ''CP1'' ''1'' sample_server) \<and> \<not> fst (SD_CompleteRequest ''CP1'' ''2'' sample_server)"
  using server_CompleteRequest_ownership [OF sample_server_ok prod.collapse [symmetric], THEN conjunct1, of "''CP1''" "''1''"]
    server_CompleteRequest_ownership [OF sample_server_ok prod.collapse [symmetric], THEN conjunct1, of "''CP1''" "''2''"]
  by (simp add: sample_server_elements has_id_def sample_bundle_def sample_call_def)

section \<open>The dispatch loop\<close>

text \<open>
  What dispatching for a client should do to its queue: the requests whose context has fired or
  whose write fails are removed and reported, up to the first one that is written; that one stays at
  the front and is pending.
\<close>

fun dispatch_spec ::
  "server_outside \<Rightarrow> string \<Rightarrow> element iface list \<Rightarrow> server_event list \<times> element iface list \<times> (string \<times> request) option" where
  "dispatch_spec W c [] = ([], [], None)"
| "dispatch_spec W c (el # els) =
     (case well_formed el of
        None \<Rightarrow> ([], el # els, None)
      | Some (b, call) \<Rightarrow>
          (case bundle_Data b of
             None \<Rightarrow> ([], el # els, None)
           | Some msg \<Rightarrow>
               (let i = Call_UniqueId call; r = Call_Payload call in
                case SCtx_Err W (bundleCtx b) of
                  Some e \<Rightarrow>
                    (case dispatch_spec W c els of (evs, rest, s) \<Rightarrow>
                       (ServerCancelCallback c i r (newRequestCanceledError i (Some e)) # evs, rest, s))
                | None \<Rightarrow>
                    (case snet_write W c msg of
                       Some err \<Rightarrow>
                         (case dispatch_spec W c els of (evs, rest, s) \<Rightarrow>
                            (ServerCancelCallback c i r (NewLocalTransportError InternalError (error_text err) i) # evs,
                             rest, s))
                     | None \<Rightarrow> ([ServerWrote c msg], el # els, Some (i, r))))))"

lemma fire_marked_event:
  "sd_onRequestCancel d \<Longrightarrow> m \<noteq> [] \<Longrightarrow>
   sd_events (SD_fireRequestCancel c i r (OcppError k t j m u) d) = sd_events d @ [ServerCancelCallback c i r (OcppError k t j m u)]"
  by (simp add: SD_fireRequestCancel_def markLocalTransportError_def)

lemma own_and_cancel_front:
  assumes "SD_ok d" and "sd_onRequestCancel d" and "client_elements d c = el # els"
    and "well_formed el = Some (b, call)" and "m \<noteq> []"
    and d'_def: "d' = own_and_cancel c (Call_UniqueId call) r (OcppError k t j m u) d"
  shows "SD_ok d'" "client_elements d' = (client_elements d)(c := els)" "sd_onRequestCancel d'"
    "client_slots d' = slots_apply (SDelete c (Call_UniqueId call)) (client_slots d)"
    "sd_events d' = sd_events d @ [ServerCancelCallback c (Call_UniqueId call) r (OcppError k t j m u)]"
proof -
  have "has_id (Call_UniqueId call) el" using assms(4) by (simp add: has_id_def)
  then obtain bc d1 where own: "completeRequestOwned c (Call_UniqueId call) d = (Some bc, d1)"
    using completeRequestOwned_None [of c "Call_UniqueId call" d] assms(3)
    by (cases "completeRequestOwned c (Call_UniqueId call) d"; cases "fst (completeRequestOwned c (Call_UniqueId call) d)") auto
  then obtain el' els' where e: "client_elements d c = el' # els'" "SD_ok d1"
      "client_elements d1 = (client_elements d)(c := els')"
      "client_slots d1 = slots_apply (SDelete c (Call_UniqueId call)) (client_slots d)"
      "d1 = d\<lparr>queueStore := queueStore d1, sd_pending := sd_pending d1\<rparr>"
    by (rule completeRequestOwned_Some [OF assms(1)])
  have d': "d' = SD_fireRequestCancel c (Call_UniqueId call) r (OcppError k t j m u) d1"
    by (simp add: d'_def own_and_cancel_def own)
  have same: "sd_onRequestCancel d1 = sd_onRequestCancel d" "sd_events d1 = sd_events d"
    by (subst e(5), simp)+
  show "SD_ok d'" "client_elements d' = (client_elements d)(c := els)" "sd_onRequestCancel d'"
    "client_slots d' = slots_apply (SDelete c (Call_UniqueId call)) (client_slots d)"
    "sd_events d' = sd_events d @ [ServerCancelCallback c (Call_UniqueId call) r (OcppError k t j m u)]"
    using e(1-4) assms(2,3,5) by (simp_all add: d' same fire_marked_event)
qed

text \<open>The three outcomes of one turn on a non-empty queue.\<close>

lemma dispatch_turn_stuck:
  assumes "client_elements d c = el # els"
    and "well_formed el = None \<or> (\<exists>b call. well_formed el = Some (b, call) \<and> bundle_Data b = None)"
  shows "\<exists>p'. dispatch_turn W c (d, p) = (dispatchIdle, d, p') \<and> dispatched_of p' c = []"
proof -
  obtain r where r: "QueueMap_Get (queueMap d) c = Some r" "elements (deref (queueStore d) r) = el # els"
    using assms(1) by (auto simp: client_elements_def split: option.splits)
  with assms(2) show ?thesis
    by (auto simp: dispatch_turn_def SD_dispatchNextRequest_def FIFO_Peek_def dispatched_of_def)
qed

lemma dispatch_turn_dropped:
  assumes "client_elements d c = el # els" and "well_formed el = Some (b, call)" and "bundle_Data b = Some msg"
  shows "SCtx_Err W (bundleCtx b) = Some e \<Longrightarrow>
      \<exists>p'. dispatch_turn W c (d, p) = (dispatchCompletedNoWrite,
        own_and_cancel c (Call_UniqueId call) (Call_Payload call)
          (newRequestCanceledError (Call_UniqueId call) (Some e)) d, p') \<and> dispatched_of p' c = []"
    and "SCtx_Err W (bundleCtx b) = None \<Longrightarrow> snet_write W c msg = Some err \<Longrightarrow>
      \<exists>p'. dispatch_turn W c (d, p) = (dispatchCompletedNoWrite,
        own_and_cancel c (Call_UniqueId call) (Call_Payload call)
          (NewLocalTransportError InternalError (error_text err) (Call_UniqueId call))
          (d\<lparr>sd_pending := ServerState_AddPendingRequest c (Call_UniqueId call) (Call_Payload call) (sd_pending d)\<rparr>),
        p') \<and> dispatched_of p' c = []"
proof -
  obtain r where r: "QueueMap_Get (queueMap d) c = Some r" "elements (deref (queueStore d) r) = el # els"
    using assms(1) by (auto simp: client_elements_def split: option.splits)
  show "SCtx_Err W (bundleCtx b) = Some e \<Longrightarrow>
      \<exists>p'. dispatch_turn W c (d, p) = (dispatchCompletedNoWrite,
        own_and_cancel c (Call_UniqueId call) (Call_Payload call)
          (newRequestCanceledError (Call_UniqueId call) (Some e)) d, p') \<and> dispatched_of p' c = []"
    using r assms(2,3) by (auto simp: dispatch_turn_def SD_dispatchNextRequest_def FIFO_Peek_def dispatched_of_def Let_def)
  show "SCtx_Err W (bundleCtx b) = None \<Longrightarrow> snet_write W c msg = Some err \<Longrightarrow>
      \<exists>p'. dispatch_turn W c (d, p) = (dispatchCompletedNoWrite,
        own_and_cancel c (Call_UniqueId call) (Call_Payload call)
          (NewLocalTransportError InternalError (error_text err) (Call_UniqueId call))
          (d\<lparr>sd_pending := ServerState_AddPendingRequest c (Call_UniqueId call) (Call_Payload call) (sd_pending d)\<rparr>),
        p') \<and> dispatched_of p' c = []"
    using r assms(2,3) by (auto simp: dispatch_turn_def SD_dispatchNextRequest_def FIFO_Peek_def dispatched_of_def Let_def)
qed

lemma dispatch_turn_written:
  assumes "SD_ok d" and "client_elements d c = el # els" and "well_formed el = Some (b, call)"
    and "bundle_Data b = Some msg" and "SCtx_Err W (bundleCtx b) = None" and "snet_write W c msg = None"
    and "Call_UniqueId call \<noteq> []" and "client_slots d c = None"
  shows "\<exists>d' p'. dispatch_turn W c (d, p) = (dispatchWritten, d', p') \<and> SD_ok d' \<and>
    sd_events d' = sd_events d @ [ServerWrote c msg] \<and> client_elements d' = client_elements d \<and>
    client_slots d' = (client_slots d)(c := Some (Call_UniqueId call, Call_Payload call)) \<and>
    dispatched_of p' c = Call_UniqueId call \<and> sd_onRequestCancel d' = sd_onRequestCancel d"
proof -
  obtain r where r: "QueueMap_Get (queueMap d) c = Some r" "elements (deref (queueStore d) r) = el # els"
    using assms(2) by (auto simp: client_elements_def split: option.splits)
  let ?s = "ServerState_AddPendingRequest c (Call_UniqueId call) (Call_Payload call) (sd_pending d)"
  have s: "ServerState_ok ?s" "server_slots ?s = (client_slots d)(c := Some (Call_UniqueId call, Call_Payload call))"
    using pending_add_slots [of "sd_pending d" c "Call_UniqueId call" "Call_Payload call"] assms(1,7,8)
    by (simp_all add: SD_ok_def)
  then have has: "ServerState_HasPendingRequest c ?s" by (simp add: has_pending_slots)
  let ?d = "d\<lparr>sd_pending := ?s, sd_events := sd_events d @ [ServerWrote c msg]\<rparr>"
  have "SD_dispatchNextRequest W c d =
      ((fst (new_client_ctx (bundleCtx b) ?d), Call_UniqueId call, Some (bundleCtx b), dispatchWritten),
       snd (new_client_ctx (bundleCtx b) ?d))"
    using r assms(3-6) by (simp add: SD_dispatchNextRequest_def FIFO_Peek_def Let_def split: prod.splits)
  moreover have ctx: "sd_pending (snd (new_client_ctx u x)) = sd_pending x"
    "sd_events (snd (new_client_ctx u x)) = sd_events x" "queueMap (snd (new_client_ctx u x)) = queueMap x"
    "queueStore (snd (new_client_ctx u x)) = queueStore x"
    "sd_onRequestCancel (snd (new_client_ctx u x)) = sd_onRequestCancel x" for u x
    by (simp_all add: new_client_ctx_def)
  ultimately obtain d' p' where t: "dispatch_turn W c (d, p) = (dispatchWritten, d', p')"
    "sd_pending d' = ?s" "sd_events d' = sd_events d @ [ServerWrote c msg]"
    "queueMap d' = queueMap d" "queueStore d' = queueStore d" "dispatched_of p' c = Call_UniqueId call"
    "sd_onRequestCancel d' = sd_onRequestCancel d"
    using has assms(7)
    by (cases "fst (new_client_ctx (bundleCtx b) ?d)") (simp_all add: dispatch_turn_def Let_def dispatched_of_def)
  then show ?thesis
    using s assms(1) client_elements_cong [of d' d] by (auto simp: SD_ok_def)
qed

definition ids_set :: "element iface list \<Rightarrow> bool" where
  "ids_set els \<longleftrightarrow> (\<forall>el \<in> set els. \<forall>b call. well_formed el = Some (b, call) \<longrightarrow> Call_UniqueId call \<noteq> [])"

declare dispatch_loop.simps [simp del]

lemma dispatch_loop_stops:
  "dispatch_turn W c (d, p) = (status, d', p') \<Longrightarrow> status \<noteq> dispatchCompletedNoWrite \<Longrightarrow>
   dispatch_loop W c (d, p) = (d', p')"
  by (subst dispatch_loop.simps) simp

lemma dispatch_loop_goes_on:
  assumes "dispatch_turn W c (d, p) = (dispatchCompletedNoWrite, d', p')"
  shows "dispatch_loop W c (d, p) = (if client_elements d' c = [] then (d', p') else dispatch_loop W c (d', p'))"
  using assms by (subst dispatch_loop.simps) (simp add: client_elements_def FIFO_IsEmpty_def split: option.splits)

lemma error_shapes:
  "\<exists>k t j u. newRequestCanceledError i x = OcppError k t j requestCanceledMarker u"
  "\<exists>k t j u. NewLocalTransportError c m i = OcppError k t j localTransportMarker u"
  "requestCanceledMarker \<noteq> []" "localTransportMarker \<noteq> []"
  by (simp_all add: error_defs marker_defs)

text \<open>What a turn may leave behind: the views of the dispatcher match an outcome of the specification.\<close>

definition matches ::
  "string \<Rightarrow> ServerDispatcher \<Rightarrow> ServerDispatcher \<times> server_pump \<Rightarrow>
     server_event list \<times> element iface list \<times> (string \<times> request) option \<Rightarrow> bool" where
  "matches c d = (\<lambda>(d', p') (evs, rest, s).
     SD_ok d' \<and> sd_onRequestCancel d' \<and> sd_events d' = sd_events d @ evs \<and>
     client_elements d' = (client_elements d)(c := rest) \<and> client_slots d' = (client_slots d)(c := s) \<and>
     dispatched_of p' c = (case s of Some (i, _) \<Rightarrow> i | None \<Rightarrow> []))"

definition one_dropped :: "server_outside \<Rightarrow> string \<Rightarrow> element iface \<Rightarrow> element iface list \<Rightarrow> server_event \<Rightarrow> bool" where
  "one_dropped W c el els ev \<longleftrightarrow>
     dispatch_spec W c (el # els) = (case dispatch_spec W c els of (evs, rest, s) \<Rightarrow> (ev # evs, rest, s))"

lemma turn_expired:
  assumes "SD_ok d" "sd_onRequestCancel d" "client_slots d c = None" "client_elements d c = el # els"
    and el: "well_formed el = Some (b, call)" "bundle_Data b = Some msg" and e: "SCtx_Err W (bundleCtx b) = Some e"
  shows "\<exists>d1 p1 ev. dispatch_turn W c (d, p) = (dispatchCompletedNoWrite, d1, p1) \<and>
    matches c d (d1, p1) ([ev], els, None) \<and> one_dropped W c el els ev"
proof -
  obtain k t j u where err: "newRequestCanceledError (Call_UniqueId call) (Some e) = OcppError k t j requestCanceledMarker u"
    using error_shapes(1) by blast
  let ?d = "own_and_cancel c (Call_UniqueId call) (Call_Payload call) (OcppError k t j requestCanceledMarker u) d"
  note own = own_and_cancel_front [OF assms(1,2,4) el(1) error_shapes(3) refl, of "Call_Payload call" k t j u]
  obtain p1 where t: "dispatch_turn W c (d, p) = (dispatchCompletedNoWrite, ?d, p1)" "dispatched_of p1 c = []"
    using dispatch_turn_dropped(1) [OF assms(4) el e, of p] err by auto
  have "client_slots ?d = (client_slots d)(c := None)" using own(4) assms(3) by (simp add: fun_upd_idem)
  then have "matches c d (?d, p1) ([ServerCancelCallback c (Call_UniqueId call) (Call_Payload call)
      (OcppError k t j requestCanceledMarker u)], els, None)"
    using own t(2) by (simp add: matches_def)
  then show ?thesis using t(1) el e err by (auto simp: one_dropped_def Let_def)
qed

lemma turn_write_failed:
  assumes "SD_ok d" "sd_onRequestCancel d" "client_slots d c = None" "client_elements d c = el # els"
    and el: "well_formed el = Some (b, call)" "bundle_Data b = Some msg" and i: "Call_UniqueId call \<noteq> []"
    and w: "SCtx_Err W (bundleCtx b) = None" "snet_write W c msg = Some err"
  shows "\<exists>d1 p1 ev. dispatch_turn W c (d, p) = (dispatchCompletedNoWrite, d1, p1) \<and>
    matches c d (d1, p1) ([ev], els, None) \<and> one_dropped W c el els ev"
proof -
  let ?a = "d\<lparr>sd_pending := ServerState_AddPendingRequest c (Call_UniqueId call) (Call_Payload call) (sd_pending d)\<rparr>"
  have ad: "SD_ok ?a" "client_elements ?a = client_elements d" "sd_events ?a = sd_events d" "sd_onRequestCancel ?a"
    "client_slots ?a = (client_slots d)(c := Some (Call_UniqueId call, Call_Payload call))"
    using assms(1-3) i by (auto simp: SD_ok_def pending_add_slots intro: client_elements_cong)
  obtain k t j u where shape: "NewLocalTransportError InternalError (error_text err) (Call_UniqueId call) =
      OcppError k t j localTransportMarker u"
    using error_shapes(2) by blast
  let ?d = "own_and_cancel c (Call_UniqueId call) (Call_Payload call) (OcppError k t j localTransportMarker u) ?a"
  have front: "client_elements ?a c = el # els" using ad(2) assms(4) by simp
  note own = own_and_cancel_front [OF ad(1,4) front el(1) error_shapes(4) refl, of "Call_Payload call" k t j u]
  obtain p1 where t: "dispatch_turn W c (d, p) = (dispatchCompletedNoWrite, ?d, p1)" "dispatched_of p1 c = []"
    using dispatch_turn_dropped(2) [OF assms(4) el w, of p] shape by auto
  have "client_slots ?d = (client_slots d)(c := None)" unfolding own(4) ad(5) by auto
  then have "matches c d (?d, p1) ([ServerCancelCallback c (Call_UniqueId call) (Call_Payload call)
      (OcppError k t j localTransportMarker u)], els, None)"
    using own(1-3) own(5) [unfolded ad(3)] ad(2) t(2) by (simp add: matches_def)
  then show ?thesis using t(1) el w shape by (auto simp: one_dropped_def Let_def)
qed

lemma turn_cases:
  assumes "SD_ok d" "sd_onRequestCancel d" "client_slots d c = None" "client_elements d c = el # els" "ids_set (el # els)"
  shows "\<exists>status d1 p1. dispatch_turn W c (d, p) = (status, d1, p1) \<and>
    (if status = dispatchCompletedNoWrite then \<exists>ev. matches c d (d1, p1) ([ev], els, None) \<and> one_dropped W c el els ev
     else matches c d (d1, p1) (dispatch_spec W c (el # els)))"
proof (cases "\<exists>b call msg. well_formed el = Some (b, call) \<and> bundle_Data b = Some msg")
  case False
  then have bad: "well_formed el = None \<or> (\<exists>b call. well_formed el = Some (b, call) \<and> bundle_Data b = None)"
    by (cases "well_formed el") auto
  with dispatch_turn_stuck [OF assms(4) bad, of W p] assms(1-4) show ?thesis
    by (auto simp: matches_def fun_upd_idem)
next
  case True
  then obtain b call msg where el: "well_formed el = Some (b, call)" "bundle_Data b = Some msg" by auto
  have i: "Call_UniqueId call \<noteq> []" using assms(5) el(1) by (auto simp: ids_set_def)
  show ?thesis
  proof (cases "SCtx_Err W (bundleCtx b)")
    case (Some e)
    from turn_expired [OF assms(1-4) el this, of p] show ?thesis by fastforce
  next
    case None
    show ?thesis
    proof (cases "snet_write W c msg")
      case (Some err)
      from turn_write_failed [OF assms(1-4) el i None this, of p] show ?thesis by fastforce
    next
      case w: None
      from dispatch_turn_written [OF assms(1,4) el None w i assms(3), of p] obtain d1 p1 where
        "dispatch_turn W c (d, p) = (dispatchWritten, d1, p1)" "SD_ok d1"
        "sd_events d1 = sd_events d @ [ServerWrote c msg]" "client_elements d1 = client_elements d"
        "client_slots d1 = (client_slots d)(c := Some (Call_UniqueId call, Call_Payload call))"
        "dispatched_of p1 c = Call_UniqueId call" "sd_onRequestCancel d1 = sd_onRequestCancel d" by blast
      with assms(2,4) el None w show ?thesis by (auto simp: matches_def fun_upd_idem)
    qed
  qed
qed

lemma dispatch_loop_matches:
  assumes "SD_ok d" "sd_onRequestCancel d" "client_slots d c = None" "client_elements d c = els" "els \<noteq> []" "ids_set els"
  shows "matches c d (dispatch_loop W c (d, p)) (dispatch_spec W c els)"
  using assms
proof (induction els arbitrary: d p)
  case (Cons el els)
  obtain status d1 p1 where t: "dispatch_turn W c (d, p) = (status, d1, p1)"
    and res: "if status = dispatchCompletedNoWrite
      then \<exists>ev. matches c d (d1, p1) ([ev], els, None) \<and> one_dropped W c el els ev
      else matches c d (d1, p1) (dispatch_spec W c (el # els))"
    using turn_cases [OF Cons.prems(1-4,6)] by blast
  show ?case
  proof (cases "status = dispatchCompletedNoWrite")
    case False
    with t res show ?thesis by (simp add: dispatch_loop_stops)
  next
    case True
    with t res obtain ev where m: "matches c d (d1, p1) ([ev], els, None)" and drop: "one_dropped W c el els ev"
      and loop: "dispatch_loop W c (d, p) = (if els = [] then (d1, p1) else dispatch_loop W c (d1, p1))"
      by (auto simp: dispatch_loop_goes_on matches_def)
    show ?thesis
    proof (cases "els = []")
      case True
      with m drop loop show ?thesis by (simp add: one_dropped_def)
    next
      case False
      then have "matches c d1 (dispatch_loop W c (d1, p1)) (dispatch_spec W c els)"
        using Cons.IH [of d1 p1] Cons.prems(6) m by (simp add: matches_def ids_set_def)
      with m drop loop False show ?thesis by (auto simp: one_dropped_def matches_def split: prod.splits)
    qed
  qed
qed simp

text \<open>
  C17: dispatching for one client. With nothing pending for the client and requests queued, the pump's
  inner loop terminates and does exactly what \<open>dispatch_spec\<close> says: every request before the first
  that can be written is removed and reported to the cancel callback once, in order, with the error
  for its cause; the first that can be written is written, stays at the front and becomes the
  client's pending request, and the pump records its id. Other clients are untouched.
\<close>

theorem server_dispatch_correct:
  assumes "SD_ok d" and "sd_onRequestCancel d" and "client_slots d c = None"
    and "client_elements d c \<noteq> []" and "ids_set (client_elements d c)"
    and "dispatch_spec W c (client_elements d c) = (evs, rest, s)" and "dispatch_loop W c (d, p) = (d', p')"
  shows "SD_ok d' \<and> sd_events d' = sd_events d @ evs \<and> client_elements d' = (client_elements d)(c := rest) \<and>
    client_slots d' = (client_slots d)(c := s) \<and> dispatched_of p' c = (case s of Some (i, _) \<Rightarrow> i | None \<Rightarrow> [])"
  using dispatch_loop_matches [OF assms(1-3) refl assms(4,5), of W p] assms(6,7) by (simp add: matches_def)

definition sample_outside :: server_outside where
  "sample_outside = \<lparr>snet_write = (\<lambda>c m. if m = ''1'' then Some ErrRequestTimeout else None), sctx_err = \<lambda>_. None\<rparr>"

theorem server_dispatch_correct_witness:
  "client_elements (fst (dispatch_loop sample_outside ''CP1'' (sample_server, server_pump_start))) ''CP1'' =
     [Some (Bundle (sample_bundle ''2''))] \<and>
   client_slots (fst (dispatch_loop sample_outside ''CP1'' (sample_server, server_pump_start))) ''CP1'' =
     Some (''2'', Call_Payload (sample_call ''2''))"
proof -
  obtain evs where spec: "dispatch_spec sample_outside ''CP1'' (client_elements sample_server ''CP1'') =
      (evs, [Some (Bundle (sample_bundle ''2''))], Some (''2'', Call_Payload (sample_call ''2'')))"
    by (simp add: sample_server_elements sample_outside_def sample_bundle_def sample_call_def bundleCtx_def Let_def)
  have idle: "client_slots sample_server ''CP1'' = None" "sd_onRequestCancel sample_server"
    by (simp_all add: sample_server_def NewDefaultServerDispatcher_def)
  have "client_elements sample_server ''CP1'' \<noteq> []" "ids_set (client_elements sample_server ''CP1'')"
    by (simp_all add: sample_server_elements ids_set_def sample_bundle_def sample_call_def)
  from server_dispatch_correct [OF sample_server_ok idle(2,1) this spec prod.collapse [symmetric]]
  show ?thesis by simp
qed

section \<open>Stopping\<close>

definition stop_events :: "string \<Rightarrow> element iface list \<Rightarrow> server_event list" where
  "stop_events c els =
     map (\<lambda>call. ServerCancelCallback c (Call_UniqueId call) (Call_Payload call)
            (newDispatcherStoppedError (Call_UniqueId call)))
       (filter (\<lambda>call. Call_Payload call \<noteq> None) (calls_of els))"

lemma calls_of_simps [simp]:
  "calls_of [] = []"
  "calls_of (el # els) = (case well_formed el of Some (b, call) \<Rightarrow> call # calls_of els | None \<Rightarrow> calls_of els)"
  by (auto simp: calls_of_def List.map_filter_simps split: option.splits)

lemma fire_stopped:
  "sd_onRequestCancel d \<Longrightarrow> sd_events (SD_fireRequestCancel c i r (newDispatcherStoppedError j) d) =
     sd_events d @ [ServerCancelCallback c i r (newDispatcherStoppedError j)]"
  using stopped_error_marker [of j] fire_marked_event [of d dispatcherStoppedMarker]
  by (auto simp: marker_defs)

lemma cancel_client_effect:
  "sd_onRequestCancel d \<Longrightarrow> sd_events (cancel_client c els d) = sd_events d @ stop_events c els \<and>
     sd_onRequestCancel (cancel_client c els d) \<and> queueStore (cancel_client c els d) = queueStore d \<and>
     queueMap (cancel_client c els d) = queueMap d \<and> sd_pending (cancel_client c els d) = sd_pending d"
  by (induction els arbitrary: d) (auto simp: stop_events_def fire_stopped split: option.splits)

lemma cancel_clients_effect:
  assumes "sd_onRequestCancel d" and "inj_on snd (set m)" and "distinct m"
  shows "sd_events (cancel_clients m d) =
      sd_events d @ concat (map (\<lambda>(c, r). stop_events c (elements (deref (queueStore d) r))) m) \<and>
    queueMap (cancel_clients m d) = queueMap d \<and> sd_pending (cancel_clients m d) = sd_pending d"
  using assms
proof (induction m arbitrary: d)
  case (Cons cr m)
  obtain c r where cr: "cr = (c, r)" by (cases cr)
  let ?q = "deref (queueStore d) r"
  define d1 where "d1 = cancel_client c (elements ?q) (d\<lparr>queueStore := assign (queueStore d) r (?q\<lparr>elements := []\<rparr>)\<rparr>)"
  have e: "sd_events d1 = sd_events d @ stop_events c (elements ?q)" "sd_onRequestCancel d1"
    "queueStore d1 = assign (queueStore d) r (?q\<lparr>elements := []\<rparr>)" "queueMap d1 = queueMap d"
    "sd_pending d1 = sd_pending d"
    using cancel_client_effect [of "d\<lparr>queueStore := assign (queueStore d) r (?q\<lparr>elements := []\<rparr>)\<rparr>" c "elements ?q"]
      Cons.prems(1) by (simp_all add: d1_def)
  have others: "r' \<noteq> r" if "(c', r') \<in> set m" for c' r'
    using Cons.prems(2,3) that by (force simp: cr inj_on_def)
  have same: "map (\<lambda>(c, r). stop_events c (elements (deref (queueStore d1) r))) m =
      map (\<lambda>(c, r). stop_events c (elements (deref (queueStore d) r))) m"
    using others by (auto simp: e(3))
  have "inj_on snd (set m)" "distinct m" using Cons.prems(2,3) by (auto simp: inj_on_def)
  from Cons.IH [OF e(2) this] have "sd_events (cancel_clients m d1) = sd_events d @ stop_events c (elements ?q) @
      concat (map (\<lambda>(c, r). stop_events c (elements (deref (queueStore d) r))) m)"
    "queueMap (cancel_clients m d1) = queueMap d" "sd_pending (cancel_clients m d1) = sd_pending d"
    by (simp_all only: same e(1,4,5) append_assoc)
  then show ?case by (simp add: cr FIFO_DrainAll_def flip: d1_def)
qed simp

text \<open>
  C20: stopping the server. When the pump sees the stop, every request still queued for any client (the
  ones in flight included, those without a payload excepted) is reported to the cancel callback
  exactly once, per client in queue order, with an error that matches \<open>ErrDispatcherStopped\<close>;
  afterwards no client has a queue and nothing is pending.
\<close>

theorem server_stop_cancels_all:
  assumes "SD_ok d" and "sd_onRequestCancel d" and "address_equality same"
  shows "sd_events (server_stop_drain d) = sd_events d @
      concat (map (\<lambda>(c, r). stop_events c (client_elements d c)) (qm_data (queueMap d))) \<and>
    (\<forall>i. errors_Is same (newDispatcherStoppedError i) ErrDispatcherStopped) \<and>
    (\<forall>c. client_elements (server_stop_drain d) c = [] \<and> client_slots (server_stop_drain d) c = None)"
proof -
  let ?m = "qm_data (queueMap d)"
  have m: "inj_on snd (set ?m)" "gomap_ok ?m" using assms(1) by (auto simp: SD_ok_def QueueMap_ok_def)
  then have "distinct ?m" by (simp add: gomap_ok_def distinct_map)
  have look: "map (\<lambda>(c, r). stop_events c (elements (deref (queueStore d) r))) ?m =
      map (\<lambda>(c, r). stop_events c (client_elements d c)) ?m"
    using m(2) by (auto simp: client_elements_def QueueMap_Get_def gomap_ok_def)
  let ?d = "d\<lparr>queueMap := (queueMap d)\<lparr>qm_data := []\<rparr>,
      sd_pending := ServerState_ClearAllPendingRequests (sd_pending d)\<rparr>"
  have eff: "sd_events (cancel_clients ?m ?d) = sd_events d @
      concat (map (\<lambda>(c, r). stop_events c (elements (deref (queueStore d) r))) ?m)"
    "queueMap (cancel_clients ?m ?d) = (queueMap d)\<lparr>qm_data := []\<rparr>"
    "sd_pending (cancel_clients ?m ?d) = ServerState_ClearAllPendingRequests (sd_pending d)"
    using cancel_clients_effect [of ?d ?m] assms(2) m(1) \<open>distinct ?m\<close> by simp_all
  have drain: "server_stop_drain d = cancel_clients ?m ?d" by (simp add: server_stop_drain_def QueueMap_DrainAll_def)
  have "errors_Is same (newDispatcherStoppedError i) ErrDispatcherStopped" for i
    using assms(3) by (simp add: error_defs marker_defs)
  then show ?thesis
    using eff look unfolding drain
    by (auto simp: client_elements_def QueueMap_Get_def ServerState_ClearAllPendingRequests_def split: prod.splits)
qed

theorem server_stop_cancels_all_witness: "length (sd_events (server_stop_drain sample_server)) = 3"
proof -
  have "sd_onRequestCancel sample_server" "sd_events sample_server = []"
    "qm_data (queueMap sample_server) = [(''CP1'', 0), (''CP2'', 1)]"
    by (simp_all add: sample_server_def NewDefaultServerDispatcher_def)
  with server_stop_cancels_all [OF sample_server_ok, of "(=)"] show ?thesis
    by (simp add: address_equality_def sample_server_elements stop_events_def sample_bundle_def sample_call_def)
qed

section \<open>Timeouts and cancellations\<close>

text \<open>The dispatcher's state after a branch of the \<open>select\<close>.\<close>

fun arm_state :: "arm_result \<Rightarrow> ServerDispatcher" where
  "arm_state (PumpReturn d) = d"
| "arm_state (PumpContinue d p) = d"
| "arm_state (PumpDispatch d p) = d"

lemma cancel_ctx_frame [simp]:
  "queueMap (cancel_ctx x d) = queueMap d" "queueStore (cancel_ctx x d) = queueStore d"
  "sd_pending (cancel_ctx x d) = sd_pending d" "sd_events (cancel_ctx x d) = sd_events d"
  "sd_onRequestCancel (cancel_ctx x d) = sd_onRequestCancel d"
  by (simp_all add: cancel_ctx_def split: option.splits)

lemma cancel_ctx_views [simp]: "client_elements (cancel_ctx x d) = client_elements d" "SD_ok (cancel_ctx x d) = SD_ok d"
  by (rule client_elements_cong, simp_all) (simp add: SD_ok_def)

text \<open>What completing a request and reporting it may do to the views.\<close>

definition ended_front ::
  "string \<Rightarrow> string \<Rightarrow> (request \<Rightarrow> server_event) \<Rightarrow> ServerDispatcher \<Rightarrow> ServerDispatcher \<Rightarrow> bool" where
  "ended_front c i ev d d' \<longleftrightarrow> (\<exists>el els b call. client_elements d c = el # els \<and> well_formed el = Some (b, call) \<and>
     Call_UniqueId call = i \<and> client_elements d' = (client_elements d)(c := els) \<and>
     client_slots d' = slots_apply (SDelete c i) (client_slots d) \<and> sd_events d' = sd_events d @ [ev (Call_Payload call)])"

lemma ended_front_own:
  assumes "SD_ok d" and "sd_onRequestCancel d" and "completeRequestOwned c i d = (Some (b, call), d1)"
    and "e = OcppError k t j m u" and "m \<noteq> []"
  shows "Call_UniqueId call = i" and "ended_front c i (\<lambda>r. ServerCancelCallback c i r e) d
    (SD_fireRequestCancel c (Call_UniqueId call) (Call_Payload call) e d1)"
proof -
  obtain el els where o: "client_elements d c = el # els" "well_formed el = Some (b, call)" "has_id i el"
    "client_elements d1 = (client_elements d)(c := els)"
    "client_slots d1 = slots_apply (SDelete c i) (client_slots d)"
    "d1 = d\<lparr>queueStore := queueStore d1, sd_pending := sd_pending d1\<rparr>"
    using completeRequestOwned_Some [OF assms(1,3)] by metis
  show i: "Call_UniqueId call = i" using o(2,3) by (simp add: has_id_def)
  have "sd_onRequestCancel d1" "sd_events d1 = sd_events d" using assms(2) by (subst o(6), simp)+
  then have "sd_events (SD_fireRequestCancel c (Call_UniqueId call) (Call_Payload call) e d1) =
      sd_events d @ [ServerCancelCallback c i (Call_Payload call) e]"
    using fire_marked_event [of d1 m] assms(4,5) i by simp
  with o i show "ended_front c i (\<lambda>r. ServerCancelCallback c i r e) d
    (SD_fireRequestCancel c (Call_UniqueId call) (Call_Payload call) e d1)"
    by (auto simp: ended_front_def)
qed

lemma release_client_effect:
  assumes "release_client c (d, p) = (d1, p1)"
  shows "client_elements d1 = client_elements d" "sd_pending d1 = sd_pending d" "sd_events d1 = sd_events d"
    "SD_ok d1 = SD_ok d" "sd_onRequestCancel d1 = sd_onRequestCancel d" "queueMap d1 = queueMap d"
  using assms by (auto simp: release_client_def)

definition unchanged :: "ServerDispatcher \<Rightarrow> ServerDispatcher \<Rightarrow> bool" where
  "unchanged d d' \<longleftrightarrow> client_elements d' = client_elements d \<and> client_slots d' = client_slots d \<and> sd_events d' = sd_events d"

lemma timeout_hits_in_flight:
  assumes "SD_ok d" and "sd_onRequestCancel d" and "i = dispatched_of p (stt_clientID tok)"
  shows "unchanged d (arm_state (handle_timeout tok d p)) \<or>
    (ctx_of p (stt_clientID tok) = stt_ctx tok \<and>
     ended_front (stt_clientID tok) i (\<lambda>r. ServerCancelCallback (stt_clientID tok) i r (newRequestTimeoutError i)) d
       (arm_state (handle_timeout tok d p)))"
proof -
  let ?c = "stt_clientID tok" and ?p = "p\<lparr>sp_clientID := stt_clientID tok\<rparr>"
  have p: "ctx_of ?p ?c = ctx_of p ?c" "dispatched_of ?p ?c = i"
    using assms(3) by (simp_all add: ctx_of_def dispatched_of_def)
  obtain d1 p1 where rel: "release_client ?c (d, ?p) = (d1, p1)" by (cases "release_client ?c (d, ?p)")
  note eff = release_client_effect [OF rel]
  obtain w d2 where own: "completeRequestOwned ?c i d1 = (w, d2)" by (cases "completeRequestOwned ?c i d1")
  show ?thesis
  proof (cases "ctx_of p ?c = stt_ctx tok \<and> ServerState_HasPendingRequest ?c (sd_pending d1) \<and> w \<noteq> None")
    case True
    then obtain b call where w: "w = Some (b, call)" by auto
    obtain k t j u where err: "newRequestTimeoutError i = OcppError k t j requestTimeoutMarker u"
      by (simp add: error_defs)
    have "SD_ok d1" "sd_onRequestCancel d1" using assms eff by simp_all
    note f = ended_front_own [OF this own [unfolded w] err]
    have m: "requestTimeoutMarker \<noteq> []" by (simp add: marker_defs)
    from f(2) [OF m] have "ended_front ?c i (\<lambda>r. ServerCancelCallback ?c i r (newRequestTimeoutError i)) d
        (SD_fireRequestCancel ?c i (Call_Payload call) (newRequestTimeoutError i) d2)"
      using eff by (simp add: ended_front_def f(1) [OF m])
    with True own w rel p f(1) [OF m] show ?thesis by (simp add: handle_timeout_def Let_def)
  next
    case False
    have "w = None \<Longrightarrow> d2 = d1" using completeRequestOwned_None own by blast
    with False own rel p eff have "unchanged d (arm_state (handle_timeout tok d p))"
      by (auto simp: handle_timeout_def unchanged_def Let_def split: option.splits)
    then show ?thesis ..
  qed
qed

lemma cancel_hits_in_flight:
  assumes "SD_ok d" and "sd_onRequestCancel d" and "i = sct_requestID tok"
    and "e = newRequestCanceledError i (SCtx_Err W (sct_ctx tok))"
  shows "unchanged d (arm_state (handle_cancel W tok d p)) \<or>
    (dispatched_of p (sct_clientID tok) = i \<and>
     ended_front (sct_clientID tok) i (\<lambda>r. ServerCancelCallback (sct_clientID tok) i r e) d
       (arm_state (handle_cancel W tok d p)))"
proof -
  let ?c = "sct_clientID tok" and ?p = "p\<lparr>sp_clientID := sct_clientID tok\<rparr>"
  have p: "dispatched_of ?p ?c = dispatched_of p ?c" by (simp add: dispatched_of_def)
  obtain w d1 where own: "completeRequestOwned ?c i d = (w, d1)" by (cases "completeRequestOwned ?c i d")
  obtain d2 p2 where rel: "release_client ?c (d1, ?p) = (d2, p2)" by (cases "release_client ?c (d1, ?p)")
  note eff = release_client_effect [OF rel]
  show ?thesis
  proof (cases "dispatched_of p ?c = i \<and> w \<noteq> None")
    case True
    then obtain b call where w: "w = Some (b, call)" by auto
    obtain k t j u where err: "e = OcppError k t j requestCanceledMarker u"
      using error_shapes(1) assms(4) by blast
    note f = ended_front_own [OF assms(1,2) own [unfolded w] err error_shapes(3)]
    have "sd_events (SD_fireRequestCancel ?c i r e d2) = sd_events (SD_fireRequestCancel ?c i r e d1)" for r
      using eff by (simp add: SD_fireRequestCancel_def)
    then have "ended_front ?c i (\<lambda>r. ServerCancelCallback ?c i r e) d (SD_fireRequestCancel ?c i (Call_Payload call) e d2)"
      using f eff by (simp add: ended_front_def)
    with True own w rel p f(1) show ?thesis by (simp add: handle_cancel_def assms(3,4) Let_def)
  next
    case False
    have "w = None \<Longrightarrow> d1 = d" using completeRequestOwned_None own by blast
    with False own p have "unchanged d (arm_state (handle_cancel W tok d p))"
      by (auto simp: handle_cancel_def unchanged_def Let_def assms(3) split: option.splits)
    then show ?thesis ..
  qed
qed

text \<open>
  C19: a timeout or a cancellation ends only the request it was meant for. Handling a timeout token either
  leaves every queue, every pending entry and the reported events as they are, or the token's context
  is the client's current one and exactly the request that the pump recorded as in flight for this
  client was at the front of its queue, was removed and was reported as timed out. Likewise a
  cancellation token changes nothing unless its request is the one in flight.
\<close>

theorem server_token_hits_in_flight:
  assumes "SD_ok d" and "sd_onRequestCancel d" and "c = stt_clientID tok" and "i = dispatched_of p c"
    and "c' = sct_clientID tok'" and "i' = sct_requestID tok'"
  shows "(unchanged d (arm_state (handle_timeout tok d p)) \<or>
      (ctx_of p c = stt_ctx tok \<and> ended_front c i (\<lambda>r. ServerCancelCallback c i r (newRequestTimeoutError i)) d
         (arm_state (handle_timeout tok d p)))) \<and>
    (unchanged d (arm_state (handle_cancel W tok' d p)) \<or>
      (dispatched_of p c' = i' \<and> ended_front c' i'
         (\<lambda>r. ServerCancelCallback c' i' r (newRequestCanceledError i' (SCtx_Err W (sct_ctx tok')))) d
         (arm_state (handle_cancel W tok' d p))))"
  using timeout_hits_in_flight [OF assms(1,2), of i p tok] cancel_hits_in_flight [OF assms(1,2,6) refl, of W p] assms
  by simp

theorem server_token_hits_in_flight_witness:
  "unchanged sample_server (arm_state (handle_timeout \<lparr>stt_clientID = ''CP1'', stt_ctx = Some 7\<rparr> sample_server server_pump_start))"
  using server_token_hits_in_flight [OF sample_server_ok _ refl refl refl refl,
      of "\<lparr>stt_clientID = ''CP1'', stt_ctx = Some 7\<rparr>" server_pump_start]
  by (simp add: ctx_of_def server_pump_start_def sample_server_def NewDefaultServerDispatcher_def)

text \<open>
  Deleting a client is silent. The interface documents that \<open>OnRequestCanceled\<close> is invoked for each request that
  \<open>DeleteClient\<close> discards. Neither \<open>DeleteClient\<close> nor the pump's handling of its token reports
  anything: the requests queued for the client, the one in flight included, disappear silently.
\<close>

theorem DeleteClient_reports_nothing:
  "client_elements (DeleteClient c d) c = [] \<and> sd_events (DeleteClient c d) = sd_events d \<and>
   sd_events (arm_state (handle_request \<lparr>sdr_clientID = c, deleteAck = False\<rparr> (DeleteClient c d) p)) = sd_events d"
  by (auto simp: DeleteClient_def post_request_def client_elements_def QueueMap_Get_def QueueMap_Remove_def
      handle_request_def drop_client_ctx_def ack_delete_def Let_def)

end
