(* ===== verification/Ocppj_Server.thy ===== *)
theory Ocppj_Server
  imports Ocppj_Endpoint Server_Dispatcher
begin

text \<open>
  \<open>ocppj/server.go\<close> and the server half of \<open>ocppj/panic.go\<close>: the endpoint of a central system. A
  \<open>ws.Channel\<close> is the id of the client it belongs to. The endpoint uses the default dispatcher, whose
  pending state is the endpoint's \<open>RequestState\<close>; the handlers are arbitrary code. All operations are on
  the record scheme: a facade adds its own fields to the endpoint, and the handlers it registers are
  code on the extended state.
\<close>

section \<open>State\<close>

record ws_server =
  wss_listening :: "(int \<times> string) option"
  wss_checkClient :: bool
  wss_handlers :: bool

record Server =
  s_Endpoint :: Endpoint
  s_server :: ws_server
  s_dispatcher :: ServerDispatcher
  s_sent :: "(string \<times> string) list"

record 's server_handlers =
  checkClientHandler :: bool
  newClientHandler :: "(string \<Rightarrow> ('s, unit) code) option"
  disconnectedClientHandler :: "(string \<Rightarrow> ('s, unit) code) option"
  s_requestHandler :: "(string \<Rightarrow> request \<Rightarrow> string \<Rightarrow> string \<Rightarrow> ('s, unit) code) option"
  s_responseHandler :: "(string \<Rightarrow> request \<Rightarrow> string \<Rightarrow> ('s, unit) code) option"
  s_errorHandler :: "(string \<Rightarrow> go_error \<Rightarrow> json iface \<Rightarrow> ('s, unit) code) option"
  s_onHandlerPanic :: "(HandlerPanic \<Rightarrow> ('s, unit) code) option"
  s_invalidMessageHook ::
    "(string \<Rightarrow> go_error \<Rightarrow> string \<Rightarrow> json list \<Rightarrow> ('s, go_error option \<times> go_error) code) option"
  s_debug_Stack :: string

definition no_server_handlers :: "'s server_handlers" where
  "no_server_handlers = \<lparr>checkClientHandler = False, newClientHandler = None, disconnectedClientHandler = None,
     s_requestHandler = None, s_responseHandler = None, s_errorHandler = None, s_onHandlerPanic = None,
     s_invalidMessageHook = None, s_debug_Stack = []\<rparr>"

definition Server_SetRequestHandler where "Server_SetRequestHandler h H = H\<lparr>s_requestHandler := h\<rparr>"
definition Server_SetResponseHandler where "Server_SetResponseHandler h H = H\<lparr>s_responseHandler := h\<rparr>"
definition Server_SetErrorHandler where "Server_SetErrorHandler h H = H\<lparr>s_errorHandler := h\<rparr>"
definition Server_SetInvalidMessageHook where "Server_SetInvalidMessageHook h H = H\<lparr>s_invalidMessageHook := h\<rparr>"
definition Server_SetNewClientHandler where "Server_SetNewClientHandler h H = H\<lparr>newClientHandler := h\<rparr>"
definition Server_SetNewClientValidationHandler where
  "Server_SetNewClientValidationHandler h H = H\<lparr>checkClientHandler := h\<rparr>"
definition Server_SetDisconnectedClientHandler where
  "Server_SetDisconnectedClientHandler h H = H\<lparr>disconnectedClientHandler := h\<rparr>"
definition Server_SetOnHandlerPanic where "Server_SetOnHandlerPanic h H = H\<lparr>s_onHandlerPanic := h\<rparr>"

definition Server_SetCanceledRequestHandler :: "bool \<Rightarrow> 'z Server_scheme \<Rightarrow> 'z Server_scheme" where
  "Server_SetCanceledRequestHandler h s = s\<lparr>s_dispatcher := SD_SetOnRequestCanceled h (s_dispatcher s)\<rparr>"

text \<open>
  The constructor. A nil state handler is replaced by the state of the default dispatcher; \<open>empty_qs\<close>
  and \<open>empty_ss\<close> are the stores in which a new dispatcher allocates, \<open>new_ws\<close> is a new websocket server.
\<close>

definition NewServer ::
  "ws_server \<Rightarrow> element queue_store \<Rightarrow> state_store \<Rightarrow> ws_server option \<Rightarrow> ServerDispatcher option \<Rightarrow>
     (serverState \<times> state_store) option \<Rightarrow> Profile list \<Rightarrow> Server" where
  "NewServer new_ws empty_qs empty_ss wsServer disp stateHandler profiles =
     (let d = (case disp of
                 Some d \<Rightarrow> d
               | None \<Rightarrow> NewDefaultServerDispatcher (NewFIFOQueueMap 0) empty_qs empty_ss);
          st = (case stateHandler of Some st \<Rightarrow> st | None \<Rightarrow> sd_pending d);
          ws = (case wsServer of Some ws \<Rightarrow> ws | None \<Rightarrow> new_ws)
      in \<lparr>s_Endpoint = add_profiles \<lparr>endpoint_dialect = 0, Profiles = []\<rparr> profiles, s_server = ws,
          s_dispatcher = SD_SetPendingRequestState st (SD_SetNetworkServer True d), s_sent = []\<rparr>)"

section \<open>Starting and stopping\<close>

definition Server_Start :: "'z Server_scheme server_handlers \<Rightarrow> int \<Rightarrow> string \<Rightarrow> 'z Server_scheme \<Rightarrow> 'z Server_scheme" where
  "Server_Start H listenPort listenPath s =
     s\<lparr>s_server := (s_server s)\<lparr>wss_checkClient := checkClientHandler H, wss_handlers := True,
         wss_listening := Some (listenPort, listenPath)\<rparr>,
       s_dispatcher := SD_Start (s_dispatcher s)\<rparr>"

definition Server_Stop :: "'z Server_scheme \<Rightarrow> 'z Server_scheme" where
  "Server_Stop s =
     (let s = s\<lparr>s_dispatcher := SD_Stop (s_dispatcher s)\<rparr>
      in s\<lparr>s_server := (s_server s)\<lparr>wss_listening := None\<rparr>\<rparr>)"

text \<open>\<open>result\<close> is what the websocket server's own \<open>Shutdown\<close> returns.\<close>

definition Server_Shutdown :: "go_error option \<Rightarrow> 'z Server_scheme \<Rightarrow> go_error option \<times> 'z Server_scheme" where
  "Server_Shutdown result s = (result, Server_Stop s)"

section \<open>Sending\<close>

fun server_send_error_value :: "server_send_error \<Rightarrow> go_error" where
  "server_send_error_value (SNoNetwork i) = Errorf (''cannot send request '' @ i @ '', no network server was set'')"
| "server_send_error_value (SNoClient i c) =
     Errorf (''cannot send request '' @ i @ '', no client '' @ c @ '' exists'')"
| "server_send_error_value (SPushFailed QueueFull) = Errorf ''request queue is full, cannot push new element''"
| "server_send_error_value (SNotRunning i) = Errorf (''cannot send request '' @ i @ '', dispatcher not running'')"
| "server_send_error_value SNilCallPanic = Errorf []"

definition Server_SendRequestCtx ::
  "env \<Rightarrow> string \<Rightarrow> ctx option \<Rightarrow> string \<Rightarrow> message_body \<Rightarrow> 'z Server_scheme \<Rightarrow> (go_error + string) \<times> 'z Server_scheme" where
  "Server_SendRequestCtx E uniqueId ctx clientID req s =
     (let ctx = (case ctx of None \<Rightarrow> Background | Some x \<Rightarrow> x) in
      if \<not> SD_IsRunning (s_dispatcher s) then
        (Inl (Errorf ''ocppj server is not started, couldn't send request''), s)
      else case CreateCall E uniqueId (s_Endpoint s) req of
             Inl err \<Rightarrow> (Inl err, s)
           | Inr call \<Rightarrow>
               (case Call_MarshalJSON E call of
                  Inl err \<Rightarrow> (Inl err, s)
                | Inr jsonMessage \<Rightarrow>
                    (case SD_SendRequest clientID \<lparr>bundle_Call = Some call, bundle_Data = Some jsonMessage,
                            bundle_Ctx = Some ctx\<rparr> (s_dispatcher s) of
                       (Some err, d) \<Rightarrow> (Inl (server_send_error_value err), s\<lparr>s_dispatcher := d\<rparr>)
                     | (None, d) \<Rightarrow> (Inr (Call_UniqueId call), s\<lparr>s_dispatcher := d\<rparr>))))"

definition Server_SendRequest ::
  "env \<Rightarrow> string \<Rightarrow> string \<Rightarrow> message_body \<Rightarrow> 'z Server_scheme \<Rightarrow> (go_error + string) \<times> 'z Server_scheme" where
  "Server_SendRequest E uniqueId clientID req s =
     Server_SendRequestCtx E uniqueId (Some Background) clientID req s"

definition server_write ::
  "server_outside \<Rightarrow> string \<Rightarrow> string \<Rightarrow> string \<Rightarrow> 'z Server_scheme \<Rightarrow> go_error option \<times> 'z Server_scheme" where
  "server_write W clientID rid jsonMessage s =
     (case snet_write W clientID jsonMessage of
        Some err \<Rightarrow> (Some (NewError GenericError (error_text err) rid), s)
      | None \<Rightarrow> (None, s\<lparr>s_sent := s_sent s @ [(clientID, jsonMessage)]\<rparr>))"

definition Server_SendResponse ::
  "env \<Rightarrow> server_outside \<Rightarrow> string \<Rightarrow> string \<Rightarrow> message_body \<Rightarrow> 'z Server_scheme \<Rightarrow> go_error option \<times> 'z Server_scheme" where
  "Server_SendResponse E W clientID rid response s =
     (case CreateCallResult E (s_Endpoint s) response rid of
        Inl err \<Rightarrow> (Some err, s)
      | Inr callResult \<Rightarrow>
          (case CallResult_MarshalJSON E callResult of
             Inl err \<Rightarrow> (Some (NewError GenericError (error_text err) rid), s)
           | Inr jsonMessage \<Rightarrow> server_write W clientID rid jsonMessage s))"

definition Server_SendError ::
  "env \<Rightarrow> server_outside \<Rightarrow> string \<Rightarrow> string \<Rightarrow> string \<Rightarrow> string \<Rightarrow> json iface \<Rightarrow> 'z Server_scheme \<Rightarrow>
     go_error option \<times> 'z Server_scheme" where
  "Server_SendError E W clientID rid errorCode description details s =
     (case CreateCallError E rid errorCode description details of
        Inl err \<Rightarrow> (Some err, s)
      | Inr callError \<Rightarrow>
          (case CallError_MarshalJSON E callError of
             Inl err \<Rightarrow> (Some (NewError GenericError (error_text err) rid), s)
           | Inr jsonMessage \<Rightarrow> server_write W clientID rid jsonMessage s))"

definition server_internal_error :: "env \<Rightarrow> server_outside \<Rightarrow> string \<Rightarrow> string \<Rightarrow> ('z Server_scheme, unit) code" where
  "server_internal_error E W clientID rid s =
     (Returns (), snd (Server_SendError E W clientID rid InternalError
        ''internal error while handling request'' None s))"

definition Server_RecoverPanicGoroutine ::
  "env \<Rightarrow> server_outside \<Rightarrow> 'z Server_scheme server_handlers \<Rightarrow> HandlerKind \<Rightarrow> string \<Rightarrow> string \<Rightarrow> string \<Rightarrow> bool \<Rightarrow>
     ('z Server_scheme, unit) code \<Rightarrow> 'z Server_scheme \<Rightarrow> 'z Server_scheme" where
  "Server_RecoverPanicGoroutine E W H kind clientID action rid sendCallError handler s =
     recoverHandler (s_debug_Stack H) kind clientID action rid (s_onHandlerPanic H)
       (if sendCallError then Some (server_internal_error E W clientID rid) else None) handler s"

section \<open>Receiving\<close>

definition server_run_hook ::
  "'z Server_scheme server_handlers \<Rightarrow> string \<Rightarrow> go_error \<Rightarrow> string \<Rightarrow> json list \<Rightarrow> 'z Server_scheme \<Rightarrow> go_error \<times> 'z Server_scheme" where
  "server_run_hook H clientID ocppErr rawMessage parsedJson s =
     (case s_invalidMessageHook H of
        None \<Rightarrow> (ocppErr, s)
      | Some hook \<Rightarrow>
          (case hook clientID ocppErr rawMessage parsedJson s of
             (Panics v, s) \<Rightarrow>
               (ocppErr, reportHandlerPanic (s_debug_Stack H) v InvalidMessageHandlerKind clientID []
                           (MessageId ocppErr) (s_onHandlerPanic H) None s)
           | (Returns (Some err2, _), s) \<Rightarrow> (set_MessageId (MessageId ocppErr) err2, s)
           | (Returns (None, written), s) \<Rightarrow> (written, s)))"

definition server_invalid_message ::
  "env \<Rightarrow> server_outside \<Rightarrow> 'z Server_scheme server_handlers \<Rightarrow> string \<Rightarrow> go_error \<Rightarrow> string \<Rightarrow> json list \<Rightarrow> 'z Server_scheme \<Rightarrow>
     go_error \<times> 'z Server_scheme" where
  "server_invalid_message E W H clientID ocppErr rawMessage parsedJson s =
     (let (err, s) = server_run_hook H clientID ocppErr rawMessage parsedJson s in
      if MessageId err \<noteq> [] then
        (case Server_SendError E W clientID (MessageId err) (Code err) (Description err) None s of
           (Some err2, s) \<Rightarrow> (err2, s)
         | (None, s) \<Rightarrow> (err, s))
      else (err, s))"

definition server_complete :: "string \<Rightarrow> string \<Rightarrow> 'z Server_scheme \<Rightarrow> bool \<times> 'z Server_scheme" where
  "server_complete clientID rid s =
     (let (won, d) = SD_CompleteRequest clientID rid (s_dispatcher s) in (won, s\<lparr>s_dispatcher := d\<rparr>))"

text \<open>The \<open>switch\<close> over a parsed message, and the invocation of the handlers with their recovery.\<close>

fun server_deliver :: "env \<Rightarrow> server_outside \<Rightarrow> 'z Server_scheme server_handlers \<Rightarrow> string \<Rightarrow> Message \<Rightarrow> 'z Server_scheme \<Rightarrow> 'z Server_scheme" where
  "server_deliver E W H clientID (MCall call) s =
     (case s_requestHandler H of
        None \<Rightarrow> s
      | Some h \<Rightarrow>
          recoverHandler (s_debug_Stack H) RequestHandlerKind clientID (Call_Action call) (Call_UniqueId call)
            (s_onHandlerPanic H) (Some (server_internal_error E W clientID (Call_UniqueId call)))
            (h clientID (Call_Payload call) (Call_UniqueId call) (Call_Action call)) s)"
| "server_deliver E W H clientID (MCallResult r) s =
     (case s_responseHandler H of
        None \<Rightarrow> s
      | Some h \<Rightarrow>
          recoverHandler (s_debug_Stack H) ResponseHandlerKind clientID [] (CallResult_UniqueId r)
            (s_onHandlerPanic H) None (h clientID (CallResult_Payload r) (CallResult_UniqueId r)) s)"
| "server_deliver E W H clientID (MCallError e) s =
     (case s_errorHandler H of
        None \<Rightarrow> s
      | Some h \<Rightarrow>
          recoverHandler (s_debug_Stack H) ErrorHandlerKind clientID [] (CallError_UniqueId e)
            (s_onHandlerPanic H) None
            (h clientID (NewError (CallError_ErrorCode e) (CallError_ErrorDescription e) (CallError_UniqueId e))
               (CallError_ErrorDetails e)) s)"

fun server_route :: "env \<Rightarrow> server_outside \<Rightarrow> 'z Server_scheme server_handlers \<Rightarrow> string \<Rightarrow> Message \<Rightarrow> 'z Server_scheme \<Rightarrow> 'z Server_scheme" where
  "server_route E W H clientID (MCall call) s = server_deliver E W H clientID (MCall call) s"
| "server_route E W H clientID m s =
     (let (won, s) = server_complete clientID (GetUniqueId m) s
      in if won then server_deliver E W H clientID m s else s)"

definition Server_ocppMessageHandler ::
  "env \<Rightarrow> server_outside \<Rightarrow> 'z Server_scheme server_handlers \<Rightarrow> string \<Rightarrow> string \<Rightarrow> 'z Server_scheme \<Rightarrow>
     (string, go_error option) outcome \<times> 'z Server_scheme" where
  "Server_ocppMessageHandler E W H clientID rawData s =
     (case ParseRawJsonMessage E rawData of
        Inl err \<Rightarrow> (Returns (Some err), s)
      | Inr parsedJson \<Rightarrow>
          (let (r, sd, st) = ServerState_GetClientState clientID (sd_pending (s_dispatcher s));
               s = s\<lparr>s_dispatcher := (s_dispatcher s)\<lparr>sd_pending := (sd, st)\<rparr>\<rparr>
           in case ParseMessage E (s_Endpoint s) parsedJson (deref st r) of
                Panics v \<Rightarrow> (Panics v, s)
              | Returns (Inl (OcppError co de mi ma ca)) \<Rightarrow>
                  (let (err, s) = server_invalid_message E W H clientID (OcppError co de mi ma ca)
                         rawData parsedJson s
                   in (Returns (Some err), s))
              | Returns (Inl _) \<Rightarrow> (Panics ''interface conversion'', s)
              | Returns (Inr None) \<Rightarrow> (Returns None, s)
              | Returns (Inr (Some message)) \<Rightarrow> (Returns None, server_route E W H clientID message s)))"

definition Server_HandleFailedResponseError ::
  "env \<Rightarrow> server_outside \<Rightarrow> string \<Rightarrow> string \<Rightarrow> go_error option \<Rightarrow> string \<Rightarrow> ('z Server_scheme, unit) code" where
  "Server_HandleFailedResponseError E W clientID rid err featureName s =
     (case failed_response_error (endpoint_dialect (s_Endpoint s)) rid err featureName of
        Panics v \<Rightarrow> (Panics v, s)
      | Returns responseErr \<Rightarrow>
          (Returns (), snd (Server_SendError E W clientID rid (Code responseErr) (Description responseErr) None s)))"

text \<open>
  Connections. \<open>CreateClient\<close> panics when the queue map was built with a negative capacity. Of
  \<open>DeleteClientAndWait\<close> the part before the wait for the pump's acknowledgement is meant.
\<close>

definition Server_onClientConnected :: "'z Server_scheme server_handlers \<Rightarrow> string \<Rightarrow> ('z Server_scheme, unit) code" where
  "Server_onClientConnected H clientID s =
     (case CreateClient clientID (s_dispatcher s) of
        None \<Rightarrow> (Panics ''makeslice: cap out of range'', s)
      | Some d \<Rightarrow>
          (let s = s\<lparr>s_dispatcher := d\<rparr> in
           (Returns (),
            case newClientHandler H of
              None \<Rightarrow> s
            | Some h \<Rightarrow> recoverHandler (s_debug_Stack H) ConnectHandlerKind clientID [] []
                          (s_onHandlerPanic H) None (h clientID) s)))"

definition Server_onClientDisconnected :: "'z Server_scheme server_handlers \<Rightarrow> string \<Rightarrow> 'z Server_scheme \<Rightarrow> 'z Server_scheme" where
  "Server_onClientDisconnected H clientID s =
     (let d = DeleteClientAndWait clientID (s_dispatcher s);
          d = d\<lparr>sd_pending := ServerState_ClearClientPendingRequest clientID (sd_pending d)\<rparr>;
          s = s\<lparr>s_dispatcher := d\<rparr>
      in case disconnectedClientHandler H of
           None \<Rightarrow> s
         | Some h \<Rightarrow> recoverHandler (s_debug_Stack H) DisconnectHandlerKind clientID [] []
                       (s_onHandlerPanic H) None (h clientID) s)"

section \<open>Lemmas\<close>

definition server_network_up :: "server_outside \<Rightarrow> bool" where
  "server_network_up W \<longleftrightarrow> (\<forall>c t. snet_write W c t = None)"

lemma Server_SendRequestCtx_state:
  assumes "Server_SendRequestCtx E i ctx c req s = (r, s')"
  shows "s' = s\<lparr>s_dispatcher := s_dispatcher s'\<rparr> \<and>
    (s_dispatcher s' = s_dispatcher s \<or> (\<exists>b. s_dispatcher s' = snd (SD_SendRequest c b (s_dispatcher s))))"
proof (cases "s' = s")
  case False
  with assms obtain b err d where "SD_SendRequest c b (s_dispatcher s) = (err, d)" "s' = s\<lparr>s_dispatcher := d\<rparr>"
    unfolding Server_SendRequestCtx_def Let_def
    by (auto split: if_splits sum.splits prod.splits option.splits)
  then show ?thesis by (metis Server.simps(3) Server.surjective Server.update_convs(3) snd_conv)
qed simp

lemma Server_SendError_sent:
  assumes "json_array_laws E" and "accepts_call_errors E" and "server_network_up W" and "id_ok rid"
    and "IsErrorCodeValid code"
  shows "Server_SendError E W clientID rid code descr None s =
    (None, s\<lparr>s_sent := s_sent s @ [(clientID, error_frame E rid code descr)]\<rparr>)"
  using CreateCallError_frame [OF assms(1,2,4,5), of descr] assms(3)
  by (auto simp: Server_SendError_def server_write_def server_network_up_def)

lemma server_write_cases:
  "server_write W clientID rid t s = (None, s\<lparr>s_sent := s_sent s @ [(clientID, t)]\<rparr>) \<or>
   (\<exists>e. server_write W clientID rid t s = (Some (NewError GenericError e rid), s))"
  by (auto simp: server_write_def split: option.splits)

lemma Server_SendResponse_cases:
  "(\<exists>cr t. CreateCallResult E (s_Endpoint s) resp rid = Inr cr \<and> CallResult_MarshalJSON E cr = Inr t \<and>
     Server_SendResponse E W clientID rid resp s = (None, s\<lparr>s_sent := s_sent s @ [(clientID, t)]\<rparr>)) \<or>
   (\<exists>err. Server_SendResponse E W clientID rid resp s = (Some err, s) \<and> response_error rid err)"
proof (cases "CreateCallResult E (s_Endpoint s) resp rid")
  case (Inl err)
  with CreateCallResult_response_error [OF Inl] show ?thesis by (auto simp: Server_SendResponse_def)
next
  case (Inr cr)
  show ?thesis
  proof (cases "CallResult_MarshalJSON E cr")
    case (Inr t)
    with \<open>CreateCallResult E (s_Endpoint s) resp rid = Inr cr\<close> server_write_cases [of W clientID rid t s]
    show ?thesis by (auto simp: Server_SendResponse_def)
  qed (use Inr in \<open>auto simp: Server_SendResponse_def\<close>)
qed

interpretation sr: responder E rid "server_network_up W" s_Endpoint
    "\<lambda>t s. s\<lparr>s_sent := s_sent s @ [(clientID, t)]\<rparr>"
    "Server_SendResponse E W clientID rid" "\<lambda>code d. Server_SendError E W clientID rid code d None"
  for E rid W clientID
  by unfold_locales (use Server_SendResponse_cases Server_SendError_sent in blast)+

definition server_reply :: "env \<Rightarrow> server_outside \<Rightarrow> string \<Rightarrow> string \<Rightarrow> message_body \<Rightarrow> 'z Server_scheme \<Rightarrow> 'z Server_scheme" where
  "server_reply E W clientID rid resp s =
     (case Server_SendResponse E W clientID rid resp s of
        (None, s) \<Rightarrow> s
      | (Some err, s) \<Rightarrow>
          snd (Server_HandleFailedResponseError E W clientID rid (Some err) (GetFeatureName resp) s))"

text \<open>
  The server's side of the promise that a response is never silently dropped: with the network up,
  \<open>SendResponse\<close> followed by \<open>HandleFailedResponseError\<close> on its error sends exactly one frame, to the
  client that asked: the serialised result or a CALL\_ERROR for that id with a valid code.
\<close>

theorem server_reply_exactly_one:
  assumes "json_array_laws E" and "accepts_call_errors E" and "server_network_up W" and "id_ok rid"
    and "known_dialect (s_Endpoint s)"
  shows "\<exists>frame. server_reply E W clientID rid resp s = s\<lparr>s_sent := s_sent s @ [(clientID, frame)]\<rparr> \<and>
    (if fst (Server_SendResponse E W clientID rid resp s) = None
     then \<exists>cr. CreateCallResult E (s_Endpoint s) resp rid = Inr cr \<and> CallResult_MarshalJSON E cr = Inr frame
     else \<exists>code d. IsErrorCodeValid code \<and> frame = error_frame E rid code d)"
proof -
  have "server_reply E W clientID rid resp s = sr.reply rid E W clientID resp (GetFeatureName resp) s"
    by (auto simp: server_reply_def sr.reply_def sr.handle_failed_def Server_HandleFailedResponseError_def
        split: prod.splits option.splits outcome.splits)
  with sr.reply_exactly_one [OF assms(1-5)] show ?thesis by simp
qed

text \<open>Looking up a client's pending state may create it; no queue and no slot changes.\<close>

lemma server_lookup:
  assumes "SD_ok d" and "ServerState_GetClientState c (sd_pending d) = (r, sd, st)"
    and "d1 = d\<lparr>sd_pending := (sd, st)\<rparr>"
  shows "SD_ok d1 \<and> client_elements d1 = client_elements d \<and> client_slots d1 = client_slots d \<and>
    slot (deref st r) = client_slots d c"
proof -
  have "client_elements d1 = client_elements d" by (rule client_elements_cong) (simp_all add: assms(3))
  with GetClientState_correct [OF _ assms(2)] assms(1) show ?thesis by (simp add: assms(3) SD_ok_def)
qed

lemma server_message_returns:
  assumes "known_dialect (s_Endpoint s)" and "SD_ok (s_dispatcher s)"
    and "\<And>i. client_slots (s_dispatcher s) clientID \<noteq> Some (i, None)"
  shows "\<exists>err s'. Server_ocppMessageHandler E W H clientID t s = (Returns err, s')"
proof (cases "ParseRawJsonMessage E t")
  case (Inr arr)
  obtain r sd st where g: "ServerState_GetClientState clientID (sd_pending (s_dispatcher s)) = (r, sd, st)"
    by (metis prod_cases3)
  then have "\<And>i. slot (deref st r) \<noteq> Some (i, None)"
    using server_lookup [OF assms(2) g refl] assms(3) by simp
  note total = ParseMessage_total [OF assms(1) this, of E arr]
  show ?thesis
  proof (rule total)
    fix m assume "ParseMessage E (s_Endpoint s) arr (deref st r) = Returns (Inr m)"
    with Inr g show ?thesis by (cases m) (simp_all add: Server_ocppMessageHandler_def)
  next
    fix co d i assume "ParseMessage E (s_Endpoint s) arr (deref st r) = Returns (Inl (NewError co d i))"
    with Inr g show ?thesis by (simp add: Server_ocppMessageHandler_def NewError_def split: prod.splits)
  qed
qed (simp add: Server_ocppMessageHandler_def)

text \<open>
  No message of any client and no user code brings the server's read loop down: the message
  handler returns for every input, whatever the handlers, the hook and the panic callback do.
\<close>

theorem server_handler_never_panics:
  assumes "known_dialect (s_Endpoint s)" and "SD_ok (s_dispatcher s)"
    and "\<And>i. client_slots (s_dispatcher s) clientID \<noteq> Some (i, None)"
  shows "\<exists>err s'. Server_ocppMessageHandler E W H clientID t s = (Returns err, s')"
  using assms by (rule server_message_returns)

lemma server_route_answer:
  "(\<And>call. m \<noteq> MCall call) \<Longrightarrow> server_route E W H c m s =
    (let (won, s1) = server_complete c (GetUniqueId m) s in if won then server_deliver E W H c m s1 else s1)"
  by (cases m) auto

lemma server_complete_front:
  assumes "SD_ok (s_dispatcher s)" and "client_elements (s_dispatcher s) c = el # els" and "has_id rid el"
    and "client_slots (s_dispatcher s) c = Some (rid, r)"
  obtains d where "server_complete c rid s = (True, s\<lparr>s_dispatcher := d\<rparr>)" "SD_ok d"
    "client_elements d = (client_elements (s_dispatcher s))(c := els)"
    "client_slots d = (client_slots (s_dispatcher s))(c := None)"
proof -
  obtain won d where run: "SD_CompleteRequest c rid (s_dispatcher s) = (won, d)"
    by (cases "SD_CompleteRequest c rid (s_dispatcher s)") auto
  note eff = SD_CompleteRequest_effect [OF assms(1) run]
  then have won: won using assms(2,3) by blast
  with eff have views: "SD_ok d" "client_elements d = (client_elements (s_dispatcher s))(c := els)"
    "\<forall>c'. c' \<noteq> c \<longrightarrow> client_slots d c' = client_slots (s_dispatcher s) c'"
    using assms(2) by auto
  have "client_slots d c = None"
  proof -
    from run won obtain bc d1 where own: "completeRequestOwned c rid (s_dispatcher s) = (Some bc, d1)"
      and d: "sd_pending d = sd_pending d1"
      by (auto simp: SD_CompleteRequest_def split: prod.splits option.splits)
    from own have "client_slots d1 = slots_apply (SDelete c rid) (client_slots (s_dispatcher s))"
      by (rule completeRequestOwned_Some [OF assms(1)])
    with d assms(4) show ?thesis by simp
  qed
  with views(3) have "client_slots d = (client_slots (s_dispatcher s))(c := None)" by (auto simp: fun_eq_iff)
  with that [of d] run won views show thesis by (simp add: server_complete_def)
qed

lemma server_complete_lost:
  assumes "\<And>el els. client_elements (s_dispatcher s) c = el # els \<Longrightarrow> \<not> has_id rid el"
  shows "server_complete c rid s = (False, s)"
proof -
  have "completeRequestOwned c rid (s_dispatcher s) = (None, s_dispatcher s)"
    using assms by (simp add: completeRequestOwned_None)
  then show ?thesis by (simp add: server_complete_def SD_CompleteRequest_def)
qed

text \<open>States of the server that agree on the queues and slots of all clients.\<close>

definition same_views :: "'z Server_scheme \<Rightarrow> 'z Server_scheme \<Rightarrow> bool" where
  "same_views s s' \<longleftrightarrow> SD_ok (s_dispatcher s') \<and>
     client_elements (s_dispatcher s') = client_elements (s_dispatcher s) \<and>
     client_slots (s_dispatcher s') = client_slots (s_dispatcher s)"

lemma server_parsed:
  assumes "ParseRawJsonMessage E t = Inr arr" and "SD_ok (s_dispatcher s)"
    and "ServerState_GetClientState c (sd_pending (s_dispatcher s)) = (r, sd, st)"
    and "s1 = s\<lparr>s_dispatcher := (s_dispatcher s)\<lparr>sd_pending := (sd, st)\<rparr>\<rparr>"
  shows "same_views s s1" and "slot (deref st r) = client_slots (s_dispatcher s) c"
    and "ParseMessage E (s_Endpoint s) arr (deref st r) = Returns (Inr (Some m)) \<Longrightarrow>
       Server_ocppMessageHandler E W H c t s = (Returns None, server_route E W H c m s1)"
    and "ParseMessage E (s_Endpoint s) arr (deref st r) = Returns (Inr None) \<Longrightarrow>
       Server_ocppMessageHandler E W H c t s = (Returns None, s1)"
  using assms server_lookup [OF assms(2,3) refl] by (simp_all add: same_views_def Server_ocppMessageHandler_def)

text \<open>
  At the server, a response or an error is delivered exactly once, and only for the request of that
  client it answers. When the request is at the front of the client's queue it is removed, its pending
  entry cleared and the handler runs once on the resulting state, all other queues and entries being
  untouched; when a timeout, a cancellation or a write error has completed it already, nothing is
  delivered. Wherever the id is not pending for the client, the same bytes change no queue and no entry.
\<close>

theorem server_answers_delivered_once:
  fixes H :: "'z Server_scheme server_handlers"
  assumes "SD_ok (s_dispatcher s)" and "ParseRawJsonMessage E t = Inr arr"
    and "ServerState_GetClientState c (sd_pending (s_dispatcher s)) = (r, sd, st)"
    and "ParseMessage E (s_Endpoint s) arr (deref st r) = Returns (Inr (Some m))" and "\<And>call. m \<noteq> MCall call"
  shows "(if \<exists>el els. client_elements (s_dispatcher s) c = el # els \<and> has_id (GetUniqueId m) el
     then \<exists>d. SD_ok d \<and>
       client_elements d = (client_elements (s_dispatcher s))(c := tl (client_elements (s_dispatcher s) c)) \<and>
       client_slots d = (client_slots (s_dispatcher s))(c := None) \<and>
       Server_ocppMessageHandler E W H c t s = (Returns None, server_deliver E W H c m (s\<lparr>s_dispatcher := d\<rparr>))
     else \<exists>s'. same_views s s' \<and> Server_ocppMessageHandler E W H c t s = (Returns None, s')) \<and>
    (\<forall>s'. SD_ok (s_dispatcher s') \<longrightarrow> (\<forall>q. client_slots (s_dispatcher s') c \<noteq> Some (GetUniqueId m, q)) \<longrightarrow>
       (\<exists>s''. same_views s' s'' \<and> Server_ocppMessageHandler E W H c t s' = (Returns None, s'')))"
proof (rule conjI)
  define s1 where s1_def: "s1 = s\<lparr>s_dispatcher := (s_dispatcher s)\<lparr>sd_pending := (sd, st)\<rparr>\<rparr>"
  note s1 = server_parsed [OF assms(2,1,3) s1_def]
  note h = s1(3) [OF assms(4)] server_route_answer [OF assms(5)]
  obtain q where q: "client_slots (s_dispatcher s1) c = Some (GetUniqueId m, q)"
    using ParseMessage_accepts [OF assms(4)] assms(5) s1(1,2) by (cases m) (auto simp: same_views_def)
  show "if \<exists>el els. client_elements (s_dispatcher s) c = el # els \<and> has_id (GetUniqueId m) el
     then \<exists>d. SD_ok d \<and>
       client_elements d = (client_elements (s_dispatcher s))(c := tl (client_elements (s_dispatcher s) c)) \<and>
       client_slots d = (client_slots (s_dispatcher s))(c := None) \<and>
       Server_ocppMessageHandler E W H c t s = (Returns None, server_deliver E W H c m (s\<lparr>s_dispatcher := d\<rparr>))
     else \<exists>s'. same_views s s' \<and> Server_ocppMessageHandler E W H c t s = (Returns None, s')"
  proof (cases "\<exists>el els. client_elements (s_dispatcher s) c = el # els \<and> has_id (GetUniqueId m) el")
    case True
    then obtain el els where f: "client_elements (s_dispatcher s) c = el # els" "has_id (GetUniqueId m) el" by blast
    with s1(1) have "SD_ok (s_dispatcher s1)" "client_elements (s_dispatcher s1) c = el # els"
      by (simp_all add: same_views_def)
    then obtain d where "server_complete c (GetUniqueId m) s1 = (True, s1\<lparr>s_dispatcher := d\<rparr>)" "SD_ok d"
      "client_elements d = (client_elements (s_dispatcher s1))(c := els)"
      "client_slots d = (client_slots (s_dispatcher s1))(c := None)"
      by (rule server_complete_front [OF _ _ f(2) q])
    with s1(1) f show ?thesis by (auto simp: h same_views_def s1_def intro!: exI [of _ d])
  next
    case False
    then have "server_complete c (GetUniqueId m) s1 = (False, s1)"
      using s1(1) by (intro server_complete_lost) (auto simp: same_views_def)
    with False s1(1) show ?thesis by (auto simp: h)
  qed
next
  show "\<forall>s'. SD_ok (s_dispatcher s') \<longrightarrow> (\<forall>q. client_slots (s_dispatcher s') c \<noteq> Some (GetUniqueId m, q)) \<longrightarrow>
       (\<exists>s''. same_views s' s'' \<and> Server_ocppMessageHandler E W H c t s' = (Returns None, s''))"
  proof (intro allI impI)
    fix s' :: "'z Server_scheme" assume ok: "SD_ok (s_dispatcher s')"
      and none: "\<forall>q. client_slots (s_dispatcher s') c \<noteq> Some (GetUniqueId m, q)"
    obtain r' sd' st' where g: "ServerState_GetClientState c (sd_pending (s_dispatcher s')) = (r', sd', st')"
      by (metis prod_cases3)
    from server_parsed [OF assms(2) ok g refl] ParseMessage_again [OF assms(4,5), of "deref st' r'"] none
    show "\<exists>s''. same_views s' s'' \<and> Server_ocppMessageHandler E W H c t s' = (Returns None, s'')" by auto
  qed
qed

section \<open>Clients do not disturb each other\<close>

lemma CreateClient_views:
  assumes "SD_ok d" and "CreateClient c d = Some d'"
  shows "SD_ok d' \<and> client_elements d' = client_elements d \<and> client_slots d' = client_slots d"
proof (cases "sd_running d")
  case True
  with assms(2) obtain r qm qs where g: "QueueMap_GetOrCreate (queueMap d) (queueStore d) c = Some (r, qm, qs)"
    and d': "d' = d\<lparr>queueMap := qm, queueStore := qs\<rparr>"
    by (auto simp: CreateClient_def)
  have ok: "QueueMap_ok qm qs" using QueueMap_ok_GetOrCreate [OF _ g] assms(1) by (simp add: SD_ok_def)
  have "client_elements d' c' = client_elements d c'" for c'
  proof (cases "map_of (qm_data (queueMap d)) c")
    case None
    with g obtain q where a: "alloc (queueStore d) q = (r, qs)" "NewFIFOClientQueue (queueCapacity (queueMap d)) = Some q"
      and qm: "qm = (queueMap d)\<lparr>qm_data := AList.update c r (qm_data (queueMap d))\<rparr>"
      by (auto simp: QueueMap_GetOrCreate_def split: option.splits prod.splits)
    have r: "r = next_ref (queueStore d)" using a(1) by (simp add: alloc_def)
    have "QueueMap_Get (queueMap d) c' \<noteq> Some r"
      using QueueMap_get_fresh [of "queueMap d" "queueStore d" c' r] assms(1) r by (auto simp: SD_ok_def)
    moreover have "elements q = []" using FIFO_ok_New [OF a(2)] by simp
    ultimately show ?thesis
      using None by (auto simp: client_elements_def d' qm QueueMap_Get_def deref_alloc [OF a(1)] split: option.splits)
  qed (use g d' in \<open>auto simp: client_elements_def QueueMap_GetOrCreate_def split: option.splits\<close>)
  with ok assms(1) d' show ?thesis by (simp add: SD_ok_def fun_eq_iff)
qed (use assms in \<open>simp add: CreateClient_def\<close>)

lemma DeleteClientAndWait_views:
  assumes "SD_ok d" and "d' = (DeleteClientAndWait c d)\<lparr>sd_pending :=
      ServerState_ClearClientPendingRequest c (sd_pending (DeleteClientAndWait c d))\<rparr>"
  shows "SD_ok d' \<and> client_elements d' = (client_elements d)(c := []) \<and> client_slots d' = (client_slots d)(c := None)"
proof -
  have p: "sd_pending (DeleteClientAndWait c d) = sd_pending d" "queueStore (DeleteClientAndWait c d) = queueStore d"
    "queueMap (DeleteClientAndWait c d) = QueueMap_Remove (queueMap d) c"
    by (simp_all add: DeleteClientAndWait_def post_request_def Let_def)
  have "client_elements d' = (client_elements d)(c := [])"
    by (auto simp: client_elements_def assms(2) p QueueMap_Get_def QueueMap_Remove_def fun_eq_iff
        split: option.splits)
  with state_apply_simulation [of "sd_pending d" "SClearClient c"] assms(1) show ?thesis
    by (simp add: assms(2) p SD_ok_def QueueMap_ok_Remove)
qed

text \<open>The states in which the queues and pending entries of all clients but one are as before.\<close>

definition others_kept :: "string \<Rightarrow> 'z Server_scheme \<Rightarrow> 'z Server_scheme set" where
  "others_kept c s0 = {s. SD_ok (s_dispatcher s) \<and>
     (\<forall>c'. c' \<noteq> c \<longrightarrow> client_elements (s_dispatcher s) c' = client_elements (s_dispatcher s0) c' \<and>
        client_slots (s_dispatcher s) c' = client_slots (s_dispatcher s0) c')}"

text \<open>The handlers for messages, run for this client with a body that is not nil, stay within a set of states.\<close>

definition message_handlers_keep ::
  "'z Server_scheme set \<Rightarrow> string \<Rightarrow> 'z Server_scheme server_handlers \<Rightarrow> bool" where
  "message_handlers_keep S c H \<longleftrightarrow>
     (\<forall>h p i a. s_requestHandler H = Some h \<longrightarrow> keeps S (h c (Some p) i a)) \<and>
     (\<forall>h p i. s_responseHandler H = Some h \<longrightarrow> keeps S (h c (Some p) i)) \<and>
     (\<forall>h e x. s_errorHandler H = Some h \<longrightarrow> keeps S (h c e x)) \<and>
     (\<forall>h p. s_onHandlerPanic H = Some h \<longrightarrow> keeps S (h p)) \<and>
     (\<forall>h e t j. s_invalidMessageHook H = Some h \<longrightarrow> keeps S (h c e t j))"

text \<open>So do all handlers, those for connections included.\<close>

definition handlers_keep :: "'z Server_scheme set \<Rightarrow> string \<Rightarrow> 'z Server_scheme server_handlers \<Rightarrow> bool" where
  "handlers_keep S c H \<longleftrightarrow> message_handlers_keep S c H \<and>
     (\<forall>h. newClientHandler H = Some h \<longrightarrow> keeps S (h c)) \<and>
     (\<forall>h. disconnectedClientHandler H = Some h \<longrightarrow> keeps S (h c))"

text \<open>
  A set of states the endpoint itself stays in while it handles messages of a client: sending frames,
  looking up the pending state and completing a request lead to no state outside it.
\<close>

definition endpoint_keeps :: "string \<Rightarrow> 'z Server_scheme set \<Rightarrow> bool" where
  "endpoint_keeps c S \<longleftrightarrow>
     (\<forall>s \<in> S. (\<forall>x. s\<lparr>s_sent := x\<rparr> \<in> S) \<and> (\<forall>rid. snd (server_complete c rid s) \<in> S) \<and>
        (\<forall>r sd st. ServerState_GetClientState c (sd_pending (s_dispatcher s)) = (r, sd, st) \<longrightarrow>
           s\<lparr>s_dispatcher := (s_dispatcher s)\<lparr>sd_pending := (sd, st)\<rparr>\<rparr> \<in> S))"

lemma SendError_kept: "endpoint_keeps c S \<Longrightarrow> s \<in> S \<Longrightarrow> snd (Server_SendError E W c' i co d x s) \<in> S"
  by (auto simp: endpoint_keeps_def Server_SendError_def server_write_def split: sum.splits option.splits)

lemma internal_error_keeps: "endpoint_keeps c S \<Longrightarrow> keeps S (server_internal_error E W c' i)"
  by (auto simp: keeps_def server_internal_error_def SendError_kept)

lemma server_deliver_kept:
  assumes "endpoint_keeps c S" and "message_handlers_keep S c H" and "s \<in> S" and "has_payload m"
  shows "server_deliver E W H c m s \<in> S"
  using assms
  by (cases m) (auto simp: message_handlers_keep_def has_payload_def internal_error_keeps intro!: recoverHandler_keeps
      split: option.splits)

lemma server_route_kept:
  assumes "endpoint_keeps c S" and "message_handlers_keep S c H" and "s \<in> S" and "has_payload m"
  shows "server_route E W H c m s \<in> S"
proof (cases "\<exists>call. m = MCall call")
  case False
  obtain won s1 where run: "server_complete c (GetUniqueId m) s = (won, s1)"
    by (cases "server_complete c (GetUniqueId m) s") auto
  then have "s1 \<in> S" using assms(1,3) unfolding endpoint_keeps_def by (metis snd_conv)
  with False run assms(4) show ?thesis by (simp add: server_route_answer server_deliver_kept [OF assms(1,2)])
qed (use server_deliver_kept [OF assms] in \<open>auto simp del: server_deliver.simps\<close>)

lemma server_invalid_message_kept:
  assumes "endpoint_keeps c S" and "message_handlers_keep S c H" and "s \<in> S"
    and "server_invalid_message E W H c e t arr s = (err', s')"
  shows "s' \<in> S"
proof -
  obtain err s1 where run: "server_run_hook H c e t arr s = (err, s1)" by (cases "server_run_hook H c e t arr s")
  have "s1 \<in> S"
  proof (cases "s_invalidMessageHook H")
    case (Some hook)
    obtain res s2 where hk: "hook c e t arr s = (res, s2)" by (cases "hook c e t arr s")
    from assms(2) Some have kept: "keeps S (hook c e t arr)" by (simp add: message_handlers_keep_def)
    have "s2 \<in> S" by (rule keepsD [OF kept assms(3) hk])
    with run Some hk assms(2) show ?thesis
      by (cases res) (auto simp: server_run_hook_def message_handlers_keep_def intro!: reportHandlerPanic_keeps
          split: option.splits)
  qed (use run assms(3) in \<open>simp add: server_run_hook_def\<close>)
  with SendError_kept [OF assms(1), of s1 E W c "MessageId err" "Code err" "Description err" None] run assms(4)
  show ?thesis by (auto simp: server_invalid_message_def split: prod.splits option.splits if_splits)
qed

lemma server_message_kept:
  assumes "endpoint_keeps c S" and "message_handlers_keep S c H" and "s \<in> S"
  shows "snd (Server_ocppMessageHandler E W H c t s) \<in> S"
proof -
  obtain r sd st where g: "ServerState_GetClientState c (sd_pending (s_dispatcher s)) = (r, sd, st)"
    by (metis prod_cases3)
  define s1 where "s1 = s\<lparr>s_dispatcher := (s_dispatcher s)\<lparr>sd_pending := (sd, st)\<rparr>\<rparr>"
  have s1: "s1 \<in> S" using assms(1,3) g by (simp add: s1_def endpoint_keeps_def)
  show ?thesis
    using assms(3) s1 server_route_kept [OF assms(1,2) s1] server_invalid_message_kept [OF assms(1,2) s1] g
      ParseMessage_has_payload
    by (auto simp: Server_ocppMessageHandler_def s1_def [symmetric] split: sum.splits outcome.splits
        go_error.splits option.splits prod.splits simp del: server_route.simps)
qed

lemma server_complete_kept:
  assumes "s \<in> others_kept c s0" and "server_complete c rid s = (won, s')"
  shows "s' \<in> others_kept c s0"
proof -
  obtain d where run: "SD_CompleteRequest c rid (s_dispatcher s) = (won, d)" and s': "s' = s\<lparr>s_dispatcher := d\<rparr>"
    using assms(2) by (auto simp: server_complete_def split: prod.splits)
  from assms(1) have "SD_ok (s_dispatcher s)" by (simp add: others_kept_def)
  from SD_CompleteRequest_effect [OF this run] assms(1) show ?thesis
    by (cases won) (simp_all add: s' others_kept_def)
qed

lemma endpoint_keeps_others: "endpoint_keeps c (others_kept c s0)"
  unfolding endpoint_keeps_def
proof (intro ballI conjI allI impI)
  fix s rid assume s: "s \<in> others_kept c s0"
  then show "s\<lparr>s_sent := x\<rparr> \<in> others_kept c s0" for x by (simp add: others_kept_def)
  show "snd (server_complete c rid s) \<in> others_kept c s0"
    by (cases "server_complete c rid s") (auto intro: server_complete_kept [OF s])
  fix r sd st assume "ServerState_GetClientState c (sd_pending (s_dispatcher s)) = (r, sd, st)"
  with server_lookup [OF _ this refl] s show "s\<lparr>s_dispatcher := (s_dispatcher s)\<lparr>sd_pending := (sd, st)\<rparr>\<rparr> \<in> others_kept c s0"
    by (simp add: others_kept_def)
qed

text \<open>
  C36: clients do not disturb each other. Whatever one client sends, and also when it connects or
  disconnects, the queue and the pending request of every other client stay as they are, provided the
  user's handlers for that client leave them alone.
\<close>

theorem server_clients_isolated:
  assumes "SD_ok (s_dispatcher s)" and "handlers_keep (others_kept c s) c H"
  shows "snd (Server_ocppMessageHandler E W H c t s) \<in> others_kept c s \<and>
    snd (Server_onClientConnected H c s) \<in> others_kept c s \<and>
    Server_onClientDisconnected H c s \<in> others_kept c s"
proof (intro conjI)
  have self: "s \<in> others_kept c s" using assms(1) by (simp add: others_kept_def)
  show "snd (Server_ocppMessageHandler E W H c t s) \<in> others_kept c s"
    by (rule server_message_kept [OF endpoint_keeps_others _ self]) (use assms(2) in \<open>simp add: handlers_keep_def\<close>)
  show "snd (Server_onClientConnected H c s) \<in> others_kept c s"
  proof (cases "CreateClient c (s_dispatcher s)")
    case (Some d)
    then have "s\<lparr>s_dispatcher := d\<rparr> \<in> others_kept c s"
      using CreateClient_views [OF assms(1) Some] by (simp add: others_kept_def)
    with Some assms(2) show ?thesis
      by (auto simp: Server_onClientConnected_def Let_def handlers_keep_def message_handlers_keep_def intro!: recoverHandler_keeps split: option.splits)
  qed (use self in \<open>simp add: Server_onClientConnected_def\<close>)
  have "s\<lparr>s_dispatcher := (DeleteClientAndWait c (s_dispatcher s))\<lparr>sd_pending :=
      ServerState_ClearClientPendingRequest c (sd_pending (DeleteClientAndWait c (s_dispatcher s)))\<rparr>\<rparr>
      \<in> others_kept c s"
    using DeleteClientAndWait_views [OF assms(1) refl, of c] by (simp add: others_kept_def)
  with assms(2) show "Server_onClientDisconnected H c s \<in> others_kept c s"
    by (auto simp: Server_onClientDisconnected_def Let_def handlers_keep_def message_handlers_keep_def intro!: recoverHandler_keeps
        split: option.splits)
qed

section \<open>Dispatchers on which no message panics\<close>

definition disp_safe :: "ServerDispatcher \<Rightarrow> bool" where
  "disp_safe d \<longleftrightarrow> SD_ok d \<and> (\<forall>c i. client_slots d c \<noteq> Some (i, None))"

lemma disp_safe_SendRequest: "disp_safe d \<Longrightarrow> disp_safe (snd (SD_SendRequest c b d))"
proof (cases "QueueMap_Get (queueMap d) c")
  case (Some r)
  assume safe: "disp_safe d"
  then have q: "FIFO_ok (deref (queueStore d) r)"
    using Some by (auto simp: disp_safe_def SD_ok_def QueueMap_ok_def QueueMap_Get_def dest: map_of_range)
  show ?thesis
    using safe Some FIFO_Push_ok [OF q]
    by (auto simp: SD_SendRequest_def disp_safe_def SD_ok_def post_request_def Let_def intro!: QueueMap_ok_assign
        split: sum.splits)
qed (simp add: SD_SendRequest_def)

lemma disp_safe_lookup:
  assumes "disp_safe d" and "ServerState_GetClientState c (sd_pending d) = (r, sd, st)"
  shows "disp_safe (d\<lparr>sd_pending := (sd, st)\<rparr>)"
  using server_lookup [OF _ assms(2) refl] assms(1) by (auto simp: disp_safe_def)

lemma disp_safe_complete:
  assumes "disp_safe (s_dispatcher s)"
  shows "disp_safe (s_dispatcher (snd (server_complete c rid s)))"
proof (cases "completeRequestOwned c rid (s_dispatcher s)")
  case (Pair w d1)
  show ?thesis
  proof (cases w)
    case None
    with Pair completeRequestOwned_None [of c rid "s_dispatcher s" d1] assms show ?thesis
      by (simp add: server_complete_def SD_CompleteRequest_def)
  next
    case (Some bc)
    then have "completeRequestOwned c rid (s_dispatcher s) = (Some bc, d1)" using Pair by simp
    then obtain "SD_ok d1" "client_slots d1 = slots_apply (SDelete c rid) (client_slots (s_dispatcher s))"
      using assms by (elim completeRequestOwned_Some [rotated]) (auto simp: disp_safe_def)
    then have "disp_safe d1" using assms by (auto simp: disp_safe_def split: if_splits option.splits)
    with Pair Some show ?thesis by (simp add: server_complete_def SD_CompleteRequest_def disp_safe_def SD_ok_def)
  qed
qed

lemma disp_safe_CreateClient: "disp_safe d \<Longrightarrow> \<exists>d'. CreateClient c d = Some d' \<and> disp_safe d'"
proof -
  assume safe: "disp_safe d"
  then have "0 \<le> queueCapacity (queueMap d)" by (simp add: disp_safe_def SD_ok_def QueueMap_ok_def)
  then have "QueueMap_GetOrCreate (queueMap d) (queueStore d) c \<noteq> None"
    by (auto simp: QueueMap_GetOrCreate_def NewFIFOClientQueue_def split: option.splits prod.splits)
  then have "CreateClient c d \<noteq> None" by (simp add: CreateClient_def)
  then obtain d' where d': "CreateClient c d = Some d'" by blast
  with CreateClient_views [OF _ d'] safe show ?thesis by (simp add: disp_safe_def)
qed

lemma disp_safe_Stop: "disp_safe d \<Longrightarrow> disp_safe (SD_Stop d)"
  by (simp add: disp_safe_def SD_Stop_def SD_ok_def)

lemma disp_safe_Disconnect:
  "disp_safe d \<Longrightarrow> disp_safe ((DeleteClientAndWait c d)\<lparr>sd_pending :=
      ServerState_ClearClientPendingRequest c (sd_pending (DeleteClientAndWait c d))\<rparr>)"
  using DeleteClientAndWait_views [OF _ refl, of d c] by (simp add: disp_safe_def)

section \<open>Witnesses\<close>

definition server_up_outside :: server_outside where
  "server_up_outside = \<lparr>snet_write = \<lambda>_ _. None, sctx_err = \<lambda>_. None\<rparr>"

definition sample_endpoint_server :: Server where
  "sample_endpoint_server = \<lparr>s_Endpoint = sample_endpoint,
     s_server = \<lparr>wss_listening = None, wss_checkClient = False, wss_handlers = True\<rparr>,
     s_dispatcher = sample_server\<lparr>sd_pending :=
       ServerState_AddPendingRequest ''CP1'' ''1'' (Some heartbeat) ([], \<lparr>cells = \<lambda>_. NewClientState, next_ref = 0\<rparr>)\<rparr>,
     s_sent = []\<rparr>"

lemma sample_endpoint_server_views [simp]:
  "SD_ok (s_dispatcher sample_endpoint_server)" "s_Endpoint sample_endpoint_server = sample_endpoint"
  "endpoint_dialect sample_endpoint = V16" "s_sent sample_endpoint_server = []"
  "client_slots (s_dispatcher sample_endpoint_server) = (\<lambda>_. None)(''CP1'' := Some (''1'', Some heartbeat))"
  "client_elements (s_dispatcher sample_endpoint_server) = client_elements sample_server"
proof -
  let ?empty = "([], \<lparr>cells = \<lambda>_. NewClientState, next_ref = 0\<rparr>) :: serverState \<times> state_store"
  note add = pending_add_slots [of ?empty "''CP1''" "''1''" "Some heartbeat", simplified]
  show "SD_ok (s_dispatcher sample_endpoint_server)"
    using add(1) sample_server_ok by (simp add: sample_endpoint_server_def SD_ok_def)
  show "client_slots (s_dispatcher sample_endpoint_server) = (\<lambda>_. None)(''CP1'' := Some (''1'', Some heartbeat))"
    using add(2) by (simp add: sample_endpoint_server_def)
  show "client_elements (s_dispatcher sample_endpoint_server) = client_elements sample_server"
    by (rule client_elements_cong) (simp_all add: sample_endpoint_server_def)
qed (simp_all add: sample_endpoint_server_def sample_endpoint_def)

lemma server_up_outside_up [simp]: "server_network_up server_up_outside"
  by (simp add: server_network_up_def server_up_outside_def)

definition server_panicking_handlers :: "'s server_handlers" where
  "server_panicking_handlers = no_server_handlers
     \<lparr>s_requestHandler := Some (\<lambda>_ _ _ _ s. (Panics ''boom'', s)), s_responseHandler := Some (\<lambda>_ _ _ s. (Panics ''boom'', s)),
      newClientHandler := Some (\<lambda>_ s. (Panics ''boom'', s)), s_onHandlerPanic := Some (\<lambda>_ s. (Panics ''again'', s))\<rparr>"

theorem server_reply_exactly_one_witness:
  "\<exists>frame. s_sent (server_reply sample_env server_up_outside ''CP1'' ''7''
     \<lparr>GetFeatureName = ''Unknown'', body = JObject []\<rparr> sample_endpoint_server) = [(''CP1'', frame)]"
  using server_reply_exactly_one [OF sample_laws(1) sample_accepts_call_errors, of server_up_outside "''7''"
      sample_endpoint_server "''CP1''" "\<lparr>GetFeatureName = ''Unknown'', body = JObject []\<rparr>"]
  by (auto simp: id_ok_def)

theorem server_handler_never_panics_witness:
  "\<exists>err s'. Server_ocppMessageHandler sample_env server_up_outside server_panicking_handlers ''CP1'' ''text''
     sample_endpoint_server = (Returns err, s')"
  by (rule server_handler_never_panics) simp_all

theorem server_answers_delivered_once_witness:
  "\<exists>d. client_elements d ''CP1'' = [Some (Bundle (sample_bundle ''2''))] \<and>
     client_elements d ''CP2'' = client_elements sample_server ''CP2'' \<and>
     Server_ocppMessageHandler sample_env server_up_outside no_server_handlers ''CP1''
       (json_text sample_env (JArray [JNumber (of_int CALL_RESULT), JString ''1'', JObject []])) sample_endpoint_server =
       (Returns None, sample_endpoint_server\<lparr>s_dispatcher := d\<rparr>)"
proof -
  obtain r sd st where g: "ServerState_GetClientState ''CP1'' (sd_pending (s_dispatcher sample_endpoint_server)) = (r, sd, st)"
    by (metis prod_cases3)
  have "slot (deref st r) = Some (''1'', Some heartbeat)"
    using server_lookup [OF sample_endpoint_server_views(1) g refl] by simp
  then have parsed: "ParseMessage sample_env (s_Endpoint sample_endpoint_server)
      [JNumber (of_int CALL_RESULT), JString ''1'', JObject []] (deref st r) =
      Returns (Inr (Some (MCallResult (heartbeat_result ''1''))))"
    by (simp add: sample_result_parsed)
  have front: "\<exists>el els. client_elements sample_server ''CP1'' = el # els \<and> has_id ''1'' el"
    by (simp add: sample_server_elements has_id_def sample_bundle_def sample_call_def)
  have "server_deliver sample_env server_up_outside no_server_handlers ''CP1'' m s = s" for m and s :: Server
    by (cases m) (simp_all add: no_server_handlers_def)
  moreover have "GetUniqueId (MCallResult (heartbeat_result ''1'')) = ''1''" by (simp add: heartbeat_result_def)
  ultimately obtain d where "client_elements d =
      (client_elements sample_server)(''CP1'' := tl (client_elements sample_server ''CP1''))"
    "Server_ocppMessageHandler sample_env server_up_outside no_server_handlers ''CP1''
       (json_text sample_env (JArray [JNumber (of_int CALL_RESULT), JString ''1'', JObject []])) sample_endpoint_server =
       (Returns None, sample_endpoint_server\<lparr>s_dispatcher := d\<rparr>)"
    using server_answers_delivered_once [OF sample_endpoint_server_views(1) ParseRaw_json_text [OF sample_laws(1)] g parsed,
      of server_up_outside no_server_handlers] front by (auto simp del: server_deliver.simps)
  then show ?thesis by (intro exI [of _ d]) (simp add: sample_server_elements)
qed

theorem server_clients_isolated_witness:
  "client_elements (s_dispatcher (Server_onClientDisconnected server_panicking_handlers ''CP1'' sample_endpoint_server)) ''CP2''
     = [Some (Bundle (sample_bundle ''3''))] \<and>
   client_elements (s_dispatcher (snd (Server_ocppMessageHandler sample_env server_up_outside server_panicking_handlers
     ''CP1'' ''text'' sample_endpoint_server))) ''CP2'' = [Some (Bundle (sample_bundle ''3''))]"
  using server_clients_isolated [OF sample_endpoint_server_views(1), of "''CP1''" server_panicking_handlers
      sample_env server_up_outside "''text''"]
  by (simp add: handlers_keep_def message_handlers_keep_def server_panicking_handlers_def no_server_handlers_def keeps_def others_kept_def
      sample_server_elements)

end
