(* ===== verification/Ocpp16_Requests.thy ===== *)
theory Ocpp16_Requests
  imports Ocpp16_Profiles
begin

text \<open>
  The constructors of the OCPP 1.6 requests (packages under \<open>ocpp1.6\<close>). The body of a message is the
  object of the struct's Go fields; a field that is not listed has its zero value. Integers are JSON
  numbers, strings and the string enumerations JSON strings; a parameter of a struct, pointer-to-struct
  or slice-of-struct type is given as the JSON value of its contents.
\<close>

named_theorems requests16 "the constructors of OCPP 1.6 requests"

definition NewAuthorizationRequest :: "string \<Rightarrow> message_body" where
  [requests16]: "NewAuthorizationRequest idTag =
     \<lparr>GetFeatureName = AuthorizeFeatureName,
      body = JObject [(''IdTag'', JString idTag)]\<rparr>"

definition NewBootNotificationRequest :: "string \<Rightarrow> string \<Rightarrow> message_body" where
  [requests16]: "NewBootNotificationRequest chargePointModel chargePointVendor =
     \<lparr>GetFeatureName = BootNotificationFeatureName,
      body = JObject [(''ChargePointModel'', JString chargePointModel),
        (''ChargePointVendor'', JString chargePointVendor)]\<rparr>"

definition NewChangeAvailabilityRequest :: "int \<Rightarrow> string \<Rightarrow> message_body" where
  [requests16]: "NewChangeAvailabilityRequest connectorId availabilityType =
     \<lparr>GetFeatureName = ChangeAvailabilityFeatureName,
      body = JObject [(''ConnectorId'', JNumber (of_int connectorId)),
        (''Type'', JString availabilityType)]\<rparr>"

definition NewChangeConfigurationRequest :: "string \<Rightarrow> string \<Rightarrow> message_body" where
  [requests16]: "NewChangeConfigurationRequest key v =
     \<lparr>GetFeatureName = ChangeConfigurationFeatureName,
      body = JObject [(''Key'', JString key), (''Value'', JString v)]\<rparr>"

definition NewClearCacheRequest :: "message_body" where
  [requests16]: "NewClearCacheRequest =
     \<lparr>GetFeatureName = ClearCacheFeatureName,
      body = JObject []\<rparr>"

definition NewDataTransferRequest :: "string \<Rightarrow> message_body" where
  [requests16]: "NewDataTransferRequest vendorId =
     \<lparr>GetFeatureName = DataTransferFeatureName,
      body = JObject [(''VendorId'', JString vendorId)]\<rparr>"

definition NewGetConfigurationRequest :: "string list \<Rightarrow> message_body" where
  [requests16]: "NewGetConfigurationRequest keys =
     \<lparr>GetFeatureName = GetConfigurationFeatureName,
      body = JObject [(''Key'', JArray (map JString keys))]\<rparr>"

definition NewHeartbeatRequest :: "message_body" where
  [requests16]: "NewHeartbeatRequest =
     \<lparr>GetFeatureName = HeartbeatFeatureName,
      body = JObject []\<rparr>"

definition NewMeterValuesRequest :: "int \<Rightarrow> json \<Rightarrow> message_body" where
  [requests16]: "NewMeterValuesRequest connectorId meterValues =
     \<lparr>GetFeatureName = MeterValuesFeatureName,
      body = JObject [(''ConnectorId'', JNumber (of_int connectorId)), (''MeterValue'', meterValues)]\<rparr>"

definition NewRemoteStartTransactionRequest :: "string \<Rightarrow> message_body" where
  [requests16]: "NewRemoteStartTransactionRequest idTag =
     \<lparr>GetFeatureName = RemoteStartTransactionFeatureName,
      body = JObject [(''IdTag'', JString idTag)]\<rparr>"

definition NewRemoteStopTransactionRequest :: "int \<Rightarrow> message_body" where
  [requests16]: "NewRemoteStopTransactionRequest transactionId =
     \<lparr>GetFeatureName = RemoteStopTransactionFeatureName,
      body = JObject [(''TransactionId'', JNumber (of_int transactionId))]\<rparr>"

definition NewResetRequest :: "string \<Rightarrow> message_body" where
  [requests16]: "NewResetRequest resetType =
     \<lparr>GetFeatureName = ResetFeatureName,
      body = JObject [(''Type'', JString resetType)]\<rparr>"

definition NewStartTransactionRequest :: "int \<Rightarrow> string \<Rightarrow> int \<Rightarrow> json \<Rightarrow> message_body" where
  [requests16]: "NewStartTransactionRequest connectorId idTag meterStart timestamp =
     \<lparr>GetFeatureName = StartTransactionFeatureName,
      body = JObject [(''ConnectorId'', JNumber (of_int connectorId)), (''IdTag'', JString idTag),
        (''MeterStart'', JNumber (of_int meterStart)), (''Timestamp'', timestamp)]\<rparr>"

definition NewStatusNotificationRequest :: "int \<Rightarrow> string \<Rightarrow> string \<Rightarrow> message_body" where
  [requests16]: "NewStatusNotificationRequest connectorId errorCode status =
     \<lparr>GetFeatureName = StatusNotificationFeatureName,
      body = JObject [(''ConnectorId'', JNumber (of_int connectorId)), (''ErrorCode'', JString errorCode),
        (''Status'', JString status)]\<rparr>"

definition NewStopTransactionRequest :: "int \<Rightarrow> json \<Rightarrow> int \<Rightarrow> message_body" where
  [requests16]: "NewStopTransactionRequest meterStop timestamp transactionId =
     \<lparr>GetFeatureName = StopTransactionFeatureName,
      body = JObject [(''MeterStop'', JNumber (of_int meterStop)), (''Timestamp'', timestamp),
        (''TransactionId'', JNumber (of_int transactionId))]\<rparr>"

definition NewUnlockConnectorRequest :: "int \<Rightarrow> message_body" where
  [requests16]: "NewUnlockConnectorRequest connectorId =
     \<lparr>GetFeatureName = UnlockConnectorFeatureName,
      body = JObject [(''ConnectorId'', JNumber (of_int connectorId))]\<rparr>"

definition NewGetLocalListVersionRequest :: "message_body" where
  [requests16]: "NewGetLocalListVersionRequest =
     \<lparr>GetFeatureName = GetLocalListVersionFeatureName,
      body = JObject []\<rparr>"

definition NewSendLocalListRequest :: "int \<Rightarrow> string \<Rightarrow> message_body" where
  [requests16]: "NewSendLocalListRequest version updateType =
     \<lparr>GetFeatureName = SendLocalListFeatureName,
      body = JObject [(''ListVersion'', JNumber (of_int version)),
        (''UpdateType'', JString updateType)]\<rparr>"

definition NewDiagnosticsStatusNotificationRequest :: "string \<Rightarrow> message_body" where
  [requests16]: "NewDiagnosticsStatusNotificationRequest status =
     \<lparr>GetFeatureName = DiagnosticsStatusNotificationFeatureName,
      body = JObject [(''Status'', JString status)]\<rparr>"

definition NewFirmwareStatusNotificationRequest :: "string \<Rightarrow> message_body" where
  [requests16]: "NewFirmwareStatusNotificationRequest status =
     \<lparr>GetFeatureName = FirmwareStatusNotificationFeatureName,
      body = JObject [(''Status'', JString status)]\<rparr>"

definition NewGetDiagnosticsRequest :: "string \<Rightarrow> message_body" where
  [requests16]: "NewGetDiagnosticsRequest location =
     \<lparr>GetFeatureName = GetDiagnosticsFeatureName,
      body = JObject [(''Location'', JString location)]\<rparr>"

definition NewUpdateFirmwareRequest :: "string \<Rightarrow> json \<Rightarrow> message_body" where
  [requests16]: "NewUpdateFirmwareRequest location retrieveDate =
     \<lparr>GetFeatureName = UpdateFirmwareFeatureName,
      body = JObject [(''Location'', JString location), (''RetrieveDate'', retrieveDate)]\<rparr>"

definition NewCancelReservationRequest :: "int \<Rightarrow> message_body" where
  [requests16]: "NewCancelReservationRequest reservationId =
     \<lparr>GetFeatureName = CancelReservationFeatureName,
      body = JObject [(''ReservationId'', JNumber (of_int reservationId))]\<rparr>"

definition NewReserveNowRequest :: "int \<Rightarrow> json \<Rightarrow> string \<Rightarrow> int \<Rightarrow> message_body" where
  [requests16]: "NewReserveNowRequest connectorId expiryDate idTag reservationId =
     \<lparr>GetFeatureName = ReserveNowFeatureName,
      body = JObject [(''ConnectorId'', JNumber (of_int connectorId)), (''ExpiryDate'', expiryDate),
        (''IdTag'', JString idTag), (''ReservationId'', JNumber (of_int reservationId))]\<rparr>"

definition NewTriggerMessageRequest :: "string \<Rightarrow> message_body" where
  [requests16]: "NewTriggerMessageRequest requestedMessage =
     \<lparr>GetFeatureName = TriggerMessageFeatureName,
      body = JObject [(''RequestedMessage'', JString requestedMessage)]\<rparr>"

definition NewClearChargingProfileRequest :: "message_body" where
  [requests16]: "NewClearChargingProfileRequest =
     \<lparr>GetFeatureName = ClearChargingProfileFeatureName,
      body = JObject []\<rparr>"

definition NewGetCompositeScheduleRequest :: "int \<Rightarrow> int \<Rightarrow> message_body" where
  [requests16]: "NewGetCompositeScheduleRequest connectorId duration =
     \<lparr>GetFeatureName = GetCompositeScheduleFeatureName,
      body = JObject [(''ConnectorId'', JNumber (of_int connectorId)),
        (''Duration'', JNumber (of_int duration))]\<rparr>"

definition NewSetChargingProfileRequest :: "int \<Rightarrow> json \<Rightarrow> message_body" where
  [requests16]: "NewSetChargingProfileRequest connectorId chargingProfile =
     \<lparr>GetFeatureName = SetChargingProfileFeatureName,
      body = JObject [(''ConnectorId'', JNumber (of_int connectorId)),
        (''ChargingProfile'', chargingProfile)]\<rparr>"

definition NewGetLogRequest :: "string \<Rightarrow> int \<Rightarrow> json \<Rightarrow> message_body" where
  [requests16]: "NewGetLogRequest logType rid logParameters =
     \<lparr>GetFeatureName = GetLogFeatureName,
      body = JObject [(''LogType'', JString logType), (''RequestID'', JNumber (of_int rid)),
        (''Log'', logParameters)]\<rparr>"

definition NewLogStatusNotificationRequest :: "string \<Rightarrow> int \<Rightarrow> message_body" where
  [requests16]: "NewLogStatusNotificationRequest status rid =
     \<lparr>GetFeatureName = LogStatusNotificationFeatureName,
      body = JObject [(''Status'', JString status), (''RequestID'', JNumber (of_int rid))]\<rparr>"

definition NewCertificateSignedRequest :: "string \<Rightarrow> message_body" where
  [requests16]: "NewCertificateSignedRequest certificateChain =
     \<lparr>GetFeatureName = CertificateSignedFeatureName,
      body = JObject [(''CertificateChain'', JString certificateChain)]\<rparr>"

definition NewSecurityEventNotificationRequest :: "string \<Rightarrow> json \<Rightarrow> message_body" where
  [requests16]: "NewSecurityEventNotificationRequest typ timestamp =
     \<lparr>GetFeatureName = SecurityEventNotificationFeatureName,
      body = JObject [(''Type'', JString typ), (''Timestamp'', timestamp)]\<rparr>"

definition NewSignCertificateRequest :: "string \<Rightarrow> message_body" where
  [requests16]: "NewSignCertificateRequest csr =
     \<lparr>GetFeatureName = SignCertificateFeatureName,
      body = JObject [(''CSR'', JString csr)]\<rparr>"

definition NewExtendedTriggerMessageRequest :: "string \<Rightarrow> message_body" where
  [requests16]: "NewExtendedTriggerMessageRequest requestedMessage =
     \<lparr>GetFeatureName = ExtendedTriggerMessageFeatureName,
      body = JObject [(''RequestedMessage'', JString requestedMessage)]\<rparr>"

definition NewDeleteCertificateRequest :: "json \<Rightarrow> message_body" where
  [requests16]: "NewDeleteCertificateRequest certificateHashData =
     \<lparr>GetFeatureName = DeleteCertificateFeatureName,
      body = JObject [(''CertificateHashData'', certificateHashData)]\<rparr>"

definition NewGetInstalledCertificateIdsRequest :: "string \<Rightarrow> message_body" where
  [requests16]: "NewGetInstalledCertificateIdsRequest certificateType =
     \<lparr>GetFeatureName = GetInstalledCertificateIdsFeatureName,
      body = JObject [(''CertificateType'', JString certificateType)]\<rparr>"

definition NewInstallCertificateRequest :: "string \<Rightarrow> string \<Rightarrow> message_body" where
  [requests16]: "NewInstallCertificateRequest certificateType certificate =
     \<lparr>GetFeatureName = InstallCertificateFeatureName,
      body = JObject [(''CertificateType'', JString certificateType),
        (''Certificate'', JString certificate)]\<rparr>"

definition NewSignedUpdateFirmwareRequest :: "int \<Rightarrow> json \<Rightarrow> message_body" where
  [requests16]: "NewSignedUpdateFirmwareRequest requestId firmware =
     \<lparr>GetFeatureName = SignedUpdateFirmwareFeatureName,
      body = JObject [(''RequestID'', JNumber (of_int requestId)), (''Firmware'', firmware)]\<rparr>"

definition securefirmware_NewFirmwareStatusNotificationRequest :: "string \<Rightarrow> message_body" where
  [requests16]: "securefirmware_NewFirmwareStatusNotificationRequest status =
     \<lparr>GetFeatureName = SignedFirmwareStatusNotificationFeatureName,
      body = JObject [(''Status'', JString status)]\<rparr>"

text \<open>The loop over the variadic \<open>props\<close>: each may set further fields of the request.\<close>

fun apply_props :: "(json \<Rightarrow> json) list \<Rightarrow> message_body \<Rightarrow> message_body" where
  "apply_props [] req = req"
| "apply_props (fn # props) req = apply_props props (req\<lparr>body := fn (body req)\<rparr>)"

lemma apply_props_feature [simp]: "GetFeatureName (apply_props props req) = GetFeatureName req"
  by (induction props req rule: apply_props.induct) simp_all

end
