(* ===== verification/Callback_Queue.thy ===== *)
theory Callback_Queue
  imports Ocpp_Core "HOL-Library.Multiset"
begin

text \<open>
  \<open>internal/callbackqueue/callbackqueue.go\<close>: the response callbacks of the facades, stored per
  client and keyed by message id. Every method holds the mutex throughout, so each is one atomic
  operation. The interface the facades rely on is the locale \<open>callback_registry\<close>.
\<close>

section \<open>Definitions\<close>

named_theorems cbq_defs "the operations of the callback queue"

definition ErrDuplicateCallback :: go_error where
  "ErrDuplicateCallback = Sentinel ''duplicate callback for request id''"

definition ErrEmptyRequestID :: go_error where
  "ErrEmptyRequestID = Sentinel ''empty request id, cannot register callback''"

type_synonym 'cb CallbackQueue = "(string, (string, 'cb) gomap) gomap"

definition CallbackQueue_New :: "'cb CallbackQueue" where
  [cbq_defs]: "CallbackQueue_New = []"

text \<open>The part of \<open>TryQueue\<close> after \<open>try\<close> has produced a request id.\<close>

definition register_callback ::
  "string \<Rightarrow> string \<Rightarrow> 'cb \<Rightarrow> 'cb CallbackQueue \<Rightarrow> go_error option \<times> 'cb CallbackQueue" where
  [cbq_defs]: "register_callback c rid cb q =
     (if rid = [] then (Some ErrEmptyRequestID, q)
      else case map_of q c of
             None \<Rightarrow> (None, AList.update c (AList.update rid cb []) q)
           | Some inner \<Rightarrow>
               (if map_of inner rid \<noteq> None then (Some ErrDuplicateCallback, q)
                else (None, AList.update c (AList.update rid cb inner) q)))"

text \<open>\<open>try\<close> is code of the caller: it works on the caller's state \<open>'s\<close> and yields an error or an id.\<close>

definition TryQueue ::
  "string \<Rightarrow> ('s \<Rightarrow> (go_error + string) \<times> 's) \<Rightarrow> 'cb \<Rightarrow> 'cb CallbackQueue \<times> 's \<Rightarrow>
     go_error option \<times> 'cb CallbackQueue \<times> 's" where
  [cbq_defs]: "TryQueue c try callback = (\<lambda>(q, s).
     (case try s of
        (Inl err, s) \<Rightarrow> (Some err, q, s)
      | (Inr requestID, s) \<Rightarrow>
          (let (err, q) = register_callback c requestID callback q in (err, q, s))))"

definition Dequeue :: "string \<Rightarrow> string \<Rightarrow> 'cb CallbackQueue \<Rightarrow> 'cb option \<times> 'cb CallbackQueue" where
  [cbq_defs]: "Dequeue c rid q =
     (case map_of q c of
        None \<Rightarrow> (None, q)
      | Some inner \<Rightarrow>
          (case map_of inner rid of
             None \<Rightarrow> (None, q)
           | Some cb \<Rightarrow>
               (let inner' = AList.delete rid inner; q' = AList.update c inner' q
                in (Some cb, if inner' = [] then AList.delete c q' else q'))))"

definition CallbackQueue_DrainAll :: "string \<Rightarrow> 'cb CallbackQueue \<Rightarrow> 'cb list \<times> 'cb CallbackQueue" where
  [cbq_defs]: "CallbackQueue_DrainAll c q =
     (case map_of q c of
        None \<Rightarrow> ([], q)
      | Some inner \<Rightarrow> (map snd inner, AList.delete c q))"

text \<open>Well-formedness: distinct keys on both levels, no empty inner map, no empty request id.\<close>

definition CallbackQueue_ok :: "'cb CallbackQueue \<Rightarrow> bool" where
  "CallbackQueue_ok q \<longleftrightarrow> gomap_ok q \<and>
     (\<forall>c inner. map_of q c = Some inner \<longrightarrow> gomap_ok inner \<and> inner \<noteq> [] \<and> map_of inner [] = None)"

text \<open>What is registered: for each client and id the callback, and the multiset of all of them.\<close>

definition registered :: "'cb CallbackQueue \<Rightarrow> string \<Rightarrow> string \<Rightarrow> 'cb option" where
  "registered q c rid = (case map_of q c of None \<Rightarrow> None | Some inner \<Rightarrow> map_of inner rid)"

fun contents :: "'cb CallbackQueue \<Rightarrow> 'cb multiset" where
  "contents [] = {#}"
| "contents ((c, inner) # q) = image_mset snd (mset inner) + contents q"

section \<open>The interface of the facades\<close>

text \<open>
  A history of the registry: attempts to register, single removals and drains, with the callbacks
  accepted and the callbacks handed out so far.
\<close>

datatype 'cb registry_op = Register string string 'cb | Take string string | Drain string

locale callback_registry =
  fixes empty :: 'q
    and register :: "string \<Rightarrow> string \<Rightarrow> 'cb \<Rightarrow> 'q \<Rightarrow> go_error option \<times> 'q"
    and take :: "string \<Rightarrow> string \<Rightarrow> 'q \<Rightarrow> 'cb option \<times> 'q"
    and drain :: "string \<Rightarrow> 'q \<Rightarrow> 'cb list \<times> 'q"
    and ok :: "'q \<Rightarrow> bool"
    and found :: "'q \<Rightarrow> string \<Rightarrow> string \<Rightarrow> 'cb option"
    and content :: "'q \<Rightarrow> 'cb multiset"
  assumes empty_ok: "ok empty" and empty_found: "found empty c i = None"
    and empty_content: "content empty = {#}"
    and register_accepts: "ok q \<Longrightarrow> i \<noteq> [] \<Longrightarrow> found q c i = None \<Longrightarrow>
      \<exists>q'. register c i cb q = (None, q') \<and> ok q' \<and> content q' = add_mset cb (content q) \<and>
        (\<forall>c' i'. found q' c' i' = (if (c', i') = (c, i) then Some cb else found q c' i'))"
    and register_refuses: "ok q \<Longrightarrow> i = [] \<or> found q c i \<noteq> None \<Longrightarrow> \<exists>e. register c i cb q = (Some e, q)"
    and take_found: "ok q \<Longrightarrow> found q c i = Some cb \<Longrightarrow>
      \<exists>q'. take c i q = (Some cb, q') \<and> ok q' \<and> content q = add_mset cb (content q') \<and>
        (\<forall>c' i'. found q' c' i' = (if (c', i') = (c, i) then None else found q c' i'))"
    and take_missing: "ok q \<Longrightarrow> found q c i = None \<Longrightarrow> take c i q = (None, q)"
    and drain_client: "ok q \<Longrightarrow> \<exists>cbs q'. drain c q = (cbs, q') \<and> ok q' \<and>
        content q = mset cbs + content q' \<and> set cbs = {cb. \<exists>i. found q c i = Some cb} \<and>
        (\<forall>c' i'. found q' c' i' = (if c' = c then None else found q c' i'))"
begin

fun history_step :: "'q \<times> 'cb multiset \<times> 'cb multiset \<Rightarrow> 'cb registry_op \<Rightarrow> 'q \<times> 'cb multiset \<times> 'cb multiset" where
  "history_step (q, acc, out) (Register c i cb) =
     (case register c i cb q of (None, q) \<Rightarrow> (q, add_mset cb acc, out) | (Some _, q) \<Rightarrow> (q, acc, out))"
| "history_step (q, acc, out) (Take c i) =
     (case take c i q of (Some cb, q) \<Rightarrow> (q, acc, add_mset cb out) | (None, q) \<Rightarrow> (q, acc, out))"
| "history_step (q, acc, out) (Drain c) = (case drain c q of (cbs, q) \<Rightarrow> (q, acc, mset cbs + out))"

lemma history_step_conserves:
  assumes "ok q" and "acc = out + content q" and "history_step (q, acc, out) op = (q', acc', out')"
  shows "ok q' \<and> acc' = out' + content q'"
proof (cases op)
  case (Register c i cb)
  show ?thesis
  proof (cases "i = [] \<or> found q c i \<noteq> None")
    case True
    with register_refuses assms(1) obtain e where "register c i cb q = (Some e, q)" by blast
    with Register assms show ?thesis by auto
  next
    case False
    with register_accepts [of q i c cb] assms(1)
    obtain q1 where "register c i cb q = (None, q1)" "ok q1" "content q1 = add_mset cb (content q)"
      by blast
    with Register assms show ?thesis by auto
  qed
next
  case (Take c i)
  show ?thesis
  proof (cases "found q c i")
    case None
    with take_missing assms(1) have "take c i q = (None, q)" by blast
    with Take assms show ?thesis by auto
  next
    case (Some cb)
    with take_found [of q c i cb] assms(1)
    obtain q1 where "take c i q = (Some cb, q1)" "ok q1" "content q = add_mset cb (content q1)" by blast
    with Take assms show ?thesis by auto
  qed
next
  case (Drain c)
  obtain cbs q1 where "drain c q = (cbs, q1)" "ok q1" "content q = mset cbs + content q1"
    using drain_client assms(1) by blast
  with Drain assms show ?thesis by (auto simp: ac_simps)
qed

lemma history_conserves:
  assumes "foldl history_step (empty, {#}, {#}) ops = (q, acc, out)"
  shows "ok q \<and> acc = out + content q"
  using assms
proof (induction ops arbitrary: q acc out rule: rev_induct)
  case Nil
  then show ?case using empty_ok empty_content by auto
next
  case (snoc op ops)
  obtain q1 acc1 out1 where run: "foldl history_step (empty, {#}, {#}) ops = (q1, acc1, out1)"
    by (metis prod_cases3)
  with snoc.IH have "ok q1" and "acc1 = out1 + content q1" by blast+
  with snoc.prems run history_step_conserves [of q1 acc1 out1 op q acc out] show ?case by simp
qed

end

section \<open>The registry is one\<close>

lemma contents_eq: "contents q = sum_list (map (\<lambda>(c, inner). image_mset snd (mset inner)) q)"
  by (induction q) auto

lemma contents_update_fresh:
  "map_of q c = None \<Longrightarrow> contents (AList.update c inner q) = contents q + image_mset snd (mset inner)"
  by (induction q) (auto simp: ac_simps split: if_splits)

lemma contents_update:
  "map_of q c = Some inner \<Longrightarrow>
   contents (AList.update c inner' q) + image_mset snd (mset inner) =
   contents q + image_mset snd (mset inner')"
  by (induction q) (auto simp: ac_simps split: if_splits)

lemma contents_delete:
  "gomap_ok q \<Longrightarrow> map_of q c = Some inner \<Longrightarrow>
   contents q = image_mset snd (mset inner) + contents (AList.delete c q)"
proof (induction q)
  case (Cons p q)
  moreover have "AList.delete c q = q" if "c \<notin> fst ` set q" using that by (rule delete_id)
  ultimately show ?case by (cases p) (auto simp: gomap_ok_def ac_simps split: if_splits)
qed simp

lemma mset_update_fresh:
  "map_of m i = None \<Longrightarrow> mset (AList.update i v m) = add_mset (i, v) (mset m)"
  by (induction m) (auto split: if_splits)

lemma mset_delete_entry:
  "gomap_ok m \<Longrightarrow> map_of m i = Some v \<Longrightarrow> mset m = add_mset (i, v) (mset (AList.delete i m))"
proof (induction m)
  case (Cons p m)
  moreover have "AList.delete i m = m" if "i \<notin> fst ` set m" using that by (rule delete_id)
  ultimately show ?case by (cases p) (auto simp: gomap_ok_def split: if_splits)
qed simp

lemma CallbackQueue_ok_inner:
  "CallbackQueue_ok q \<Longrightarrow> map_of q c = Some inner \<Longrightarrow>
   gomap_ok inner \<and> inner \<noteq> [] \<and> map_of inner [] = None"
  by (simp add: CallbackQueue_ok_def)

lemma CallbackQueue_ok_delete: "CallbackQueue_ok q \<Longrightarrow> CallbackQueue_ok (AList.delete c q)"
  by (simp add: CallbackQueue_ok_def)

lemma CallbackQueue_ok_update:
  "CallbackQueue_ok q \<Longrightarrow> gomap_ok inner \<Longrightarrow> inner \<noteq> [] \<Longrightarrow> map_of inner [] = None \<Longrightarrow>
   CallbackQueue_ok (AList.update c inner q)"
  by (simp add: CallbackQueue_ok_def)

lemma update_nonempty [simp]: "AList.update i v m \<noteq> []"
  by (induction m) auto

lemma registered_update [simp]:
  "registered (AList.update c inner q) c' i' = (if c' = c then map_of inner i' else registered q c' i')"
  by (simp add: registered_def)

lemma registered_delete [simp]:
  "registered (AList.delete c q) c' i' = (if c' = c then None else registered q c' i')"
  by (simp add: registered_def)

lemma register_callback_accepts:
  assumes "CallbackQueue_ok q" and "i \<noteq> []" and "registered q c i = None"
  shows "\<exists>q'. register_callback c i cb q = (None, q') \<and> CallbackQueue_ok q' \<and>
    contents q' = add_mset cb (contents q) \<and>
    (\<forall>c' i'. registered q' c' i' = (if (c', i') = (c, i) then Some cb else registered q c' i'))"
proof (cases "map_of q c")
  case None
  with assms show ?thesis
    by (auto simp: register_callback_def contents_update_fresh registered_def gomap_ok_def
        intro!: CallbackQueue_ok_update)
next
  case (Some inner)
  with assms have fresh: "map_of inner i = None" by (simp add: registered_def)
  from Some assms(1) have "gomap_ok inner" "map_of inner [] = None"
    by (simp_all add: CallbackQueue_ok_def)
  with assms(1,2) have "CallbackQueue_ok (AList.update c (AList.update i cb inner) q)"
    by (intro CallbackQueue_ok_update) auto
  moreover have "contents (AList.update c (AList.update i cb inner) q) = add_mset cb (contents q)"
    using contents_update [OF Some, of "AList.update i cb inner"] by (simp add: mset_update_fresh [OF fresh])
  ultimately show ?thesis
    using Some fresh assms(2) by (auto simp: register_callback_def registered_def)
qed

lemma Dequeue_found:
  assumes "CallbackQueue_ok q" and "registered q c i = Some cb"
  shows "\<exists>q'. Dequeue c i q = (Some cb, q') \<and> CallbackQueue_ok q' \<and> contents q = add_mset cb (contents q') \<and>
    (\<forall>c' i'. registered q' c' i' = (if (c', i') = (c, i) then None else registered q c' i'))"
proof -
  obtain inner where inner: "map_of q c = Some inner" and cb: "map_of inner i = Some cb"
    using assms(2) by (auto simp: registered_def split: option.splits)
  define q1 where "q1 = AList.update c (AList.delete i inner) q"
  have ok: "gomap_ok inner" "map_of inner [] = None" "gomap_ok q"
    using assms(1) inner by (auto simp: CallbackQueue_ok_def)
  have c1: "contents q = add_mset cb (contents q1)"
    using contents_update [OF inner, of "AList.delete i inner"]
    by (simp add: mset_delete_entry [OF ok(1) cb] q1_def)
  have r1: "registered q1 c' i' = (if (c', i') = (c, i) then None else registered q c' i')" for c' i'
    using inner by (simp add: q1_def registered_def)
  show ?thesis
  proof (cases "AList.delete i inner = []")
    case True
    have "contents q1 = contents (AList.delete c q1)"
      using contents_delete [of q1 c "[]"] ok(3) True by (simp add: q1_def)
    moreover have "registered (AList.delete c q1) c' i' = registered q1 c' i'" for c' i'
      using True by (simp add: q1_def)
    moreover have "CallbackQueue_ok (AList.delete c q1)"
      using assms(1) by (simp add: q1_def CallbackQueue_ok_def)
    ultimately show ?thesis using True c1 r1 inner cb by (auto simp: Dequeue_def q1_def Let_def)
  next
    case False
    have "CallbackQueue_ok q1"
      unfolding q1_def by (rule CallbackQueue_ok_update) (use False ok assms(1) in auto)
    with False c1 r1 inner cb show ?thesis by (auto simp: Dequeue_def q1_def Let_def)
  qed
qed

lemma DrainAll_client:
  assumes "CallbackQueue_ok q"
  shows "\<exists>cbs q'. CallbackQueue_DrainAll c q = (cbs, q') \<and> CallbackQueue_ok q' \<and>
    contents q = mset cbs + contents q' \<and> set cbs = {cb. \<exists>i. registered q c i = Some cb} \<and>
    (\<forall>c' i'. registered q' c' i' = (if c' = c then None else registered q c' i'))"
proof (cases "map_of q c")
  case None
  with assms show ?thesis by (auto simp: CallbackQueue_DrainAll_def registered_def)
next
  case (Some inner)
  then have "gomap_ok inner" "gomap_ok q" using assms by (auto simp: CallbackQueue_ok_def)
  then have "set (map snd inner) = {cb. \<exists>i. registered q c i = Some cb}"
    using Some by (force simp: registered_def gomap_ok_def dest: map_of_SomeD)
  moreover have "contents q = mset (map snd inner) + contents (AList.delete c q)"
    using contents_delete [OF \<open>gomap_ok q\<close> Some] by simp
  ultimately show ?thesis
    using Some assms by (simp add: CallbackQueue_DrainAll_def CallbackQueue_ok_delete)
qed

interpretation cbq: callback_registry CallbackQueue_New register_callback Dequeue CallbackQueue_DrainAll
    CallbackQueue_ok registered contents
proof unfold_locales
  fix q :: "'a CallbackQueue" and c i cb
  show "CallbackQueue_ok CallbackQueue_New" "registered CallbackQueue_New c i = None"
    "contents CallbackQueue_New = {#}"
    by (simp_all add: CallbackQueue_New_def CallbackQueue_ok_def registered_def)
  show "\<exists>e. register_callback c i cb q = (Some e, q)"
    if "i = [] \<or> registered q c i \<noteq> None"
    using that by (auto simp: register_callback_def registered_def split: option.splits)
  show "Dequeue c i q = (None, q)" if "registered q c i = None"
    using that by (auto simp: Dequeue_def registered_def split: option.splits)
qed (rule register_callback_accepts Dequeue_found DrainAll_client; assumption)+

section \<open>Properties\<close>

text \<open>
  A history of the methods themselves; the result of each \<open>try\<close> is arbitrary. The multisets collect
  the callbacks whose \<open>TryQueue\<close> returned nil and the callbacks handed out.
\<close>

datatype 'cb callback_op =
    CallTryQueue string "go_error + string" 'cb
  | CallDequeue string string
  | CallDrainAll string

fun callback_step ::
  "'cb CallbackQueue \<times> 'cb multiset \<times> 'cb multiset \<Rightarrow> 'cb callback_op \<Rightarrow>
     'cb CallbackQueue \<times> 'cb multiset \<times> 'cb multiset" where
  "callback_step (q, acc, out) (CallTryQueue c r cb) =
     (let (err, q, s) = TryQueue c (\<lambda>s. (r, s)) cb (q, ())
      in (q, if err = None then add_mset cb acc else acc, out))"
| "callback_step (q, acc, out) (CallDequeue c rid) =
     (let (cb, q) = Dequeue c rid q
      in (q, acc, case cb of Some f \<Rightarrow> add_mset f out | None \<Rightarrow> out))"
| "callback_step (q, acc, out) (CallDrainAll c) =
     (let (cbs, q) = CallbackQueue_DrainAll c q in (q, acc, mset cbs + out))"

lemma callback_step_history:
  "callback_step s op =
     (case op of
        CallTryQueue c (Inl e) cb \<Rightarrow> s
      | CallTryQueue c (Inr rid) cb \<Rightarrow> cbq.history_step s (Register c rid cb)
      | CallDequeue c rid \<Rightarrow> cbq.history_step s (Take c rid)
      | CallDrainAll c \<Rightarrow> cbq.history_step s (Drain c))"
  by (cases s; cases op) (auto simp: TryQueue_def split: sum.splits prod.splits option.splits)

lemma callback_step_conserves:
  assumes "CallbackQueue_ok q" and "acc = out + contents q" and "callback_step (q, acc, out) op = (q', acc', out')"
  shows "CallbackQueue_ok q' \<and> acc' = out' + contents q'"
  using assms(3) cbq.history_step_conserves [OF assms(1,2)] assms(1,2)
  by (auto simp del: cbq.history_step.simps simp: callback_step_history split: callback_op.splits sum.splits)

text \<open>
  No callback is lost and none is handed out twice. Whatever sequence of \<open>TryQueue\<close>,
  \<open>Dequeue\<close> and \<open>DrainAll\<close> calls is made on a new queue, for whatever clients and with whatever
  results of \<open>try\<close>, the callbacks accepted are exactly those handed out together with those still
  registered, and the queue stays well formed (no client with an empty map, no empty request id).
\<close>

theorem callbacks_conserved:
  "case foldl callback_step (CallbackQueue_New, {#}, {#}) ops of
     (q, accepted, delivered) \<Rightarrow> CallbackQueue_ok q \<and> accepted = delivered + contents q"
proof (induction ops rule: rev_induct)
  case Nil
  show ?case by (simp add: cbq.empty_ok cbq.empty_content)
next
  case (snoc op ops)
  obtain q acc out where run: "foldl callback_step (CallbackQueue_New, {#}, {#}) ops = (q, acc, out)"
    by (metis prod_cases3)
  obtain q' acc' out' where op: "callback_step (q, acc, out) op = (q', acc', out')"
    by (metis prod_cases3)
  from snoc run callback_step_conserves [OF _ _ op] op show ?case by simp
qed

text \<open>
  A callback is found under its own id and no other. When \<open>try\<close> yields a fresh, non-empty id,
  \<open>TryQueue\<close> succeeds, the next \<open>Dequeue\<close> with that client and id returns the callback and leaves
  exactly the earlier registrations, every other lookup is unaffected; an empty id, an id already
  taken and a failing \<open>try\<close> register nothing and return their error.
\<close>

theorem TryQueue_Dequeue:
  assumes "CallbackQueue_ok q" and "try s = (r, s')"
  shows "case r of
      Inl err \<Rightarrow> TryQueue c try cb (q, s) = (Some err, q, s')
    | Inr rid \<Rightarrow>
        if rid = [] then TryQueue c try cb (q, s) = (Some ErrEmptyRequestID, q, s')
        else if registered q c rid \<noteq> None then TryQueue c try cb (q, s) = (Some ErrDuplicateCallback, q, s')
        else \<exists>q1 q2. TryQueue c try cb (q, s) = (None, q1, s') \<and> CallbackQueue_ok q1 \<and>
               (\<forall>c' i. registered q1 c' i = (if (c', i) = (c, rid) then Some cb else registered q c' i)) \<and>
               Dequeue c rid q1 = (Some cb, q2) \<and> registered q2 = registered q"
proof (cases r)
  case (Inr rid)
  show ?thesis
  proof (cases "rid = [] \<or> registered q c rid \<noteq> None")
    case True
    then show ?thesis
      using assms(2) Inr by (auto simp: TryQueue_def register_callback_def registered_def split: option.splits)
  next
    case False
    then obtain q1 where q1: "register_callback c rid cb q = (None, q1)" "CallbackQueue_ok q1"
      and reg: "\<forall>c' i'. registered q1 c' i' = (if (c', i') = (c, rid) then Some cb else registered q c' i')"
      using register_callback_accepts [OF assms(1)] by blast
    from reg have "registered q1 c rid = Some cb" by simp
    then obtain q2 where q2: "Dequeue c rid q1 = (Some cb, q2)"
      and reg2: "\<forall>c' i'. registered q2 c' i' = (if (c', i') = (c, rid) then None else registered q1 c' i')"
      using Dequeue_found [OF q1(2)] by blast
    from reg reg2 False have "registered q2 = registered q" by (intro ext) auto
    with q1 q2 reg False Inr assms(2) show ?thesis by (auto simp: TryQueue_def)
  qed
qed (use assms(2) in \<open>simp add: TryQueue_def\<close>)

theorem TryQueue_Dequeue_witness:
  "\<exists>q1 q2. TryQueue ''cp'' (\<lambda>n. (Inr ''id'', Suc n)) True (CallbackQueue_New, 0) = (None, q1, 1::nat) \<and>
     CallbackQueue_ok q1 \<and> Dequeue ''cp'' ''id'' q1 = (Some True, q2)"
  using TryQueue_Dequeue [OF cbq.empty_ok, of "\<lambda>n. (Inr ''id'', Suc n)" 0 "Inr ''id''" 1 "''cp''" True]
  by (simp add: cbq.empty_found) blast

end
