(* ===== verification/Ocpp16_Facade.thy ===== *)
theory Ocpp16_Facade
  imports Ocpp16_Requests Ocppj_Endpoint Callback_Queue
begin

text \<open>
  What the two facades of OCPP 1.6 (\<open>central_system.go\<close>, \<open>charge_point.go\<close>) have in common: the errors
  they report, the callbacks they register, the assertion of dynamic types, and the answer to a request
  (\<open>sendResponse\<close>), whose contract is the locale \<open>replier\<close>.
\<close>

section \<open>Errors, callbacks and types\<close>

text \<open>What appears on the channel of \<open>Errors()\<close>.\<close>

datatype async_error = AsyncError go_error | HandlerPanicError HandlerPanic

text \<open>
  A callback of the user is a name of type \<open>'cb\<close> that \<open>run\<close> turns into code. The typed methods of a
  facade wrap it into a generic callback, which asserts the type of the confirmation.
\<close>

datatype 'cb callback = Raw 'cb | Typed string 'cb

fun invoke_callback ::
  "env \<Rightarrow> ('cb \<Rightarrow> request \<Rightarrow> go_error option \<Rightarrow> ('s, unit) code) \<Rightarrow> 'cb callback \<Rightarrow> request \<Rightarrow>
     go_error option \<Rightarrow> ('s, unit) code" where
  "invoke_callback E run (Raw cb) confirmation err s = run cb confirmation err s"
| "invoke_callback E run (Typed typ cb) confirmation err s =
     (case confirmation of
        None \<Rightarrow> run cb None err s
      | Some m \<Rightarrow>
          (if type_of E m = typ then run cb confirmation err s else (Panics ''interface conversion'', s)))"

text \<open>The assertion \<open>request.(*T)\<close>, which panics for nil and for a value of another type.\<close>

definition assert_type :: "env \<Rightarrow> string \<Rightarrow> request \<Rightarrow> (string, message_body) outcome" where
  "assert_type E typ req =
     (case req of
        None \<Rightarrow> Panics ''interface conversion''
      | Some m \<Rightarrow> (if type_of E m = typ then Returns m else Panics ''interface conversion''))"

text \<open>Statements in sequence: a panic of the first skips the second.\<close>

definition and_then :: "('s, unit) code \<Rightarrow> ('s, unit) code \<Rightarrow> ('s, unit) code" where
  "and_then f g s = (case f s of (Returns _, s) \<Rightarrow> g s | (Panics v, s) \<Rightarrow> (Panics v, s))"

definition run_optional :: "('a \<Rightarrow> ('s, unit) code) option \<Rightarrow> 'a \<Rightarrow> ('s, unit) code" where
  "run_optional h x s = (case h of None \<Rightarrow> (Returns (), s) | Some f \<Rightarrow> f x s)"

lemma and_then_keeps: "keeps S f \<Longrightarrow> keeps S g \<Longrightarrow> keeps S (and_then f g)"
  by (auto simp: keeps_def and_then_def split: prod.splits outcome.splits)

lemma run_optional_keeps: "(\<And>f. h = Some f \<Longrightarrow> keeps S (f x)) \<Longrightarrow> keeps S (run_optional h x)"
  by (cases h) (auto simp: keeps_def run_optional_def)

lemma invoke_callback_keeps: "(\<And>r e. keeps S (run cb r e)) \<Longrightarrow>
  keeps S (invoke_callback E run (Raw cb) r e) \<and> keeps S (invoke_callback E run (Typed typ cb) r e)"
  by (auto simp: keeps_def split: option.splits)

text \<open>The callback queue, by its interface: what is taken out is no longer in it, the rest stays.\<close>

lemma Dequeue_Some:
  assumes "CallbackQueue_ok q" and "Dequeue c i q = (Some cb, q')"
  shows "CallbackQueue_ok q' \<and> contents q = add_mset cb (contents q')"
proof (cases "registered q c i")
  case None
  with cbq.take_missing [OF assms(1) None] assms(2) show ?thesis by simp
next
  case (Some cb')
  with cbq.take_found [OF assms(1) Some] assms(2) show ?thesis by auto
qed

lemma Dequeue_None:
  assumes "CallbackQueue_ok q" and "Dequeue c i q = (None, q')"
  shows "q' = q"
proof (cases "registered q c i")
  case None
  with cbq.take_missing [OF assms(1) None] assms(2) show ?thesis by simp
next
  case (Some cb')
  with cbq.take_found [OF assms(1) Some] assms(2) show ?thesis by auto
qed

lemma DrainAll_contents:
  assumes "CallbackQueue_ok q" and "CallbackQueue_DrainAll c q = (cbs, q')"
  shows "CallbackQueue_ok q' \<and> contents q = mset cbs + contents q'"
  using cbq.drain_client [OF assms(1), of c] assms(2) by auto

lemma register_callback_contents:
  assumes "CallbackQueue_ok q" and "register_callback c i cb q = (err, q')"
  shows "CallbackQueue_ok q' \<and> contents q' = (if err = None then add_mset cb (contents q) else contents q)"
proof (cases "i = [] \<or> registered q c i \<noteq> None")
  case True
  with cbq.register_refuses [OF assms(1) True, of cb] assms show ?thesis by auto
next
  case False
  with cbq.register_accepts [OF assms(1), of i c cb] assms(2) show ?thesis by auto
qed

section \<open>The answer to a request\<close>

text \<open>
  A handler returns a confirmation and an error. The confirmation is an interface value: nil, an
  interface that holds a nil pointer (\<^term>\<open>Some None\<close>), or a message.
\<close>

type_synonym confirmation = "message_body option option"

fun reply_code :: "go_error \<Rightarrow> string" where
  "reply_code (OcppError co _ _ _ _) = co"
| "reply_code _ = InternalError"

fun reply_text :: "go_error \<Rightarrow> string" where
  "reply_text (OcppError _ de _ _ _) = de"
| "reply_text e = error_text e"

text \<open>The frame of a response, when it can be created and serialised.\<close>

definition result_frame :: "env \<Rightarrow> Endpoint \<Rightarrow> string \<Rightarrow> message_body \<Rightarrow> string option" where
  "result_frame E ep rid resp =
     (case CreateCallResult E ep resp rid of
        Inl _ \<Rightarrow> None
      | Inr cr \<Rightarrow> (case CallResult_MarshalJSON E cr of Inl _ \<Rightarrow> None | Inr t \<Rightarrow> Some t))"

text \<open>
  The frame that answers a request whose handler returned \<open>confirmation\<close> and \<open>err\<close>: an error with the
  handler's own code and text, or with the code InternalError; for a missing confirmation a
  GenericError; the response itself, or an error with a valid code when it cannot be sent.
\<close>

definition answers :: "env \<Rightarrow> Endpoint \<Rightarrow> string \<Rightarrow> string \<Rightarrow> confirmation \<Rightarrow> go_error option \<Rightarrow> string \<Rightarrow> bool" where
  "answers E ep rid empty_text confirmation err frame \<longleftrightarrow>
     (case err of
        Some e \<Rightarrow>
          (if IsErrorCodeValid (reply_code e) then frame = error_frame E rid (reply_code e) (reply_text e)
           else \<exists>co d. frame = error_frame E rid co d)
      | None \<Rightarrow>
          (case confirmation of
             Some (Some resp) \<Rightarrow>
               (case result_frame E ep rid resp of
                  Some t \<Rightarrow> frame = t
                | None \<Rightarrow> \<exists>co d. IsErrorCodeValid co \<and> frame = error_frame E rid co d)
           | _ \<Rightarrow> frame = error_frame E rid GenericError empty_text))"

text \<open>
  A facade on top of an endpoint: frames sent so far, and a report of errors that sends nothing.
\<close>

locale replier = responder E rid up endpoint put send_response send_error
  for E :: env and rid :: string and up :: bool
    and endpoint :: "'s \<Rightarrow> Endpoint"
    and put :: "string \<Rightarrow> 's \<Rightarrow> 's"
    and send_response :: "message_body \<Rightarrow> 's \<Rightarrow> go_error option \<times> 's"
    and send_error :: "string \<Rightarrow> string \<Rightarrow> 's \<Rightarrow> go_error option \<times> 's" +
  fixes out :: "'s \<Rightarrow> 'f list" and addressed :: "string \<Rightarrow> 'f"
    and report :: "go_error \<Rightarrow> 's \<Rightarrow> 's"
    and error_failed :: "go_error \<Rightarrow> go_error" and response_failed :: "go_error \<Rightarrow> go_error"
    and empty_text :: string
  assumes out_put: "out (put t s) = out s @ [addressed t]"
    and out_report: "out (report e s) = out s"
    and response_sent: "up \<Longrightarrow> result_frame E (endpoint s) rid resp = Some t \<Longrightarrow> send_response resp s = (None, put t s)"
    and response_refused: "result_frame E (endpoint s) rid resp = None \<Longrightarrow> fst (send_response resp s) \<noteq> None"
    and error_any: "json_array_laws E \<Longrightarrow>
      send_error code d s = (None, put (error_frame E rid code d) s) \<or>
      (\<exists>err. send_error code d s = (Some err, s) \<and> response_error rid err)"
begin

definition send_reply :: "confirmation \<Rightarrow> go_error option \<Rightarrow> 's \<Rightarrow> 's" where
  "send_reply confirmation err s =
     (case err of
        Some e \<Rightarrow>
          (case send_error (reply_code e) (reply_text e) s of
             (None, s) \<Rightarrow> s
           | (Some e2, s) \<Rightarrow> report (error_failed e2) (handle_failed e2 [] s))
      | None \<Rightarrow>
          (case confirmation of
             Some (Some resp) \<Rightarrow>
               (case send_response resp s of
                  (None, s) \<Rightarrow> s
                | (Some e2, s) \<Rightarrow> report (response_failed e2) (handle_failed e2 (GetFeatureName resp) s))
           | _ \<Rightarrow> report (Errorf empty_text) (snd (send_error GenericError empty_text s))))"

lemma handle_failed_one:
  assumes "json_array_laws E" and "accepts_call_errors E" and up and "id_ok rid" and "known_dialect (endpoint s)"
    and "response_error rid err"
  shows "\<exists>co d. IsErrorCodeValid co \<and> handle_failed err featureName s = put (error_frame E rid co d) s"
proof -
  obtain co d where "failed_response_error (endpoint_dialect (endpoint s)) rid (Some err) featureName
      = Returns (NewError co d rid)" and co: "IsErrorCodeValid co"
    using failed_response_error_valid [OF assms(5,6)] by blast
  with error [OF assms(3,1,2,4) co, of d s] show ?thesis by (auto simp: handle_failed_def NewError_def)
qed

lemma send_reply_one:
  assumes "json_array_laws E" and "accepts_call_errors E" and up and "id_ok rid" and "known_dialect (endpoint s)"
  shows "\<exists>f. out (send_reply confirmation err s) = out s @ [addressed f] \<and>
    answers E (endpoint s) rid empty_text confirmation err f"
proof (cases err)
  case (Some e)
  show ?thesis
  proof (cases "IsErrorCodeValid (reply_code e)")
    case True
    with Some error [OF assms(3,1,2,4) True] show ?thesis by (simp add: send_reply_def answers_def out_put)
  next
    case False
    consider "send_error (reply_code e) (reply_text e) s = (None, put (error_frame E rid (reply_code e) (reply_text e)) s)"
      | err' where "send_error (reply_code e) (reply_text e) s = (Some err', s)" "response_error rid err'"
      using error_any [OF assms(1), of "reply_code e" "reply_text e" s] by blast
    then show ?thesis
    proof cases
      case 1
      with Some False show ?thesis by (auto simp: send_reply_def answers_def out_put)
    next
      case (2 err')
      obtain co d where "handle_failed err' [] s = put (error_frame E rid co d) s"
        using handle_failed_one [OF assms 2(2)] by blast
      with Some False 2(1) show ?thesis by (auto simp: send_reply_def answers_def out_put out_report)
    qed
  qed
next
  case None
  show ?thesis
  proof (cases "\<exists>resp. confirmation = Some (Some resp)")
    case True
    then obtain resp where resp: "confirmation = Some (Some resp)" by blast
    show ?thesis
    proof (cases "result_frame E (endpoint s) rid resp")
      case (Some t)
      with response_sent [OF assms(3) Some] resp None show ?thesis
        by (simp add: send_reply_def answers_def out_put)
    next
      case no_frame: None
      then obtain err' where "send_response resp s = (Some err', s)" and e: "response_error rid err'"
        using response [of s resp] response_refused [OF no_frame] by auto
      moreover obtain co d where "handle_failed err' (GetFeatureName resp) s = put (error_frame E rid co d) s"
        and "IsErrorCodeValid co"
        using handle_failed_one [OF assms e] by blast
      ultimately show ?thesis using resp None no_frame
        by (auto simp: send_reply_def answers_def out_put out_report)
    qed
  next
    case False
    have "send_error GenericError empty_text s = (None, put (error_frame E rid GenericError empty_text) s)"
      by (rule error [OF assms(3,1,2,4)]) simp
    with None False show ?thesis
      by (auto simp: send_reply_def answers_def out_put out_report split: option.splits)
  qed
qed

end

end
