(* ===== verification/Central_System.thy ===== *)
theory Central_System
  imports Ocppj_Server Ocpp16_Facade
begin

text \<open>
  \<open>ocpp1.6/central_system.go\<close> and the central system's part of \<open>ocpp1.6/v16.go\<close>: the facade of a
  central system. Its state is the endpoint extended with the facade's fields, so that the handlers it
  registers on the endpoint are code on the whole state. A goroutine that is started is an element of
  \<open>cs_goroutines\<close> until the scheduler runs it; which one runs next, and what happens in between, is
  arbitrary. \<open>cs_accepted\<close> and \<open>cs_invoked\<close> are histories: the callbacks for which \<open>SendRequestAsync\<close>
  returned nil, and the calls of callbacks with their arguments.
\<close>

section \<open>State\<close>

definition errChanCapacity :: nat where
  "errChanCapacity = 16"

definition unknownFeatureName :: string where
  "unknownFeatureName = ''unknown''"

datatype 'cb cs_goroutine =
    GoRequest string request string string
  | GoConfirmation string request string "'cb callback"
  | GoError string go_error "'cb callback"
  | GoCanceled string string string go_error

record 'cb centralSystem = Server +
  cs_callbackQueue :: "'cb callback CallbackQueue"
  cs_errC :: "async_error chan"
  cs_goroutines :: "'cb cs_goroutine list"
  cs_accepted :: "'cb callback list"
  cs_invoked :: "('cb callback \<times> request \<times> go_error option) list"

text \<open>
  The handler interfaces of the profiles. A method gets the id of the charge point and the request, and
  returns a pointer to the confirmation and an error. The interfaces of the profiles \<open>localauth\<close>,
  \<open>reservation\<close>, \<open>remotetrigger\<close> and \<open>smartcharging\<close> have no method: only whether they are set matters.
\<close>

type_synonym 's cs_method = "string \<Rightarrow> message_body \<Rightarrow> ('s, message_body option \<times> go_error option) code"

record 's core_CentralSystemHandler =
  cs_OnAuthorize :: "'s cs_method"
  cs_OnBootNotification :: "'s cs_method"
  cs_OnDataTransfer :: "'s cs_method"
  cs_OnHeartbeat :: "'s cs_method"
  cs_OnMeterValues :: "'s cs_method"
  cs_OnStatusNotification :: "'s cs_method"
  cs_OnStartTransaction :: "'s cs_method"
  cs_OnStopTransaction :: "'s cs_method"

record 's firmware_CentralSystemHandler =
  cs_OnDiagnosticsStatusNotification :: "'s cs_method"
  cs_OnFirmwareStatusNotification :: "'s cs_method"

record 's logging_CentralSystemHandler =
  cs_OnLogStatusNotification :: "'s cs_method"

record 's security_CentralSystemHandler =
  cs_OnSecurityEventNotification :: "'s cs_method"
  cs_OnSignCertificate :: "'s cs_method"

record 's securefirmware_CentralSystemHandler =
  cs_OnSignedFirmwareStatusNotification :: "'s cs_method"

record ('s, 'cb) cs_handlers =
  cs_coreHandler :: "'s core_CentralSystemHandler option"
  cs_localAuthListHandler :: bool
  cs_firmwareHandler :: "'s firmware_CentralSystemHandler option"
  cs_reservationHandler :: bool
  cs_remoteTriggerHandler :: bool
  cs_smartChargingHandler :: bool
  cs_logHandler :: "'s logging_CentralSystemHandler option"
  cs_securityHandler :: "'s security_CentralSystemHandler option"
  cs_secureFirmwareHandler :: "'s securefirmware_CentralSystemHandler option"
  cs_disconnectedHandler :: "(string \<Rightarrow> ('s, unit) code) option"
  cs_onHandlerPanic :: "(HandlerPanic \<Rightarrow> ('s, unit) code) option"
  cs_callback :: "'cb \<Rightarrow> request \<Rightarrow> go_error option \<Rightarrow> ('s, unit) code"

definition CS_SetSecurityHandler where "CS_SetSecurityHandler h H = H\<lparr>cs_securityHandler := h\<rparr>"
definition CS_SetLogHandler where "CS_SetLogHandler h H = H\<lparr>cs_logHandler := h\<rparr>"
definition CS_SetSecureFirmwareHandler where "CS_SetSecureFirmwareHandler h H = H\<lparr>cs_secureFirmwareHandler := h\<rparr>"
definition CS_SetOnHandlerPanic where "CS_SetOnHandlerPanic h H = H\<lparr>cs_onHandlerPanic := h\<rparr>"
definition CS_SetCoreHandler where "CS_SetCoreHandler h H = H\<lparr>cs_coreHandler := h\<rparr>"
definition CS_SetLocalAuthListHandler where "CS_SetLocalAuthListHandler h H = H\<lparr>cs_localAuthListHandler := h\<rparr>"
definition CS_SetFirmwareManagementHandler where "CS_SetFirmwareManagementHandler h H = H\<lparr>cs_firmwareHandler := h\<rparr>"
definition CS_SetReservationHandler where "CS_SetReservationHandler h H = H\<lparr>cs_reservationHandler := h\<rparr>"
definition CS_SetRemoteTriggerHandler where "CS_SetRemoteTriggerHandler h H = H\<lparr>cs_remoteTriggerHandler := h\<rparr>"
definition CS_SetSmartChargingHandler where "CS_SetSmartChargingHandler h H = H\<lparr>cs_smartChargingHandler := h\<rparr>"
definition CS_SetChargePointDisconnectedHandler where
  "CS_SetChargePointDisconnectedHandler h H = H\<lparr>cs_disconnectedHandler := h\<rparr>"

text \<open>These two are handlers of the endpoint.\<close>

definition CS_SetNewChargingStationValidationHandler where
  "CS_SetNewChargingStationValidationHandler h SH = Server_SetNewClientValidationHandler h SH"

definition CS_SetNewChargePointHandler where
  "CS_SetNewChargePointHandler h SH = Server_SetNewClientHandler (Some (\<lambda>chargePoint. h chargePoint)) SH"

text \<open>The constructor of the struct; a nil server panics.\<close>

definition newCentralSystem :: "Server option \<Rightarrow> (string, 'cb centralSystem) outcome" where
  "newCentralSystem server =
     (case server of
        None \<Rightarrow> Panics ''server must not be nil''
      | Some s \<Rightarrow>
          Returns \<lparr>s_Endpoint = Endpoint_SetDialect (s_Endpoint s) V16, s_server = s_server s,
            s_dispatcher = s_dispatcher s, s_sent = s_sent s, cs_callbackQueue = CallbackQueue_New,
            cs_errC = new_chan errChanCapacity, cs_goroutines = [], cs_accepted = [], cs_invoked = []\<rparr>)"

definition cs_error :: "async_error \<Rightarrow> 'cb centralSystem \<Rightarrow> 'cb centralSystem" where
  "cs_error err s = s\<lparr>cs_errC := chan_put err (cs_errC s)\<rparr>"

definition CS_Errors :: "'cb centralSystem \<Rightarrow> async_error chan" where
  "CS_Errors s = cs_errC s"

definition go_start :: "'cb cs_goroutine \<Rightarrow> 'cb centralSystem \<Rightarrow> 'cb centralSystem" where
  "go_start g s = s\<lparr>cs_goroutines := cs_goroutines s @ [g]\<rparr>"

section \<open>Sending requests\<close>

definition cs_outgoing :: "string list" where
  "cs_outgoing =
     [ChangeAvailabilityFeatureName, ChangeConfigurationFeatureName, ClearCacheFeatureName, DataTransferFeatureName,
      GetConfigurationFeatureName, RemoteStartTransactionFeatureName, RemoteStopTransactionFeatureName,
      ResetFeatureName, UnlockConnectorFeatureName, GetLocalListVersionFeatureName, SendLocalListFeatureName,
      GetDiagnosticsFeatureName, UpdateFirmwareFeatureName, ReserveNowFeatureName, CancelReservationFeatureName,
      TriggerMessageFeatureName, SetChargingProfileFeatureName, ClearChargingProfileFeatureName,
      GetCompositeScheduleFeatureName, CertificateSignedFeatureName, SignedUpdateFirmwareFeatureName,
      GetLogFeatureName, ExtendedTriggerMessageFeatureName, GetInstalledCertificateIdsFeatureName,
      DeleteCertificateFeatureName, InstallCertificateFeatureName]"

text \<open>The last two statements of \<open>SendRequestAsyncCtx\<close>.\<close>

definition cs_enqueue ::
  "env \<Rightarrow> string \<Rightarrow> ctx option \<Rightarrow> string \<Rightarrow> message_body \<Rightarrow> 'cb callback \<Rightarrow> 'cb centralSystem \<Rightarrow>
     go_error option \<times> 'cb centralSystem" where
  "cs_enqueue E uniqueId ctx clientId req callback s =
     (let (err, q, s) = TryQueue clientId (Server_SendRequestCtx E uniqueId ctx clientId req) callback
                          (cs_callbackQueue s, s)
      in (err, s\<lparr>cs_callbackQueue := q,
                 cs_accepted := (if err = None then cs_accepted s @ [callback] else cs_accepted s)\<rparr>))"

definition CS_SendRequestAsyncCtx ::
  "env \<Rightarrow> string \<Rightarrow> ctx option \<Rightarrow> string \<Rightarrow> message_body \<Rightarrow> 'cb callback \<Rightarrow> 'cb centralSystem \<Rightarrow>
     go_error option \<times> 'cb centralSystem" where
  "CS_SendRequestAsyncCtx E uniqueId ctx clientId req callback s =
     (let featureName = GetFeatureName req in
      if GetProfileForFeature (s_Endpoint s) featureName = None then
        (Some (Errorf (''feature '' @ featureName @
           '' is unsupported on central system (missing profile), cannot send request'')), s)
      else if featureName \<notin> set cs_outgoing then
        (Some (Errorf (''unsupported action '' @ featureName @ '' on central system, cannot send request'')), s)
      else cs_enqueue E uniqueId ctx clientId req callback s)"

definition CS_SendRequestAsync ::
  "env \<Rightarrow> string \<Rightarrow> string \<Rightarrow> message_body \<Rightarrow> 'cb callback \<Rightarrow> 'cb centralSystem \<Rightarrow>
     go_error option \<times> 'cb centralSystem" where
  "CS_SendRequestAsync E uniqueId clientId req callback s =
     CS_SendRequestAsyncCtx E uniqueId (Some Background) clientId req callback s"

text \<open>
  The typed methods all build a request, apply the \<open>props\<close>, wrap the callback and send.
\<close>

definition cs_call ::
  "env \<Rightarrow> string \<Rightarrow> string \<Rightarrow> string \<Rightarrow> 'cb \<Rightarrow> message_body \<Rightarrow> (json \<Rightarrow> json) list \<Rightarrow> 'cb centralSystem \<Rightarrow>
     go_error option \<times> 'cb centralSystem" where
  "cs_call E uniqueId clientId typ callback req props s =
     CS_SendRequestAsync E uniqueId clientId (apply_props props req) (Typed typ callback) s"

definition CS_ChangeAvailability where
  "CS_ChangeAvailability E uniqueId clientId callback connectorId availabilityType props =
     cs_call E uniqueId clientId ''core.ChangeAvailabilityConfirmation'' callback
       (NewChangeAvailabilityRequest connectorId availabilityType) props"

definition CS_ChangeConfiguration where
  "CS_ChangeConfiguration E uniqueId clientId callback key v props =
     cs_call E uniqueId clientId ''core.ChangeConfigurationConfirmation'' callback
       (NewChangeConfigurationRequest key v) props"

definition CS_ClearCache where
  "CS_ClearCache E uniqueId clientId callback props =
     cs_call E uniqueId clientId ''core.ClearCacheConfirmation'' callback NewClearCacheRequest props"

definition CS_DataTransfer where
  "CS_DataTransfer E uniqueId clientId callback vendorId props =
     cs_call E uniqueId clientId ''core.DataTransferConfirmation'' callback
       (NewDataTransferRequest vendorId) props"

definition CS_GetConfiguration where
  "CS_GetConfiguration E uniqueId clientId callback keys props =
     cs_call E uniqueId clientId ''core.GetConfigurationConfirmation'' callback
       (NewGetConfigurationRequest keys) props"

definition CS_RemoteStartTransaction where
  "CS_RemoteStartTransaction E uniqueId clientId callback idTag props =
     cs_call E uniqueId clientId ''core.RemoteStartTransactionConfirmation'' callback
       (NewRemoteStartTransactionRequest idTag) props"

definition CS_RemoteStopTransaction where
  "CS_RemoteStopTransaction E uniqueId clientId callback transactionId props =
     cs_call E uniqueId clientId ''core.RemoteStopTransactionConfirmation'' callback
       (NewRemoteStopTransactionRequest transactionId) props"

definition CS_Reset where
  "CS_Reset E uniqueId clientId callback resetType props =
     cs_call E uniqueId clientId ''core.ResetConfirmation'' callback (NewResetRequest resetType) props"

definition CS_UnlockConnector where
  "CS_UnlockConnector E uniqueId clientId callback connectorId props =
     cs_call E uniqueId clientId ''core.UnlockConnectorConfirmation'' callback
       (NewUnlockConnectorRequest connectorId) props"

definition CS_GetLocalListVersion where
  "CS_GetLocalListVersion E uniqueId clientId callback props =
     cs_call E uniqueId clientId ''localauth.GetLocalListVersionConfirmation'' callback
       NewGetLocalListVersionRequest props"

definition CS_SendLocalList where
  "CS_SendLocalList E uniqueId clientId callback version updateType props =
     cs_call E uniqueId clientId ''localauth.SendLocalListConfirmation'' callback
       (NewSendLocalListRequest version updateType) props"

definition CS_GetDiagnostics where
  "CS_GetDiagnostics E uniqueId clientId callback location props =
     cs_call E uniqueId clientId ''firmware.GetDiagnosticsConfirmation'' callback
       (NewGetDiagnosticsRequest location) props"

definition CS_UpdateFirmware where
  "CS_UpdateFirmware E uniqueId clientId callback location retrieveDate props =
     cs_call E uniqueId clientId ''firmware.UpdateFirmwareConfirmation'' callback
       (NewUpdateFirmwareRequest location retrieveDate) props"

definition CS_ReserveNow where
  "CS_ReserveNow E uniqueId clientId callback connectorId expiryDate idTag reservationId props =
     cs_call E uniqueId clientId ''reservation.ReserveNowConfirmation'' callback
       (NewReserveNowRequest connectorId expiryDate idTag reservationId) props"

definition CS_CancelReservation where
  "CS_CancelReservation E uniqueId clientId callback reservationId props =
     cs_call E uniqueId clientId ''reservation.CancelReservationConfirmation'' callback
       (NewCancelReservationRequest reservationId) props"

definition CS_TriggerMessage where
  "CS_TriggerMessage E uniqueId clientId callback requestedMessage props =
     cs_call E uniqueId clientId ''remotetrigger.TriggerMessageConfirmation'' callback
       (NewTriggerMessageRequest requestedMessage) props"

definition CS_SetChargingProfile where
  "CS_SetChargingProfile E uniqueId clientId callback connectorId chargingProfile props =
     cs_call E uniqueId clientId ''smartcharging.SetChargingProfileConfirmation'' callback
       (NewSetChargingProfileRequest connectorId chargingProfile) props"

definition CS_ClearChargingProfile where
  "CS_ClearChargingProfile E uniqueId clientId callback props =
     cs_call E uniqueId clientId ''smartcharging.ClearChargingProfileConfirmation'' callback
       NewClearChargingProfileRequest props"

definition CS_GetCompositeSchedule where
  "CS_GetCompositeSchedule E uniqueId clientId callback connectorId duration props =
     cs_call E uniqueId clientId ''smartcharging.GetCompositeScheduleConfirmation'' callback
       (NewGetCompositeScheduleRequest connectorId duration) props"

definition CS_TriggerMessageExtended where
  "CS_TriggerMessageExtended E uniqueId clientId callback requestedMessage props =
     cs_call E uniqueId clientId ''extendedtriggermessage.ExtendedTriggerMessageResponse'' callback
       (NewExtendedTriggerMessageRequest requestedMessage) props"

definition CS_CertificateSigned where
  "CS_CertificateSigned E uniqueId clientId callback csr props =
     cs_call E uniqueId clientId ''security.CertificateSignedResponse'' callback
       (NewCertificateSignedRequest csr) props"

definition CS_SignedUpdateFirmware where
  "CS_SignedUpdateFirmware E uniqueId clientId callback requestId firmware props =
     cs_call E uniqueId clientId ''securefirmware.SignedUpdateFirmwareResponse'' callback
       (NewSignedUpdateFirmwareRequest requestId firmware) props"

definition CS_GetInstalledCertificateIds where
  "CS_GetInstalledCertificateIds E uniqueId clientId callback certificateType props =
     cs_call E uniqueId clientId ''certificates.GetInstalledCertificateIdsResponse'' callback
       (NewGetInstalledCertificateIdsRequest certificateType) props"

definition CS_InstallCertificate where
  "CS_InstallCertificate E uniqueId clientId callback certificateType certificate props =
     cs_call E uniqueId clientId ''certificates.InstallCertificateResponse'' callback
       (NewInstallCertificateRequest certificateType certificate) props"

definition CS_DeleteCertificate where
  "CS_DeleteCertificate E uniqueId clientId callback certificateHashData props =
     cs_call E uniqueId clientId ''certificates.DeleteCertificateResponse'' callback
       (NewDeleteCertificateRequest certificateHashData) props"

definition CS_GetLog where
  "CS_GetLog E uniqueId clientId callback logType rid logParameters props =
     cs_call E uniqueId clientId ''logging.GetLogResponse'' callback
       (NewGetLogRequest logType rid logParameters) props"

section \<open>Starting and stopping\<close>

definition CS_Start ::
  "'cb centralSystem server_handlers \<Rightarrow> int \<Rightarrow> string \<Rightarrow> 'cb centralSystem \<Rightarrow> 'cb centralSystem" where
  "CS_Start SH listenPort listenPath s = Server_Start SH listenPort listenPath s"

definition CS_Stop :: "'cb centralSystem \<Rightarrow> 'cb centralSystem" where
  "CS_Stop s = Server_Stop s"

definition CS_Shutdown :: "go_error option \<Rightarrow> 'cb centralSystem \<Rightarrow> go_error option \<times> 'cb centralSystem" where
  "CS_Shutdown result s = Server_Shutdown result s"

section \<open>Answering requests\<close>

definition cs_send_failed :: "string \<Rightarrow> string \<Rightarrow> go_error \<Rightarrow> go_error" where
  "cs_send_failed chargePointId requestId err =
     Wrapped (''error replying cp '' @ chargePointId @ '' to request '' @ requestId @
       '' with 'internal error': '' @ error_text err) err"

definition cs_response_failed :: "string \<Rightarrow> string \<Rightarrow> go_error \<Rightarrow> go_error" where
  "cs_response_failed chargePointId requestId err =
     Wrapped (''error replying cp '' @ chargePointId @ '' to request '' @ requestId @ '': '' @ error_text err) err"

definition cs_empty_text :: "string \<Rightarrow> string \<Rightarrow> string" where
  "cs_empty_text chargePointId requestId =
     ''empty confirmation to '' @ chargePointId @ '' for request '' @ requestId"

definition cs_sendResponse ::
  "env \<Rightarrow> server_outside \<Rightarrow> string \<Rightarrow> confirmation \<Rightarrow> go_error option \<Rightarrow> string \<Rightarrow> ('cb centralSystem, unit) code" where
  "cs_sendResponse E W chargePointId confirmation err requestId s =
     (case err of
        Some e \<Rightarrow>
          (case (case e of
                   OcppError co de _ _ _ \<Rightarrow> Server_SendError E W chargePointId requestId co de None s
                 | _ \<Rightarrow> Server_SendError E W chargePointId requestId InternalError (error_text e) None s) of
             (None, s) \<Rightarrow> (Returns (), s)
           | (Some err, s) \<Rightarrow>
               (case Server_HandleFailedResponseError E W chargePointId requestId (Some err) [] s of
                  (Panics v, s) \<Rightarrow> (Panics v, s)
                | (Returns _, s) \<Rightarrow>
                    (Returns (), cs_error (AsyncError (cs_send_failed chargePointId requestId err)) s)))
      | None \<Rightarrow>
          (case confirmation of
             Some (Some response) \<Rightarrow>
               (case Server_SendResponse E W chargePointId requestId response s of
                  (None, s) \<Rightarrow> (Returns (), s)
                | (Some err, s) \<Rightarrow>
                    (case Server_HandleFailedResponseError E W chargePointId requestId (Some err)
                            (GetFeatureName response) s of
                       (Panics v, s) \<Rightarrow> (Panics v, s)
                     | (Returns _, s) \<Rightarrow>
                         (Returns (), cs_error (AsyncError (cs_response_failed chargePointId requestId err)) s)))
           | _ \<Rightarrow>
               (let err = Errorf (cs_empty_text chargePointId requestId);
                    s = snd (Server_SendError E W chargePointId requestId GenericError (error_text err) None s)
                in (Returns (), cs_error (AsyncError err) s))))"

definition cs_notImplementedError ::
  "env \<Rightarrow> server_outside \<Rightarrow> string \<Rightarrow> string \<Rightarrow> string \<Rightarrow> 'cb centralSystem \<Rightarrow> 'cb centralSystem" where
  "cs_notImplementedError E W chargePointId requestId action s =
     (case Server_SendError E W chargePointId requestId NotImplemented
             (''no handler for action '' @ action @ '' implemented'') None s of
        (None, s) \<Rightarrow> s
      | (Some err, s) \<Rightarrow>
          cs_error (AsyncError (Wrapped (''replying cp '' @ chargePointId @ '' to request '' @ requestId @
            '' with 'not implemented': '' @ error_text err) err)) s)"

definition cs_notSupportedError ::
  "env \<Rightarrow> server_outside \<Rightarrow> string \<Rightarrow> string \<Rightarrow> string \<Rightarrow> 'cb centralSystem \<Rightarrow> 'cb centralSystem" where
  "cs_notSupportedError E W chargePointId requestId action s =
     (case Server_SendError E W chargePointId requestId NotSupported
             (''unsupported action '' @ action @ '' on central system'') None s of
        (None, s) \<Rightarrow> s
      | (Some err, s) \<Rightarrow>
          cs_error (AsyncError (Wrapped (''replying cp '' @ chargePointId @ '' to request '' @ requestId @
            '' with 'not supported': '' @ error_text err) err)) s)"

text \<open>The \<open>switch\<close> over the profile's name: whether the handler for it is set.\<close>

definition cs_handler_set :: "('s, 'cb) cs_handlers \<Rightarrow> string \<Rightarrow> bool" where
  "cs_handler_set H name =
     (if name = core_ProfileName then cs_coreHandler H \<noteq> None
      else if name = localauth_ProfileName then cs_localAuthListHandler H
      else if name = firmware_ProfileName then cs_firmwareHandler H \<noteq> None
      else if name = reservation_ProfileName then cs_reservationHandler H
      else if name = remotetrigger_ProfileName then cs_remoteTriggerHandler H
      else if name = smartcharging_ProfileName then cs_smartChargingHandler H
      else if name = logging_ProfileName then cs_logHandler H \<noteq> None
      else if name = security_ProfileName then cs_securityHandler H \<noteq> None
      else if name = securefirmware_ProfileName then cs_secureFirmwareHandler H \<noteq> None
      else True)"

text \<open>
  The \<open>switch\<close> over the action: the method that is called, on a handler that may be nil, and the type
  the request is asserted to have.
\<close>

definition cs_switch :: "('s, 'cb) cs_handlers \<Rightarrow> string \<Rightarrow> ('s cs_method option \<times> string) option" where
  "cs_switch H action =
     (if action = BootNotificationFeatureName then
        Some (map_option cs_OnBootNotification (cs_coreHandler H), ''core.BootNotificationRequest'')
      else if action = AuthorizeFeatureName then
        Some (map_option cs_OnAuthorize (cs_coreHandler H), ''core.AuthorizeRequest'')
      else if action = DataTransferFeatureName then
        Some (map_option cs_OnDataTransfer (cs_coreHandler H), ''core.DataTransferRequest'')
      else if action = HeartbeatFeatureName then
        Some (map_option cs_OnHeartbeat (cs_coreHandler H), ''core.HeartbeatRequest'')
      else if action = MeterValuesFeatureName then
        Some (map_option cs_OnMeterValues (cs_coreHandler H), ''core.MeterValuesRequest'')
      else if action = StartTransactionFeatureName then
        Some (map_option cs_OnStartTransaction (cs_coreHandler H), ''core.StartTransactionRequest'')
      else if action = StopTransactionFeatureName then
        Some (map_option cs_OnStopTransaction (cs_coreHandler H), ''core.StopTransactionRequest'')
      else if action = StatusNotificationFeatureName then
        Some (map_option cs_OnStatusNotification (cs_coreHandler H), ''core.StatusNotificationRequest'')
      else if action = DiagnosticsStatusNotificationFeatureName then
        Some (map_option cs_OnDiagnosticsStatusNotification (cs_firmwareHandler H),
              ''firmware.DiagnosticsStatusNotificationRequest'')
      else if action = FirmwareStatusNotificationFeatureName then
        Some (map_option cs_OnFirmwareStatusNotification (cs_firmwareHandler H),
              ''firmware.FirmwareStatusNotificationRequest'')
      else if action = SignCertificateFeatureName then
        Some (map_option cs_OnSignCertificate (cs_securityHandler H), ''security.SignCertificateRequest'')
      else if action = SecurityEventNotificationFeatureName then
        Some (map_option cs_OnSecurityEventNotification (cs_securityHandler H),
              ''security.SecurityEventNotificationRequest'')
      else if action = LogStatusNotificationFeatureName then
        Some (map_option cs_OnLogStatusNotification (cs_logHandler H), ''logging.LogStatusNotificationRequest'')
      else if action = SignedFirmwareStatusNotificationFeatureName then
        Some (map_option cs_OnSignedFirmwareStatusNotification (cs_secureFirmwareHandler H),
              ''securefirmware.SignedFirmwareStatusNotificationRequest'')
      else None)"

text \<open>The call of the method: the assertion of the request's type and a nil handler may panic.\<close>

definition cs_call_method ::
  "env \<Rightarrow> 's cs_method option \<Rightarrow> string \<Rightarrow> string \<Rightarrow> request \<Rightarrow> ('s, message_body option \<times> go_error option) code" where
  "cs_call_method E m typ chargePointId req s =
     (case assert_type E typ req of
        Panics v \<Rightarrow> (Panics v, s)
      | Returns r \<Rightarrow> (case m of None \<Rightarrow> (Panics ''nil pointer dereference'', s) | Some f \<Rightarrow> f chargePointId r s))"

text \<open>The function started as a goroutine by \<open>handleIncomingRequest\<close>.\<close>

definition cs_process ::
  "env \<Rightarrow> server_outside \<Rightarrow> ('cb centralSystem, 'cb) cs_handlers \<Rightarrow> string \<Rightarrow> request \<Rightarrow> string \<Rightarrow> string \<Rightarrow>
     ('cb centralSystem, unit) code" where
  "cs_process E W H chargePointId req requestId action s =
     (case cs_switch H action of
        None \<Rightarrow> (Returns (), cs_notSupportedError E W chargePointId requestId action s)
      | Some (m, typ) \<Rightarrow>
          (case cs_call_method E m typ chargePointId req s of
             (Panics v, s) \<Rightarrow> (Panics v, s)
           | (Returns (confirmation, err), s) \<Rightarrow>
               cs_sendResponse E W chargePointId (Some confirmation) err requestId s))"

definition cs_handleIncomingRequest ::
  "env \<Rightarrow> server_outside \<Rightarrow> ('cb centralSystem, 'cb) cs_handlers \<Rightarrow> string \<Rightarrow> request \<Rightarrow> string \<Rightarrow> string \<Rightarrow>
     ('cb centralSystem, unit) code" where
  "cs_handleIncomingRequest E W H chargePointId req requestId action s =
     (Returns (),
      case GetProfileForFeature (s_Endpoint s) action of
        None \<Rightarrow> cs_notImplementedError E W chargePointId requestId action s
      | Some profile \<Rightarrow>
          (if \<not> cs_handler_set H (ProfileName profile) then
             cs_notSupportedError E W chargePointId requestId action s
           else go_start (GoRequest chargePointId req requestId action) s))"

section \<open>Answers to our requests\<close>

definition cs_invoke ::
  "env \<Rightarrow> ('cb centralSystem, 'cb) cs_handlers \<Rightarrow> 'cb callback \<Rightarrow> request \<Rightarrow> go_error option \<Rightarrow>
     ('cb centralSystem, unit) code" where
  "cs_invoke E H cb confirmation err s =
     invoke_callback E (cs_callback H) cb confirmation err
       (s\<lparr>cs_invoked := cs_invoked s @ [(cb, confirmation, err)]\<rparr>)"

definition cs_handleIncomingConfirmation ::
  "string \<Rightarrow> request \<Rightarrow> string \<Rightarrow> ('cb centralSystem, unit) code" where
  "cs_handleIncomingConfirmation chargePointId confirmation requestId s =
     (case Dequeue chargePointId requestId (cs_callbackQueue s) of
        (Some callback, q) \<Rightarrow>
          (Returns (), go_start (GoConfirmation chargePointId confirmation requestId callback)
             (s\<lparr>cs_callbackQueue := q\<rparr>))
      | (None, q) \<Rightarrow>
          (case confirmation of
             None \<Rightarrow> (Panics ''nil pointer dereference'', s)
           | Some m \<Rightarrow>
               (Returns (), cs_error (AsyncError (Errorf (''no handler available for call of type '' @
                  GetFeatureName m @ '' from client '' @ chargePointId @ '' for request '' @ requestId))) s)))"

definition cs_handleIncomingError ::
  "string \<Rightarrow> go_error \<Rightarrow> json iface \<Rightarrow> ('cb centralSystem, unit) code" where
  "cs_handleIncomingError chargePointId err details s =
     (case Dequeue chargePointId (MessageId err) (cs_callbackQueue s) of
        (Some callback, q) \<Rightarrow>
          (Returns (), go_start (GoError chargePointId err callback) (s\<lparr>cs_callbackQueue := q\<rparr>))
      | (None, q) \<Rightarrow>
          (Returns (), cs_error (AsyncError (Wrapped (''no handler available for call error '' @ error_text err @
             '' from client '' @ chargePointId) err)) s))"

definition cs_handleCanceledRequest ::
  "string \<Rightarrow> string \<Rightarrow> request \<Rightarrow> go_error \<Rightarrow> 'cb centralSystem \<Rightarrow> 'cb centralSystem" where
  "cs_handleCanceledRequest chargePointID rid req err s =
     go_start (GoCanceled chargePointID rid
       (case req of None \<Rightarrow> unknownFeatureName | Some r \<Rightarrow> GetFeatureName r) err) s"

text \<open>
  The handler that \<open>installDisconnectedHandler\<close> registers: every callback of the client is called, one
  after the other, then the user's handler; a panic ends the whole function.
\<close>

definition disconnect_error :: go_error where
  "disconnect_error =
     NewLocalTransportError GenericError ''client disconnected, no response received from client'' []"

fun cs_drain_loop ::
  "env \<Rightarrow> ('cb centralSystem, 'cb) cs_handlers \<Rightarrow> 'cb callback list \<Rightarrow> ('cb centralSystem, unit) code" where
  "cs_drain_loop E H [] s = (Returns (), s)"
| "cs_drain_loop E H (cb # cbs) s =
     and_then (cs_invoke E H cb None (Some disconnect_error)) (cs_drain_loop E H cbs) s"

definition cs_disconnected ::
  "env \<Rightarrow> ('cb centralSystem, 'cb) cs_handlers \<Rightarrow> string \<Rightarrow> ('cb centralSystem, unit) code" where
  "cs_disconnected E H chargePointId s =
     (let (cbs, q) = CallbackQueue_DrainAll chargePointId (cs_callbackQueue s)
      in and_then (cs_drain_loop E H cbs) (run_optional (cs_disconnectedHandler H) chargePointId)
           (s\<lparr>cs_callbackQueue := q\<rparr>))"

text \<open>
  The hook installed for recovered panics: the report on \<open>Errors()\<close> first, then the hook that was set
  on the endpoint before, then the facade's own.
\<close>

definition cs_panic_hook ::
  "('cb centralSystem, 'cb) cs_handlers \<Rightarrow> (HandlerPanic \<Rightarrow> ('cb centralSystem, unit) code) option \<Rightarrow>
     HandlerPanic \<Rightarrow> ('cb centralSystem, unit) code" where
  "cs_panic_hook H prev hp s =
     and_then (run_optional prev hp) (run_optional (cs_onHandlerPanic H) hp) (cs_error (HandlerPanicError hp) s)"

text \<open>
  \<open>NewCentralSystem\<close>: the state, and the handlers on the endpoint, starting from those (\<open>SH0\<close>) the
  caller registered on it. A nil endpoint is replaced by \<open>default_server\<close>, a new endpoint with the
  default profiles.
\<close>

definition cs_server_handlers ::
  "env \<Rightarrow> server_outside \<Rightarrow> ('cb centralSystem, 'cb) cs_handlers \<Rightarrow> 'cb centralSystem server_handlers \<Rightarrow>
     'cb centralSystem server_handlers" where
  "cs_server_handlers E W H SH0 =
     Server_SetOnHandlerPanic (Some (cs_panic_hook H (s_onHandlerPanic SH0)))
       (Server_SetErrorHandler (Some cs_handleIncomingError)
         (Server_SetResponseHandler (Some cs_handleIncomingConfirmation)
           (Server_SetRequestHandler (Some (cs_handleIncomingRequest E W H))
             (Server_SetDisconnectedClientHandler (Some (cs_disconnected E H)) SH0))))"

definition NewCentralSystem :: "Server \<Rightarrow> Server option \<Rightarrow> (string, 'cb centralSystem) outcome" where
  "NewCentralSystem default_server endpoint =
     (case newCentralSystem (Some (case endpoint of None \<Rightarrow> default_server | Some s \<Rightarrow> s)) of
        Panics v \<Rightarrow> Panics v
      | Returns s \<Rightarrow> Returns (Server_SetCanceledRequestHandler True s))"

section \<open>Goroutines\<close>

text \<open>
  Running a goroutine. The arguments of a deferred call are evaluated before the recovery is in place,
  so a nil confirmation would panic outside it; such an unrecovered panic ends the process.
\<close>

fun cs_run ::
  "env \<Rightarrow> server_outside \<Rightarrow> ('cb centralSystem, 'cb) cs_handlers \<Rightarrow> 'cb centralSystem server_handlers \<Rightarrow>
     'cb cs_goroutine \<Rightarrow> ('cb centralSystem, unit) code" where
  "cs_run E W H SH (GoRequest chargePointId req requestId action) s =
     (Returns (), Server_RecoverPanicGoroutine E W SH RequestHandlerKind chargePointId action requestId True
        (cs_process E W H chargePointId req requestId action) s)"
| "cs_run E W H SH (GoConfirmation chargePointId confirmation requestId callback) s =
     (case confirmation of
        None \<Rightarrow> (Panics ''nil pointer dereference'', s)
      | Some m \<Rightarrow>
          (Returns (), Server_RecoverPanicGoroutine E W SH ResponseHandlerKind chargePointId (GetFeatureName m)
             requestId False (cs_invoke E H callback confirmation None) s))"
| "cs_run E W H SH (GoError chargePointId err callback) s =
     (Returns (), Server_RecoverPanicGoroutine E W SH ErrorHandlerKind chargePointId [] (MessageId err) False
        (cs_invoke E H callback None (Some err)) s)"
| "cs_run E W H SH (GoCanceled chargePointID rid featureName err) s =
     (Returns (), Server_RecoverPanicGoroutine E W SH ErrorHandlerKind chargePointID featureName rid False
        (\<lambda>s. case Dequeue chargePointID rid (cs_callbackQueue s) of
               (Some callback, q) \<Rightarrow> cs_invoke E H callback None (Some err) (s\<lparr>cs_callbackQueue := q\<rparr>)
             | (None, q) \<Rightarrow>
                 (Returns (), cs_error (AsyncError (Wrapped (''no handler available for canceled request '' @
                    featureName @ '' for client '' @ chargePointID @ '': '' @ error_text err) err)) s)) s)"

section \<open>Exactly one answer\<close>

lemma result_frame_Some:
  "result_frame E ep rid resp = Some t \<longleftrightarrow>
   (\<exists>cr. CreateCallResult E ep resp rid = Inr cr \<and> CallResult_MarshalJSON E cr = Inr t)"
  by (auto simp: result_frame_def split: sum.splits)

lemma Server_SendResponse_frame:
  "server_network_up W \<Longrightarrow> result_frame E (s_Endpoint s) rid resp = Some t \<Longrightarrow>
   Server_SendResponse E W c rid resp s = (None, s\<lparr>s_sent := s_sent s @ [(c, t)]\<rparr>)"
  by (auto simp: result_frame_Some Server_SendResponse_def server_write_def server_network_up_def)

lemma Server_SendResponse_refused:
  "result_frame E (s_Endpoint s) rid resp = None \<Longrightarrow> fst (Server_SendResponse E W c rid resp s) \<noteq> None"
  by (auto simp: result_frame_def Server_SendResponse_def split: sum.splits)

lemma Server_SendError_any:
  assumes "json_array_laws E"
  shows "Server_SendError E W c rid code d None s = (None, s\<lparr>s_sent := s_sent s @ [(c, error_frame E rid code d)]\<rparr>) \<or>
    (\<exists>err. Server_SendError E W c rid code d None s = (Some err, s) \<and> response_error rid err)"
proof (cases "CreateCallError E rid code d None")
  case (Inl err)
  then have "\<exists>errs t. err = ValidationErrors errs t"
    by (auto simp: CreateCallError_def validate_outgoing_def Let_def split: option.splits if_splits)
  with Inl show ?thesis by (auto simp: Server_SendError_def)
next
  case (Inr ce)
  then have "CallError_MarshalJSON E ce = Inr (error_frame E rid code d)"
    using CallError_frame_text [OF assms] by (auto simp: CreateCallError_def Let_def split: option.splits)
  with Inr server_write_cases [of W c rid "error_frame E rid code d" s] show ?thesis
    by (auto simp: Server_SendError_def)
qed

interpretation csr: replier E rid "server_network_up W" s_Endpoint
    "\<lambda>t s. s\<lparr>s_sent := s_sent s @ [(c, t)]\<rparr>"
    "Server_SendResponse E W c rid" "\<lambda>code d. Server_SendError E W c rid code d None"
    s_sent "\<lambda>t. (c, t)" "\<lambda>e. cs_error (AsyncError e)" "cs_send_failed c rid" "cs_response_failed c rid"
    "cs_empty_text c rid"
  for E rid W c
proof unfold_locales
  fix s :: "'cb centralSystem" and t resp code d
  show "s_sent (s\<lparr>s_sent := s_sent s @ [(c, t)]\<rparr>) = s_sent s @ [(c, t)]" by simp
  show "s_sent (cs_error (AsyncError e) s) = s_sent s" for e by (simp add: cs_error_def)
  show "server_network_up W \<Longrightarrow> result_frame E (s_Endpoint s) rid resp = Some t \<Longrightarrow>
      Server_SendResponse E W c rid resp s = (None, s\<lparr>s_sent := s_sent s @ [(c, t)]\<rparr>)"
    by (rule Server_SendResponse_frame)
  show "result_frame E (s_Endpoint s) rid resp = None \<Longrightarrow> fst (Server_SendResponse E W c rid resp s) \<noteq> None"
    by (rule Server_SendResponse_refused)
  show "json_array_laws E \<Longrightarrow>
      Server_SendError E W c rid code d None s = (None, s\<lparr>s_sent := s_sent s @ [(c, error_frame E rid code d)]\<rparr>) \<or>
      (\<exists>err. Server_SendError E W c rid code d None s = (Some err, s) \<and> response_error rid err)"
    by (rule Server_SendError_any)
qed

lemma HandleFailed_returns:
  assumes "known_dialect (s_Endpoint s)" and "response_error rid err"
  shows "Server_HandleFailedResponseError E W c rid (Some err) f s = (Returns (), sr.handle_failed rid E W c err f s)"
  using failed_response_error_valid [OF assms, of f]
  by (auto simp: Server_HandleFailedResponseError_def sr.handle_failed_def)

text \<open>\<open>sendResponse\<close> is the answer of the interface.\<close>

lemma cs_sendResponse_reply:
  assumes "json_array_laws E" and "known_dialect (s_Endpoint s)"
  shows "cs_sendResponse E W c confirmation err rid s = (Returns (), csr.send_reply rid E W c confirmation err s)"
proof (cases err)
  case (Some e)
  have send: "(case e of OcppError co de _ _ _ \<Rightarrow> Server_SendError E W c rid co de None s
      | _ \<Rightarrow> Server_SendError E W c rid InternalError (error_text e) None s) =
      Server_SendError E W c rid (reply_code e) (reply_text e) None s"
    by (cases e) simp_all
  show ?thesis
    using Some Server_SendError_any [OF assms(1), of W c rid "reply_code e" "reply_text e" s]
      HandleFailed_returns [OF assms(2)]
    by (auto simp: cs_sendResponse_def csr.send_reply_def send)
next
  case None
  show ?thesis
  proof (cases "\<exists>resp. confirmation = Some (Some resp)")
    case True
    then obtain resp where "confirmation = Some (Some resp)" by blast
    with None Server_SendResponse_cases [of E s resp rid W c] HandleFailed_returns [OF assms(2)] show ?thesis
      by (auto simp: cs_sendResponse_def csr.send_reply_def)
  qed (use None in \<open>auto simp: cs_sendResponse_def csr.send_reply_def Let_def split: option.splits\<close>)
qed

lemma cs_refusals:
  assumes "json_array_laws E" and "accepts_call_errors E" and "server_network_up W" and "id_ok rid"
  shows "cs_notSupportedError E W c rid action s = s\<lparr>s_sent := s_sent s @
      [(c, error_frame E rid NotSupported (''unsupported action '' @ action @ '' on central system''))]\<rparr>"
    and "cs_notImplementedError E W c rid action s = s\<lparr>s_sent := s_sent s @
      [(c, error_frame E rid NotImplemented (''no handler for action '' @ action @ '' implemented''))]\<rparr>"
  by (simp_all only: cs_notSupportedError_def cs_notImplementedError_def Server_SendError_sent [OF assms]
      valid_codes prod.case option.case)

text \<open>The states in which nothing but the given frames has been sent.\<close>

definition sending :: "(string \<times> string) list \<Rightarrow> Endpoint \<Rightarrow> 'cb centralSystem set" where
  "sending x ep = {s. s_sent s = x \<and> s_Endpoint s = ep}"

text \<open>User code for requests and panics that sends no frame of its own.\<close>

definition quiet :: "('cb centralSystem, 'cb) cs_handlers \<Rightarrow> 'cb centralSystem server_handlers \<Rightarrow> bool" where
  "quiet H SH \<longleftrightarrow>
     (\<forall>x ep action m typ c r. cs_switch H action = Some (Some m, typ) \<longrightarrow> keeps (sending x ep) (m c r)) \<and>
     (\<forall>x ep hook hp. s_onHandlerPanic SH = Some hook \<longrightarrow> keeps (sending x ep) (hook hp))"

lemma quiet_call:
  assumes "quiet H SH" and "cs_switch H action = Some (m, typ)" and "cs_call_method E m typ c req s = (r, s1)"
  shows "s_sent s1 = s_sent s" and "s_Endpoint s1 = s_Endpoint s"
proof -
  have "s1 \<in> sending (s_sent s) (s_Endpoint s)"
  proof (cases "m = None \<or> (\<exists>v. assert_type E typ req = Panics v)")
    case True
    with assms(3) show ?thesis
      by (auto simp: cs_call_method_def sending_def split: outcome.splits option.splits)
  next
    case False
    then obtain f q where "m = Some f" "assert_type E typ req = Returns q" by (metis option.exhaust outcome.exhaust)
    moreover from this assms(1,2) have "keeps (sending (s_sent s) (s_Endpoint s)) (f c q)"
      unfolding quiet_def by blast
    ultimately show ?thesis
      using assms(3) keepsD [of "sending (s_sent s) (s_Endpoint s)" "f c q" s r s1]
      by (simp add: cs_call_method_def sending_def)
  qed
  then show "s_sent s1 = s_sent s" and "s_Endpoint s1 = s_Endpoint s" by (simp_all add: sending_def)
qed

text \<open>The frame that answers a request whose action has a profile with a handler.\<close>

definition cs_answer ::
  "env \<Rightarrow> ('cb centralSystem, 'cb) cs_handlers \<Rightarrow> string \<Rightarrow> request \<Rightarrow> string \<Rightarrow> string \<Rightarrow> 'cb centralSystem \<Rightarrow>
     string \<Rightarrow> bool" where
  "cs_answer E H c req rid action s f =
     (case cs_switch H action of
        None \<Rightarrow> f = error_frame E rid NotSupported (''unsupported action '' @ action @ '' on central system'')
      | Some (m, typ) \<Rightarrow>
          (case fst (cs_call_method E m typ c req s) of
             Panics v \<Rightarrow> f = error_frame E rid InternalError ''internal error while handling request''
           | Returns (confirmation, err) \<Rightarrow>
               answers E (s_Endpoint s) rid (cs_empty_text c rid) (Some confirmation) err f))"

lemma cs_run_request:
  assumes "json_array_laws E" and "accepts_call_errors E" and "server_network_up W" and "id_ok rid"
    and "known_dialect (s_Endpoint s)" and "quiet H SH"
  shows "\<exists>s2 f. cs_run E W H SH (GoRequest c req rid action) s = (Returns (), s2) \<and>
    s_sent s2 = s_sent s @ [(c, f)] \<and> cs_answer E H c req rid action s f"
proof (cases "cs_switch H action")
  case None
  then show ?thesis
    by (simp add: cs_process_def Server_RecoverPanicGoroutine_def recoverHandler_def cs_refusals [OF assms(1-4)]
        cs_answer_def)
next
  case (Some p)
  obtain m ty where p: "cs_switch H action = Some (m, ty)" using Some by (cases p) simp
  obtain r s1 where call: "cs_call_method E m ty c req s = (r, s1)" by (cases "cs_call_method E m ty c req s")
  note s1 = quiet_call [OF assms(6) p call]
  show ?thesis
  proof (cases r)
    case (Returns ce)
    obtain conf err where ce: "ce = (conf, err)" by (cases ce)
    have "known_dialect (s_Endpoint s1)" using assms(5) s1 by simp
    with csr.send_reply_one [OF assms(1-4), of s1 c "Some conf" err] cs_sendResponse_reply [OF assms(1), of s1] s1
    show ?thesis
      by (auto simp: cs_process_def Server_RecoverPanicGoroutine_def recoverHandler_def p call Returns ce cs_answer_def)
  next
    case (Panics v)
    let ?hp = "\<lparr>hp_ClientID = c, hp_Kind = RequestHandlerKind, hp_Action = action, hp_RequestID = rid,
        hp_Value = v, hp_Stack = s_debug_Stack SH\<rparr>"
    define s2 where "s2 = (case s_onHandlerPanic SH of None \<Rightarrow> s1 | Some f \<Rightarrow> snd (f ?hp s1))"
    have "s_sent s2 = s_sent s1"
      using assms(6) by (auto simp: s2_def quiet_def keeps_def sending_def split: option.splits)
    with s1 show ?thesis
      by (simp add: cs_process_def Server_RecoverPanicGoroutine_def recoverHandler_def reportHandlerPanic_def
          guardedCall_def server_internal_error_def Server_SendError_sent [OF assms(1-4)] p call Panics
          cs_answer_def s2_def [symmetric] option.case_distrib [of snd] cong: option.case_cong)
  qed
qed

end
