(* ===== verification/Ocpp16_Types.thy ===== *)
theory Ocpp16_Types
  imports Ocpp16_Facade
begin

text \<open>
  Which profile, request type and response type an endpoint with the default profiles finds for a
  feature. The facades' type assertions are checked against these.
\<close>

lemma find_profile:
  assumes "distinct (concat (map (map fst \<circ> Features) ps))" and "p \<in> set ps" and "(n, f) \<in> set (Features p)"
  shows "find (\<lambda>p. Profile_SupportsFeature p n) ps = Some p \<and> Profile_GetFeature p n = Some f"
  using assms
proof (induction ps)
  case (Cons p' ps)
  show ?case
  proof (cases "p' = p")
    case True
    with Cons.prems have "map_of (Features p) n = Some f" by simp
    with True show ?thesis by (simp add: Profile_SupportsFeature_def Profile_GetFeature_def)
  next
    case False
    with Cons.prems have "n \<notin> fst ` set (Features p')" by force
    with False Cons show ?thesis by (auto simp: Profile_SupportsFeature_def map_of_eq_None_iff)
  qed
qed simp

lemma default_profile:
  assumes "Profiles ep = DefaultProfiles" and "p \<in> set DefaultProfiles" and "(n, f) \<in> set (Features p)"
  shows "GetProfileForFeature ep n = Some p" and "Profile_GetFeature p n = Some f"
  using find_profile [OF DefaultProfiles_distinct assms(2,3)] by (simp_all add: GetProfileForFeature_def assms(1))

named_theorems table16 "the features of the default profiles, with their types"

lemma core_features [table16]: "Features core_Profile =
    [(BootNotificationFeatureName, BootNotificationFeature), (AuthorizeFeatureName, AuthorizeFeature),
     (ChangeAvailabilityFeatureName, ChangeAvailabilityFeature),
     (ChangeConfigurationFeatureName, ChangeConfigurationFeature), (ClearCacheFeatureName, ClearCacheFeature),
     (DataTransferFeatureName, DataTransferFeature), (GetConfigurationFeatureName, GetConfigurationFeature),
     (HeartbeatFeatureName, HeartbeatFeature), (MeterValuesFeatureName, MeterValuesFeature),
     (RemoteStartTransactionFeatureName, RemoteStartTransactionFeature),
     (RemoteStopTransactionFeatureName, RemoteStopTransactionFeature),
     (StartTransactionFeatureName, StartTransactionFeature),
     (StopTransactionFeatureName, StopTransactionFeature),
     (StatusNotificationFeatureName, StatusNotificationFeature), (ResetFeatureName, ResetFeature),
     (UnlockConnectorFeatureName, UnlockConnectorFeature)]"
  by (simp add: core_Profile_def NewProfile_def Profile_AddFeature_def features16 names16)

lemma localauth_features [table16]: "Features localauth_Profile =
    [(GetLocalListVersionFeatureName, GetLocalListVersionFeature),
     (SendLocalListFeatureName, SendLocalListFeature)]"
  by (simp add: localauth_Profile_def NewProfile_def Profile_AddFeature_def features16 names16)

lemma firmware_features [table16]: "Features firmware_Profile =
    [(GetDiagnosticsFeatureName, GetDiagnosticsFeature),
     (DiagnosticsStatusNotificationFeatureName, DiagnosticsStatusNotificationFeature),
     (FirmwareStatusNotificationFeatureName, FirmwareStatusNotificationFeature),
     (UpdateFirmwareFeatureName, UpdateFirmwareFeature)]"
  by (simp add: firmware_Profile_def NewProfile_def Profile_AddFeature_def features16 names16)

lemma reservation_features [table16]: "Features reservation_Profile =
    [(ReserveNowFeatureName, ReserveNowFeature), (CancelReservationFeatureName, CancelReservationFeature)]"
  by (simp add: reservation_Profile_def NewProfile_def Profile_AddFeature_def features16 names16)

lemma remotetrigger_features [table16]: "Features remotetrigger_Profile =
    [(TriggerMessageFeatureName, TriggerMessageFeature)]"
  by (simp add: remotetrigger_Profile_def NewProfile_def Profile_AddFeature_def features16 names16)

lemma smartcharging_features [table16]: "Features smartcharging_Profile =
    [(SetChargingProfileFeatureName, SetChargingProfileFeature),
     (ClearChargingProfileFeatureName, ClearChargingProfileFeature),
     (GetCompositeScheduleFeatureName, GetCompositeScheduleFeature)]"
  by (simp add: smartcharging_Profile_def NewProfile_def Profile_AddFeature_def features16 names16)

lemma logging_features [table16]: "Features logging_Profile =
    [(GetLogFeatureName, GetLogFeature), (LogStatusNotificationFeatureName, LogStatusNotificationFeature)]"
  by (simp add: logging_Profile_def NewProfile_def Profile_AddFeature_def features16 names16)

lemma security_features [table16]: "Features security_Profile =
    [(CertificateSignedFeatureName, CertificateSignedFeature),
     (SecurityEventNotificationFeatureName, SecurityEventNotificationFeature),
     (SignCertificateFeatureName, SignCertificateFeature)]"
  by (simp add: security_Profile_def NewProfile_def Profile_AddFeature_def features16 names16)

lemma extendedtriggermessage_features [table16]: "Features extendedtriggermessage_Profile =
    [(ExtendedTriggerMessageFeatureName, ExtendedTriggerMessageFeature)]"
  by (simp add: extendedtriggermessage_Profile_def NewProfile_def Profile_AddFeature_def features16 names16)

lemma certificates_features [table16]: "Features certificates_Profile =
    [(InstallCertificateFeatureName, InstallCertificateFeature),
     (DeleteCertificateFeatureName, DeleteCertificateFeature),
     (GetInstalledCertificateIdsFeatureName, GetInstalledCertificateIdsFeature)]"
  by (simp add: certificates_Profile_def NewProfile_def Profile_AddFeature_def features16 names16)

lemma securefirmware_features [table16]: "Features securefirmware_Profile =
    [(SignedFirmwareStatusNotificationFeatureName, SignedFirmwareStatusNotificationFeature),
     (SignedUpdateFirmwareFeatureName, SignedUpdateFirmwareFeature)]"
  by (simp add: securefirmware_Profile_def NewProfile_def Profile_AddFeature_def features16 names16)

lemma profile_names [table16]:
  "ProfileName core_Profile = core_ProfileName"
  "ProfileName localauth_Profile = localauth_ProfileName"
  "ProfileName firmware_Profile = firmware_ProfileName"
  "ProfileName reservation_Profile = reservation_ProfileName"
  "ProfileName remotetrigger_Profile = remotetrigger_ProfileName"
  "ProfileName smartcharging_Profile = smartcharging_ProfileName"
  "ProfileName logging_Profile = logging_ProfileName"
  "ProfileName security_Profile = security_ProfileName"
  "ProfileName extendedtriggermessage_Profile = extendedtriggermessage_ProfileName"
  "ProfileName certificates_Profile = certificates_ProfileName"
  "ProfileName securefirmware_Profile = securefirmware_ProfileName"
  by (simp_all add: profiles16 NewProfile_def Profile_AddFeature_def)

text \<open>The requests and the responses of a profile, by name and type.\<close>

definition request_types :: "Profile \<Rightarrow> (string \<times> string) set" where
  "request_types p = (\<lambda>(n, f). (n, GetRequestType f)) ` set (Features p)"

definition response_types :: "Profile \<Rightarrow> (string \<times> string) set" where
  "response_types p = (\<lambda>(n, f). (n, GetResponseType f)) ` set (Features p)"

lemma default_types:
  assumes "Profiles ep = DefaultProfiles" and "p \<in> set DefaultProfiles"
  shows "(n, ty) \<in> request_types p \<Longrightarrow>
      \<exists>f. GetProfileForFeature ep n = Some p \<and> Profile_GetFeature p n = Some f \<and> GetRequestType f = ty"
    and "(n, ty) \<in> response_types p \<Longrightarrow>
      \<exists>f. GetProfileForFeature ep n = Some p \<and> Profile_GetFeature p n = Some f \<and> GetResponseType f = ty"
  using default_profile [OF assms] by (auto simp: request_types_def response_types_def)

text \<open>Parsed messages carry a value of the type their feature declares.\<close>

lemma parsed_call_typed:
  assumes "typed_decoding E" and "ParseMessage E ep arr st = Returns (Inr (Some (MCall call)))"
  obtains p f r where "GetProfileForFeature ep (Call_Action call) = Some p"
    "Profile_GetFeature p (Call_Action call) = Some f" "Call_Payload call = Some r" "type_of E r = GetRequestType f"
proof (rule ParseMessage_branch [OF assms(2)])
  fix i assume "parse_call E ep arr i = Returns (Inr (Some (MCall call)))"
  then show thesis
    by (rule parse_call_payload) (use assms(1) that in \<open>auto simp: typed_decoding_def\<close>)
qed (auto simp: parse_call_result_def parse_call_error_def format_error_def validated_def Let_def
      split: if_splits json.splits option.splits sum.splits outcome.splits prod.splits bool.splits)

lemma parsed_result_typed:
  assumes "typed_decoding E" and "ParseMessage E ep arr st = Returns (Inr (Some (MCallResult r)))"
  obtains i q p f conf where "ClientState_GetPendingRequest i st = (Some q, True)"
    "GetProfileForFeature ep (GetFeatureName q) = Some p" "Profile_GetFeature p (GetFeatureName q) = Some f"
    "CallResult_Payload r = Some conf" "type_of E conf = GetResponseType f"
proof (rule ParseMessage_branch [OF assms(2)])
  fix i assume "parse_call_result E ep arr i st = Returns (Inr (Some (MCallResult r)))"
  then show thesis
    by (rule parse_call_result_payload) (use assms(1) that in \<open>auto simp: typed_decoding_def\<close>)
qed (auto simp: parse_call_def parse_call_error_def format_error_def validated_def Let_def
      split: if_splits json.splits option.splits sum.splits outcome.splits prod.splits bool.splits)

text \<open>All responses of the default profiles.\<close>

definition default_responses :: "(string \<times> string) set" where
  "default_responses = (\<Union>p\<in>set DefaultProfiles. response_types p)"

lemma response_profiles: "response_types p \<subseteq> default_responses" if "p \<in> set DefaultProfiles"
  using that by (auto simp: default_responses_def)

lemma core_responses [simp]:
  "(AuthorizeFeatureName, ''core.AuthorizeConfirmation'') \<in> default_responses"
  "(BootNotificationFeatureName, ''core.BootNotificationConfirmation'') \<in> default_responses"
  "(ChangeAvailabilityFeatureName, ''core.ChangeAvailabilityConfirmation'') \<in> default_responses"
  "(ChangeConfigurationFeatureName, ''core.ChangeConfigurationConfirmation'') \<in> default_responses"
  "(ClearCacheFeatureName, ''core.ClearCacheConfirmation'') \<in> default_responses"
  "(DataTransferFeatureName, ''core.DataTransferConfirmation'') \<in> default_responses"
  "(GetConfigurationFeatureName, ''core.GetConfigurationConfirmation'') \<in> default_responses"
  "(HeartbeatFeatureName, ''core.HeartbeatConfirmation'') \<in> default_responses"
  "(MeterValuesFeatureName, ''core.MeterValuesConfirmation'') \<in> default_responses"
  "(RemoteStartTransactionFeatureName, ''core.RemoteStartTransactionConfirmation'') \<in> default_responses"
  "(RemoteStopTransactionFeatureName, ''core.RemoteStopTransactionConfirmation'') \<in> default_responses"
  "(ResetFeatureName, ''core.ResetConfirmation'') \<in> default_responses"
  "(StartTransactionFeatureName, ''core.StartTransactionConfirmation'') \<in> default_responses"
  "(StatusNotificationFeatureName, ''core.StatusNotificationConfirmation'') \<in> default_responses"
  "(StopTransactionFeatureName, ''core.StopTransactionConfirmation'') \<in> default_responses"
  "(UnlockConnectorFeatureName, ''core.UnlockConnectorConfirmation'') \<in> default_responses"
  by (rule subsetD [OF response_profiles [of core_Profile]],
      simp add: DefaultProfiles_def, simp add: response_types_def table16 features16)+

lemma localauth_responses [simp]:
  "(GetLocalListVersionFeatureName, ''localauth.GetLocalListVersionConfirmation'') \<in> default_responses"
  "(SendLocalListFeatureName, ''localauth.SendLocalListConfirmation'') \<in> default_responses"
  by (rule subsetD [OF response_profiles [of localauth_Profile]],
      simp add: DefaultProfiles_def, simp add: response_types_def table16 features16)+

lemma firmware_responses [simp]:
  "(DiagnosticsStatusNotificationFeatureName, ''firmware.DiagnosticsStatusNotificationConfirmation'') \<in> default_responses"
  "(FirmwareStatusNotificationFeatureName, ''firmware.FirmwareStatusNotificationConfirmation'') \<in> default_responses"
  "(GetDiagnosticsFeatureName, ''firmware.GetDiagnosticsConfirmation'') \<in> default_responses"
  "(UpdateFirmwareFeatureName, ''firmware.UpdateFirmwareConfirmation'') \<in> default_responses"
  by (rule subsetD [OF response_profiles [of firmware_Profile]],
      simp add: DefaultProfiles_def, simp add: response_types_def table16 features16)+

lemma reservation_responses [simp]:
  "(CancelReservationFeatureName, ''reservation.CancelReservationConfirmation'') \<in> default_responses"
  "(ReserveNowFeatureName, ''reservation.ReserveNowConfirmation'') \<in> default_responses"
  by (rule subsetD [OF response_profiles [of reservation_Profile]],
      simp add: DefaultProfiles_def, simp add: response_types_def table16 features16)+

lemma remotetrigger_responses [simp]:
  "(TriggerMessageFeatureName, ''remotetrigger.TriggerMessageConfirmation'') \<in> default_responses"
  by (rule subsetD [OF response_profiles [of remotetrigger_Profile]],
      simp add: DefaultProfiles_def, simp add: response_types_def table16 features16)+

lemma smartcharging_responses [simp]:
  "(ClearChargingProfileFeatureName, ''smartcharging.ClearChargingProfileConfirmation'') \<in> default_responses"
  "(GetCompositeScheduleFeatureName, ''smartcharging.GetCompositeScheduleConfirmation'') \<in> default_responses"
  "(SetChargingProfileFeatureName, ''smartcharging.SetChargingProfileConfirmation'') \<in> default_responses"
  by (rule subsetD [OF response_profiles [of smartcharging_Profile]],
      simp add: DefaultProfiles_def, simp add: response_types_def table16 features16)+

lemma logging_responses [simp]:
  "(GetLogFeatureName, ''logging.GetLogResponse'') \<in> default_responses"
  "(LogStatusNotificationFeatureName, ''logging.LogStatusNotificationResponse'') \<in> default_responses"
  by (rule subsetD [OF response_profiles [of logging_Profile]],
      simp add: DefaultProfiles_def, simp add: response_types_def table16 features16)+

lemma security_responses [simp]:
  "(CertificateSignedFeatureName, ''security.CertificateSignedResponse'') \<in> default_responses"
  "(SecurityEventNotificationFeatureName, ''security.SecurityEventNotificationResponse'') \<in> default_responses"
  "(SignCertificateFeatureName, ''security.SignCertificateResponse'') \<in> default_responses"
  by (rule subsetD [OF response_profiles [of security_Profile]],
      simp add: DefaultProfiles_def, simp add: response_types_def table16 features16)+

lemma extendedtriggermessage_responses [simp]:
  "(ExtendedTriggerMessageFeatureName, ''extendedtriggermessage.ExtendedTriggerMessageResponse'') \<in> default_responses"
  by (rule subsetD [OF response_profiles [of extendedtriggermessage_Profile]],
      simp add: DefaultProfiles_def, simp add: response_types_def table16 features16)+

lemma certificates_responses [simp]:
  "(DeleteCertificateFeatureName, ''certificates.DeleteCertificateResponse'') \<in> default_responses"
  "(GetInstalledCertificateIdsFeatureName, ''certificates.GetInstalledCertificateIdsResponse'') \<in> default_responses"
  "(InstallCertificateFeatureName, ''certificates.InstallCertificateResponse'') \<in> default_responses"
  by (rule subsetD [OF response_profiles [of certificates_Profile]],
      simp add: DefaultProfiles_def, simp add: response_types_def table16 features16)+

lemma securefirmware_responses [simp]:
  "(SignedUpdateFirmwareFeatureName, ''securefirmware.SignedUpdateFirmwareResponse'') \<in> default_responses"
  "(SignedFirmwareStatusNotificationFeatureName, ''securefirmware.SignedFirmwareStatusNotificationResponse'') \<in> default_responses"
  by (rule subsetD [OF response_profiles [of securefirmware_Profile]],
      simp add: DefaultProfiles_def, simp add: response_types_def table16 features16)+

end
