(* ===== verification/Central_Safety.thy ===== *)
theory Central_Safety
  imports Central_System Ocpp16_Types
begin

text \<open>
  The central system over all interleavings: any sequence of sends, incoming messages, connections and
  disconnections, cancellations reported by the dispatcher, steps of its pump, and runs of goroutines in
  any order. Shown are that no callback is lost or called twice, that no event ends the process
  whatever the user's code does, that requests reach the right method with a value of the right type,
  and that the panic of one callback at a disconnection loses the remaining ones.
\<close>

section \<open>Events\<close>

datatype 'cb cs_event =
    SendEvent string "ctx option" string message_body "'cb callback"
  | MessageEvent string string
  | ConnectEvent string
  | DisconnectEvent string
  | CanceledEvent string string request go_error
  | PumpEvent ServerDispatcher
  | StopEvent
  | RunEvent nat

text \<open>A step that panics outside every recovery ends the process: no state follows.\<close>

definition survives :: "('s, 'a) code \<Rightarrow> 's \<Rightarrow> 's option" where
  "survives f s = (case f s of (Returns _, s) \<Rightarrow> Some s | (Panics _, _) \<Rightarrow> None)"

fun cs_step ::
  "env \<Rightarrow> server_outside \<Rightarrow> ('cb centralSystem, 'cb) cs_handlers \<Rightarrow> 'cb centralSystem server_handlers \<Rightarrow>
     'cb cs_event \<Rightarrow> 'cb centralSystem \<Rightarrow> 'cb centralSystem option" where
  "cs_step E W H SH (SendEvent i ctx c req cb) s = Some (snd (CS_SendRequestAsyncCtx E i ctx c req cb s))"
| "cs_step E W H SH (MessageEvent c t) s = survives (Server_ocppMessageHandler E W SH c t) s"
| "cs_step E W H SH (ConnectEvent c) s = survives (Server_onClientConnected SH c) s"
| "cs_step E W H SH (DisconnectEvent c) s = Some (Server_onClientDisconnected SH c s)"
| "cs_step E W H SH (CanceledEvent c i req err) s = Some (cs_handleCanceledRequest c i req err s)"
| "cs_step E W H SH (PumpEvent d) s = Some (s\<lparr>s_dispatcher := d\<rparr>)"
| "cs_step E W H SH StopEvent s = Some (CS_Stop s)"
| "cs_step E W H SH (RunEvent n) s =
     (if n < length (cs_goroutines s) then
        survives (cs_run E W H SH (cs_goroutines s ! n))
          (s\<lparr>cs_goroutines := take n (cs_goroutines s) @ drop (Suc n) (cs_goroutines s)\<rparr>)
      else Some s)"

fun cs_steps ::
  "env \<Rightarrow> server_outside \<Rightarrow> ('cb centralSystem, 'cb) cs_handlers \<Rightarrow> 'cb centralSystem server_handlers \<Rightarrow>
     'cb cs_event list \<Rightarrow> 'cb centralSystem \<Rightarrow> 'cb centralSystem option" where
  "cs_steps E W H SH [] s = Some s"
| "cs_steps E W H SH (e # es) s =
     (case cs_step E W H SH e s of None \<Rightarrow> None | Some s \<Rightarrow> cs_steps E W H SH es s)"

lemma survives_Some: "survives f s = Some s' \<Longrightarrow> s' = snd (f s)"
  by (auto simp: survives_def split: prod.splits outcome.splits)

lemma survives_keeps: "keeps S f \<Longrightarrow> s \<in> S \<Longrightarrow> survives f s = Some s' \<Longrightarrow> s' \<in> S"
  by (auto simp: keeps_def dest!: survives_Some)

section \<open>The user's code\<close>

text \<open>
  The code the user registers, on the facade and before construction on the endpoint (\<open>SH0\<close>), all stays
  within a set of states.
\<close>

definition user_keeps ::
  "'cb centralSystem set \<Rightarrow> ('cb centralSystem, 'cb) cs_handlers \<Rightarrow> 'cb centralSystem server_handlers \<Rightarrow> bool" where
  "user_keeps S H SH0 \<longleftrightarrow>
     (\<forall>action m typ c r. cs_switch H action = Some (Some m, typ) \<longrightarrow> keeps S (m c r)) \<and>
     (\<forall>cb r e. keeps S (cs_callback H cb r e)) \<and>
     (\<forall>h c. cs_disconnectedHandler H = Some h \<longrightarrow> keeps S (h c)) \<and>
     (\<forall>h hp. cs_onHandlerPanic H = Some h \<longrightarrow> keeps S (h hp)) \<and>
     (\<forall>h hp. s_onHandlerPanic SH0 = Some h \<longrightarrow> keeps S (h hp)) \<and>
     (\<forall>h c. newClientHandler SH0 = Some h \<longrightarrow> keeps S (h c)) \<and>
     (\<forall>h c e t j. s_invalidMessageHook SH0 = Some h \<longrightarrow> keeps S (h c e t j))"

lemmas cs_server_handlers_simps = cs_server_handlers_def Server_SetOnHandlerPanic_def Server_SetErrorHandler_def
  Server_SetResponseHandler_def Server_SetRequestHandler_def Server_SetDisconnectedClientHandler_def

text \<open>
  A set of states closed under what the facade itself does besides its callback queue: sending frames,
  reporting errors, changing the dispatcher in the ways the endpoint does, starting to answer a request.
\<close>

locale facade_set =
  fixes S :: "'cb centralSystem set"
  assumes sent: "s \<in> S \<Longrightarrow> s\<lparr>s_sent := x\<rparr> \<in> S"
    and error_kept [simp]: "s \<in> S \<Longrightarrow> cs_error e s \<in> S"
    and request: "s \<in> S \<Longrightarrow> s\<lparr>cs_goroutines := cs_goroutines s @ [GoRequest c (Some r) i a]\<rparr> \<in> S"
    and endpoint: "endpoint_keeps c S"
begin

lemma SendError_in [simp]: "s \<in> S \<Longrightarrow> snd (Server_SendError E W c i co d x s) \<in> S"
  by (rule SendError_kept [OF endpoint])

lemma refusals_kept [simp]:
  assumes "s \<in> S"
  shows "cs_notSupportedError E W c i a s \<in> S" and "cs_notImplementedError E W c i a s \<in> S"
  using SendError_in [OF assms, of E W c i NotSupported "''unsupported action '' @ a @ '' on central system''" None]
    SendError_in [OF assms, of E W c i NotImplemented "''no handler for action '' @ a @ '' implemented''" None]
  by (auto simp: cs_notSupportedError_def cs_notImplementedError_def split: prod.splits option.splits)

lemma handleIncomingRequest_keeps: "keeps S (cs_handleIncomingRequest E W H c (Some r) i a)"
  by (auto simp: keeps_def cs_handleIncomingRequest_def go_start_def request split: option.splits)

lemma SendResponse_in [simp]: "s \<in> S \<Longrightarrow> snd (Server_SendResponse E W c i r s) \<in> S"
  using Server_SendResponse_cases [of E s r i W c] sent by auto

lemma HandleFailed_keeps: "keeps S (Server_HandleFailedResponseError E W c i err f)"
  by (auto simp: keeps_def Server_HandleFailedResponseError_def split: outcome.splits)

lemma sendResponse_keeps: "keeps S (cs_sendResponse E W c conf err i)"
proof -
  note failed = keepsD [OF HandleFailed_keeps]
  have error: "snd (case Server_SendError E W c i co d None s of
        (None, s) \<Rightarrow> (Returns (), s)
      | (Some err, s) \<Rightarrow> (case Server_HandleFailedResponseError E W c i (Some err) [] s of
          (Returns _, s) \<Rightarrow> (Returns (), cs_error (AsyncError (cs_send_failed c i err)) s)
        | (Panics v, s) \<Rightarrow> (Panics v, s))) \<in> S" if "s \<in> S" for co d s
    using SendError_in [OF that, of E W c i co d None]
    by (auto split: prod.splits option.splits outcome.splits dest: failed)
  have response: "snd (case Server_SendResponse E W c i r s of
        (None, s) \<Rightarrow> (Returns (), s)
      | (Some err, s) \<Rightarrow> (case Server_HandleFailedResponseError E W c i (Some err) (GetFeatureName r) s of
          (Returns _, s) \<Rightarrow> (Returns (), cs_error (AsyncError (cs_response_failed c i err)) s)
        | (Panics v, s) \<Rightarrow> (Panics v, s))) \<in> S" if "s \<in> S" for r s
    using SendResponse_in [OF that, of E W c i r]
    by (auto split: prod.splits option.splits outcome.splits dest: failed)
  show ?thesis
    unfolding keeps_def
  proof
    fix s assume s: "s \<in> S"
    show "snd (cs_sendResponse E W c conf err i s) \<in> S"
    proof (cases err)
      case (Some e)
      then show ?thesis using error [OF s] by (cases e) (simp_all only: cs_sendResponse_def option.case go_error.case)
    next
      case None
      then show ?thesis
      proof (cases "\<exists>r. conf = Some (Some r)")
        case True
        then show ?thesis using response [OF s] None by (auto simp: cs_sendResponse_def)
      qed (use s None in \<open>auto simp: cs_sendResponse_def Let_def split: option.splits\<close>)
    qed
  qed
qed

lemma panic_hook_keeps: "user_keeps S H SH0 \<Longrightarrow> keeps S (cs_panic_hook H (s_onHandlerPanic SH0) hp)"
proof -
  assume user: "user_keeps S H SH0"
  have "keeps S (and_then (run_optional (s_onHandlerPanic SH0) hp) (run_optional (cs_onHandlerPanic H) hp))"
    using user by (intro and_then_keeps run_optional_keeps) (auto simp: user_keeps_def)
  then show ?thesis by (auto simp: keeps_def cs_panic_hook_def)
qed

lemma recover_into:
  assumes "user_keeps S H SH0" and "snd (f s) \<in> S"
  shows "Server_RecoverPanicGoroutine E W (cs_server_handlers E W H SH0) kind c a i b f s \<in> S"
  unfolding Server_RecoverPanicGoroutine_def
  by (rule recoverHandler_into)
    (use assms(2) in \<open>auto simp: cs_server_handlers_simps internal_error_keeps [OF endpoint] panic_hook_keeps [OF assms(1)]
      split: if_splits\<close>)

lemma process_keeps:
  assumes "user_keeps S H SH0"
  shows "keeps S (cs_process E W H c r i a)"
proof -
  have "keeps S (cs_call_method E m ty c r)" if "cs_switch H a = Some (m, ty)" for m ty
    using assms that
    by (auto simp: keeps_def cs_call_method_def user_keeps_def split: outcome.splits option.splits) blast
  then show ?thesis
    using sendResponse_keeps
    by (fastforce simp: keeps_def cs_process_def split: option.splits prod.splits outcome.splits)
qed

end

section \<open>No callback is lost or called twice\<close>

fun go_callbacks :: "'cb cs_goroutine \<Rightarrow> 'cb callback list" where
  "go_callbacks (GoConfirmation _ _ _ cb) = [cb]"
| "go_callbacks (GoError _ _ cb) = [cb]"
| "go_callbacks _ = []"

text \<open>The callbacks still to be called: those registered and those handed to a goroutine.\<close>

definition waiting :: "'cb centralSystem \<Rightarrow> 'cb callback multiset" where
  "waiting s = contents (cs_callbackQueue s) + mset (concat (map go_callbacks (cs_goroutines s)))"

text \<open>The states in which exactly the callbacks \<open>X\<close> were accepted but neither called nor are waiting.\<close>

definition owes :: "'cb callback multiset \<Rightarrow> 'cb centralSystem set" where
  "owes X = {s. CallbackQueue_ok (cs_callbackQueue s) \<and>
     mset (cs_accepted s) = mset (map fst (cs_invoked s)) + waiting s + X}"

lemma owes_frame [simp]:
  "s\<lparr>s_sent := x\<rparr> \<in> owes X \<longleftrightarrow> s \<in> owes X" "s\<lparr>s_dispatcher := d\<rparr> \<in> owes X \<longleftrightarrow> s \<in> owes X"
  "s\<lparr>s_server := w\<rparr> \<in> owes X \<longleftrightarrow> s \<in> owes X" "cs_error err s \<in> owes X \<longleftrightarrow> s \<in> owes X"
  "go_start (GoRequest c r i a) s \<in> owes X \<longleftrightarrow> s \<in> owes X"
  "go_start (GoCanceled c i f e) s \<in> owes X \<longleftrightarrow> s \<in> owes X"
  by (simp_all add: owes_def waiting_def go_start_def cs_error_def)

interpretation owes: facade_set "owes X" for X
  by unfold_locales (auto simp: endpoint_keeps_def server_complete_def go_start_def [symmetric] split: prod.splits)

lemma owes_taken:
  assumes "s \<in> owes X" and "Dequeue c i (cs_callbackQueue s) = (Some cb, q)"
  shows "s\<lparr>cs_callbackQueue := q\<rparr> \<in> owes (add_mset cb X)"
  using assms Dequeue_Some [OF _ assms(2)] by (simp add: owes_def waiting_def)

lemma owes_drained:
  assumes "s \<in> owes X" and "CallbackQueue_DrainAll c (cs_callbackQueue s) = (cbs, q)"
  shows "s\<lparr>cs_callbackQueue := q\<rparr> \<in> owes (mset cbs + X)"
  using assms DrainAll_contents [OF _ assms(2)] by (simp add: owes_def waiting_def ac_simps)

lemma owes_start:
  assumes "s \<in> owes (add_mset cb X)"
  shows "go_start (GoConfirmation c r i cb) s \<in> owes X" and "go_start (GoError c e cb) s \<in> owes X"
  using assms by (simp_all add: owes_def waiting_def go_start_def)

lemma owes_invoke:
  assumes "user_keeps (owes X) H SH0" and "s \<in> owes (add_mset cb X)"
  shows "snd (cs_invoke E H cb r e s) \<in> owes X"
proof -
  let ?s = "s\<lparr>cs_invoked := cs_invoked s @ [(cb, r, e)]\<rparr>"
  have s: "?s \<in> owes X" using assms(2) by (simp add: owes_def waiting_def)
  have "keeps (owes X) (cs_callback H cb' r' e')" for cb' r' e'
    using assms(1) by (simp add: user_keeps_def)
  with s invoke_callback_keeps [of "owes X" "cs_callback H"] show ?thesis
    by (cases cb) (auto simp: cs_invoke_def keeps_def split: option.splits)
qed

lemma confirmation_keeps: "keeps (owes X) (cs_handleIncomingConfirmation c (Some r) i)"
  by (auto simp: keeps_def cs_handleIncomingConfirmation_def owes_taken intro: owes_start
      split: prod.splits option.splits)

lemma error_keeps: "keeps (owes X) (cs_handleIncomingError c e x)"
  by (auto simp: keeps_def cs_handleIncomingError_def owes_taken intro: owes_start
      split: prod.splits option.splits)

lemma message_handlers_owes:
  "user_keeps (owes X) H SH0 \<Longrightarrow> message_handlers_keep (owes X) c (cs_server_handlers E W H SH0)"
  by (auto simp: message_handlers_keep_def cs_server_handlers_simps owes.handleIncomingRequest_keeps
      confirmation_keeps error_keeps owes.panic_hook_keeps) (auto simp: user_keeps_def)

text \<open>The callbacks return when a disconnection is reported to them.\<close>

definition callbacks_return :: "('cb centralSystem, 'cb) cs_handlers \<Rightarrow> bool" where
  "callbacks_return H \<longleftrightarrow> (\<forall>cb err s. fst (cs_callback H cb None err s) = Returns ())"

lemma invoke_returns: "callbacks_return H \<Longrightarrow> fst (cs_invoke E H cb None err s) = Returns ()"
  by (cases cb) (simp_all add: cs_invoke_def callbacks_return_def)

lemma drain_loop_owes:
  assumes "\<And>X. user_keeps (owes X) H SH0" and "callbacks_return H" and "s \<in> owes (mset cbs + X)"
  shows "fst (cs_drain_loop E H cbs s) = Returns () \<and> snd (cs_drain_loop E H cbs s) \<in> owes X"
  using assms(3)
proof (induction cbs arbitrary: s)
  case (Cons cb cbs)
  have "fst (cs_invoke E H cb None (Some disconnect_error) s) = Returns ()"
    by (rule invoke_returns [OF assms(2)])
  moreover have "snd (cs_invoke E H cb None (Some disconnect_error) s) \<in> owes (mset cbs + X)"
    using owes_invoke [OF assms(1)] Cons.prems by simp
  ultimately show ?case
    using Cons.IH by (cases "cs_invoke E H cb None (Some disconnect_error) s") (auto simp: and_then_def)
qed simp

lemma disconnected_owes:
  assumes "\<And>X. user_keeps (owes X) H SH0" and "callbacks_return H" and "s \<in> owes X"
  shows "snd (cs_disconnected E H c s) \<in> owes X"
proof -
  obtain cbs q where d: "CallbackQueue_DrainAll c (cs_callbackQueue s) = (cbs, q)"
    by (cases "CallbackQueue_DrainAll c (cs_callbackQueue s)")
  obtain r s1 where run: "cs_drain_loop E H cbs (s\<lparr>cs_callbackQueue := q\<rparr>) = (r, s1)"
    by (cases "cs_drain_loop E H cbs (s\<lparr>cs_callbackQueue := q\<rparr>)")
  have "r = Returns () \<and> s1 \<in> owes X"
    using drain_loop_owes [OF assms(1,2) owes_drained [OF assms(3) d], of E] run by simp
  moreover have "keeps (owes X) (run_optional (cs_disconnectedHandler H) c)"
    using assms(1) [of X] by (intro run_optional_keeps) (simp add: user_keeps_def)
  ultimately show ?thesis using run by (simp add: cs_disconnected_def d and_then_def keeps_def)
qed

lemma enqueue_owes:
  assumes "s \<in> owes X"
  shows "snd (cs_enqueue E i ctx c req cb s) \<in> owes X"
proof -
  obtain r s1 where send: "Server_SendRequestCtx E i ctx c req s = (r, s1)"
    by (cases "Server_SendRequestCtx E i ctx c req s")
  then obtain d where s1: "s1 = s\<lparr>s_dispatcher := d\<rparr>" using Server_SendRequestCtx_state by blast
  show ?thesis
  proof (cases r)
    case (Inr rid)
    obtain err q where reg: "register_callback c rid cb (cs_callbackQueue s) = (err, q)"
      by (cases "register_callback c rid cb (cs_callbackQueue s)")
    with register_callback_contents [OF _ reg] assms Inr send s1 show ?thesis
      by (auto simp: cs_enqueue_def TryQueue_def owes_def waiting_def)
  qed (use assms send s1 in \<open>simp add: cs_enqueue_def TryQueue_def owes_def waiting_def\<close>)
qed

lemma run_owes:
  assumes "user_keeps (owes X) H SH0" and "s \<in> owes (mset (go_callbacks g) + X)"
    and "survives (cs_run E W H (cs_server_handlers E W H SH0) g) s = Some s'"
  shows "s' \<in> owes X"
proof (cases g)
  case (GoRequest c r i a)
  then have "s \<in> owes X" using assms(2) by simp
  with owes.process_keeps [OF assms(1), of E W c r i a] have "snd (cs_process E W H c r i a s) \<in> owes X"
    by (simp add: keeps_def)
  with GoRequest assms(3) show ?thesis by (auto simp: survives_def owes.recover_into [OF assms(1)])
next
  case (GoConfirmation c r i cb)
  then have "snd (cs_invoke E H cb r None s) \<in> owes X" using assms(2) owes_invoke [OF assms(1)] by simp
  with GoConfirmation assms(3) show ?thesis
    by (auto simp: survives_def owes.recover_into [OF assms(1)] split: option.splits)
next
  case (GoError c e cb)
  then have "snd (cs_invoke E H cb None (Some e) s) \<in> owes X" using assms(2) owes_invoke [OF assms(1)] by simp
  with GoError assms(3) show ?thesis by (auto simp: survives_def owes.recover_into [OF assms(1)])
next
  case (GoCanceled c i f e)
  then have s: "s \<in> owes X" using assms(2) by simp
  have "snd (case Dequeue c i (cs_callbackQueue s) of
        (Some cb, q) \<Rightarrow> cs_invoke E H cb None (Some e) (s\<lparr>cs_callbackQueue := q\<rparr>)
      | (None, q) \<Rightarrow> (Returns (), cs_error x s)) \<in> owes X" for x
    using s owes_taken [OF s] owes_invoke [OF assms(1)] by (auto split: prod.splits option.splits)
  with GoCanceled assms(3) show ?thesis by (auto simp: survives_def owes.recover_into [OF assms(1)])
qed

text \<open>What the facade and the endpoint do in a connection.\<close>

lemma connected_in:
  assumes "user_keeps S H SH0" and "\<And>d. CreateClient c (s_dispatcher s) = Some d \<Longrightarrow> s\<lparr>s_dispatcher := d\<rparr> \<in> S"
    and "s \<in> S" and "\<And>hp. keeps S (cs_panic_hook H (s_onHandlerPanic SH0) hp)"
  shows "snd (Server_onClientConnected (cs_server_handlers E W H SH0) c s) \<in> S"
  using assms
  by (auto simp: Server_onClientConnected_def cs_server_handlers_simps Let_def user_keeps_def
      intro!: recoverHandler_keeps split: option.splits)

lemma run_removed:
  assumes "n < length (cs_goroutines s)" and "s \<in> owes {#}"
  shows "s\<lparr>cs_goroutines := take n (cs_goroutines s) @ drop (Suc n) (cs_goroutines s)\<rparr>
    \<in> owes (mset (go_callbacks (cs_goroutines s ! n)))"
proof -
  have "mset (concat (map go_callbacks (cs_goroutines s))) =
      mset (go_callbacks (cs_goroutines s ! n)) +
      mset (concat (map go_callbacks (take n (cs_goroutines s) @ drop (Suc n) (cs_goroutines s))))"
    by (subst id_take_nth_drop [OF assms(1)]) simp
  with assms(2) show ?thesis by (simp add: owes_def waiting_def)
qed

lemma cs_step_owes:
  assumes user: "\<And>X. user_keeps (owes X) H SH0"
    and returns: "\<And>c. e = DisconnectEvent c \<Longrightarrow> callbacks_return H"
    and s: "s \<in> owes {#}" and step: "cs_step E W H (cs_server_handlers E W H SH0) e s = Some s'"
  shows "s' \<in> owes {#}"
proof (cases e)
  case (SendEvent i ctx c req cb)
  with step s enqueue_owes [OF s] show ?thesis by (auto simp: CS_SendRequestAsyncCtx_def Let_def split: if_splits)
next
  case (MessageEvent c t)
  with step server_message_kept [OF owes.endpoint message_handlers_owes [OF user] s] show ?thesis
    by (auto dest: survives_Some)
next
  case (ConnectEvent c)
  with step connected_in [OF user _ s owes.panic_hook_keeps [OF user]] s show ?thesis by (auto dest: survives_Some)
next
  case (DisconnectEvent c)
  then have "snd (cs_disconnected E H c s1) \<in> owes {#}" if "s1 \<in> owes {#}" for s1
    using disconnected_owes [OF user returns that] by simp
  with DisconnectEvent step s show ?thesis
    by (auto simp: Server_onClientDisconnected_def cs_server_handlers_simps Let_def owes.panic_hook_keeps [OF user]
        intro!: recoverHandler_into)
next
  case (CanceledEvent c i req err)
  with step s show ?thesis by (auto simp: cs_handleCanceledRequest_def)
next
  case (RunEvent n)
  show ?thesis
  proof (cases "n < length (cs_goroutines s)")
    case True
    with run_removed [OF True s] have "s\<lparr>cs_goroutines := take n (cs_goroutines s) @ drop (Suc n) (cs_goroutines s)\<rparr>
        \<in> owes (mset (go_callbacks (cs_goroutines s ! n)) + {#})" by simp
    from run_owes [OF user this] True RunEvent step show ?thesis by simp
  qed (use RunEvent step s in simp)
qed (use step s in \<open>auto simp: CS_Stop_def Server_Stop_def Let_def\<close>)

lemma cs_steps_owes:
  assumes "\<And>X. user_keeps (owes X) H SH0" and "callbacks_return H \<or> (\<forall>c. DisconnectEvent c \<notin> set es)"
    and "s \<in> owes {#}" and "cs_steps E W H (cs_server_handlers E W H SH0) es s = Some s'"
  shows "s' \<in> owes {#}"
  using assms(2-4)
proof (induction es arbitrary: s)
  case (Cons e es)
  then obtain s1 where s1: "cs_step E W H (cs_server_handlers E W H SH0) e s = Some s1"
    "cs_steps E W H (cs_server_handlers E W H SH0) es s1 = Some s'" by (auto split: option.splits)
  moreover have "s1 \<in> owes {#}" by (rule cs_step_owes [OF assms(1) _ Cons.prems(2) s1(1)]) (use Cons.prems(1) in auto)
  ultimately show ?case using Cons by auto
qed simp

lemma NewCentralSystem_owes: "NewCentralSystem ds ep = Returns s \<Longrightarrow> s \<in> owes {#}"
  by (auto simp: NewCentralSystem_def newCentralSystem_def Server_SetCanceledRequestHandler_def owes_def waiting_def
      cbq.empty_ok cbq.empty_content)

section \<open>No event ends the process\<close>

text \<open>
  The states in which no goroutine is about to dereference a nil confirmation and the endpoint can
  parse every message.
\<close>

fun go_safe :: "'cb cs_goroutine \<Rightarrow> bool" where
  "go_safe (GoConfirmation _ r _ _) \<longleftrightarrow> r \<noteq> None"
| "go_safe _ \<longleftrightarrow> True"

definition cs_safe :: "'cb centralSystem set" where
  "cs_safe = {s. known_dialect (s_Endpoint s) \<and> disp_safe (s_dispatcher s) \<and> list_all go_safe (cs_goroutines s)}"

lemma cs_safe_frame [simp]:
  "s\<lparr>s_sent := x\<rparr> \<in> cs_safe \<longleftrightarrow> s \<in> cs_safe" "s\<lparr>cs_callbackQueue := q\<rparr> \<in> cs_safe \<longleftrightarrow> s \<in> cs_safe"
  "s\<lparr>cs_accepted := as\<rparr> \<in> cs_safe \<longleftrightarrow> s \<in> cs_safe" "s\<lparr>cs_invoked := is\<rparr> \<in> cs_safe \<longleftrightarrow> s \<in> cs_safe"
  "cs_error err s \<in> cs_safe \<longleftrightarrow> s \<in> cs_safe" "s\<lparr>s_server := w\<rparr> \<in> cs_safe \<longleftrightarrow> s \<in> cs_safe"
  by (simp_all add: cs_safe_def cs_error_def)

lemma cs_safe_dispatcher: "s \<in> cs_safe \<Longrightarrow> disp_safe d \<Longrightarrow> s\<lparr>s_dispatcher := d\<rparr> \<in> cs_safe"
  by (simp add: cs_safe_def)

lemma cs_safe_start: "s \<in> cs_safe \<Longrightarrow> go_safe g \<Longrightarrow> go_start g s \<in> cs_safe"
  by (simp add: cs_safe_def go_start_def)

interpretation safe: facade_set cs_safe
proof unfold_locales
  fix s :: "'cb centralSystem" and c r i a assume s: "s \<in> cs_safe"
  then show "s\<lparr>cs_goroutines := cs_goroutines s @ [GoRequest c (Some r) i a]\<rparr> \<in> cs_safe" by (simp add: cs_safe_def)
next
  fix c
  show "endpoint_keeps c cs_safe"
    unfolding endpoint_keeps_def
  proof (intro ballI conjI allI impI)
    fix s :: "'cb centralSystem" and rid r sd st assume s: "s \<in> cs_safe"
    then show "s\<lparr>s_sent := x\<rparr> \<in> cs_safe" for x by simp
    have "disp_safe (s_dispatcher s)" using s by (simp add: cs_safe_def)
    with s show "snd (server_complete c rid s) \<in> cs_safe"
      using disp_safe_complete [of s c rid] by (auto simp: server_complete_def cs_safe_def split: prod.splits)
    assume "ServerState_GetClientState c (sd_pending (s_dispatcher s)) = (r, sd, st)"
    with s show "s\<lparr>s_dispatcher := (s_dispatcher s)\<lparr>sd_pending := (sd, st)\<rparr>\<rparr> \<in> cs_safe"
      by (auto simp: cs_safe_def disp_safe_lookup)
  qed
qed simp_all

lemma invoke_safe: "user_keeps cs_safe H SH0 \<Longrightarrow> keeps cs_safe (cs_invoke E H cb r e)"
proof -
  assume "user_keeps cs_safe H SH0"
  then have "keeps cs_safe (cs_callback H cb' r' e')" for cb' r' e' by (simp add: user_keeps_def)
  with invoke_callback_keeps [of cs_safe "cs_callback H"] show ?thesis
    by (cases cb) (auto simp: cs_invoke_def keeps_def split: option.splits)
qed

lemma message_handlers_safe:
  "user_keeps cs_safe H SH0 \<Longrightarrow> message_handlers_keep cs_safe c (cs_server_handlers E W H SH0)"
proof -
  assume user: "user_keeps cs_safe H SH0"
  have "keeps cs_safe (cs_handleIncomingConfirmation c (Some r) i)" for r i
    by (auto simp: keeps_def cs_handleIncomingConfirmation_def intro: cs_safe_start split: prod.splits option.splits)
  moreover have "keeps cs_safe (cs_handleIncomingError c e x)" for e x
    by (auto simp: keeps_def cs_handleIncomingError_def intro: cs_safe_start split: prod.splits option.splits)
  ultimately show ?thesis
    using user safe.panic_hook_keeps [OF user]
    by (auto simp: message_handlers_keep_def cs_server_handlers_simps safe.handleIncomingRequest_keeps)
      (auto simp: user_keeps_def)
qed

lemma disconnected_safe:
  assumes "user_keeps cs_safe H SH0"
  shows "keeps cs_safe (cs_disconnected E H c)"
proof -
  have "keeps cs_safe (cs_drain_loop E H cbs)" for cbs
  proof (induction cbs)
    case (Cons cb cbs)
    with and_then_keeps [OF invoke_safe [OF assms] Cons] show ?case by (simp add: keeps_def)
  qed (simp add: keeps_def)
  moreover have "keeps cs_safe (run_optional (cs_disconnectedHandler H) c)"
    using assms by (intro run_optional_keeps) (simp add: user_keeps_def)
  ultimately have "keeps cs_safe (and_then (cs_drain_loop E H cbs) (run_optional (cs_disconnectedHandler H) c))" for cbs
    by (rule and_then_keeps)
  then show ?thesis by (auto simp: keeps_def cs_disconnected_def Let_def split: prod.splits)
qed

lemma run_safe:
  assumes user: "user_keeps cs_safe H SH0" and s: "s \<in> cs_safe" and g: "go_safe g"
  shows "\<exists>s'. survives (cs_run E W H (cs_server_handlers E W H SH0) g) s = Some s' \<and> s' \<in> cs_safe"
proof -
  note recover = safe.recover_into [OF user]
  have inv: "snd (cs_invoke E H cb r e s1) \<in> cs_safe" if "s1 \<in> cs_safe" for cb r e s1
    using invoke_safe [OF user, of E cb r e] that by (simp add: keeps_def)
  show ?thesis
  proof (cases g)
    case (GoRequest c r i a)
    have "snd (cs_process E W H c r i a s) \<in> cs_safe"
      using safe.process_keeps [OF user, of E W c r i a] s by (simp add: keeps_def)
    with GoRequest show ?thesis by (simp add: survives_def recover)
  qed (use g s inv in \<open>auto simp: survives_def intro!: recover split: prod.splits option.splits\<close>)
qed

lemma cs_step_safe:
  assumes user: "user_keeps cs_safe H SH0" and s: "s \<in> cs_safe" and pump: "\<And>d. e = PumpEvent d \<Longrightarrow> disp_safe d"
  shows "\<exists>s'. cs_step E W H (cs_server_handlers E W H SH0) e s = Some s' \<and> s' \<in> cs_safe"
proof (cases e)
  case (SendEvent i ctx c req cb)
  obtain r s1 where send: "Server_SendRequestCtx E i ctx c req s = (r, s1)"
    by (cases "Server_SendRequestCtx E i ctx c req s")
  then have "s1 \<in> cs_safe"
    using Server_SendRequestCtx_state [OF send] disp_safe_SendRequest s by (auto simp: cs_safe_def)
  then have "snd (cs_enqueue E i ctx c req cb s) \<in> cs_safe"
    by (auto simp: cs_enqueue_def TryQueue_def send Let_def split: sum.splits prod.splits)
  with SendEvent s show ?thesis by (simp add: CS_SendRequestAsyncCtx_def Let_def)
next
  case (MessageEvent c t)
  have "\<exists>err s1. Server_ocppMessageHandler E W (cs_server_handlers E W H SH0) c t s = (Returns err, s1)"
    using s by (intro server_message_returns) (auto simp: cs_safe_def disp_safe_def)
  then obtain err s1 where "Server_ocppMessageHandler E W (cs_server_handlers E W H SH0) c t s = (Returns err, s1)"
    by blast
  moreover have "snd (Server_ocppMessageHandler E W (cs_server_handlers E W H SH0) c t s) \<in> cs_safe"
    by (rule server_message_kept [OF safe.endpoint message_handlers_safe [OF user] s])
  ultimately show ?thesis using MessageEvent by (simp add: survives_def)
next
  case (ConnectEvent c)
  obtain d where d: "CreateClient c (s_dispatcher s) = Some d" "disp_safe d"
    using disp_safe_CreateClient s by (auto simp: cs_safe_def)
  then have "snd (Server_onClientConnected (cs_server_handlers E W H SH0) c s) \<in> cs_safe"
    by (intro connected_in [OF user _ s safe.panic_hook_keeps [OF user]]) (auto intro: cs_safe_dispatcher [OF s])
  with d ConnectEvent show ?thesis by (simp add: survives_def Server_onClientConnected_def Let_def)
next
  case (DisconnectEvent c)
  have "disp_safe (s_dispatcher s)" using s by (simp add: cs_safe_def)
  from disp_safe_Disconnect [OF this] DisconnectEvent show ?thesis
    by (auto simp: Server_onClientDisconnected_def cs_server_handlers_simps Let_def disconnected_safe [OF user]
        safe.panic_hook_keeps [OF user] intro!: recoverHandler_keeps cs_safe_dispatcher [OF s])
next
  case (CanceledEvent c i req err)
  with s show ?thesis by (simp add: cs_handleCanceledRequest_def cs_safe_start)
next
  case (PumpEvent d)
  with s pump show ?thesis by (simp add: cs_safe_dispatcher)
next
  case StopEvent
  with s disp_safe_Stop show ?thesis by (simp add: CS_Stop_def Server_Stop_def Let_def cs_safe_def)
next
  case (RunEvent n)
  let ?gs = "take n (cs_goroutines s) @ drop (Suc n) (cs_goroutines s)"
  have gs: "list_all go_safe (cs_goroutines s)" using s by (simp add: cs_safe_def)
  then have "s\<lparr>cs_goroutines := ?gs\<rparr> \<in> cs_safe"
    using s by (auto simp: cs_safe_def list_all_iff dest: in_set_takeD in_set_dropD)
  with run_safe [OF user this, of "cs_goroutines s ! n"] gs RunEvent s show ?thesis
    by (auto simp: list_all_length)
qed

lemma cs_steps_safe:
  assumes "user_keeps cs_safe H SH0" and "s \<in> cs_safe" and "\<And>d. PumpEvent d \<in> set es \<Longrightarrow> disp_safe d"
  shows "\<exists>s'. cs_steps E W H (cs_server_handlers E W H SH0) es s = Some s' \<and> s' \<in> cs_safe"
  using assms(2,3)
proof (induction es arbitrary: s)
  case (Cons e es)
  obtain s1 where "cs_step E W H (cs_server_handlers E W H SH0) e s = Some s1" "s1 \<in> cs_safe"
    using cs_step_safe [OF assms(1) Cons.prems(1), of e] Cons.prems(2) by force
  with Cons.IH [of s1] Cons.prems(2) show ?case by simp
qed simp

lemma NewCentralSystem_safe:
  "NewCentralSystem ds ep = Returns s \<Longrightarrow> disp_safe (s_dispatcher s) \<Longrightarrow> s \<in> cs_safe"
  by (auto simp: NewCentralSystem_def newCentralSystem_def Server_SetCanceledRequestHandler_def cs_safe_def
      Endpoint_SetDialect_def)

section \<open>Types of requests and confirmations\<close>

lemma cs_handler_set_names:
  "cs_handler_set H core_ProfileName \<longleftrightarrow> cs_coreHandler H \<noteq> None"
  "cs_handler_set H firmware_ProfileName \<longleftrightarrow> cs_firmwareHandler H \<noteq> None"
  "cs_handler_set H logging_ProfileName \<longleftrightarrow> cs_logHandler H \<noteq> None"
  "cs_handler_set H security_ProfileName \<longleftrightarrow> cs_securityHandler H \<noteq> None"
  "cs_handler_set H securefirmware_ProfileName \<longleftrightarrow> cs_secureFirmwareHandler H \<noteq> None"
  by (simp_all add: cs_handler_set_def names16)

lemma cs_requests:
  "(BootNotificationFeatureName, ''core.BootNotificationRequest'') \<in> request_types core_Profile"
  "(AuthorizeFeatureName, ''core.AuthorizeRequest'') \<in> request_types core_Profile"
  "(DataTransferFeatureName, ''core.DataTransferRequest'') \<in> request_types core_Profile"
  "(HeartbeatFeatureName, ''core.HeartbeatRequest'') \<in> request_types core_Profile"
  "(MeterValuesFeatureName, ''core.MeterValuesRequest'') \<in> request_types core_Profile"
  "(StartTransactionFeatureName, ''core.StartTransactionRequest'') \<in> request_types core_Profile"
  "(StopTransactionFeatureName, ''core.StopTransactionRequest'') \<in> request_types core_Profile"
  "(StatusNotificationFeatureName, ''core.StatusNotificationRequest'') \<in> request_types core_Profile"
  "(DiagnosticsStatusNotificationFeatureName, ''firmware.DiagnosticsStatusNotificationRequest'') \<in> request_types firmware_Profile"
  "(FirmwareStatusNotificationFeatureName, ''firmware.FirmwareStatusNotificationRequest'') \<in> request_types firmware_Profile"
  "(SignCertificateFeatureName, ''security.SignCertificateRequest'') \<in> request_types security_Profile"
  "(SecurityEventNotificationFeatureName, ''security.SecurityEventNotificationRequest'') \<in> request_types security_Profile"
  "(LogStatusNotificationFeatureName, ''logging.LogStatusNotificationRequest'') \<in> request_types logging_Profile"
  "(SignedFirmwareStatusNotificationFeatureName, ''securefirmware.SignedFirmwareStatusNotificationRequest'') \<in> request_types securefirmware_Profile"
  by (simp_all add: request_types_def table16 features16)

lemma cs_switch_types:
  assumes "cs_switch H a = Some (m, ty)"
  shows "\<exists>p\<in>set DefaultProfiles. (a, ty) \<in> request_types p \<and> (cs_handler_set H (ProfileName p) \<longrightarrow> m \<noteq> None)"
proof -
  consider "(a, ty) \<in> request_types core_Profile" "cs_coreHandler H \<noteq> None \<longrightarrow> m \<noteq> None"
    | "(a, ty) \<in> request_types firmware_Profile" "cs_firmwareHandler H \<noteq> None \<longrightarrow> m \<noteq> None"
    | "(a, ty) \<in> request_types logging_Profile" "cs_logHandler H \<noteq> None \<longrightarrow> m \<noteq> None"
    | "(a, ty) \<in> request_types security_Profile" "cs_securityHandler H \<noteq> None \<longrightarrow> m \<noteq> None"
    | "(a, ty) \<in> request_types securefirmware_Profile" "cs_secureFirmwareHandler H \<noteq> None \<longrightarrow> m \<noteq> None"
    using assms cs_requests unfolding cs_switch_def
    by (simp only: split: if_splits) auto
  then show ?thesis by cases (simp_all add: DefaultProfiles_def profile_names cs_handler_set_names)
qed

text \<open>
  A send that passes both feature checks, with a callback that asserts the type its feature declares for
  the response.
\<close>

definition well_typed_call ::
  "env \<Rightarrow> string \<Rightarrow> string \<Rightarrow> 'cb \<Rightarrow> 'cb centralSystem \<Rightarrow> go_error option \<times> 'cb centralSystem \<Rightarrow> bool" where
  "well_typed_call E uniqueId c cb s result \<longleftrightarrow>
     (\<exists>req typ p f. result = cs_enqueue E uniqueId (Some Background) c req (Typed typ cb) s \<and>
        GetProfileForFeature (s_Endpoint s) (GetFeatureName req) = Some p \<and>
        Profile_GetFeature p (GetFeatureName req) = Some f \<and> GetResponseType f = typ)"

lemma cs_call_typed:
  assumes "Profiles (s_Endpoint s) = DefaultProfiles"
    and "(GetFeatureName req, ty) \<in> default_responses" and "GetFeatureName req \<in> set cs_outgoing"
  shows "well_typed_call E i c cb s (cs_call E i c ty cb req props s)"
proof -
  obtain p f where "GetProfileForFeature (s_Endpoint s) (GetFeatureName req) = Some p"
    "Profile_GetFeature p (GetFeatureName req) = Some f" "GetResponseType f = ty"
    using default_types(2) [OF assms(1)] assms(2) unfolding default_responses_def by blast
  with assms(3) show ?thesis
    unfolding well_typed_call_def
    by (intro exI [of _ "apply_props props req"] exI [of _ ty] exI [of _ p] exI [of _ f])
      (simp add: cs_call_def CS_SendRequestAsync_def CS_SendRequestAsyncCtx_def Let_def)
qed

lemma typed_result_delivered:
  assumes "typed_decoding E" and "ParseMessage E ep arr st = Returns (Inr (Some (MCallResult r)))"
  shows "\<exists>j req p f. ClientState_GetPendingRequest j st = (Some req, True) \<and>
    GetProfileForFeature ep (GetFeatureName req) = Some p \<and> Profile_GetFeature p (GetFeatureName req) = Some f \<and>
    (\<forall>H err s. cs_invoke E H (Typed (GetResponseType f) cb) (CallResult_Payload r) err s =
       cs_callback H cb (CallResult_Payload r) err
         (s\<lparr>cs_invoked := cs_invoked s @ [(Typed (GetResponseType f) cb, CallResult_Payload r, err)]\<rparr>))"
proof -
  obtain j q p f conf where "ClientState_GetPendingRequest j st = (Some q, True)"
    "GetProfileForFeature ep (GetFeatureName q) = Some p" "Profile_GetFeature p (GetFeatureName q) = Some f"
    "CallResult_Payload r = Some conf" "type_of E conf = GetResponseType f"
    by (rule parsed_result_typed [OF assms])
  then show ?thesis
    by (intro exI [of _ j] exI [of _ q] exI [of _ p] exI [of _ f]) (simp add: cs_invoke_def)
qed

lemmas cs_calls = CS_ChangeAvailability_def CS_ChangeConfiguration_def CS_ClearCache_def CS_DataTransfer_def
  CS_GetConfiguration_def CS_RemoteStartTransaction_def CS_RemoteStopTransaction_def CS_Reset_def
  CS_UnlockConnector_def CS_GetLocalListVersion_def CS_SendLocalList_def CS_GetDiagnostics_def
  CS_UpdateFirmware_def CS_ReserveNow_def CS_CancelReservation_def CS_TriggerMessage_def
  CS_SetChargingProfile_def CS_ClearChargingProfile_def CS_GetCompositeSchedule_def
  CS_TriggerMessageExtended_def CS_CertificateSigned_def CS_SignedUpdateFirmware_def
  CS_GetInstalledCertificateIds_def CS_InstallCertificate_def CS_DeleteCertificate_def CS_GetLog_def

section \<open>Properties\<close>

text \<open>
  C4: every request of a charge point is answered exactly once. \<open>handleIncomingRequest\<close> sends one
  CALL\_ERROR (an action of no profile is NotImplemented, a profile without handler NotSupported), or it
  starts one goroutine and sends nothing; that goroutine, whenever it runs, sends exactly one frame to
  the charge point that asked: the confirmation, the error the handler returned, an InternalError when
  the handler panicked, a NotSupported for an action the central system does not process.
\<close>

theorem cs_request_answered_once:
  assumes "json_array_laws E" and "accepts_call_errors E" and "server_network_up W" and "id_ok rid"
    and "quiet H SH"
  shows "snd (cs_handleIncomingRequest E W H c req rid action s) =
      (case GetProfileForFeature (s_Endpoint s) action of
         None \<Rightarrow> s\<lparr>s_sent := s_sent s @
           [(c, error_frame E rid NotImplemented (''no handler for action '' @ action @ '' implemented''))]\<rparr>
       | Some p \<Rightarrow>
           (if cs_handler_set H (ProfileName p) then s\<lparr>cs_goroutines := cs_goroutines s @ [GoRequest c req rid action]\<rparr>
            else s\<lparr>s_sent := s_sent s @
              [(c, error_frame E rid NotSupported (''unsupported action '' @ action @ '' on central system''))]\<rparr>)) \<and>
    (\<forall>s1. known_dialect (s_Endpoint s1) \<longrightarrow>
       (\<exists>s2 frame. cs_run E W H SH (GoRequest c req rid action) s1 = (Returns (), s2) \<and>
          s_sent s2 = s_sent s1 @ [(c, frame)] \<and> cs_answer E H c req rid action s1 frame))"
  using cs_run_request [OF assms(1-4) _ assms(5)]
  by (auto simp: cs_handleIncomingRequest_def cs_refusals [OF assms(1-4)] go_start_def
      split: option.splits simp del: cs_run.simps)



text \<open>
  The type assertions on requests never panic. With the default profiles, a CALL that the endpoint
  has parsed and whose handler is set reaches the user's own method, with a request of the type the
  method takes.
\<close>

theorem cs_requests_typed:
  assumes "typed_decoding E" and "Profiles (s_Endpoint s) = DefaultProfiles"
    and "ParseMessage E (s_Endpoint s) arr st = Returns (Inr (Some (MCall call)))"
    and "cs_switch H (Call_Action call) = Some (m, ty)"
    and "GetProfileForFeature (s_Endpoint s) (Call_Action call) = Some p" and "cs_handler_set H (ProfileName p)"
  shows "snd (cs_handleIncomingRequest E W H c (Call_Payload call) i (Call_Action call) s) =
      go_start (GoRequest c (Call_Payload call) i (Call_Action call)) s \<and>
    (\<exists>f r. m = Some f \<and> Call_Payload call = Some r \<and> type_of E r = ty \<and>
    (\<forall>s1. cs_call_method E m ty c (Call_Payload call) s1 = f c r s1))"
proof -
  obtain p' where p': "p' \<in> set DefaultProfiles" "(Call_Action call, ty) \<in> request_types p'"
    "cs_handler_set H (ProfileName p') \<longrightarrow> m \<noteq> None"
    using cs_switch_types [OF assms(4)] by blast
  obtain p1 f r where *: "GetProfileForFeature (s_Endpoint s) (Call_Action call) = Some p1"
    "Profile_GetFeature p1 (Call_Action call) = Some f" "Call_Payload call = Some r" "type_of E r = GetRequestType f"
    by (rule parsed_call_typed [OF assms(1,3)])
  with default_types(1) [OF assms(2) p'(1,2)] p'(3) assms(5,6) show ?thesis
    by (auto simp: cs_call_method_def assert_type_def cs_handleIncomingRequest_def)
qed

text \<open>
  The typed methods of the central system are well typed. With the default profiles each passes both
  feature checks, so that it sends its request, and the callback it registers asserts the very type that
  the feature of the request declares for its response; the response parsed for such a request then
  reaches the user's callback.
\<close>

theorem cs_calls_typed:
  assumes "Profiles (s_Endpoint s) = DefaultProfiles"
  shows "well_typed_call E i c cb s (CS_ChangeAvailability E i c cb connectorId availabilityType props s) \<and>
     well_typed_call E i c cb s (CS_ChangeConfiguration E i c cb key v props s) \<and>
     well_typed_call E i c cb s (CS_ClearCache E i c cb props s) \<and>
     well_typed_call E i c cb s (CS_DataTransfer E i c cb vendorId props s) \<and>
     well_typed_call E i c cb s (CS_GetConfiguration E i c cb keys props s) \<and>
     well_typed_call E i c cb s (CS_RemoteStartTransaction E i c cb idTag props s) \<and>
     well_typed_call E i c cb s (CS_RemoteStopTransaction E i c cb transactionId props s) \<and>
     well_typed_call E i c cb s (CS_Reset E i c cb resetType props s) \<and>
     well_typed_call E i c cb s (CS_UnlockConnector E i c cb connectorId props s) \<and>
     well_typed_call E i c cb s (CS_GetLocalListVersion E i c cb props s) \<and>
     well_typed_call E i c cb s (CS_SendLocalList E i c cb version updateType props s) \<and>
     well_typed_call E i c cb s (CS_GetDiagnostics E i c cb location props s) \<and>
     well_typed_call E i c cb s (CS_UpdateFirmware E i c cb location retrieveDate props s) \<and>
     well_typed_call E i c cb s (CS_ReserveNow E i c cb connectorId expiryDate idTag reservationId props s) \<and>
     well_typed_call E i c cb s (CS_CancelReservation E i c cb reservationId props s) \<and>
     well_typed_call E i c cb s (CS_TriggerMessage E i c cb requestedMessage props s) \<and>
     well_typed_call E i c cb s (CS_SetChargingProfile E i c cb connectorId chargingProfile props s) \<and>
     well_typed_call E i c cb s (CS_ClearChargingProfile E i c cb props s) \<and>
     well_typed_call E i c cb s (CS_GetCompositeSchedule E i c cb connectorId duration props s) \<and>
     well_typed_call E i c cb s (CS_TriggerMessageExtended E i c cb requestedMessage props s) \<and>
     well_typed_call E i c cb s (CS_CertificateSigned E i c cb csr props s) \<and>
     well_typed_call E i c cb s (CS_SignedUpdateFirmware E i c cb requestId firmware props s) \<and>
     well_typed_call E i c cb s (CS_GetInstalledCertificateIds E i c cb certificateType props s) \<and>
     well_typed_call E i c cb s (CS_InstallCertificate E i c cb certificateType certificate props s) \<and>
     well_typed_call E i c cb s (CS_DeleteCertificate E i c cb certificateHashData props s) \<and>
     well_typed_call E i c cb s (CS_GetLog E i c cb logType rid logParameters props s) \<and>
     (typed_decoding E \<longrightarrow> ParseMessage E (s_Endpoint s) arr st = Returns (Inr (Some (MCallResult r))) \<longrightarrow>
        (\<exists>j req p f. ClientState_GetPendingRequest j st = (Some req, True) \<and>
           GetProfileForFeature (s_Endpoint s) (GetFeatureName req) = Some p \<and>
           Profile_GetFeature p (GetFeatureName req) = Some f \<and>
           (\<forall>H err s1. cs_invoke E H (Typed (GetResponseType f) cb) (CallResult_Payload r) err s1 =
              cs_callback H cb (CallResult_Payload r) err
                (s1\<lparr>cs_invoked := cs_invoked s1 @ [(Typed (GetResponseType f) cb, CallResult_Payload r, err)]\<rparr>))))"
proof (intro conjI impI)
  assume "typed_decoding E" and "ParseMessage E (s_Endpoint s) arr st = Returns (Inr (Some (MCallResult r)))"
  then show "\<exists>j req p f. ClientState_GetPendingRequest j st = (Some req, True) \<and>
      GetProfileForFeature (s_Endpoint s) (GetFeatureName req) = Some p \<and>
      Profile_GetFeature p (GetFeatureName req) = Some f \<and>
      (\<forall>H err s1. cs_invoke E H (Typed (GetResponseType f) cb) (CallResult_Payload r) err s1 =
         cs_callback H cb (CallResult_Payload r) err
           (s1\<lparr>cs_invoked := cs_invoked s1 @ [(Typed (GetResponseType f) cb, CallResult_Payload r, err)]\<rparr>))"
    by (rule typed_result_delivered)
qed (unfold cs_calls, (rule cs_call_typed [OF assms]; simp add: requests16 cs_outgoing_def)+)

text \<open>
  C33: a panic of one callback at a disconnection loses the others. \<open>DrainAll\<close> takes all callbacks of the
  charge point out of the queue; when the first one panics, the rest of the loop and the user's own
  handler are skipped, and the remaining callbacks are neither called nor registered any more.
\<close>

theorem disconnect_panic_loses_callbacks:
  assumes "s \<in> owes {#}" and "CallbackQueue_DrainAll c (cs_callbackQueue s) = (Raw cb # cbs, q)"
    and "\<And>r e s. cs_callback H cb r e s = (Panics v, s)"
    and "s_onHandlerPanic SH0 = None" and "cs_onHandlerPanic H = None"
    and "s' = Server_onClientDisconnected (cs_server_handlers E W H SH0) c s"
  shows "cs_invoked s' = cs_invoked s @ [(Raw cb, None, Some disconnect_error)] \<and>
    cs_callbackQueue s' = q \<and> cs_goroutines s' = cs_goroutines s \<and> s' \<in> owes (mset cbs)"
proof -
  let ?hp = "\<lparr>hp_ClientID = c, hp_Kind = DisconnectHandlerKind, hp_Action = [], hp_RequestID = [], hp_Value = v,
    hp_Stack = s_debug_Stack SH0\<rparr>"
  obtain d where s': "s' = cs_error (HandlerPanicError ?hp) (s\<lparr>s_dispatcher := d, cs_callbackQueue := q,
      cs_invoked := cs_invoked s @ [(Raw cb, None, Some disconnect_error)]\<rparr>)"
    using assms(2-6)
    by (simp add: Server_onClientDisconnected_def cs_server_handlers_simps Let_def recoverHandler_def
        reportHandlerPanic_def guardedCall_def cs_disconnected_def and_then_def cs_invoke_def cs_panic_hook_def
        run_optional_def)
  have "s\<lparr>cs_callbackQueue := q\<rparr> \<in> owes (add_mset (Raw cb) (mset cbs))"
    using owes_drained [OF assms(1,2)] by simp
  then have "s' \<in> owes (mset cbs)" by (simp add: s') (simp add: owes_def waiting_def)
  then show ?thesis by (simp add: s' cs_error_def)
qed

section \<open>Witnesses\<close>

definition sample_method :: "'s cs_method" where
  "sample_method _ _ s = (Panics ''boom'', s)"

definition sample_cs_handlers :: "(nat centralSystem, nat) cs_handlers" where
  "sample_cs_handlers =
     \<lparr>cs_coreHandler = Some \<lparr>cs_OnAuthorize = sample_method, cs_OnBootNotification = sample_method,
        cs_OnDataTransfer = sample_method, cs_OnHeartbeat = sample_method, cs_OnMeterValues = sample_method,
        cs_OnStatusNotification = sample_method, cs_OnStartTransaction = sample_method,
        cs_OnStopTransaction = sample_method\<rparr>,
      cs_localAuthListHandler = False, cs_firmwareHandler = None, cs_reservationHandler = False,
      cs_remoteTriggerHandler = False, cs_smartChargingHandler = False, cs_logHandler = None,
      cs_securityHandler = None, cs_secureFirmwareHandler = None, cs_disconnectedHandler = None,
      cs_onHandlerPanic = None, cs_callback = \<lambda>_ _ _ s. (Returns (), s)\<rparr>"

definition sample_cs :: "nat centralSystem" where
  "sample_cs = \<lparr>s_Endpoint = \<lparr>endpoint_dialect = V16, Profiles = DefaultProfiles\<rparr>,
     s_server = s_server sample_endpoint_server, s_dispatcher = s_dispatcher sample_endpoint_server, s_sent = [],
     cs_callbackQueue = [(''CP1'', [(''1'', Raw 1), (''2'', Raw 2)])], cs_errC = new_chan errChanCapacity,
     cs_goroutines = [], cs_accepted = [Raw 1, Raw 2], cs_invoked = []\<rparr>"

lemma sample_cs_views [simp]: "s_Endpoint sample_cs = \<lparr>endpoint_dialect = V16, Profiles = DefaultProfiles\<rparr>"
  "s_sent sample_cs = []"
  by (simp_all add: sample_cs_def)

lemma sample_switch: "cs_switch sample_cs_handlers a = Some (Some m, ty) \<Longrightarrow> m = sample_method"
  by (auto simp: cs_switch_def sample_cs_handlers_def split: if_splits)

lemma sample_user_keeps: "user_keeps S sample_cs_handlers no_server_handlers"
proof -
  have "keeps S (m c r)" if "cs_switch sample_cs_handlers a = Some (Some m, ty)" for a m ty c r
    using sample_switch [OF that] by (simp add: keeps_def sample_method_def)
  then show ?thesis
    unfolding user_keeps_def by (simp add: no_server_handlers_def) (simp add: sample_cs_handlers_def keeps_def)
qed

lemma sample_quiet: "quiet sample_cs_handlers (cs_server_handlers E W sample_cs_handlers no_server_handlers)"
proof -
  have "keeps S (m c r)" if "cs_switch sample_cs_handlers a = Some (Some m, ty)" for S a m ty c r
    using sample_switch [OF that] by (simp add: keeps_def sample_method_def)
  then show ?thesis
    unfolding quiet_def
    by (simp add: cs_server_handlers_simps no_server_handlers_def)
      (simp add: sample_cs_handlers_def keeps_def cs_panic_hook_def and_then_def run_optional_def cs_error_def sending_def)
qed

theorem cs_request_answered_once_witness:
  "\<exists>s2 frame. cs_run sample_env server_up_outside sample_cs_handlers
       (cs_server_handlers sample_env server_up_outside sample_cs_handlers no_server_handlers)
       (GoRequest ''CP1'' (Some heartbeat) ''7'' HeartbeatFeatureName) sample_cs = (Returns (), s2) \<and>
     s_sent s2 = [(''CP1'', frame)]"
proof -
  have "id_ok ''7''" by (simp add: id_ok_def)
  from cs_request_answered_once [OF sample_laws(1) sample_accepts_call_errors server_up_outside_up this
      sample_quiet [of sample_env server_up_outside], THEN conjunct2, rule_format, of sample_cs]
  show ?thesis by (simp del: cs_run.simps) blast
qed

lemma sample_new: "NewCentralSystem sample_endpoint_server None = Returns
   \<lparr>s_Endpoint = Endpoint_SetDialect sample_endpoint V16, s_server = s_server sample_endpoint_server,
    s_dispatcher = SD_SetOnRequestCanceled True (s_dispatcher sample_endpoint_server), s_sent = [],
    cs_callbackQueue = CallbackQueue_New, cs_errC = new_chan errChanCapacity, cs_goroutines = [],
    cs_accepted = [], cs_invoked = []\<rparr>"
  by (simp add: NewCentralSystem_def newCentralSystem_def Server_SetCanceledRequestHandler_def)



theorem cs_requests_typed_witness:
  "cs_call_method sample_env (Some sample_method) ''core.HeartbeatRequest'' ''CP1''
     (Some \<lparr>GetFeatureName = ''core.HeartbeatRequest'', body = JObject []\<rparr>) sample_cs = (Panics ''boom'', sample_cs)"
proof -
  let ?ep = "\<lparr>endpoint_dialect = V16, Profiles = DefaultProfiles\<rparr>"
  let ?call = "\<lparr>Call_MessageTypeId = CALL, Call_UniqueId = ''1'', Call_Action = HeartbeatFeatureName,
      Call_Payload = Some \<lparr>GetFeatureName = ''core.HeartbeatRequest'', body = JObject []\<rparr>\<rparr>"
  have p: "GetProfileForFeature ?ep HeartbeatFeatureName = Some core_Profile"
    "Profile_GetFeature core_Profile HeartbeatFeatureName = Some HeartbeatFeature"
    by (rule default_profile [where ep = ?ep and f = HeartbeatFeature]; simp add: DefaultProfiles_def table16)+
  then have parse: "ParseMessage sample_env ?ep [JNumber 2, JString ''1'', JString HeartbeatFeatureName, JObject []]
      NewClientState = Returns (Inr (Some (MCall ?call)))"
    by (simp add: ParseMessage_def parse_call_def CALL_def trunc_rat_def sample_env_def Profile_ParseRequest_def
        Profile_GetFeature_def Profile_SupportsFeature_def parseRawJson_def validated_def Let_def HeartbeatFeature_def)
  have "cs_switch sample_cs_handlers HeartbeatFeatureName = Some (Some sample_method, ''core.HeartbeatRequest'')"
    by (simp add: cs_switch_def sample_cs_handlers_def names16)
  moreover have "cs_handler_set sample_cs_handlers (ProfileName core_Profile)"
    by (simp add: profile_names cs_handler_set_names sample_cs_handlers_def)
  ultimately show ?thesis
    using cs_requests_typed [OF sample_typed_decoding, of sample_cs
        "[JNumber 2, JString ''1'', JString HeartbeatFeatureName, JObject []]" NewClientState ?call sample_cs_handlers
        "Some sample_method" "''core.HeartbeatRequest''" core_Profile server_up_outside "''CP1''"] parse p
    by (simp add: sample_method_def)
qed

theorem cs_calls_typed_witness:
  "well_typed_call sample_env ''9'' ''CP1'' 1 sample_cs (CS_ClearCache sample_env ''9'' ''CP1'' 1 [] sample_cs)"
  by (rule cs_calls_typed [THEN conjunct2, THEN conjunct2, THEN conjunct1]) (simp add: sample_cs_def)

theorem disconnect_panic_loses_callbacks_witness:
  "cs_invoked (Server_onClientDisconnected (cs_server_handlers sample_env server_up_outside
     (sample_cs_handlers\<lparr>cs_callback := \<lambda>_ _ _ s. (Panics ''boom'', s)\<rparr>) no_server_handlers) ''CP1'' sample_cs)
   = [(Raw 1, None, Some disconnect_error)]"
proof -
  have "sample_cs \<in> owes {#}"
    by (simp add: owes_def waiting_def sample_cs_def CallbackQueue_ok_def gomap_ok_def)
  then show ?thesis
    using disconnect_panic_loses_callbacks [of sample_cs "''CP1''" 1 "[Raw 2]" "[]"
        "sample_cs_handlers\<lparr>cs_callback := \<lambda>_ _ _ s. (Panics ''boom'', s)\<rparr>" "''boom''" no_server_handlers _
        sample_env server_up_outside]
    by (simp add: sample_cs_def CallbackQueue_DrainAll_def no_server_handlers_def sample_cs_handlers_def)
qed

end
