(* ===== verification/Charge_Point.thy ===== *)
theory Charge_Point
  imports Ocppj_Client Ocpp16_Types
begin

text \<open>
  \<open>ocpp1.6/charge_point.go\<close> and the charge point's part of \<open>ocpp1.6/v16.go\<close>: the facade of a charge
  point. Its state is the endpoint extended with the facade's fields. Channels that are only ever closed
  live in the store \<open>cp_signals\<close>, so that every generation of the handler goroutine has its own pair
  (\<open>stopC\<close>, \<open>handlerDone\<close>); the channels of the synchronous sends live in \<open>cp_results\<close>.

  A goroutine that waits in a \<open>select\<close> is a value of the state: \<open>cp_forwarding\<close> are the sends into
  \<open>incoming\<close> of the read goroutine and the dispatcher's pump, \<open>cp_reporting\<close> is the send on \<open>Errors()\<close>
  that the handler goroutine is in (always its last action for a message), \<open>cp_waiting\<close> are the callers
  of synchronous sends, \<open>cp_joining\<close> is the call of \<open>Start\<close> or \<open>Stop\<close> that waits for the handler;
  \<open>Start\<close> and \<open>Stop\<close> are not called concurrently (the field \<open>stopOnce\<close> is not synchronised). The stop
  channel of such a \<open>select\<close> is the one that was current when it was entered.
  \<open>cp_accepted\<close>, \<open>cp_invoked\<close>, \<open>cp_cleared\<close> and \<open>cp_returned\<close> are histories.
\<close>

section \<open>State\<close>

datatype incomingKind = incomingResponse | incomingError | incomingRequest

record incomingMessage =
  im_kind :: incomingKind
  im_confirmation :: request
  im_err :: "go_error option"
  im_request :: request
  im_requestID :: string
  im_action :: string

text \<open>A registered callback is the user's, or the closure of a synchronous send with its channel.\<close>

datatype 'cb cp_callback = UserCallback 'cb | AsyncResponse ref

type_synonym asyncResponse = "request \<times> go_error option"

datatype await_stage = AwaitCheck | AwaitSelect | AwaitRecheck

record cp_waiter =
  w_result :: ref
  w_ctx :: ctx
  w_featureName :: string
  w_stopC :: "ref option"
  w_stage :: await_stage
  w_type :: "string option"

datatype cp_join = JoinStart string ref | JoinStop ctx ref

record 'cb chargePoint = Client +
  cp_incoming :: "incomingMessage chan"
  cp_callbacks :: "'cb cp_callback CallbackQueue"
  cp_stopC :: "ref option"
  cp_stopOnce :: "bool option"
  cp_errC :: "async_error chan option"
  cp_handlerDone :: ref
  cp_signals :: "unit chan store"
  cp_results :: "asyncResponse chan store"
  cp_forwarding :: "(incomingMessage \<times> ref option) list"
  cp_reporting :: "(async_error \<times> ref option) option"
  cp_waiting :: "cp_waiter list"
  cp_joining :: "cp_join option"
  cp_generations :: "(ref \<times> ref) list"
  cp_accepted :: "'cb cp_callback list"
  cp_invoked :: "('cb cp_callback \<times> request \<times> go_error option) list"
  cp_cleared :: "'cb cp_callback list"
  cp_returned :: "(ref \<times> asyncResponse) list"

text \<open>The handler interfaces of the profiles.\<close>

type_synonym 's cp_method = "message_body \<Rightarrow> ('s, message_body option \<times> go_error option) code"

record 's core_ChargePointHandler =
  cp_OnChangeAvailability :: "'s cp_method"
  cp_OnChangeConfiguration :: "'s cp_method"
  cp_OnClearCache :: "'s cp_method"
  cp_OnDataTransfer :: "'s cp_method"
  cp_OnGetConfiguration :: "'s cp_method"
  cp_OnRemoteStartTransaction :: "'s cp_method"
  cp_OnRemoteStopTransaction :: "'s cp_method"
  cp_OnReset :: "'s cp_method"
  cp_OnUnlockConnector :: "'s cp_method"

record 's localauth_ChargePointHandler =
  cp_OnGetLocalListVersion :: "'s cp_method"
  cp_OnSendLocalList :: "'s cp_method"

record 's firmware_ChargePointHandler =
  cp_OnGetDiagnostics :: "'s cp_method"
  cp_OnUpdateFirmware :: "'s cp_method"

record 's reservation_ChargePointHandler =
  cp_OnReserveNow :: "'s cp_method"
  cp_OnCancelReservation :: "'s cp_method"

record 's remotetrigger_ChargePointHandler =
  cp_OnTriggerMessage :: "'s cp_method"

record 's smartcharging_ChargePointHandler =
  cp_OnSetChargingProfile :: "'s cp_method"
  cp_OnClearChargingProfile :: "'s cp_method"
  cp_OnGetCompositeSchedule :: "'s cp_method"

record 's security_ChargePointHandler =
  cp_OnCertificateSigned :: "'s cp_method"

record 's logging_ChargePointHandler =
  cp_OnGetLog :: "'s cp_method"

record 's extendedtriggermessage_ChargePointHandler =
  cp_OnExtendedTriggerMessage :: "'s cp_method"

record 's securefirmware_ChargePointHandler =
  cp_OnSignedUpdateFirmware :: "'s cp_method"

record 's certificates_ChargePointHandler =
  cp_OnDeleteCertificate :: "'s cp_method"
  cp_OnGetInstalledCertificateIds :: "'s cp_method"
  cp_OnInstallCertificate :: "'s cp_method"

record ('s, 'cb) cp_handlers =
  cp_coreHandler :: "'s core_ChargePointHandler option"
  cp_localAuthListHandler :: "'s localauth_ChargePointHandler option"
  cp_firmwareHandler :: "'s firmware_ChargePointHandler option"
  cp_reservationHandler :: "'s reservation_ChargePointHandler option"
  cp_remoteTriggerHandler :: "'s remotetrigger_ChargePointHandler option"
  cp_smartChargingHandler :: "'s smartcharging_ChargePointHandler option"
  cp_securityHandler :: "'s security_ChargePointHandler option"
  cp_logHandler :: "'s logging_ChargePointHandler option"
  cp_extendedTriggerMessageHandler :: "'s extendedtriggermessage_ChargePointHandler option"
  cp_secureFirmwareHandler :: "'s securefirmware_ChargePointHandler option"
  cp_certificateHandler :: "'s certificates_ChargePointHandler option"
  cp_onHandlerPanic :: "(HandlerPanic \<Rightarrow> ('s, unit) code) option"
  cp_callback :: "'cb \<Rightarrow> request \<Rightarrow> go_error option \<Rightarrow> ('s, unit) code"

definition CP_SetCoreHandler where "CP_SetCoreHandler h H = H\<lparr>cp_coreHandler := h\<rparr>"
definition CP_SetLocalAuthListHandler where
  "CP_SetLocalAuthListHandler h H = H\<lparr>cp_localAuthListHandler := h\<rparr>"
definition CP_SetFirmwareManagementHandler where
  "CP_SetFirmwareManagementHandler h H = H\<lparr>cp_firmwareHandler := h\<rparr>"
definition CP_SetReservationHandler where "CP_SetReservationHandler h H = H\<lparr>cp_reservationHandler := h\<rparr>"
definition CP_SetRemoteTriggerHandler where
  "CP_SetRemoteTriggerHandler h H = H\<lparr>cp_remoteTriggerHandler := h\<rparr>"
definition CP_SetSmartChargingHandler where
  "CP_SetSmartChargingHandler h H = H\<lparr>cp_smartChargingHandler := h\<rparr>"
definition CP_SetSecurityHandler where "CP_SetSecurityHandler h H = H\<lparr>cp_securityHandler := h\<rparr>"
definition CP_SetLogHandler where "CP_SetLogHandler h H = H\<lparr>cp_logHandler := h\<rparr>"
definition CP_SetExtendedTriggerMessageHandler where
  "CP_SetExtendedTriggerMessageHandler h H = H\<lparr>cp_extendedTriggerMessageHandler := h\<rparr>"
definition CP_SetSecureFirmwareHandler where
  "CP_SetSecureFirmwareHandler h H = H\<lparr>cp_secureFirmwareHandler := h\<rparr>"
definition CP_SetCertificateHandler where "CP_SetCertificateHandler h H = H\<lparr>cp_certificateHandler := h\<rparr>"
definition CP_SetOnHandlerPanic where "CP_SetOnHandlerPanic h H = H\<lparr>cp_onHandlerPanic := h\<rparr>"

text \<open>These two are handlers of the endpoint.\<close>

definition CP_SetOnDisconnectedHandler where
  "CP_SetOnDisconnectedHandler h CH = SetOnDisconnectedHandler h CH"
definition CP_SetOnReconnectedHandler where
  "CP_SetOnReconnectedHandler h CH = SetOnReconnectedHandler h CH"

section \<open>Channels\<close>

definition close_signal :: "ref \<Rightarrow> ('cb chargePoint, unit) code" where
  "close_signal r s =
     (case chan_close (deref (cp_signals s) r) of
        Panics v \<Rightarrow> (Panics v, s)
      | Returns c \<Rightarrow> (Returns (), s\<lparr>cp_signals := assign (cp_signals s) r c\<rparr>))"

text \<open>Whether a receive from a stop channel is ready; it never is from a nil channel.\<close>

definition signaled :: "'cb chargePoint \<Rightarrow> ref option \<Rightarrow> bool" where
  "signaled s r = (case r of None \<Rightarrow> False | Some r \<Rightarrow> chan_closed (deref (cp_signals s) r))"

definition loadStopC :: "'cb chargePoint \<Rightarrow> ref option" where
  "loadStopC s = cp_stopC s"

definition storeStopC :: "ref \<Rightarrow> 'cb chargePoint \<Rightarrow> 'cb chargePoint" where
  "storeStopC c s = s\<lparr>cp_stopC := Some c\<rparr>"

definition loadHandlerDone :: "'cb chargePoint \<Rightarrow> ref" where
  "loadHandlerDone s = cp_handlerDone s"

definition storeHandlerDone :: "ref \<Rightarrow> 'cb chargePoint \<Rightarrow> 'cb chargePoint" where
  "storeHandlerDone hdone s = s\<lparr>cp_handlerDone := hdone\<rparr>"

text \<open>
  \<open>error\<close> enters a \<open>select\<close> over the channel of \<open>Errors()\<close> and the stop channel. Every call of it is the
  last action of the handler goroutine for one message.
\<close>

definition cp_error :: "async_error \<Rightarrow> 'cb chargePoint \<Rightarrow> 'cb chargePoint" where
  "cp_error err s =
     (case cp_errC s of None \<Rightarrow> s | Some _ \<Rightarrow> s\<lparr>cp_reporting := Some (err, loadStopC s)\<rparr>)"

definition cp_errorNonBlocking :: "async_error \<Rightarrow> 'cb chargePoint \<Rightarrow> 'cb chargePoint" where
  "cp_errorNonBlocking err s =
     (case cp_errC s of None \<Rightarrow> s | Some errC \<Rightarrow> s\<lparr>cp_errC := Some (chan_put err errC)\<rparr>)"

definition CP_Errors :: "'cb chargePoint \<Rightarrow> async_error chan \<times> 'cb chargePoint" where
  "CP_Errors s =
     (case cp_errC s of
        None \<Rightarrow> (new_chan 1, s\<lparr>cp_errC := Some (new_chan 1)\<rparr>)
      | Some errC \<Rightarrow> (errC, s))"

text \<open>The \<open>select\<close> that sends a message to the handler goroutine unless the charge point is stopped.\<close>

definition cp_forward :: "incomingMessage \<Rightarrow> ('cb chargePoint, unit) code" where
  "cp_forward m s = (Returns (), s\<lparr>cp_forwarding := cp_forwarding s @ [(m, loadStopC s)]\<rparr>)"

definition error_message :: "go_error \<Rightarrow> incomingMessage" where
  "error_message err = \<lparr>im_kind = incomingError, im_confirmation = None, im_err = Some err, im_request = None,
     im_requestID = [], im_action = []\<rparr>"

definition onRequestTimeout :: "string \<Rightarrow> request \<Rightarrow> go_error \<Rightarrow> ('cb chargePoint, unit) code" where
  "onRequestTimeout rid req err = cp_forward (error_message err)"

section \<open>Sending requests\<close>

text \<open>The queue of the callbacks is keyed by client; a charge point has the one client \<open>main\<close>.\<close>

definition cp_enqueue ::
  "env \<Rightarrow> string \<Rightarrow> ctx \<Rightarrow> message_body \<Rightarrow> 'cb cp_callback \<Rightarrow> 'cb chargePoint \<Rightarrow> go_error option \<times> 'cb chargePoint" where
  "cp_enqueue E uniqueId ctx req callback s =
     (let (err, q, s) = TryQueue ''main'' (Client_SendRequestCtx E uniqueId (Some ctx) req) callback (cp_callbacks s, s)
      in (err, s\<lparr>cp_callbacks := q,
                 cp_accepted := (if err = None then cp_accepted s @ [callback] else cp_accepted s)\<rparr>))"

definition cp_missing_profile :: "string \<Rightarrow> go_error" where
  "cp_missing_profile featureName =
     Errorf (''feature '' @ featureName @ '' is unsupported on charge point (missing profile), cannot send request'')"

text \<open>
  \<open>SendRequestCtx\<close> up to its call of \<open>awaitCtxResult\<close>: an error that is returned at once, or a caller
  that waits; \<open>typ\<close> is the type the calling method asserts of the confirmation, if any.
\<close>

definition cp_send_sync ::
  "env \<Rightarrow> string \<Rightarrow> ctx option \<Rightarrow> message_body \<Rightarrow> string option \<Rightarrow> 'cb chargePoint \<Rightarrow> go_error option \<times> 'cb chargePoint" where
  "cp_send_sync E uniqueId ctx req typ s =
     (let ctx = (case ctx of None \<Rightarrow> Background | Some x \<Rightarrow> x); featureName = GetFeatureName req in
      if GetProfileForFeature (c_Endpoint s) featureName = None then (Some (cp_missing_profile featureName), s)
      else
        (let (asyncResponseC, results) = alloc (cp_results s) (new_chan 1);
             s = s\<lparr>cp_results := results\<rparr>
         in case cp_enqueue E uniqueId ctx req (AsyncResponse asyncResponseC) s of
              (Some err, s) \<Rightarrow> (Some err, s)
            | (None, s) \<Rightarrow>
                (None, s\<lparr>cp_waiting := cp_waiting s @ [\<lparr>w_result = asyncResponseC, w_ctx = ctx,
                   w_featureName = featureName, w_stopC = loadStopC s, w_stage = AwaitCheck, w_type = typ\<rparr>]\<rparr>)))"

definition CP_SendRequestCtx where
  "CP_SendRequestCtx E uniqueId ctx req = cp_send_sync E uniqueId ctx req None"

definition CP_SendRequest where
  "CP_SendRequest E uniqueId req = CP_SendRequestCtx E uniqueId (Some Background) req"

text \<open>
  \<open>awaitCtxResult\<close>, one \<open>select\<close> at a time: the check for a ready response, the \<open>select\<close> proper, in which
  \<open>arm\<close> is the branch taken, and the second check after the stop channel. \<^const>\<open>None\<close> is a branch that
  is not ready, a result is what the function returns.
\<close>

datatype await_arm = ArmResponse | ArmStop | ArmDone

definition await_receive :: "string \<Rightarrow> asyncResponse chan \<Rightarrow> (asyncResponse \<times> asyncResponse chan) option" where
  "await_receive featureName c =
     (case chan_recv c of
        Some x \<Rightarrow> Some x
      | None \<Rightarrow>
          (if chan_closed c
           then Some ((None, Some (Errorf (''internal error while receiving result for '' @ featureName @ '' request''))), c)
           else None))"

definition awaitCtxResult ::
  "outside \<Rightarrow> await_arm \<Rightarrow> cp_waiter \<Rightarrow> 'cb chargePoint \<Rightarrow> ((await_stage + asyncResponse) \<times> 'cb chargePoint) option" where
  "awaitCtxResult W arm w s =
     (let ready = await_receive (w_featureName w) (deref (cp_results s) (w_result w)) in
      case w_stage w of
        AwaitCheck \<Rightarrow>
          (case ready of
             Some (ar, c) \<Rightarrow> Some (Inr ar, s\<lparr>cp_results := assign (cp_results s) (w_result w) c\<rparr>)
           | None \<Rightarrow> Some (Inl AwaitSelect, s))
      | AwaitSelect \<Rightarrow>
          (case arm of
             ArmResponse \<Rightarrow>
               (case ready of
                  Some (ar, c) \<Rightarrow> Some (Inr ar, s\<lparr>cp_results := assign (cp_results s) (w_result w) c\<rparr>)
                | None \<Rightarrow> None)
           | ArmStop \<Rightarrow> (if signaled s (w_stopC w) then Some (Inl AwaitRecheck, s) else None)
           | ArmDone \<Rightarrow>
               (case Ctx_Err W (w_ctx w) of
                  None \<Rightarrow> None
                | Some e \<Rightarrow> Some (Inr (None, Some (NewRequestCanceledError [] (Some e))), s)))
      | AwaitRecheck \<Rightarrow>
          (case ready of
             Some (ar, c) \<Rightarrow> Some (Inr ar, s\<lparr>cp_results := assign (cp_results s) (w_result w) c\<rparr>)
           | None \<Rightarrow>
               Some (Inr (None, Some (Errorf (''client stopped while waiting for response to '' @ w_featureName w))), s)))"

text \<open>What the typed methods do with the result.\<close>

definition cp_finish :: "env \<Rightarrow> string option \<Rightarrow> asyncResponse \<Rightarrow> (string, asyncResponse) outcome" where
  "cp_finish E typ ar =
     (case typ of
        None \<Rightarrow> Returns ar
      | Some ty \<Rightarrow>
          (case ar of
             (_, Some err) \<Rightarrow> Returns (None, Some err)
           | (confirmation, None) \<Rightarrow>
               (case assert_type E ty confirmation of Panics v \<Rightarrow> Panics v | Returns m \<Rightarrow> Returns (Some m, None))))"

definition cp_outgoing :: "string list" where
  "cp_outgoing =
     [AuthorizeFeatureName, BootNotificationFeatureName, DataTransferFeatureName, HeartbeatFeatureName,
      MeterValuesFeatureName, StartTransactionFeatureName, StopTransactionFeatureName,
      StatusNotificationFeatureName, DiagnosticsStatusNotificationFeatureName,
      FirmwareStatusNotificationFeatureName, LogStatusNotificationFeatureName,
      SignedFirmwareStatusNotificationFeatureName, SecurityEventNotificationFeatureName,
      SignCertificateFeatureName]"

definition CP_SendRequestAsyncCtx ::
  "env \<Rightarrow> string \<Rightarrow> ctx option \<Rightarrow> message_body \<Rightarrow> 'cb \<Rightarrow> 'cb chargePoint \<Rightarrow> go_error option \<times> 'cb chargePoint" where
  "CP_SendRequestAsyncCtx E uniqueId ctx req callback s =
     (let ctx = (case ctx of None \<Rightarrow> Background | Some x \<Rightarrow> x); featureName = GetFeatureName req in
      if GetProfileForFeature (c_Endpoint s) featureName = None then (Some (cp_missing_profile featureName), s)
      else if featureName \<notin> set cp_outgoing then
        (Some (Errorf (''unsupported action '' @ featureName @ '' on charge point, cannot send request'')), s)
      else cp_enqueue E uniqueId ctx req (UserCallback callback) s)"

definition CP_SendRequestAsync where
  "CP_SendRequestAsync E uniqueId req callback = CP_SendRequestAsyncCtx E uniqueId (Some Background) req callback"

text \<open>The typed methods.\<close>

definition cp_call ::
  "env \<Rightarrow> string \<Rightarrow> string \<Rightarrow> message_body \<Rightarrow> (json \<Rightarrow> json) list \<Rightarrow> 'cb chargePoint \<Rightarrow> go_error option \<times> 'cb chargePoint" where
  "cp_call E uniqueId typ req props =
     cp_send_sync E uniqueId (Some Background) (apply_props props req) (Some typ)"

definition CP_BootNotification where
  "CP_BootNotification E uniqueId chargePointModel chargePointVendor props =
     cp_call E uniqueId ''core.BootNotificationConfirmation''
       (NewBootNotificationRequest chargePointModel chargePointVendor) props"

definition CP_Authorize where
  "CP_Authorize E uniqueId idTag props =
     cp_call E uniqueId ''core.AuthorizeConfirmation'' (NewAuthorizationRequest idTag) props"

definition CP_DataTransfer where
  "CP_DataTransfer E uniqueId vendorId props =
     cp_call E uniqueId ''core.DataTransferConfirmation'' (NewDataTransferRequest vendorId) props"

definition CP_Heartbeat where
  "CP_Heartbeat E uniqueId props =
     cp_call E uniqueId ''core.HeartbeatConfirmation'' NewHeartbeatRequest props"

definition CP_MeterValues where
  "CP_MeterValues E uniqueId connectorId meterValues props =
     cp_call E uniqueId ''core.MeterValuesConfirmation'' (NewMeterValuesRequest connectorId meterValues) props"

definition CP_StartTransaction where
  "CP_StartTransaction E uniqueId connectorId idTag meterStart timestamp props =
     cp_call E uniqueId ''core.StartTransactionConfirmation''
       (NewStartTransactionRequest connectorId idTag meterStart timestamp) props"

definition CP_StopTransaction where
  "CP_StopTransaction E uniqueId meterStop timestamp transactionId props =
     cp_call E uniqueId ''core.StopTransactionConfirmation''
       (NewStopTransactionRequest meterStop timestamp transactionId) props"

definition CP_StatusNotification where
  "CP_StatusNotification E uniqueId connectorId errorCode status props =
     cp_call E uniqueId ''core.StatusNotificationConfirmation''
       (NewStatusNotificationRequest connectorId errorCode status) props"

definition CP_DiagnosticsStatusNotification where
  "CP_DiagnosticsStatusNotification E uniqueId status props =
     cp_call E uniqueId ''firmware.DiagnosticsStatusNotificationConfirmation''
       (NewDiagnosticsStatusNotificationRequest status) props"

definition CP_FirmwareStatusNotification where
  "CP_FirmwareStatusNotification E uniqueId status props =
     cp_call E uniqueId ''firmware.FirmwareStatusNotificationConfirmation''
       (NewFirmwareStatusNotificationRequest status) props"

definition CP_SecurityEventNotification where
  "CP_SecurityEventNotification E uniqueId typ timestamp props =
     cp_call E uniqueId ''security.SecurityEventNotificationResponse''
       (NewSecurityEventNotificationRequest typ timestamp) props"

definition CP_SignCertificate where
  "CP_SignCertificate E uniqueId csr props =
     cp_call E uniqueId ''security.SignCertificateResponse'' (NewSignCertificateRequest csr) props"

definition CP_SignedUpdateFirmwareStatusNotification where
  "CP_SignedUpdateFirmwareStatusNotification E uniqueId status props =
     cp_call E uniqueId ''securefirmware.SignedFirmwareStatusNotificationResponse''
       (securefirmware_NewFirmwareStatusNotificationRequest status) props"

definition CP_LogStatusNotification where
  "CP_LogStatusNotification E uniqueId status requestId props =
     cp_call E uniqueId ''logging.LogStatusNotificationResponse''
       (NewLogStatusNotificationRequest status requestId) props"

section \<open>Answering requests\<close>

definition cp_send_failed :: "string \<Rightarrow> go_error \<Rightarrow> go_error" where
  "cp_send_failed requestId err =
     Wrapped (''replying to request '' @ requestId @ '' with 'internal error' failed: '' @ error_text err) err"

definition cp_response_failed :: "string \<Rightarrow> go_error \<Rightarrow> go_error" where
  "cp_response_failed requestId err = Wrapped (''failed responding to request '' @ requestId @ '': '' @ error_text err) err"

definition cp_empty_text :: "string \<Rightarrow> string" where
  "cp_empty_text requestId = ''empty confirmation to request '' @ requestId"

definition cp_sendResponse ::
  "env \<Rightarrow> outside \<Rightarrow> confirmation \<Rightarrow> go_error option \<Rightarrow> string \<Rightarrow> ('cb chargePoint, unit) code" where
  "cp_sendResponse E W confirmation err requestId s =
     (case err of
        Some e \<Rightarrow>
          (case (case e of
                   OcppError co de _ _ _ \<Rightarrow> Client_SendError E W requestId co de None s
                 | _ \<Rightarrow> Client_SendError E W requestId InternalError (error_text e) None s) of
             (None, s) \<Rightarrow> (Returns (), s)
           | (Some err, s) \<Rightarrow>
               (case Client_HandleFailedResponseError E W requestId (Some err) [] s of
                  (Panics v, s) \<Rightarrow> (Panics v, s)
                | (Returns _, s) \<Rightarrow> (Returns (), cp_error (AsyncError (cp_send_failed requestId err)) s)))
      | None \<Rightarrow>
          (case confirmation of
             Some (Some response) \<Rightarrow>
               (case Client_SendResponse E W requestId response s of
                  (None, s) \<Rightarrow> (Returns (), s)
                | (Some err, s) \<Rightarrow>
                    (case Client_HandleFailedResponseError E W requestId (Some err) (GetFeatureName response) s of
                       (Panics v, s) \<Rightarrow> (Panics v, s)
                     | (Returns _, s) \<Rightarrow> (Returns (), cp_error (AsyncError (cp_response_failed requestId err)) s)))
           | _ \<Rightarrow>
               (let err = Errorf (cp_empty_text requestId);
                    s = snd (Client_SendError E W requestId GenericError (error_text err) None s)
                in (Returns (), cp_error (AsyncError err) s))))"

definition cp_notImplementedError ::
  "env \<Rightarrow> outside \<Rightarrow> string \<Rightarrow> string \<Rightarrow> 'cb chargePoint \<Rightarrow> 'cb chargePoint" where
  "cp_notImplementedError E W requestId action s =
     (case Client_SendError E W requestId NotImplemented (''no handler for action '' @ action @ '' implemented'') None s of
        (None, s) \<Rightarrow> s
      | (Some err, s) \<Rightarrow>
          cp_error (AsyncError (Wrapped (''replying cs to request '' @ requestId @ '' with 'not implemented': '' @
            error_text err) err)) s)"

definition cp_notSupportedError ::
  "env \<Rightarrow> outside \<Rightarrow> string \<Rightarrow> string \<Rightarrow> 'cb chargePoint \<Rightarrow> 'cb chargePoint" where
  "cp_notSupportedError E W requestId action s =
     (case Client_SendError E W requestId NotSupported (''unsupported action '' @ action @ '' on charge point'') None s of
        (None, s) \<Rightarrow> s
      | (Some err, s) \<Rightarrow>
          cp_error (AsyncError (Wrapped (''replying cs to request '' @ requestId @ '' with 'not supported': '' @
            error_text err) err)) s)"

text \<open>The two \<open>switch\<close> statements of \<open>handleIncomingRequest\<close>: the handler of the profile, and the method with the asserted type.\<close>

definition cp_handler_set :: "('s, 'cb) cp_handlers \<Rightarrow> string \<Rightarrow> bool" where
  "cp_handler_set H name =
     (if name = core_ProfileName then cp_coreHandler H \<noteq> None
      else if name = localauth_ProfileName then cp_localAuthListHandler H \<noteq> None
      else if name = firmware_ProfileName then cp_firmwareHandler H \<noteq> None
      else if name = reservation_ProfileName then cp_reservationHandler H \<noteq> None
      else if name = remotetrigger_ProfileName then cp_remoteTriggerHandler H \<noteq> None
      else if name = smartcharging_ProfileName then cp_smartChargingHandler H \<noteq> None
      else if name = security_ProfileName then cp_securityHandler H \<noteq> None
      else if name = logging_ProfileName then cp_logHandler H \<noteq> None
      else if name = extendedtriggermessage_ProfileName then cp_extendedTriggerMessageHandler H \<noteq> None
      else if name = securefirmware_ProfileName then cp_secureFirmwareHandler H \<noteq> None
      else if name = certificates_ProfileName then cp_certificateHandler H \<noteq> None
      else True)"

definition cp_switch :: "('s, 'cb) cp_handlers \<Rightarrow> string \<Rightarrow> ('s cp_method option \<times> string) option" where
  "cp_switch H action =
     (if action = ChangeAvailabilityFeatureName then
        Some (map_option cp_OnChangeAvailability (cp_coreHandler H), ''core.ChangeAvailabilityRequest'')
      else if action = ChangeConfigurationFeatureName then
        Some (map_option cp_OnChangeConfiguration (cp_coreHandler H), ''core.ChangeConfigurationRequest'')
      else if action = ClearCacheFeatureName then
        Some (map_option cp_OnClearCache (cp_coreHandler H), ''core.ClearCacheRequest'')
      else if action = DataTransferFeatureName then
        Some (map_option cp_OnDataTransfer (cp_coreHandler H), ''core.DataTransferRequest'')
      else if action = GetConfigurationFeatureName then
        Some (map_option cp_OnGetConfiguration (cp_coreHandler H), ''core.GetConfigurationRequest'')
      else if action = RemoteStartTransactionFeatureName then
        Some (map_option cp_OnRemoteStartTransaction (cp_coreHandler H), ''core.RemoteStartTransactionRequest'')
      else if action = RemoteStopTransactionFeatureName then
        Some (map_option cp_OnRemoteStopTransaction (cp_coreHandler H), ''core.RemoteStopTransactionRequest'')
      else if action = ResetFeatureName then
        Some (map_option cp_OnReset (cp_coreHandler H), ''core.ResetRequest'')
      else if action = UnlockConnectorFeatureName then
        Some (map_option cp_OnUnlockConnector (cp_coreHandler H), ''core.UnlockConnectorRequest'')
      else if action = GetLocalListVersionFeatureName then
        Some (map_option cp_OnGetLocalListVersion (cp_localAuthListHandler H),
              ''localauth.GetLocalListVersionRequest'')
      else if action = SendLocalListFeatureName then
        Some (map_option cp_OnSendLocalList (cp_localAuthListHandler H), ''localauth.SendLocalListRequest'')
      else if action = GetDiagnosticsFeatureName then
        Some (map_option cp_OnGetDiagnostics (cp_firmwareHandler H), ''firmware.GetDiagnosticsRequest'')
      else if action = UpdateFirmwareFeatureName then
        Some (map_option cp_OnUpdateFirmware (cp_firmwareHandler H), ''firmware.UpdateFirmwareRequest'')
      else if action = ReserveNowFeatureName then
        Some (map_option cp_OnReserveNow (cp_reservationHandler H), ''reservation.ReserveNowRequest'')
      else if action = CancelReservationFeatureName then
        Some (map_option cp_OnCancelReservation (cp_reservationHandler H), ''reservation.CancelReservationRequest'')
      else if action = TriggerMessageFeatureName then
        Some (map_option cp_OnTriggerMessage (cp_remoteTriggerHandler H), ''remotetrigger.TriggerMessageRequest'')
      else if action = SetChargingProfileFeatureName then
        Some (map_option cp_OnSetChargingProfile (cp_smartChargingHandler H),
              ''smartcharging.SetChargingProfileRequest'')
      else if action = ClearChargingProfileFeatureName then
        Some (map_option cp_OnClearChargingProfile (cp_smartChargingHandler H),
              ''smartcharging.ClearChargingProfileRequest'')
      else if action = GetCompositeScheduleFeatureName then
        Some (map_option cp_OnGetCompositeSchedule (cp_smartChargingHandler H),
              ''smartcharging.GetCompositeScheduleRequest'')
      else if action = CertificateSignedFeatureName then
        Some (map_option cp_OnCertificateSigned (cp_securityHandler H), ''security.CertificateSignedRequest'')
      else if action = GetLogFeatureName then
        Some (map_option cp_OnGetLog (cp_logHandler H), ''logging.GetLogRequest'')
      else if action = SignedUpdateFirmwareFeatureName then
        Some (map_option cp_OnSignedUpdateFirmware (cp_secureFirmwareHandler H),
              ''securefirmware.SignedUpdateFirmwareRequest'')
      else if action = GetInstalledCertificateIdsFeatureName then
        Some (map_option cp_OnGetInstalledCertificateIds (cp_certificateHandler H),
              ''certificates.GetInstalledCertificateIdsRequest'')
      else if action = DeleteCertificateFeatureName then
        Some (map_option cp_OnDeleteCertificate (cp_certificateHandler H), ''certificates.DeleteCertificateRequest'')
      else if action = InstallCertificateFeatureName then
        Some (map_option cp_OnInstallCertificate (cp_certificateHandler H),
              ''certificates.InstallCertificateRequest'')
      else if action = ExtendedTriggerMessageFeatureName then
        Some (map_option cp_OnExtendedTriggerMessage (cp_extendedTriggerMessageHandler H),
              ''extendedtriggermessage.ExtendedTriggerMessageRequest'')
      else None)"

definition cp_call_method ::
  "env \<Rightarrow> 's cp_method option \<Rightarrow> string \<Rightarrow> request \<Rightarrow> ('s, message_body option \<times> go_error option) code" where
  "cp_call_method E m typ req s =
     (case assert_type E typ req of
        Panics v \<Rightarrow> (Panics v, s)
      | Returns r \<Rightarrow> (case m of None \<Rightarrow> (Panics ''nil pointer dereference'', s) | Some f \<Rightarrow> f r s))"

definition cp_handleIncomingRequest ::
  "env \<Rightarrow> outside \<Rightarrow> ('cb chargePoint, 'cb) cp_handlers \<Rightarrow> request \<Rightarrow> string \<Rightarrow> string \<Rightarrow> ('cb chargePoint, unit) code" where
  "cp_handleIncomingRequest E W H req requestId action s =
     (case GetProfileForFeature (c_Endpoint s) action of
        None \<Rightarrow> (Returns (), cp_notImplementedError E W requestId action s)
      | Some profile \<Rightarrow>
          (if \<not> cp_handler_set H (ProfileName profile) then (Returns (), cp_notSupportedError E W requestId action s)
           else case cp_switch H action of
                  None \<Rightarrow> (Returns (), cp_notSupportedError E W requestId action s)
                | Some (m, typ) \<Rightarrow>
                    (case cp_call_method E m typ req s of
                       (Panics v, s) \<Rightarrow> (Panics v, s)
                     | (Returns (confirmation, err), s) \<Rightarrow>
                         cp_sendResponse E W (Some confirmation) err requestId s)))"

section \<open>The handler goroutine\<close>

text \<open>A callback that is called: the user's code, or the send on the channel of a synchronous caller.\<close>

definition cp_invoke ::
  "('cb chargePoint, 'cb) cp_handlers \<Rightarrow> 'cb cp_callback \<Rightarrow> request \<Rightarrow> go_error option \<Rightarrow> ('cb chargePoint, unit) code" where
  "cp_invoke H callback confirmation err s =
     (let s = s\<lparr>cp_invoked := cp_invoked s @ [(callback, confirmation, err)]\<rparr> in
      case callback of
        UserCallback cb \<Rightarrow> cp_callback H cb confirmation err s
      | AsyncResponse r \<Rightarrow>
          (Returns (), s\<lparr>cp_results := assign (cp_results s) r (chan_send (confirmation, err) (deref (cp_results s) r))\<rparr>))"

fun ocpp_message_id :: "go_error option \<Rightarrow> string" where
  "ocpp_message_id (Some (OcppError co de mi ma ca)) = mi"
| "ocpp_message_id _ = []"

definition incoming_text :: "go_error option \<Rightarrow> string" where
  "incoming_text err = (case err of None \<Rightarrow> ''<nil>'' | Some e \<Rightarrow> error_text e)"

text \<open>
  The \<open>switch\<close> of \<open>asyncCallbackHandler\<close> over a message it has received. The arguments of a deferred
  call are evaluated before the recovery is in place; a nil confirmation, which the endpoint never hands
  over (lemma \<open>cp_ok_received\<close>), panics there.
\<close>

definition cp_dispatch ::
  "env \<Rightarrow> outside \<Rightarrow> ('cb chargePoint, 'cb) cp_handlers \<Rightarrow> 'cb chargePoint client_handlers \<Rightarrow> incomingMessage \<Rightarrow>
     ('cb chargePoint, unit) code" where
  "cp_dispatch E W H CH incoming s =
     (case im_kind incoming of
        incomingResponse \<Rightarrow>
          (case im_confirmation incoming of
             None \<Rightarrow> (Panics ''nil pointer dereference'', s)
           | Some m \<Rightarrow>
               (case Dequeue ''main'' (im_requestID incoming) (cp_callbacks s) of
                  (Some callback, q) \<Rightarrow>
                    (Returns (), Client_RecoverPanicGoroutine E W CH ResponseHandlerKind (GetFeatureName m) [] False
                       (cp_invoke H callback (im_confirmation incoming) None) (s\<lparr>cp_callbacks := q\<rparr>))
                | (None, q) \<Rightarrow>
                    (Returns (), cp_error (AsyncError (Errorf (''no handler available for incoming response '' @
                       GetFeatureName m))) s)))
      | incomingError \<Rightarrow>
          (let requestID = ocpp_message_id (im_err incoming) in
           if requestID = [] then
             (Returns (), cp_error (AsyncError (Errorf (''cannot route error with no message id: '' @
                incoming_text (im_err incoming)))) s)
           else
             (case Dequeue ''main'' requestID (cp_callbacks s) of
                (Some callback, q) \<Rightarrow>
                  (Returns (), Client_RecoverPanicGoroutine E W CH ErrorHandlerKind [] requestID False
                     (cp_invoke H callback None (im_err incoming)) (s\<lparr>cp_callbacks := q\<rparr>))
              | (None, q) \<Rightarrow>
                  (Returns (), cp_error (AsyncError (Errorf (''no handler available for error '' @
                     incoming_text (im_err incoming)))) s)))
      | incomingRequest \<Rightarrow>
          (Returns (), Client_RecoverPanicGoroutine E W CH RequestHandlerKind (im_action incoming) (im_requestID incoming)
             True (cp_handleIncomingRequest E W H (im_request incoming) (im_requestID incoming) (im_action incoming)) s))"

definition clearCallbacks :: "'cb chargePoint \<Rightarrow> 'cb chargePoint" where
  "clearCallbacks s =
     (let (cbs, q) = CallbackQueue_DrainAll ''main'' (cp_callbacks s)
      in s\<lparr>cp_callbacks := q, cp_cleared := cp_cleared s @ cbs\<rparr>)"

text \<open>
  One turn of the loop of \<open>asyncCallbackHandler\<close> in the generation with the channels \<open>(stopC, hdone)\<close>: a
  message is received (\<open>stop\<close> false), or the stop channel is (\<open>stop\<close> true), after which the goroutine
  ends. \<^const>\<open>None\<close> when the branch is not ready, or the goroutine is still in the \<open>select\<close> of \<open>error\<close>.
\<close>

definition asyncCallbackHandler ::
  "env \<Rightarrow> outside \<Rightarrow> ('cb chargePoint, 'cb) cp_handlers \<Rightarrow> 'cb chargePoint client_handlers \<Rightarrow> bool \<Rightarrow> ref \<times> ref \<Rightarrow>
     'cb chargePoint \<Rightarrow> ((string, unit) outcome \<times> 'cb chargePoint) option" where
  "asyncCallbackHandler E W H CH stop g s =
     (if g \<notin> set (cp_generations s) \<or> cp_reporting s \<noteq> None then None
      else if stop then
        (if signaled s (Some (fst g))
         then Some (close_signal (snd g) (clearCallbacks (s\<lparr>cp_generations := removeAll g (cp_generations s)\<rparr>)))
         else None)
      else
        (case chan_recv (cp_incoming s) of
           None \<Rightarrow> None
         | Some (incoming, c) \<Rightarrow> Some (cp_dispatch E W H CH incoming (s\<lparr>cp_incoming := c\<rparr>))))"

section \<open>Starting and stopping\<close>

definition closeStopC :: "('cb chargePoint, unit) code" where
  "closeStopC s =
     (case cp_stopOnce s of
        None \<Rightarrow> (Returns (), s)
      | Some fired \<Rightarrow>
          (if fired then (Returns (), s)
           else case loadStopC s of
                  None \<Rightarrow> (Returns (), s\<lparr>cp_stopOnce := Some True\<rparr>)
                | Some stopC \<Rightarrow> close_signal stopC (s\<lparr>cp_stopOnce := Some True\<rparr>)))"

text \<open>\<open>joinHandler\<close>: \<open>first\<close> is the branch its \<open>select\<close> takes when both are ready.\<close>

definition joinHandler :: "outside \<Rightarrow> bool \<Rightarrow> ctx \<Rightarrow> ref \<Rightarrow> 'cb chargePoint \<Rightarrow> go_error option option" where
  "joinHandler W first ctx hdone s =
     (if signaled s (Some hdone) \<and> (first \<or> Ctx_Err W ctx = None) then Some None
      else map_option Some (Ctx_Err W ctx))"

text \<open>\<open>StopCtx\<close> up to the join, which then waits.\<close>

definition cp_stop_signal :: "('cb chargePoint, unit) code" where
  "cp_stop_signal s =
     (case closeStopC s of (Panics v, s) \<Rightarrow> (Panics v, s) | (Returns _, s) \<Rightarrow> (Returns (), Client_Stop s))"

definition CP_StopCtx :: "ctx option \<Rightarrow> ('cb chargePoint, unit) code" where
  "CP_StopCtx ctx s =
     (let ctx = (case ctx of None \<Rightarrow> Background | Some x \<Rightarrow> x) in
      case cp_stop_signal s of
        (Panics v, s) \<Rightarrow> (Panics v, s)
      | (Returns _, s) \<Rightarrow> (Returns (), s\<lparr>cp_joining := Some (JoinStop ctx (loadHandlerDone s))\<rparr>))"

definition CP_Stop :: "('cb chargePoint, unit) code" where
  "CP_Stop = CP_StopCtx (Some Background)"

text \<open>
  \<open>Start\<close> after \<open>retirePreviousGeneration\<close>; \<open>result\<close> is what the websocket client's \<open>Start\<close> returns.
\<close>

definition cp_start_generation ::
  "(string \<Rightarrow> go_error option) \<Rightarrow> string \<Rightarrow> 'cb chargePoint \<Rightarrow> go_error option \<times> 'cb chargePoint" where
  "cp_start_generation result centralSystemUrl s =
     (let (stopC, signals) = alloc (cp_signals s) (new_chan 0);
          (handlerDone, signals) = alloc signals (new_chan 0);
          s = storeStopC stopC (s\<lparr>cp_signals := signals\<rparr>);
          s = s\<lparr>cp_stopOnce := Some False\<rparr>
      in case Client_Start result centralSystemUrl s of
           (Some err, s) \<Rightarrow> (Some err, s)
         | (None, s) \<Rightarrow>
             (let s = storeHandlerDone handlerDone s
              in (None, s\<lparr>cp_generations := (stopC, handlerDone) # cp_generations s\<rparr>)))"

text \<open>
  \<open>Start\<close>: without a previous generation the new one is installed at once; otherwise the previous one
  is stopped, and the call waits for its handler (\<open>cp_joined\<close>).
\<close>

definition CP_Start :: "(string \<Rightarrow> go_error option) \<Rightarrow> string \<Rightarrow> ('cb chargePoint, unit) code" where
  "CP_Start result centralSystemUrl s =
     (case cp_stopOnce s of
        None \<Rightarrow> (Returns (), snd (cp_start_generation result centralSystemUrl s))
      | Some _ \<Rightarrow>
          (case cp_stop_signal s of
             (Panics v, s) \<Rightarrow> (Panics v, s)
           | (Returns _, s) \<Rightarrow>
               (Returns (), s\<lparr>cp_joining := Some (JoinStart centralSystemUrl (loadHandlerDone s))\<rparr>)))"

text \<open>The end of the wait of \<open>Start\<close> or \<open>StopCtx\<close> in \<open>joinHandler\<close>.\<close>

definition cp_joined ::
  "outside \<Rightarrow> bool \<Rightarrow> (string \<Rightarrow> go_error option) \<Rightarrow> 'cb chargePoint \<Rightarrow> 'cb chargePoint option" where
  "cp_joined W first result s =
     (case cp_joining s of
        None \<Rightarrow> None
      | Some (JoinStop ctx hdone) \<Rightarrow>
          (case joinHandler W first ctx hdone s of None \<Rightarrow> None | Some _ \<Rightarrow> Some (s\<lparr>cp_joining := None\<rparr>))
      | Some (JoinStart url hdone) \<Rightarrow>
          (case joinHandler W first Background hdone s of
             None \<Rightarrow> None
           | Some _ \<Rightarrow> Some (snd (cp_start_generation result url (s\<lparr>cp_joining := None\<rparr>)))))"

definition CP_IsConnected :: "'cb chargePoint \<Rightarrow> bool" where
  "CP_IsConnected s = Client_IsConnected s"

section \<open>Construction\<close>

definition cp_panic_hook ::
  "('cb chargePoint, 'cb) cp_handlers \<Rightarrow> (HandlerPanic \<Rightarrow> ('cb chargePoint, unit) code) option \<Rightarrow>
     HandlerPanic \<Rightarrow> ('cb chargePoint, unit) code" where
  "cp_panic_hook H prev hp s =
     and_then (run_optional prev hp) (run_optional (cp_onHandlerPanic H) hp)
       (cp_errorNonBlocking (HandlerPanicError hp) s)"

definition cp_client_handlers ::
  "('cb chargePoint, 'cb) cp_handlers \<Rightarrow> 'cb chargePoint client_handlers \<Rightarrow> 'cb chargePoint client_handlers" where
  "cp_client_handlers H CH0 =
     SetOnHandlerPanic (Some (cp_panic_hook H (onHandlerPanic CH0)))
       (SetRequestHandler (Some (\<lambda>req requestId action. cp_forward
           \<lparr>im_kind = incomingRequest, im_confirmation = None, im_err = None, im_request = req,
            im_requestID = requestId, im_action = action\<rparr>))
         (SetErrorHandler (Some (\<lambda>err details. cp_forward (error_message err)))
           (SetResponseHandler (Some (\<lambda>confirmation requestId. cp_forward
               \<lparr>im_kind = incomingResponse, im_confirmation = confirmation, im_err = None, im_request = None,
                im_requestID = requestId, im_action = []\<rparr>)) CH0)))"

text \<open>
  \<open>NewChargePoint\<close> on an endpoint (a nil one is replaced by \<open>default_client\<close>, a new endpoint with the
  default profiles): the channel \<open>handlerDone\<close>, the first in the store, is closed from the start.
\<close>

definition NewChargePoint :: "Client \<Rightarrow> Client option \<Rightarrow> 'cb chargePoint" where
  "NewChargePoint default_client endpoint =
     (let c = (case endpoint of None \<Rightarrow> default_client | Some c \<Rightarrow> c)
      in \<lparr>c_Endpoint = Endpoint_SetDialect (c_Endpoint c) V16, c_client = c_client c, c_Id = c_Id c,
          c_dispatcher = CD_SetOnRequestCanceled True (c_dispatcher c), c_sent = c_sent c,
          cp_incoming = new_chan 1, cp_callbacks = CallbackQueue_New, cp_stopC = None, cp_stopOnce = None,
          cp_errC = None, cp_handlerDone = 0,
          cp_signals = \<lparr>cells = \<lambda>_. (new_chan 0)\<lparr>chan_closed := True\<rparr>, next_ref = 1\<rparr>,
          cp_results = \<lparr>cells = \<lambda>_. new_chan 1, next_ref = 0\<rparr>, cp_forwarding = [], cp_reporting = None,
          cp_waiting = [], cp_joining = None, cp_generations = [], cp_accepted = [], cp_invoked = [],
          cp_cleared = [], cp_returned = []\<rparr>)"

end
