(* ===== verification/Charge_Safety.thy ===== *)
theory Charge_Safety
  imports Charge_Point
begin

text \<open>
  The charge point over all interleavings of its goroutines: the read goroutine, the dispatcher's pump,
  the handler goroutine of each generation, callers of synchronous and asynchronous sends, \<open>Start\<close> and
  \<open>Stop\<close>. Shown are that every request is answered exactly once, that at most one handler goroutine
  lives and no channel is closed twice, that no callback is lost or called twice and the channels of
  synchronous sends never overflow, that a stop releases every waiting goroutine, and that the typed
  methods assert the right types.
\<close>

section \<open>Exactly one answer\<close>

lemma Client_SendResponse_frame:
  "network_up W \<Longrightarrow> result_frame E (c_Endpoint s) rid resp = Some t \<Longrightarrow>
   Client_SendResponse E W rid resp s = (None, s\<lparr>c_sent := c_sent s @ [t]\<rparr>)"
  by (auto simp: result_frame_def Client_SendResponse_def client_write_def network_up_def split: sum.splits)

lemma Client_SendResponse_refused:
  "result_frame E (c_Endpoint s) rid resp = None \<Longrightarrow> fst (Client_SendResponse E W rid resp s) \<noteq> None"
  by (auto simp: result_frame_def Client_SendResponse_def split: sum.splits)

lemma Client_SendError_any:
  assumes "json_array_laws E"
  shows "Client_SendError E W rid code d None s = (None, s\<lparr>c_sent := c_sent s @ [error_frame E rid code d]\<rparr>) \<or>
    (\<exists>err. Client_SendError E W rid code d None s = (Some err, s) \<and> response_error rid err)"
proof (cases "CreateCallError E rid code d None")
  case (Inl err)
  then have "\<exists>errs t. err = ValidationErrors errs t"
    by (auto simp: CreateCallError_def validate_outgoing_def Let_def split: option.splits if_splits)
  with Inl show ?thesis by (auto simp: Client_SendError_def)
next
  case (Inr ce)
  then have "CallError_MarshalJSON E ce = Inr (error_frame E rid code d)"
    using CallError_frame_text [OF assms] by (auto simp: CreateCallError_def Let_def split: option.splits)
  with Inr client_write_cases [of W rid "error_frame E rid code d" s] show ?thesis
    by (auto simp: Client_SendError_def)
qed

lemma cp_error_frame [simp]: "c_sent (cp_error e s) = c_sent s"
  by (simp add: cp_error_def split: option.splits)

interpretation cpr: replier E rid "network_up W" c_Endpoint "\<lambda>t s. s\<lparr>c_sent := c_sent s @ [t]\<rparr>"
    "Client_SendResponse E W rid" "\<lambda>code d. Client_SendError E W rid code d None"
    c_sent "\<lambda>t. t" "\<lambda>e. cp_error (AsyncError e)" "cp_send_failed rid" "cp_response_failed rid" "cp_empty_text rid"
  for E rid W
proof unfold_locales
  fix s :: "'cb chargePoint" and t resp code d
  show "c_sent (s\<lparr>c_sent := c_sent s @ [t]\<rparr>) = c_sent s @ [t]" by simp
  show "c_sent (cp_error (AsyncError e) s) = c_sent s" for e by simp
  show "network_up W \<Longrightarrow> result_frame E (c_Endpoint s) rid resp = Some t \<Longrightarrow>
      Client_SendResponse E W rid resp s = (None, s\<lparr>c_sent := c_sent s @ [t]\<rparr>)"
    by (rule Client_SendResponse_frame)
  show "result_frame E (c_Endpoint s) rid resp = None \<Longrightarrow> fst (Client_SendResponse E W rid resp s) \<noteq> None"
    by (rule Client_SendResponse_refused)
  show "json_array_laws E \<Longrightarrow>
      Client_SendError E W rid code d None s = (None, s\<lparr>c_sent := c_sent s @ [error_frame E rid code d]\<rparr>) \<or>
      (\<exists>err. Client_SendError E W rid code d None s = (Some err, s) \<and> response_error rid err)"
    by (rule Client_SendError_any)
qed

lemma Client_HandleFailed_returns:
  assumes "known_dialect (c_Endpoint s)" and "response_error rid err"
  shows "Client_HandleFailedResponseError E W rid (Some err) f s = (Returns (), cr.handle_failed rid E W err f s)"
  using failed_response_error_valid [OF assms, of f]
  by (auto simp: Client_HandleFailedResponseError_def cr.handle_failed_def)

lemma cp_sendResponse_reply:
  assumes "json_array_laws E" and "known_dialect (c_Endpoint s)"
  shows "cp_sendResponse E W confirmation err rid s = (Returns (), cpr.send_reply rid E W confirmation err s)"
proof (cases err)
  case (Some e)
  have send: "(case e of OcppError co de _ _ _ \<Rightarrow> Client_SendError E W rid co de None s
      | _ \<Rightarrow> Client_SendError E W rid InternalError (error_text e) None s) =
      Client_SendError E W rid (reply_code e) (reply_text e) None s"
    by (cases e) simp_all
  show ?thesis
    using Some Client_SendError_any [OF assms(1), of W rid "reply_code e" "reply_text e" s]
      Client_HandleFailed_returns [OF assms(2)]
    by (auto simp: cp_sendResponse_def cpr.send_reply_def send)
next
  case None
  show ?thesis
  proof (cases "\<exists>resp. confirmation = Some (Some resp)")
    case True
    then obtain resp where "confirmation = Some (Some resp)" by blast
    with None Client_SendResponse_cases [of E s resp rid W] Client_HandleFailed_returns [OF assms(2)] show ?thesis
      by (auto simp: cp_sendResponse_def cpr.send_reply_def)
  qed (use None in \<open>auto simp: cp_sendResponse_def cpr.send_reply_def Let_def split: option.splits\<close>)
qed

lemma cp_refusals:
  assumes "json_array_laws E" and "accepts_call_errors E" and "network_up W" and "id_ok rid"
  shows "cp_notSupportedError E W rid action s = s\<lparr>c_sent := c_sent s @
      [error_frame E rid NotSupported (''unsupported action '' @ action @ '' on charge point'')]\<rparr>"
    and "cp_notImplementedError E W rid action s = s\<lparr>c_sent := c_sent s @
      [error_frame E rid NotImplemented (''no handler for action '' @ action @ '' implemented'')]\<rparr>"
  by (simp_all only: cp_notSupportedError_def cp_notImplementedError_def Client_SendError_sent [OF assms]
      valid_codes prod.case option.case)

definition cp_silent :: "string list \<Rightarrow> Endpoint \<Rightarrow> 'cb chargePoint set" where
  "cp_silent x ep = {s. c_sent s = x \<and> c_Endpoint s = ep}"

text \<open>User code for requests and panics that sends no frame of its own.\<close>

definition cp_quiet :: "('cb chargePoint, 'cb) cp_handlers \<Rightarrow> 'cb chargePoint client_handlers \<Rightarrow> bool" where
  "cp_quiet H CH \<longleftrightarrow>
     (\<forall>x ep action m typ r. cp_switch H action = Some (Some m, typ) \<longrightarrow> keeps (cp_silent x ep) (m r)) \<and>
     (\<forall>x ep hook hp. onHandlerPanic CH = Some hook \<longrightarrow> keeps (cp_silent x ep) (hook hp))"

lemma cp_quiet_call:
  assumes "cp_quiet H CH" and "cp_switch H action = Some (m, typ)" and "cp_call_method E m typ req s = (r, s1)"
  shows "c_sent s1 = c_sent s" and "c_Endpoint s1 = c_Endpoint s"
proof -
  have "s1 \<in> cp_silent (c_sent s) (c_Endpoint s)"
  proof (cases "m = None \<or> (\<exists>v. assert_type E typ req = Panics v)")
    case True
    with assms(3) show ?thesis
      by (auto simp: cp_call_method_def cp_silent_def split: outcome.splits option.splits)
  next
    case False
    then obtain f q where "m = Some f" "assert_type E typ req = Returns q" by (metis option.exhaust outcome.exhaust)
    moreover from this assms(1,2) have "keeps (cp_silent (c_sent s) (c_Endpoint s)) (f q)"
      unfolding cp_quiet_def by blast
    ultimately show ?thesis
      using assms(3) keepsD [of "cp_silent (c_sent s) (c_Endpoint s)" "f q" s r s1]
      by (simp add: cp_call_method_def cp_silent_def)
  qed
  then show "c_sent s1 = c_sent s" and "c_Endpoint s1 = c_Endpoint s" by (simp_all add: cp_silent_def)
qed

text \<open>The frame that answers a request.\<close>

definition cp_answer ::
  "env \<Rightarrow> ('cb chargePoint, 'cb) cp_handlers \<Rightarrow> request \<Rightarrow> string \<Rightarrow> string \<Rightarrow> 'cb chargePoint \<Rightarrow> string \<Rightarrow> bool" where
  "cp_answer E H req rid action s f =
     (case GetProfileForFeature (c_Endpoint s) action of
        None \<Rightarrow> f = error_frame E rid NotImplemented (''no handler for action '' @ action @ '' implemented'')
      | Some p \<Rightarrow>
          (case (if cp_handler_set H (ProfileName p) then cp_switch H action else None) of
             None \<Rightarrow> f = error_frame E rid NotSupported (''unsupported action '' @ action @ '' on charge point'')
           | Some (m, typ) \<Rightarrow>
               (case fst (cp_call_method E m typ req s) of
                  Panics v \<Rightarrow> f = error_frame E rid InternalError ''internal error while handling request''
                | Returns (confirmation, err) \<Rightarrow>
                    answers E (c_Endpoint s) rid (cp_empty_text rid) (Some confirmation) err f)))"

definition request_message :: "request \<Rightarrow> string \<Rightarrow> string \<Rightarrow> incomingMessage" where
  "request_message req rid action = \<lparr>im_kind = incomingRequest, im_confirmation = None, im_err = None,
     im_request = req, im_requestID = rid, im_action = action\<rparr>"

lemma cp_dispatch_request:
  "cp_dispatch E W H CH (request_message req rid action) s =
     (Returns (), Client_RecoverPanicGoroutine E W CH RequestHandlerKind action rid True
        (cp_handleIncomingRequest E W H req rid action) s)"
  by (simp add: cp_dispatch_def request_message_def)

lemma cp_request_one_frame:
  assumes "json_array_laws E" and "accepts_call_errors E" and "network_up W" and "id_ok rid"
    and "known_dialect (c_Endpoint s)" and "cp_quiet H CH"
  shows "\<exists>s2 f. cp_dispatch E W H CH (request_message req rid action) s = (Returns (), s2) \<and>
    c_sent s2 = c_sent s @ [f] \<and> cp_answer E H req rid action s f"
proof (cases "\<exists>p m ty. GetProfileForFeature (c_Endpoint s) action = Some p \<and> cp_handler_set H (ProfileName p) \<and>
    cp_switch H action = Some (m, ty)")
  case False
  then show ?thesis
    by (auto simp: cp_dispatch_request Client_RecoverPanicGoroutine_def recoverHandler_def cp_handleIncomingRequest_def
        cp_refusals [OF assms(1-4)] cp_answer_def split: option.splits)
next
  case True
  then obtain p m ty where p: "GetProfileForFeature (c_Endpoint s) action = Some p" "cp_handler_set H (ProfileName p)"
    "cp_switch H action = Some (m, ty)" by blast
  obtain r s1 where call: "cp_call_method E m ty req s = (r, s1)" by (cases "cp_call_method E m ty req s")
  note s1 = cp_quiet_call [OF assms(6) p(3) call]
  note defs = cp_dispatch_request Client_RecoverPanicGoroutine_def recoverHandler_def cp_handleIncomingRequest_def
    cp_answer_def p call
  show ?thesis
  proof (cases r)
    case (Returns ce)
    obtain conf err where ce: "ce = (conf, err)" by (cases ce)
    have "known_dialect (c_Endpoint s1)" using assms(5) s1 by simp
    with cpr.send_reply_one [OF assms(1-4), of s1 "Some conf" err] cp_sendResponse_reply [OF assms(1), of s1] s1
    show ?thesis by (auto simp: defs Returns ce)
  next
    case (Panics v)
    let ?hp = "\<lparr>hp_ClientID = [], hp_Kind = RequestHandlerKind, hp_Action = action, hp_RequestID = rid,
        hp_Value = v, hp_Stack = debug_Stack CH\<rparr>"
    define s2 where "s2 = (case onHandlerPanic CH of None \<Rightarrow> s1 | Some f \<Rightarrow> snd (f ?hp s1))"
    have "c_sent s2 = c_sent s1"
      using assms(6) by (auto simp: s2_def cp_quiet_def keeps_def cp_silent_def split: option.splits)
    with s1 show ?thesis
      by (simp add: defs Panics reportHandlerPanic_def guardedCall_def client_internal_error_def
          Client_SendError_sent [OF assms(1-4)] s2_def [symmetric] option.case_distrib [of snd] cong: option.case_cong)
  qed
qed

section \<open>Events\<close>

text \<open>
  A step of some goroutine; \<^const>\<open>None\<close> when it cannot be taken. Messages arrive, requests are
  canceled and the connection drops only after the first \<open>Start\<close>, which opens the connection and starts
  the pump. What the pump does to the dispatcher is arbitrary here, except that a request that is in
  flight has a payload.
\<close>

definition pending_payload :: "ClientDispatcher \<Rightarrow> bool" where
  "pending_payload d \<longleftrightarrow> requestID (pendingState d) = [] \<or> pendingRequest (pendingState d) \<noteq> None"

datatype 'cb cp_event =
    CpStart "string \<Rightarrow> go_error option" string
  | CpStop "ctx option"
  | CpJoined bool "string \<Rightarrow> go_error option"
  | CpMessage string
  | CpCanceled string request go_error
  | CpForwarded nat
  | CpPreempted nat
  | CpReceive "ref \<times> ref"
  | CpExit "ref \<times> ref"
  | CpReported
  | CpReportPreempted
  | CpSendSync string "ctx option" message_body "string option"
  | CpSendAsync string "ctx option" message_body 'cb
  | CpAwait nat await_arm
  | CpErrors
  | CpReadError
  | CpDisconnected go_error
  | CpReconnected
  | CpPump ClientDispatcher

text \<open>The end of a synchronous call: its result is recorded, a failed type assertion panics.\<close>

definition cp_return :: "env \<Rightarrow> nat \<Rightarrow> cp_waiter \<Rightarrow> asyncResponse \<Rightarrow> ('cb chargePoint, unit) code" where
  "cp_return E k w ar s =
     (let s = s\<lparr>cp_waiting := drop_nth k (cp_waiting s)\<rparr> in
      case cp_finish E (w_type w) ar of
        Panics v \<Rightarrow> (Panics v, s)
      | Returns r \<Rightarrow> (Returns (), s\<lparr>cp_returned := cp_returned s @ [(w_result w, r)]\<rparr>))"

definition cp_await :: "env \<Rightarrow> outside \<Rightarrow> nat \<Rightarrow> await_arm \<Rightarrow> 'cb chargePoint \<Rightarrow>
    ((string, unit) outcome \<times> 'cb chargePoint) option" where
  "cp_await E W k arm s =
     (if k \<ge> length (cp_waiting s) then None
      else case awaitCtxResult W arm (cp_waiting s ! k) s of
             None \<Rightarrow> None
           | Some (Inl stage, s) \<Rightarrow>
               Some (Returns (), s\<lparr>cp_waiting := (cp_waiting s)[k := (cp_waiting s ! k)\<lparr>w_stage := stage\<rparr>]\<rparr>)
           | Some (Inr ar, s) \<Rightarrow> Some (cp_return E k (cp_waiting s ! k) ar s))"

fun cp_step ::
  "env \<Rightarrow> outside \<Rightarrow> ('cb chargePoint, 'cb) cp_handlers \<Rightarrow> 'cb chargePoint client_handlers \<Rightarrow> 'cb cp_event \<Rightarrow>
     'cb chargePoint \<Rightarrow> ((string, unit) outcome \<times> 'cb chargePoint) option" where
  "cp_step E W H CH (CpStart result url) s = (if cp_joining s = None then Some (CP_Start result url s) else None)"
| "cp_step E W H CH (CpStop ctx) s = (if cp_joining s = None then Some (CP_StopCtx ctx s) else None)"
| "cp_step E W H CH (CpJoined first result) s = map_option (Pair (Returns ())) (cp_joined W first result s)"
| "cp_step E W H CH (CpMessage t) s =
     (if cp_stopC s = None then None
      else Some (case Client_ocppMessageHandler E W CH t s of
                   (Returns _, s) \<Rightarrow> (Returns (), s)
                 | (Panics v, s) \<Rightarrow> (Panics v, s)))"
| "cp_step E W H CH (CpCanceled i req err) s =
     (if cp_stopC s = None then None else Some (onRequestTimeout i req err s))"
| "cp_step E W H CH (CpForwarded n) s =
     (if n < length (cp_forwarding s) \<and> \<not> chan_full (cp_incoming s)
      then Some (Returns (), s\<lparr>cp_incoming := chan_send (fst (cp_forwarding s ! n)) (cp_incoming s),
             cp_forwarding := drop_nth n (cp_forwarding s)\<rparr>)
      else None)"
| "cp_step E W H CH (CpPreempted n) s =
     (if n < length (cp_forwarding s) \<and> signaled s (snd (cp_forwarding s ! n))
      then Some (Returns (), s\<lparr>cp_forwarding := drop_nth n (cp_forwarding s)\<rparr>)
      else None)"
| "cp_step E W H CH (CpReceive g) s = asyncCallbackHandler E W H CH False g s"
| "cp_step E W H CH (CpExit g) s = asyncCallbackHandler E W H CH True g s"
| "cp_step E W H CH CpReported s =
     (case (cp_reporting s, cp_errC s) of
        (Some (err, _), Some c) \<Rightarrow>
          (if chan_full c then None
           else Some (Returns (), s\<lparr>cp_errC := Some (chan_send err c), cp_reporting := None\<rparr>))
      | _ \<Rightarrow> None)"
| "cp_step E W H CH CpReportPreempted s =
     (case cp_reporting s of
        Some (_, r) \<Rightarrow> (if signaled s r then Some (Returns (), s\<lparr>cp_reporting := None\<rparr>) else None)
      | None \<Rightarrow> None)"
| "cp_step E W H CH (CpSendSync i ctx req typ) s = Some (Returns (), snd (cp_send_sync E i ctx req typ s))"
| "cp_step E W H CH (CpSendAsync i ctx req cb) s = Some (Returns (), snd (CP_SendRequestAsyncCtx E i ctx req cb s))"
| "cp_step E W H CH (CpAwait k arm) s = cp_await E W k arm s"
| "cp_step E W H CH CpErrors s = Some (Returns (), snd (CP_Errors s))"
| "cp_step E W H CH CpReadError s =
     (case cp_errC s of
        None \<Rightarrow> None
      | Some c \<Rightarrow> map_option (\<lambda>(_, c). (Returns (), s\<lparr>cp_errC := Some c\<rparr>)) (chan_recv c))"
| "cp_step E W H CH (CpDisconnected err) s =
     (if cp_stopC s = None then None else Some (Returns (), Client_onDisconnected E W CH err s))"
| "cp_step E W H CH CpReconnected s =
     (if cp_stopC s = None then None else Some (Returns (), Client_onReconnected E W CH s))"
| "cp_step E W H CH (CpPump d) s =
     (if pending_payload d then Some (Returns (), s\<lparr>c_dispatcher := d\<rparr>) else None)"

text \<open>A run: each step with the outside world of its moment. It ends at a panic.\<close>

inductive cp_runs ::
  "env \<Rightarrow> ('cb chargePoint, 'cb) cp_handlers \<Rightarrow> 'cb chargePoint client_handlers \<Rightarrow> 'cb chargePoint \<Rightarrow>
     (outside \<times> 'cb cp_event) list \<Rightarrow> 'cb chargePoint \<Rightarrow> bool"
  for E H CH s0 where
  cp_run_nil: "cp_runs E H CH s0 [] s0"
| cp_run_step: "cp_runs E H CH s0 es s \<Longrightarrow> cp_step E W H CH e s = Some (Returns (), s') \<Longrightarrow>
    cp_runs E H CH s0 (es @ [(W, e)]) s'"

section \<open>The user's code\<close>

definition cp_user_keeps ::
  "'cb chargePoint set \<Rightarrow> ('cb chargePoint, 'cb) cp_handlers \<Rightarrow> 'cb chargePoint client_handlers \<Rightarrow> bool" where
  "cp_user_keeps S H CH0 \<longleftrightarrow>
     (\<forall>action m typ r. cp_switch H action = Some (Some m, typ) \<longrightarrow> keeps S (m r)) \<and>
     (\<forall>cb r e. keeps S (cp_callback H cb r e)) \<and>
     (\<forall>h hp. cp_onHandlerPanic H = Some h \<longrightarrow> keeps S (h hp)) \<and>
     (\<forall>h hp. onHandlerPanic CH0 = Some h \<longrightarrow> keeps S (h hp)) \<and>
     (\<forall>h e. onDisconnectedHandler CH0 = Some h \<longrightarrow> keeps S (h e)) \<and>
     (\<forall>h. onReconnectedHandler CH0 = Some h \<longrightarrow> keeps S h) \<and>
     (\<forall>h e t j. invalidMessageHook CH0 = Some h \<longrightarrow> keeps S (h e t j))"

text \<open>
  User code that acts on the charge point only through its interface: it sends any number of requests
  with callbacks and asks for the channel of the errors. A handler of the user that itself waits for a
  response, or for the end of a \<open>Stop\<close>, would wait for the goroutine it runs on.
\<close>

inductive api_calls :: "env \<Rightarrow> 'cb chargePoint \<Rightarrow> 'cb chargePoint \<Rightarrow> bool" for E s where
  api_none: "api_calls E s s"
| api_send: "api_calls E s s1 \<Longrightarrow> api_calls E s (snd (CP_SendRequestAsyncCtx E i ctx req cb s1))"
| api_errors: "api_calls E s s1 \<Longrightarrow> api_calls E s (snd (CP_Errors s1))"

definition cp_uses_api ::
  "env \<Rightarrow> ('cb chargePoint, 'cb) cp_handlers \<Rightarrow> 'cb chargePoint client_handlers \<Rightarrow> bool" where
  "cp_uses_api E H CH0 \<longleftrightarrow> (\<forall>s. cp_user_keeps {s'. api_calls E s s'} H CH0)"

lemma keeps_api:
  assumes "\<And>s. keeps {s'. api_calls E s s'} f" and "\<And>s s'. s \<in> S \<Longrightarrow> api_calls E s s' \<Longrightarrow> s' \<in> S"
  shows "keeps S f"
  using assms by (auto simp: keeps_def intro: api_none)

lemma uses_api_keeps:
  assumes "cp_uses_api E H CH0" and "\<And>s s'. s \<in> S \<Longrightarrow> api_calls E s s' \<Longrightarrow> s' \<in> S"
  shows "cp_user_keeps S H CH0"
proof -
  note user = assms(1) [unfolded cp_uses_api_def cp_user_keeps_def, rule_format]
  show ?thesis
    unfolding cp_user_keeps_def
    by (intro conjI allI impI; rule keeps_api [OF _ assms(2)]; insert user; blast)
qed

lemmas cp_client_handlers_simps = cp_client_handlers_def SetOnHandlerPanic_def SetRequestHandler_def
  SetErrorHandler_def SetResponseHandler_def

text \<open>
  A set of states closed under what the facade and the endpoint do when they send frames, report errors
  and forward messages. Forwarded responses carry a confirmation.
\<close>

definition carries :: "incomingMessage \<Rightarrow> bool" where
  "carries m \<longleftrightarrow> (im_kind m = incomingResponse \<longrightarrow> im_confirmation m \<noteq> None)"

locale cp_set =
  fixes S :: "'cb chargePoint set"
  assumes sent: "s \<in> S \<Longrightarrow> s\<lparr>c_sent := x\<rparr> \<in> S"
    and completed: "s \<in> S \<Longrightarrow> snd (client_complete rid s) \<in> S"
    and errC: "s \<in> S \<Longrightarrow> cp_errorNonBlocking err s \<in> S"
    and reported: "s \<in> S \<Longrightarrow> cp_error err s \<in> S"
    and forwarded: "s \<in> S \<Longrightarrow> carries m \<Longrightarrow> snd (cp_forward m s) \<in> S"
    and paused: "s \<in> S \<Longrightarrow> s\<lparr>c_dispatcher := CD_Pause (c_dispatcher s)\<rparr> \<in> S"
    and resumed: "s \<in> S \<Longrightarrow> s\<lparr>c_dispatcher := CD_Resume (c_dispatcher s)\<rparr> \<in> S"
begin

lemma SendError_in: "s \<in> S \<Longrightarrow> snd (Client_SendError E W i co d x s) \<in> S"
  using sent by (auto simp: Client_SendError_def client_write_def split: sum.splits option.splits)

lemma SendResponse_in: "s \<in> S \<Longrightarrow> snd (Client_SendResponse E W i r s) \<in> S"
  using Client_SendResponse_cases [of E s r i W] sent by auto

lemma internal_error_in: "keeps S (client_internal_error E W i)"
  by (simp add: keeps_def client_internal_error_def SendError_in)

lemma refusals_in:
  assumes "s \<in> S"
  shows "cp_notSupportedError E W i a s \<in> S" and "cp_notImplementedError E W i a s \<in> S"
  using SendError_in [OF assms, of E W i NotSupported "''unsupported action '' @ a @ '' on charge point''" None]
    SendError_in [OF assms, of E W i NotImplemented "''no handler for action '' @ a @ '' implemented''" None]
  by (auto simp: cp_notSupportedError_def cp_notImplementedError_def reported split: prod.splits option.splits)

lemma HandleFailed_in: "keeps S (Client_HandleFailedResponseError E W i err f)"
  by (auto simp: keeps_def Client_HandleFailedResponseError_def SendError_in split: outcome.splits)

lemma sendResponse_in: "keeps S (cp_sendResponse E W conf err i)"
proof -
  note failed = keepsD [OF HandleFailed_in]
  have error: "snd (case Client_SendError E W i co d None s of
        (None, s) \<Rightarrow> (Returns (), s)
      | (Some err, s) \<Rightarrow> (case Client_HandleFailedResponseError E W i (Some err) [] s of
          (Panics v, s) \<Rightarrow> (Panics v, s)
        | (Returns _, s) \<Rightarrow> (Returns (), cp_error (AsyncError (cp_send_failed i err)) s))) \<in> S" if "s \<in> S" for co d s
    using SendError_in [OF that, of E W i co d None]
    by (auto simp: reported split: prod.splits option.splits outcome.splits dest: failed)
  have response: "snd (case Client_SendResponse E W i r s of
        (None, s) \<Rightarrow> (Returns (), s)
      | (Some err, s) \<Rightarrow> (case Client_HandleFailedResponseError E W i (Some err) (GetFeatureName r) s of
          (Panics v, s) \<Rightarrow> (Panics v, s)
        | (Returns _, s) \<Rightarrow> (Returns (), cp_error (AsyncError (cp_response_failed i err)) s))) \<in> S" if "s \<in> S" for r s
    using SendResponse_in [OF that, of E W i r]
    by (auto simp: reported split: prod.splits option.splits outcome.splits dest: failed)
  show ?thesis
    unfolding keeps_def
  proof
    fix s assume s: "s \<in> S"
    show "snd (cp_sendResponse E W conf err i s) \<in> S"
    proof (cases err)
      case (Some e)
      then show ?thesis using error [OF s] by (cases e) (simp_all only: cp_sendResponse_def option.case go_error.case)
    next
      case None
      then show ?thesis
      proof (cases "\<exists>r. conf = Some (Some r)")
        case True
        then show ?thesis using response [OF s] None by (auto simp: cp_sendResponse_def)
      qed (use SendError_in [OF s] None in \<open>auto simp: cp_sendResponse_def Let_def reported split: option.splits\<close>)
    qed
  qed
qed

lemma panic_hook_in: "cp_user_keeps S H CH0 \<Longrightarrow> keeps S (cp_panic_hook H (onHandlerPanic CH0) hp)"
proof -
  assume user: "cp_user_keeps S H CH0"
  have "keeps S (and_then (run_optional (onHandlerPanic CH0) hp) (run_optional (cp_onHandlerPanic H) hp))"
    using user by (intro and_then_keeps run_optional_keeps) (auto simp: cp_user_keeps_def)
  then show ?thesis by (auto simp: keeps_def cp_panic_hook_def errC)
qed

lemma recover_in:
  assumes "cp_user_keeps S H CH0" and "snd (f s) \<in> S"
  shows "Client_RecoverPanicGoroutine E W (cp_client_handlers H CH0) kind a i b f s \<in> S"
  unfolding Client_RecoverPanicGoroutine_def
  by (rule recoverHandler_into)
    (use assms(2) in \<open>auto simp: cp_client_handlers_simps internal_error_in panic_hook_in [OF assms(1)]
      split: if_splits\<close>)

lemma handleIncomingRequest_in:
  assumes "cp_user_keeps S H CH0"
  shows "keeps S (cp_handleIncomingRequest E W H req i a)"
proof -
  have "keeps S (cp_call_method E m ty req)" if "cp_switch H a = Some (m, ty)" for m ty
    using assms that
    by (auto simp: keeps_def cp_call_method_def cp_user_keeps_def split: outcome.splits option.splits)
  then show ?thesis
    using sendResponse_in refusals_in
    by (fastforce simp: keeps_def cp_handleIncomingRequest_def split: option.splits prod.splits outcome.splits)
qed

lemma forward_in: "carries m \<Longrightarrow> keeps S (cp_forward m)"
  by (simp add: keeps_def forwarded)

lemma route_in:
  assumes "cp_user_keeps S H CH0" and "s \<in> S" and "has_payload m"
  shows "client_route E W (cp_client_handlers H CH0) m s \<in> S"
proof -
  have comp: "s1 \<in> S" if "client_complete rid s = (won, s1)" for rid won s1
    using completed [OF assms(2), of rid] that by simp
  show ?thesis
    using assms comp
    by (cases m) (auto simp: cp_client_handlers_simps has_payload_def carries_def error_message_def internal_error_in
        panic_hook_in intro!: recoverHandler_keeps forward_in split: prod.splits option.splits if_splits)
qed

lemma invalid_message_in:
  assumes "cp_user_keeps S H CH0" and "s \<in> S"
    and "client_invalid_message E W (cp_client_handlers H CH0) e t arr s = (err', s')"
  shows "s' \<in> S"
proof -
  let ?CH = "cp_client_handlers H CH0"
  obtain err s1 where run: "client_run_hook ?CH e t arr s = (err, s1)" by (cases "client_run_hook ?CH e t arr s")
  have "s1 \<in> S"
  proof (cases "invalidMessageHook CH0")
    case (Some hook)
    obtain res s2 where hk: "hook e t arr s = (res, s2)" by (cases "hook e t arr s")
    from assms(1) Some have "keeps S (hook e t arr)" by (simp add: cp_user_keeps_def)
    from keepsD [OF this assms(2) hk] run Some hk show ?thesis
      by (cases res) (auto simp: client_run_hook_def cp_client_handlers_simps panic_hook_in [OF assms(1)]
          intro!: reportHandlerPanic_keeps split: option.splits)
  qed (use run assms(2) in \<open>simp add: client_run_hook_def cp_client_handlers_simps\<close>)
  with SendError_in [of s1 E W "MessageId err" "Code err" "Description err" None] run assms(3)
  show ?thesis by (auto simp: client_invalid_message_def split: prod.splits option.splits if_splits)
qed

lemma message_in:
  assumes "cp_user_keeps S H CH0" and "s \<in> S"
  shows "snd (Client_ocppMessageHandler E W (cp_client_handlers H CH0) t s) \<in> S"
  using assms(2) route_in [OF assms] invalid_message_in [OF assms] ParseMessage_has_payload
  by (auto simp: Client_ocppMessageHandler_def split: sum.splits outcome.splits go_error.splits option.splits prod.splits
      simp del: client_route.simps)

lemma connection_in:
  assumes "cp_user_keeps S H CH0" and "s \<in> S"
  shows "Client_onDisconnected E W (cp_client_handlers H CH0) err s \<in> S"
    and "Client_onReconnected E W (cp_client_handlers H CH0) s \<in> S"
proof -
  have handlers: "onDisconnectedHandler (cp_client_handlers H CH0) = onDisconnectedHandler CH0"
    "onReconnectedHandler (cp_client_handlers H CH0) = onReconnectedHandler CH0"
    by (simp_all add: cp_client_handlers_simps)
  have "Client_RecoverPanicGoroutine E W (cp_client_handlers H CH0) kind a i b f s' \<in> S"
    if "keeps S f" and "s' \<in> S" for kind a i b f s'
    using recover_in [OF assms(1)] that by (simp add: keeps_def)
  with assms show "Client_onDisconnected E W (cp_client_handlers H CH0) err s \<in> S"
    and "Client_onReconnected E W (cp_client_handlers H CH0) s \<in> S"
    by (auto simp: Client_onDisconnected_def Client_onReconnected_def Let_def handlers paused resumed
        cp_user_keeps_def split: option.splits)
qed

text \<open>The handler goroutine on a message, when a callback that it takes out and calls leads into the set.\<close>

lemma dispatch_in:
  assumes "cp_user_keeps S H CH0" and "s \<in> S"
    and "\<And>i cb q r e. Dequeue ''main'' i (cp_callbacks s) = (Some cb, q) \<Longrightarrow>
      snd (cp_invoke H cb r e (s\<lparr>cp_callbacks := q\<rparr>)) \<in> S"
  shows "snd (cp_dispatch E W H (cp_client_handlers H CH0) m s) \<in> S"
proof (cases "im_kind m")
  case incomingRequest
  have "snd (cp_handleIncomingRequest E W H (im_request m) (im_requestID m) (im_action m) s) \<in> S"
    using handleIncomingRequest_in [OF assms(1)] assms(2) by (simp add: keeps_def)
  with incomingRequest show ?thesis by (simp add: cp_dispatch_def recover_in [OF assms(1)])
qed (use assms in \<open>auto simp: cp_dispatch_def Let_def reported intro!: recover_in split: option.splits prod.splits\<close>)

end

section \<open>No callback is lost or called twice\<close>

text \<open>
  The states in which exactly the callbacks \<open>X\<close> were accepted but are neither called, nor registered,
  nor discarded by a stop; the channel of a synchronous send belongs to one accepted callback and holds
  at most what that callback has sent.
\<close>

definition cp_owes :: "'cb cp_callback multiset \<Rightarrow> 'cb chargePoint set" where
  "cp_owes X = {s. CallbackQueue_ok (cp_callbacks s) \<and>
     mset (cp_accepted s) =
       mset (map fst (cp_invoked s)) + contents (cp_callbacks s) + mset (cp_cleared s) + X \<and>
     (\<forall>r. count_list (cp_accepted s) (AsyncResponse r) \<le> 1) \<and>
     (\<forall>r. AsyncResponse r \<in> set (cp_accepted s) \<longrightarrow> r < next_ref (cp_results s)) \<and>
     (\<forall>r. chan_cap (deref (cp_results s) r) = 1 \<and>
        length (chan_buf (deref (cp_results s) r)) \<le> count_list (map fst (cp_invoked s)) (AsyncResponse r))}"

lemma cp_owes_frame [simp]:
  "s\<lparr>c_sent := x0\<rparr> \<in> cp_owes X \<longleftrightarrow> s \<in> cp_owes X" "s\<lparr>c_dispatcher := x1\<rparr> \<in> cp_owes X \<longleftrightarrow> s \<in> cp_owes X"
  "s\<lparr>c_client := x2\<rparr> \<in> cp_owes X \<longleftrightarrow> s \<in> cp_owes X" "s\<lparr>cp_incoming := x3\<rparr> \<in> cp_owes X \<longleftrightarrow> s \<in> cp_owes X"
  "s\<lparr>cp_stopC := x4\<rparr> \<in> cp_owes X \<longleftrightarrow> s \<in> cp_owes X" "s\<lparr>cp_stopOnce := x5\<rparr> \<in> cp_owes X \<longleftrightarrow> s \<in> cp_owes X"
  "s\<lparr>cp_errC := x6\<rparr> \<in> cp_owes X \<longleftrightarrow> s \<in> cp_owes X" "s\<lparr>cp_handlerDone := x7\<rparr> \<in> cp_owes X \<longleftrightarrow> s \<in> cp_owes X"
  "s\<lparr>cp_signals := x8\<rparr> \<in> cp_owes X \<longleftrightarrow> s \<in> cp_owes X" "s\<lparr>cp_forwarding := x9\<rparr> \<in> cp_owes X \<longleftrightarrow> s \<in> cp_owes X"
  "s\<lparr>cp_reporting := x10\<rparr> \<in> cp_owes X \<longleftrightarrow> s \<in> cp_owes X" "s\<lparr>cp_waiting := x11\<rparr> \<in> cp_owes X \<longleftrightarrow> s \<in> cp_owes X"
  "s\<lparr>cp_joining := x12\<rparr> \<in> cp_owes X \<longleftrightarrow> s \<in> cp_owes X" "s\<lparr>cp_generations := x13\<rparr> \<in> cp_owes X \<longleftrightarrow> s \<in> cp_owes X"
  "s\<lparr>cp_returned := x14\<rparr> \<in> cp_owes X \<longleftrightarrow> s \<in> cp_owes X"
  by (simp_all add: cp_owes_def)

lemma cp_owes_errors [simp]:
  "cp_error err s \<in> cp_owes X \<longleftrightarrow> s \<in> cp_owes X" "cp_errorNonBlocking err s \<in> cp_owes X \<longleftrightarrow> s \<in> cp_owes X"
  by (simp_all add: cp_error_def cp_errorNonBlocking_def split: option.splits)

interpretation cpo: cp_set "cp_owes X" for X
  by unfold_locales (auto simp: client_complete_def cp_forward_def split: prod.splits)

lemma cp_owes_taken:
  assumes "s \<in> cp_owes X" and "Dequeue c i (cp_callbacks s) = (Some cb, q)"
  shows "s\<lparr>cp_callbacks := q\<rparr> \<in> cp_owes (add_mset cb X)"
  using assms Dequeue_Some [OF _ assms(2)] by (simp add: cp_owes_def)

lemma cp_owes_invoke:
  assumes "cp_user_keeps (cp_owes X) H CH0" and "s \<in> cp_owes (add_mset cb X)"
  shows "snd (cp_invoke H cb r e s) \<in> cp_owes X"
proof (cases cb)
  case (UserCallback ucb)
  let ?s = "s\<lparr>cp_invoked := cp_invoked s @ [(cb, r, e)]\<rparr>"
  have "?s \<in> cp_owes X" using assms(2) UserCallback by (simp add: cp_owes_def)
  moreover have "keeps (cp_owes X) (cp_callback H ucb r e)" using assms(1) by (simp add: cp_user_keeps_def)
  ultimately show ?thesis using UserCallback by (simp add: cp_invoke_def keeps_def)
next
  case (AsyncResponse ref)
  with assms(2) show ?thesis by (auto simp: cp_owes_def cp_invoke_def Let_def chan_send_def)
qed

lemma cp_owes_enqueue:
  assumes "s \<in> cp_owes X"
    and "\<And>r. cb = AsyncResponse r \<Longrightarrow> AsyncResponse r \<notin> set (cp_accepted s) \<and> r < next_ref (cp_results s)"
  shows "snd (cp_enqueue E i ctx req cb s) \<in> cp_owes X"
proof -
  obtain res s1 where send: "Client_SendRequestCtx E i (Some ctx) req s = (res, s1)"
    by (cases "Client_SendRequestCtx E i (Some ctx) req s")
  then obtain d where s1: "s1 = s\<lparr>c_dispatcher := d\<rparr>"
    by (auto simp: Client_SendRequestCtx_def Let_def split: if_splits sum.splits prod.splits option.splits)
      (metis Client.surjective Client.update_convs(4))+
  show ?thesis
  proof (cases res)
    case (Inr rid)
    obtain err q where reg: "register_callback ''main'' rid cb (cp_callbacks s) = (err, q)"
      by (cases "register_callback ''main'' rid cb (cp_callbacks s)")
    have "count_list (cp_accepted s) (AsyncResponse r) = 0" if "cb = AsyncResponse r" for r
      using assms(2) [OF that] by (simp add: count_list_0_iff)
    with register_callback_contents [OF _ reg] assms Inr send s1 reg show ?thesis
      by (auto simp: cp_enqueue_def TryQueue_def cp_owes_def)
  qed (use assms send s1 in \<open>simp add: cp_enqueue_def TryQueue_def cp_owes_def\<close>)
qed

lemma cp_owes_sync:
  assumes "s \<in> cp_owes X"
  shows "snd (cp_send_sync E i ctx req ty s) \<in> cp_owes X"
proof -
  obtain r rs where a: "alloc (cp_results s) (new_chan 1) = (r, rs)" by (cases "alloc (cp_results s) (new_chan 1)")
  then have r: "r = next_ref (cp_results s)" "next_ref rs = Suc r" by (auto simp: alloc_def)
  have zero: "AsyncResponse r \<notin> set (cp_accepted s)" using assms r(1) by (auto simp: cp_owes_def)
  have "s\<lparr>cp_results := rs\<rparr> \<in> cp_owes X"
    using assms r deref_alloc [OF a] by (auto simp: cp_owes_def new_chan_def less_Suc_eq)
  then have "snd (cp_enqueue E i ctx' req (AsyncResponse r) (s\<lparr>cp_results := rs\<rparr>)) \<in> cp_owes X" for ctx'
    using zero r by (intro cp_owes_enqueue) auto
  then show ?thesis
    using assms a by (auto simp: cp_send_sync_def Let_def split: prod.splits option.splits) (metis snd_conv)+
qed

lemma cp_owes_received:
  assumes "s \<in> cp_owes X" and "await_receive f (deref (cp_results s) r) = Some (ar, c)"
  shows "s\<lparr>cp_results := assign (cp_results s) r c\<rparr> \<in> cp_owes X"
proof -
  have "length (chan_buf c) \<le> length (chan_buf (deref (cp_results s) r)) \<and> chan_cap c = chan_cap (deref (cp_results s) r)"
    using assms(2) by (auto simp: await_receive_def chan_recv_def split: option.splits list.splits if_splits)
  with assms(1) show ?thesis by (auto simp: cp_owes_def intro: le_trans)
qed

lemma cp_owes_await:
  assumes "s \<in> cp_owes X" and "cp_await E W k arm s = Some (res, s')"
  shows "s' \<in> cp_owes X"
proof -
  have "s1 \<in> cp_owes X" if "awaitCtxResult W arm w s = Some (x, s1)" for w x s1
    using that assms(1) cp_owes_received [OF assms(1)]
    by (auto simp: awaitCtxResult_def Let_def split: await_stage.splits await_arm.splits option.splits if_splits)
  with assms(2) show ?thesis
    by (auto simp: cp_await_def cp_return_def Let_def split: if_splits option.splits sum.splits outcome.splits)
qed

lemma cp_owes_cleared:
  assumes "s \<in> cp_owes X"
  shows "clearCallbacks s \<in> cp_owes X"
proof -
  obtain cbs q where d: "CallbackQueue_DrainAll ''main'' (cp_callbacks s) = (cbs, q)"
    by (cases "CallbackQueue_DrainAll ''main'' (cp_callbacks s)")
  with assms DrainAll_contents [OF _ d] show ?thesis by (simp add: clearCallbacks_def cp_owes_def ac_simps)
qed

lemma cp_owes_lifecycle:
  assumes "s \<in> cp_owes X"
  shows "snd (close_signal r s) \<in> cp_owes X" and "snd (closeStopC s) \<in> cp_owes X"
    and "snd (cp_stop_signal s) \<in> cp_owes X" and "snd (cp_start_generation result url s) \<in> cp_owes X"
proof -
  have close: "snd (close_signal r s) \<in> cp_owes X" if "s \<in> cp_owes X" for r s
    using that by (auto simp: close_signal_def split: outcome.splits)
  then show "snd (close_signal r s) \<in> cp_owes X" using assms .
  show stop: "snd (closeStopC s) \<in> cp_owes X"
    using assms close by (auto simp: closeStopC_def split: option.splits)
  then show "snd (cp_stop_signal s) \<in> cp_owes X"
    by (cases "closeStopC s") (auto simp: cp_stop_signal_def Client_Stop_def Let_def split: outcome.splits)
  show "snd (cp_start_generation result url s) \<in> cp_owes X"
    using assms
    by (auto simp: cp_start_generation_def Client_Start_def storeStopC_def storeHandlerDone_def Let_def
        split: prod.splits option.splits)
qed

lemma cp_owes_handler:
  assumes "\<And>X. cp_user_keeps (cp_owes X) H CH0" and "s \<in> cp_owes {#}"
    and "asyncCallbackHandler E W H (cp_client_handlers H CH0) stop g s = Some (res, s')"
  shows "s' \<in> cp_owes {#}"
proof (cases stop)
  case True
  with assms(3) have "(res, s') = close_signal (snd g) (clearCallbacks (s\<lparr>cp_generations := removeAll g (cp_generations s)\<rparr>))"
    by (auto simp: asyncCallbackHandler_def split: if_splits)
  then show ?thesis using assms(2) cp_owes_lifecycle(1) cp_owes_cleared by (metis cp_owes_frame(14) snd_conv)
next
  case False
  then obtain m c where "cp_dispatch E W H (cp_client_handlers H CH0) m (s\<lparr>cp_incoming := c\<rparr>) = (res, s')"
    using assms(3) by (auto simp: asyncCallbackHandler_def split: if_splits option.splits)
  moreover have "snd (cp_dispatch E W H (cp_client_handlers H CH0) m (s\<lparr>cp_incoming := c\<rparr>)) \<in> cp_owes {#}"
  proof (rule cpo.dispatch_in [OF assms(1)])
    show s1: "s\<lparr>cp_incoming := c\<rparr> \<in> cp_owes {#}" using assms(2) by simp
    show "snd (cp_invoke H cb r e (s\<lparr>cp_incoming := c, cp_callbacks := q\<rparr>)) \<in> cp_owes {#}"
      if "Dequeue ''main'' i (cp_callbacks (s\<lparr>cp_incoming := c\<rparr>)) = (Some cb, q)" for i cb q r e
      using cp_owes_taken [OF s1 that] by (intro cp_owes_invoke [OF assms(1)]) simp
  qed
  ultimately show ?thesis by (metis snd_conv)
qed

lemma cp_owes_step:
  assumes user: "\<And>X. cp_user_keeps (cp_owes X) H CH0" and s: "s \<in> cp_owes {#}"
    and step: "cp_step E W H (cp_client_handlers H CH0) e s = Some (res, s')"
  shows "s' \<in> cp_owes {#}"
proof (cases e)
  case (CpStart result url)
  with step s cp_owes_lifecycle(3,4) [OF s] show ?thesis
    by (auto simp: CP_Start_def split: if_splits option.splits prod.splits outcome.splits)
next
  case (CpStop ctx)
  with step cp_owes_lifecycle(3) [OF s] show ?thesis
    by (auto simp: CP_StopCtx_def Let_def split: if_splits option.splits prod.splits outcome.splits)
next
  case (CpJoined first result)
  with step s show ?thesis
    by (auto simp: cp_joined_def intro!: cp_owes_lifecycle(4) split: option.splits cp_join.splits)
next
  case (CpMessage t)
  with step cpo.message_in [OF user s, of E W t] show ?thesis
    by (auto split: if_splits prod.splits outcome.splits)
next
  case (CpReceive g)
  with step s cp_owes_handler [OF user s] show ?thesis by simp
next
  case (CpExit g)
  with step s cp_owes_handler [OF user s] show ?thesis by simp
next
  case (CpSendSync i ctx req ty)
  with step cp_owes_sync [OF s] show ?thesis by auto
next
  case (CpSendAsync i ctx req cb)
  with step s cp_owes_enqueue [OF s, of "UserCallback cb"] show ?thesis
    by (auto simp: CP_SendRequestAsyncCtx_def Let_def split: if_splits)
next
  case (CpAwait k arm)
  with step cp_owes_await [OF s] show ?thesis by simp
next
  case (CpDisconnected err)
  with step cpo.connection_in(1) [OF user s] show ?thesis by (auto split: if_splits)
next
  case CpReconnected
  with step cpo.connection_in(2) [OF user s] show ?thesis by (auto split: if_splits)
qed (use step s in \<open>auto simp: onRequestTimeout_def cp_forward_def CP_Errors_def split: if_splits option.splits prod.splits\<close>)

lemma cp_owes_api:
  assumes "s \<in> cp_owes X" and "api_calls E s s'"
  shows "s' \<in> cp_owes X"
  using assms(2)
proof induction
  case (api_send s1 i ctx req cb)
  then show ?case using cp_owes_enqueue [of s1 X "UserCallback cb"] by (simp add: CP_SendRequestAsyncCtx_def Let_def)
next
  case (api_errors s1)
  then show ?case by (simp add: CP_Errors_def split: option.splits)
qed (rule assms(1))

lemma cp_runs_owe:
  assumes "cp_runs E H (cp_client_handlers H CH0) s0 es s" and "cp_uses_api E H CH0" and "s0 \<in> cp_owes {#}"
  shows "s \<in> cp_owes {#}"
proof -
  have user: "cp_user_keeps (cp_owes X) H CH0" for X by (rule uses_api_keeps [OF assms(2) cp_owes_api])
  show ?thesis using assms(1) by induction (use assms(3) cp_owes_step [OF user] in auto)
qed

lemma New_owes: "NewChargePoint dc ep \<in> cp_owes {#}"
  by (simp add: NewChargePoint_def cp_owes_def new_chan_def deref_def Let_def cbq.empty_ok cbq.empty_content)

lemma owed_once:
  assumes "s \<in> cp_owes {#}"
  shows "count_list (map fst (cp_invoked s)) (AsyncResponse r) + count (contents (cp_callbacks s)) (AsyncResponse r) \<le> 1"
proof -
  have "\<forall>r. count_list (cp_accepted s) (AsyncResponse r) \<le> 1" using assms unfolding cp_owes_def by blast
  then have "count (mset (cp_accepted s)) (AsyncResponse r) \<le> 1" by (simp only: count_mset)
  moreover have "mset (cp_accepted s) = mset (map fst (cp_invoked s)) + contents (cp_callbacks s) + mset (cp_cleared s)"
    using assms by (simp add: cp_owes_def)
  ultimately have "count (mset (map fst (cp_invoked s))) (AsyncResponse r) + count (contents (cp_callbacks s)) (AsyncResponse r) \<le> 1"
    by simp
  then show ?thesis by (simp only: count_mset)
qed

section \<open>Properties\<close>


text \<open>
  C10: no callback is lost and none is called twice. In every interleaving of sends, messages,
  cancellations, disconnections, starts, stops and steps of the goroutines that begins with a new charge
  point, the callbacks of the requests that were accepted are exactly those called so far, those still
  registered, and those a stop has discarded.
\<close>

theorem cp_callbacks_conserved:
  assumes "cp_uses_api E H CH0" and "cp_runs E H (cp_client_handlers H CH0) (NewChargePoint default_client endpoint) es s"
  shows "mset (cp_accepted s) = mset (map fst (cp_invoked s)) + contents (cp_callbacks s) + mset (cp_cleared s)"
  using cp_runs_owe [OF assms(2,1) New_owes] by (simp add: cp_owes_def)

text \<open>
  C11: the handler goroutine never blocks on a synchronous caller. In every such interleaving the channel
  of a synchronous send gets at most one result and holds at most its capacity of one, so that as long as
  its callback is registered, calling it finds room in the channel, whether or not the caller has given up.
\<close>

theorem cp_results_bounded:
  assumes "cp_uses_api E H CH0" and "cp_runs E H (cp_client_handlers H CH0) (NewChargePoint default_client endpoint) es s"
  shows "count_list (map fst (cp_invoked s)) (AsyncResponse r) \<le> 1 \<and>
    length (chan_buf (deref (cp_results s) r)) \<le> chan_cap (deref (cp_results s) r) \<and>
    (AsyncResponse r \<in># contents (cp_callbacks s) \<longrightarrow> \<not> chan_full (deref (cp_results s) r))"
proof -
  have s: "s \<in> cp_owes {#}" by (rule cp_runs_owe [OF assms(2,1) New_owes])
  then have "chan_cap (deref (cp_results s) r) = 1"
    "length (chan_buf (deref (cp_results s) r)) \<le> count_list (map fst (cp_invoked s)) (AsyncResponse r)"
    by (simp_all add: cp_owes_def)
  with owed_once [OF s, of r] show ?thesis
    by (auto simp: chan_full_def simp del: count_greater_zero_iff simp flip: count_greater_zero_iff)
qed

section \<open>Witnesses\<close>

definition sample_cp_method :: "'s cp_method" where
  "sample_cp_method _ s = (Panics ''boom'', s)"

definition sample_cp_handlers :: "(nat chargePoint, nat) cp_handlers" where
  "sample_cp_handlers =
     \<lparr>cp_coreHandler = Some \<lparr>cp_OnChangeAvailability = sample_cp_method, cp_OnChangeConfiguration = sample_cp_method,
        cp_OnClearCache = sample_cp_method, cp_OnDataTransfer = sample_cp_method,
        cp_OnGetConfiguration = sample_cp_method, cp_OnRemoteStartTransaction = sample_cp_method,
        cp_OnRemoteStopTransaction = sample_cp_method, cp_OnReset = sample_cp_method,
        cp_OnUnlockConnector = sample_cp_method\<rparr>,
      cp_localAuthListHandler = None, cp_firmwareHandler = None, cp_reservationHandler = None,
      cp_remoteTriggerHandler = None, cp_smartChargingHandler = None, cp_securityHandler = None,
      cp_logHandler = None, cp_extendedTriggerMessageHandler = None, cp_secureFirmwareHandler = None,
      cp_certificateHandler = None, cp_onHandlerPanic = None, cp_callback = \<lambda>_ _ _ s. (Returns (), s)\<rparr>"

lemma sample_cp_switch: "cp_switch sample_cp_handlers a = Some (Some m, ty) \<Longrightarrow> m = sample_cp_method"
  by (auto simp: cp_switch_def sample_cp_handlers_def split: if_splits)

lemma sample_uses_api: "cp_uses_api E sample_cp_handlers no_client_handlers"
proof -
  have "keeps S (m r)" if "cp_switch sample_cp_handlers a = Some (Some m, ty)" for S a m ty r
    using sample_cp_switch [OF that] by (simp add: keeps_def sample_cp_method_def)
  then show ?thesis
    unfolding cp_uses_api_def cp_user_keeps_def
    by (simp add: no_client_handlers_def) (simp add: sample_cp_handlers_def keeps_def)
qed

lemma sample_cp_quiet: "cp_quiet sample_cp_handlers (cp_client_handlers sample_cp_handlers no_client_handlers)"
proof -
  have "keeps S (m r)" if "cp_switch sample_cp_handlers a = Some (Some m, ty)" for S a m ty r
    using sample_cp_switch [OF that] by (simp add: keeps_def sample_cp_method_def)
  then show ?thesis
    unfolding cp_quiet_def
    by (simp add: cp_client_handlers_simps no_client_handlers_def)
      (simp add: sample_cp_handlers_def keeps_def cp_panic_hook_def and_then_def run_optional_def
        cp_errorNonBlocking_def cp_silent_def split: option.splits)
qed

text \<open>A charge point that was started and has a request in its channel.\<close>

definition sample_cp :: "nat chargePoint" where
  "sample_cp = (snd (cp_start_generation (\<lambda>_. None) ''ws'' (NewChargePoint sample_client None)))
     \<lparr>cp_incoming := chan_send (request_message (Some heartbeat) ''7'' ''Reset'') (new_chan 1)\<rparr>"

lemma sample_cp_views [simp]:
  "known_dialect (c_Endpoint sample_cp)" "cp_generations sample_cp = [(Suc 0, 2)]" "cp_reporting sample_cp = None"
  "c_sent sample_cp = []" "cp_incoming sample_cp = chan_send (request_message (Some heartbeat) ''7'' ''Reset'') (new_chan 1)"
  by (simp_all add: sample_cp_def cp_start_generation_def NewChargePoint_def alloc_def Let_def storeStopC_def
      storeHandlerDone_def Client_Start_def Endpoint_SetDialect_def)


text \<open>A run in which the charge point is started and two requests are sent.\<close>

lemma sample_run:
  "\<exists>s. cp_runs sample_env sample_cp_handlers CH (NewChargePoint sample_client None)
     [(W, CpStart (\<lambda>_. None) ''ws''), (W, CpSendAsync ''9'' None heartbeat 1), (W, CpSendSync ''10'' None heartbeat None)] s"
proof -
  let ?s0 = "NewChargePoint sample_client None :: nat chargePoint"
  have "cp_step sample_env W sample_cp_handlers CH (CpStart (\<lambda>_. None) ''ws'') ?s0 =
      Some (Returns (), snd (cp_start_generation (\<lambda>_. None) ''ws'' ?s0))"
    by (simp add: CP_Start_def NewChargePoint_def)
  from cp_run_step [OF cp_run_nil this]
  have "cp_runs sample_env sample_cp_handlers CH ?s0 [(W, CpStart (\<lambda>_. None) ''ws'')]
    (snd (cp_start_generation (\<lambda>_. None) ''ws'' ?s0))" by simp
  from cp_run_step [OF cp_run_step [OF this cp_step.simps(13)] cp_step.simps(12)] show ?thesis
    by (simp only: append_Cons append_Nil) blast
qed

theorem cp_callbacks_conserved_witness:
  "\<exists>s. cp_runs sample_env sample_cp_handlers (cp_client_handlers sample_cp_handlers no_client_handlers)
     (NewChargePoint sample_client None) [(up_outside, CpStart (\<lambda>_. None) ''ws''),
       (up_outside, CpSendAsync ''9'' None heartbeat 1), (up_outside, CpSendSync ''10'' None heartbeat None)] s \<and>
     mset (cp_accepted s) = mset (map fst (cp_invoked s)) + contents (cp_callbacks s) + mset (cp_cleared s)"
  using cp_callbacks_conserved [OF sample_uses_api] sample_run by blast

theorem cp_results_bounded_witness:
  "\<exists>s. cp_runs sample_env sample_cp_handlers (cp_client_handlers sample_cp_handlers no_client_handlers)
     (NewChargePoint sample_client None) [(up_outside, CpStart (\<lambda>_. None) ''ws''),
       (up_outside, CpSendAsync ''9'' None heartbeat 1), (up_outside, CpSendSync ''10'' None heartbeat None)] s \<and>
     length (chan_buf (deref (cp_results s) 0)) \<le> chan_cap (deref (cp_results s) 0)"
  using cp_results_bounded [OF sample_uses_api] sample_run by blast

end
