(* ===== verification/Charge_Lifecycle.thy ===== *)
theory Charge_Lifecycle
  imports Charge_Safety
begin

text \<open>
  The generations of the charge point's handler goroutine: over all interleavings at most one is alive,
  no channel is closed twice and no step of the library panics; a stop releases every goroutine that
  waits, and the wait for the handler ends.
\<close>

section \<open>The invariant\<close>

text \<open>
  The stop channel is open exactly while its \<open>stopOnce\<close> has not fired, the channel \<open>handlerDone\<close> exactly
  while the handler goroutine is alive, which is then the only one and listens on the current stop
  channel. A \<open>Start\<close> that waits for the previous handler has fired \<open>stopOnce\<close>.
\<close>

definition generation_ok :: "'cb chargePoint \<Rightarrow> bool" where
  "generation_ok s \<longleftrightarrow>
     cp_handlerDone s < next_ref (cp_signals s) \<and>
     (cp_stopC s = None \<longrightarrow> cp_stopOnce s = None) \<and>
     (\<forall>r. cp_stopC s = Some r \<longrightarrow> r < next_ref (cp_signals s) \<and> r \<noteq> cp_handlerDone s \<and>
        cp_stopOnce s = Some (chan_closed (deref (cp_signals s) r))) \<and>
     (if chan_closed (deref (cp_signals s) (cp_handlerDone s)) then cp_generations s = []
      else \<exists>r. cp_stopC s = Some r \<and> cp_generations s = [(r, cp_handlerDone s)]) \<and>
     (\<forall>url h. cp_joining s = Some (JoinStart url h) \<longrightarrow> h = cp_handlerDone s \<and> cp_stopOnce s = Some True) \<and>
     (\<forall>ctx h. cp_joining s = Some (JoinStop ctx h) \<longrightarrow> h = cp_handlerDone s)"

lemma signaled_iff: "signaled s r \<longleftrightarrow> (\<exists>x. r = Some x \<and> chan_closed (deref (cp_signals s) x))"
  by (simp add: signaled_def split: option.splits)

text \<open>The stop channel of a \<open>select\<close> is the current one, or it is closed.\<close>

definition captured :: "'cb chargePoint \<Rightarrow> ref option \<Rightarrow> bool" where
  "captured s r \<longleftrightarrow> (\<exists>x. r = Some x \<and> x < next_ref (cp_signals s)) \<and> (r = cp_stopC s \<or> signaled s r)"

definition parked_ok :: "'cb chargePoint \<Rightarrow> bool" where
  "parked_ok s \<longleftrightarrow>
     (\<forall>p\<in>set (cp_forwarding s). carries (fst p) \<and> captured s (snd p)) \<and>
     (\<forall>p. cp_reporting s = Some p \<longrightarrow> captured s (snd p)) \<and>
     (\<forall>w\<in>set (cp_waiting s). w_stopC w = None \<or> captured s (w_stopC w)) \<and>
     (\<forall>m\<in>set (chan_buf (cp_incoming s)). carries m) \<and>
     chan_cap (cp_incoming s) = 1 \<and> length (chan_buf (cp_incoming s)) \<le> 1"

definition cp_ok :: "bool \<Rightarrow> 'cb chargePoint set" where
  "cp_ok started = {s. (started \<longrightarrow> cp_stopC s \<noteq> None) \<and> known_dialect (c_Endpoint s) \<and>
     pending_payload (c_dispatcher s) \<and> generation_ok s \<and> parked_ok s}"

lemmas cp_ok_defs = cp_ok_def generation_ok_def parked_ok_def captured_def signaled_iff

lemma cp_ok_frame [simp]:
  "s\<lparr>c_sent := x0\<rparr> \<in> cp_ok b \<longleftrightarrow> s \<in> cp_ok b" "s\<lparr>c_client := x1\<rparr> \<in> cp_ok b \<longleftrightarrow> s \<in> cp_ok b"
  "s\<lparr>cp_callbacks := x2\<rparr> \<in> cp_ok b \<longleftrightarrow> s \<in> cp_ok b" "s\<lparr>cp_errC := x3\<rparr> \<in> cp_ok b \<longleftrightarrow> s \<in> cp_ok b"
  "s\<lparr>cp_results := x4\<rparr> \<in> cp_ok b \<longleftrightarrow> s \<in> cp_ok b" "s\<lparr>cp_accepted := x5\<rparr> \<in> cp_ok b \<longleftrightarrow> s \<in> cp_ok b"
  "s\<lparr>cp_invoked := x6\<rparr> \<in> cp_ok b \<longleftrightarrow> s \<in> cp_ok b" "s\<lparr>cp_cleared := x7\<rparr> \<in> cp_ok b \<longleftrightarrow> s \<in> cp_ok b"
  "s\<lparr>cp_returned := x8\<rparr> \<in> cp_ok b \<longleftrightarrow> s \<in> cp_ok b"
  by (simp_all add: cp_ok_defs)

lemma cp_ok_dispatcher: "s \<in> cp_ok b \<Longrightarrow> pending_payload d \<Longrightarrow> s\<lparr>c_dispatcher := d\<rparr> \<in> cp_ok b"
  by (simp add: cp_ok_defs)

lemma cp_ok_payload: "s \<in> cp_ok b \<Longrightarrow> pending_payload (c_dispatcher s)"
  by (simp add: cp_ok_def)

lemma cp_ok_started: "s \<in> cp_ok b \<Longrightarrow> cp_stopC s \<noteq> None \<Longrightarrow> s \<in> cp_ok True"
  by (simp add: cp_ok_def)

lemma cp_ok_weaken: "s \<in> cp_ok b \<Longrightarrow> s \<in> cp_ok False"
  by (simp add: cp_ok_def)

lemma pending_payload_keeps:
  assumes "pending_payload d"
  shows "pending_payload (CD_Pause d)" and "pending_payload (CD_Resume d)" and "pending_payload (CD_Start d)"
    and "pending_payload (CD_Stop d)" and "pending_payload (snd (CD_CompleteRequest rid d))"
    and "pending_payload (snd (CD_SendRequest b d))"
  using assms
  by (auto simp: pending_payload_def disp_defs state_defs Let_def split: prod.splits sum.splits option.splits)

lemma captured_current: "s \<in> cp_ok True \<Longrightarrow> captured s (cp_stopC s)"
  by (auto simp: cp_ok_defs split: option.splits)

lemma cp_ok_error: "s \<in> cp_ok True \<Longrightarrow> cp_error err s \<in> cp_ok True"
  using captured_current [of s] by (auto simp: cp_error_def loadStopC_def cp_ok_defs split: option.splits)

lemma cp_ok_forward: "s \<in> cp_ok True \<Longrightarrow> carries m \<Longrightarrow> snd (cp_forward m s) \<in> cp_ok True"
  using captured_current [of s] by (auto simp: cp_forward_def loadStopC_def cp_ok_defs split: option.splits)

interpretation cpk: cp_set "cp_ok True"
proof unfold_locales
  fix s :: "'a chargePoint" and rid err m x assume s: "s \<in> cp_ok True"
  show "s\<lparr>c_sent := x\<rparr> \<in> cp_ok True" using s by simp
  show "snd (client_complete rid s) \<in> cp_ok True"
    using s pending_payload_keeps(5) [OF cp_ok_payload [OF s], of rid]
    by (auto simp: client_complete_def intro!: cp_ok_dispatcher split: prod.splits)
  show "cp_errorNonBlocking err s \<in> cp_ok True" using s by (simp add: cp_errorNonBlocking_def split: option.splits)
  show "cp_error err s \<in> cp_ok True" using s by (rule cp_ok_error)
  show "carries m \<Longrightarrow> snd (cp_forward m s) \<in> cp_ok True" using s by (rule cp_ok_forward)
  show "s\<lparr>c_dispatcher := CD_Pause (c_dispatcher s)\<rparr> \<in> cp_ok True"
    using s by (simp add: cp_ok_dispatcher pending_payload_keeps cp_ok_payload)
  show "s\<lparr>c_dispatcher := CD_Resume (c_dispatcher s)\<rparr> \<in> cp_ok True"
    using s by (simp add: cp_ok_dispatcher pending_payload_keeps cp_ok_payload)
qed

section \<open>Starting and stopping\<close>

lemma captured_mono:
  assumes "captured s r" and "next_ref (cp_signals s) \<le> next_ref (cp_signals s')"
    and "cp_stopC s' = cp_stopC s \<or> cp_stopOnce s = Some True \<or> cp_stopC s = None" and "generation_ok s"
    and "\<And>x. x < next_ref (cp_signals s) \<Longrightarrow> chan_closed (deref (cp_signals s) x) \<Longrightarrow> chan_closed (deref (cp_signals s') x)"
  shows "captured s' r"
proof -
  obtain x where x: "r = Some x" "x < next_ref (cp_signals s)" using assms(1) by (auto simp: captured_def)
  have "chan_closed (deref (cp_signals s) x)" if "r \<noteq> cp_stopC s'"
    using that assms(1,3,4) x(1) by (auto simp: captured_def signaled_iff generation_ok_def)
  with assms(2,5) x show ?thesis by (auto simp: captured_def signaled_iff)
qed

lemma parked_mono:
  assumes "parked_ok s" and "\<And>r. captured s r \<Longrightarrow> captured s' r"
    and "cp_forwarding s' = cp_forwarding s" and "cp_reporting s' = cp_reporting s" and "cp_waiting s' = cp_waiting s"
    and "cp_incoming s' = cp_incoming s"
  shows "parked_ok s'"
  using assms unfolding parked_ok_def by auto

lemma closeStopC_ok:
  assumes "s \<in> cp_ok b"
  shows "\<exists>s'. closeStopC s = (Returns (), s') \<and> s' \<in> cp_ok b \<and> cp_joining s' = cp_joining s \<and>
    (cp_stopOnce s \<noteq> None \<longrightarrow> cp_stopOnce s' = Some True)"
proof (cases "cp_stopOnce s = Some False")
  case True
  with assms obtain r where r: "cp_stopC s = Some r" "\<not> chan_closed (deref (cp_signals s) r)"
    by (auto simp: cp_ok_def generation_ok_def)
  let ?s = "s\<lparr>cp_stopOnce := Some True,
    cp_signals := assign (cp_signals s) r ((deref (cp_signals s) r)\<lparr>chan_closed := True\<rparr>)\<rparr>"
  from True r have "closeStopC s = (Returns (), ?s)"
    by (simp add: closeStopC_def loadStopC_def close_signal_def chan_close_def)
  moreover have "captured ?s x" if "captured s x" for x
    using that by (rule captured_mono) (use assms in \<open>auto simp: cp_ok_def\<close>)
  then have "parked_ok ?s" by (rule parked_mono [rotated]) (use assms in \<open>auto simp: cp_ok_def\<close>)
  moreover have "generation_ok ?s" using assms True r by (auto simp: cp_ok_def generation_ok_def)
  ultimately show ?thesis using assms by (simp add: cp_ok_def)
next
  case False
  then show ?thesis using assms by (cases "cp_stopOnce s") (auto simp: closeStopC_def)
qed

lemma stop_signal_ok:
  assumes "s \<in> cp_ok b"
  shows "\<exists>s'. cp_stop_signal s = (Returns (), s') \<and> s' \<in> cp_ok b \<and> cp_joining s' = cp_joining s \<and>
    (cp_stopOnce s \<noteq> None \<longrightarrow> cp_stopOnce s' = Some True)"
proof -
  obtain s' where s': "closeStopC s = (Returns (), s')" "s' \<in> cp_ok b" "cp_joining s' = cp_joining s"
    "cp_stopOnce s \<noteq> None \<longrightarrow> cp_stopOnce s' = Some True"
    using closeStopC_ok [OF assms] by blast
  moreover from s'(2) have "Client_Stop s' \<in> cp_ok b"
    by (auto simp: Client_Stop_def Let_def intro!: cp_ok_dispatcher pending_payload_keeps dest: cp_ok_payload)
  moreover have "cp_joining (Client_Stop s') = cp_joining s'" "cp_stopOnce (Client_Stop s') = cp_stopOnce s'"
    by (simp_all add: Client_Stop_def Let_def)
  ultimately show ?thesis by (simp add: cp_stop_signal_def)
qed

lemma cp_ok_joining:
  assumes "s \<in> cp_ok b"
  shows "s\<lparr>cp_joining := None\<rparr> \<in> cp_ok b"
    and "s\<lparr>cp_joining := Some (JoinStop ctx (cp_handlerDone s))\<rparr> \<in> cp_ok b"
    and "cp_stopOnce s = Some True \<Longrightarrow> s\<lparr>cp_joining := Some (JoinStart url (cp_handlerDone s))\<rparr> \<in> cp_ok b"
  using assms by (simp_all add: cp_ok_defs)

lemma start_generation_ok:
  fixes s :: "'cb chargePoint"
  assumes "s \<in> cp_ok False" and "cp_generations s = []" and "cp_stopOnce s \<noteq> Some False" and "cp_joining s = None"
  shows "snd (cp_start_generation result url s) \<in> cp_ok False"
proof -
  define n where "n = next_ref (cp_signals s)"
  define sg where "sg = \<lparr>cells = (cells (cp_signals s))(n := new_chan 0, Suc n := new_chan 0), next_ref = Suc (Suc n)\<rparr>"
  let ?s = "s\<lparr>cp_signals := sg, cp_stopC := Some n, cp_stopOnce := Some False\<rparr>"
  have sg: "deref sg r = (if r = n \<or> r = Suc n then new_chan 0 else deref (cp_signals s) r)" for r
    by (simp add: sg_def deref_def)
  have next_sg: "next_ref sg = Suc (Suc n)" by (simp add: sg_def)
  have gen: "generation_ok s" and park: "parked_ok s" using assms(1) by (auto simp: cp_ok_def)
  have stopped: "cp_stopOnce s = Some True \<or> cp_stopC s = None"
    using gen assms(3) by (cases "cp_stopC s") (auto simp: generation_ok_def)
  have captured: "captured s' x" if "captured s x" and "cp_signals s' = sg" for x and s' :: "'cb chargePoint"
    using that(1) by (rule captured_mono [OF _ _ _ gen]) (use stopped in \<open>auto simp: that(2) n_def [symmetric] sg next_sg\<close>)
  have parked: "parked_ok s'" if "cp_signals s' = sg" "cp_forwarding s' = cp_forwarding s" "cp_reporting s' = cp_reporting s"
    "cp_waiting s' = cp_waiting s" "cp_incoming s' = cp_incoming s" for s' :: "'cb chargePoint"
    using captured [OF _ that(1)] that(2-5) by (rule parked_mono [OF park])
  have failed: "?s \<in> cp_ok False"
    using gen assms by (auto simp: cp_ok_def generation_ok_def sg next_sg n_def [symmetric] new_chan_def parked split: if_splits)
  have up: "?s\<lparr>c_client := w, c_dispatcher := CD_Start (c_dispatcher s), cp_handlerDone := Suc n,
      cp_generations := [(n, Suc n)]\<rparr> \<in> cp_ok False" for w
    using gen assms by (auto simp: cp_ok_def generation_ok_def sg next_sg n_def [symmetric] new_chan_def parked
        intro: pending_payload_keeps)
  have start: "cp_start_generation result url s = (case Client_Start result url ?s of
      (Some err, s) \<Rightarrow> (Some err, s)
    | (None, s) \<Rightarrow> (None, s\<lparr>cp_handlerDone := Suc n, cp_generations := (n, Suc n) # cp_generations s\<rparr>))"
    by (simp add: cp_start_generation_def alloc_def Let_def storeStopC_def storeHandlerDone_def n_def sg_def
        cong: prod.case_cong option.case_cong)
  show ?thesis
  proof (cases "result (url @ ''/'' @ c_Id s)")
    case None
    with up assms(2) show ?thesis by (simp add: start Client_Start_def Let_def)
  qed (use failed in \<open>simp add: start Client_Start_def Let_def\<close>)
qed

section \<open>The handler goroutine\<close>

lemma generation_alive:
  assumes "s \<in> cp_ok b" and "g \<in> set (cp_generations s)"
  shows "cp_generations s = [g]" and "cp_stopC s = Some (fst g)" and "snd g = cp_handlerDone s"
    and "\<not> chan_closed (deref (cp_signals s) (snd g))"
  using assms by (auto simp: cp_ok_def generation_ok_def split: if_splits)

lemma cp_ok_received:
  assumes "s \<in> cp_ok b" and "chan_recv (cp_incoming s) = Some (m, c)"
  shows "s\<lparr>cp_incoming := c\<rparr> \<in> cp_ok b" and "carries m"
  using assms by (auto simp: cp_ok_defs chan_recv_def split: list.splits)

lemma cp_ok_invoke:
  assumes "cp_user_keeps (cp_ok True) H CH0" and "s \<in> cp_ok True"
  shows "snd (cp_invoke H cb r e s) \<in> cp_ok True"
  using assms by (auto simp: cp_invoke_def Let_def cp_user_keeps_def keeps_def split: cp_callback.splits)

lemma cp_dispatch_returns: "carries m \<Longrightarrow> \<exists>s'. cp_dispatch E W H CH m s = (Returns (), s')"
  by (auto simp: cp_dispatch_def carries_def Let_def split: incomingKind.splits option.splits prod.splits)

lemma handler_receive_ok:
  assumes "cp_user_keeps (cp_ok True) H CH0" and "s \<in> cp_ok b"
    and "asyncCallbackHandler E W H (cp_client_handlers H CH0) False g s = Some (res, s')"
  shows "s' \<in> cp_ok True" and "res = Returns ()"
proof -
  let ?CH = "cp_client_handlers H CH0"
  obtain m c where recv: "chan_recv (cp_incoming s) = Some (m, c)"
    and disp: "cp_dispatch E W H ?CH m (s\<lparr>cp_incoming := c\<rparr>) = (res, s')" and g: "g \<in> set (cp_generations s)"
    using assms(3) by (auto simp: asyncCallbackHandler_def split: if_splits option.splits)
  note c = cp_ok_received [OF assms(2) recv]
  have s1: "s\<lparr>cp_incoming := c\<rparr> \<in> cp_ok True"
    using generation_alive(2) [OF assms(2) g] by (intro cp_ok_started [OF c(1)]) simp
  then have "snd (cp_dispatch E W H ?CH m (s\<lparr>cp_incoming := c\<rparr>)) \<in> cp_ok True"
    by (rule cpk.dispatch_in [OF assms(1)]) (intro cp_ok_invoke [OF assms(1)], simp add: s1)
  with disp show "s' \<in> cp_ok True" by simp
  show "res = Returns ()" using cp_dispatch_returns [OF c(2), of E W H ?CH "s\<lparr>cp_incoming := c\<rparr>"] disp by auto
qed

lemma clearCallbacks_ok: "clearCallbacks s \<in> cp_ok b \<longleftrightarrow> s \<in> cp_ok b"
  by (simp add: clearCallbacks_def split: prod.splits)

lemma handler_exit_ok:
  assumes "s \<in> cp_ok b" and "g \<in> set (cp_generations s)" and "cp_reporting s = None" and "signaled s (Some (fst g))"
  shows "\<exists>s'. asyncCallbackHandler E W H CH True g s = Some (Returns (), s') \<and> s' \<in> cp_ok b \<and> cp_generations s' = [] \<and>
    signaled s' (Some (cp_handlerDone s')) \<and> cp_handlerDone s' = cp_handlerDone s \<and> cp_forwarding s' = cp_forwarding s \<and>
    cp_reporting s' = None \<and> cp_joining s' = cp_joining s \<and> cp_waiting s' = cp_waiting s"
proof -
  note g = generation_alive [OF assms(1,2)]
  obtain cbs q where d: "CallbackQueue_DrainAll ''main'' (cp_callbacks s) = (cbs, q)"
    by (cases "CallbackQueue_DrainAll ''main'' (cp_callbacks s)")
  let ?sg = "assign (cp_signals s) (snd g) ((deref (cp_signals s) (snd g))\<lparr>chan_closed := True\<rparr>)"
  let ?s = "s\<lparr>cp_generations := [], cp_signals := ?sg\<rparr>"
  have step: "asyncCallbackHandler E W H CH True g s =
      Some (Returns (), ?s\<lparr>cp_callbacks := q, cp_cleared := cp_cleared s @ cbs\<rparr>)"
    using assms g d by (simp add: asyncCallbackHandler_def clearCallbacks_def close_signal_def chan_close_def)
  have "captured ?s x" if "captured s x" for x
    using that by (rule captured_mono) (use assms in \<open>auto simp: cp_ok_def\<close>)
  then have "parked_ok ?s" by (rule parked_mono [rotated]) (use assms in \<open>auto simp: cp_ok_def\<close>)
  moreover have "generation_ok ?s" using assms(1) g by (auto simp: cp_ok_def generation_ok_def)
  ultimately have "?s \<in> cp_ok b" using assms(1) by (simp add: cp_ok_def)
  with step g assms(3) show ?thesis by (simp add: signaled_iff)
qed

section \<open>Sending and waiting\<close>

lemma Client_SendRequestCtx_dispatcher:
  assumes "Client_SendRequestCtx E i ctx req s = (res, s1)"
  shows "s1 = s \<or> (\<exists>b. s1 = s\<lparr>c_dispatcher := snd (CD_SendRequest b (c_dispatcher s))\<rparr>)"
  using assms
  by (auto simp: Client_SendRequestCtx_def Let_def split: if_splits sum.splits prod.splits option.splits) (metis snd_conv)+

lemma enqueue_ok:
  assumes "s \<in> cp_ok b"
  shows "snd (cp_enqueue E i ctx req cb s) \<in> cp_ok b"
    and "cp_stopC (snd (cp_enqueue E i ctx req cb s)) = cp_stopC s"
proof -
  obtain res s1 where send: "Client_SendRequestCtx E i (Some ctx) req s = (res, s1)"
    by (cases "Client_SendRequestCtx E i (Some ctx) req s")
  have "s1 \<in> cp_ok b \<and> cp_stopC s1 = cp_stopC s"
    using Client_SendRequestCtx_dispatcher [OF send] assms
    by (auto intro!: cp_ok_dispatcher pending_payload_keeps dest: cp_ok_payload)
  with send show "snd (cp_enqueue E i ctx req cb s) \<in> cp_ok b"
    and "cp_stopC (snd (cp_enqueue E i ctx req cb s)) = cp_stopC s"
    by (auto simp: cp_enqueue_def TryQueue_def split: sum.splits prod.splits)
qed

lemma send_async_ok: "s \<in> cp_ok b \<Longrightarrow> snd (CP_SendRequestAsyncCtx E i ctx req cb s) \<in> cp_ok b"
  by (simp add: CP_SendRequestAsyncCtx_def Let_def enqueue_ok)

lemma cp_ok_waiting:
  assumes "s \<in> cp_ok b" and "w_stopC ` set ws \<subseteq> insert (cp_stopC s) (w_stopC ` set (cp_waiting s))"
  shows "s\<lparr>cp_waiting := ws\<rparr> \<in> cp_ok b"
proof -
  have "cp_stopC s = None \<or> captured s (cp_stopC s)"
    using captured_current [OF cp_ok_started [OF assms(1)]] by blast
  moreover have "\<forall>w\<in>set (cp_waiting s). w_stopC w = None \<or> captured s (w_stopC w)"
    using assms(1) by (simp add: cp_ok_def parked_ok_def)
  ultimately have "\<forall>w\<in>set ws. w_stopC w = None \<or> captured s (w_stopC w)"
    using assms(2) by (auto simp only: image_subset_iff insert_iff image_iff) metis+
  with assms(1) show ?thesis by (simp add: cp_ok_defs)
qed

lemma send_sync_ok:
  assumes "s \<in> cp_ok b"
  shows "snd (cp_send_sync E i ctx req ty s) \<in> cp_ok b"
proof -
  have "s1 \<in> cp_ok b" if "cp_enqueue E i ctx' req cb (s\<lparr>cp_results := rs\<rparr>) = (err, s1)" for ctx' cb rs err s1
    using enqueue_ok(1) [of "s\<lparr>cp_results := rs\<rparr>" b E i ctx' req cb] assms that by simp
  then show ?thesis
    using assms
    by (auto simp: cp_send_sync_def Let_def loadStopC_def intro!: cp_ok_waiting split: prod.splits option.splits)
qed

lemma restaged_stopC: "k < length ws \<Longrightarrow> w_stopC ` set (ws[k := (ws ! k)\<lparr>w_stage := st\<rparr>]) \<subseteq> w_stopC ` set ws"
  using image_mono [OF set_update_subset_insert [of ws k "(ws ! k)\<lparr>w_stage := st\<rparr>"], of w_stopC] by simp

lemma awaitCtxResult_ok:
  assumes "s \<in> cp_ok b" and "awaitCtxResult W arm w s = Some (x, s1)"
  shows "s1 \<in> cp_ok b" and "cp_waiting s1 = cp_waiting s"
  using assms
  by (auto simp: awaitCtxResult_def Let_def split: await_stage.splits await_arm.splits option.splits if_splits)

lemma await_ok:
  assumes "s \<in> cp_ok b" and "cp_await E W k arm s = Some (res, s')"
  shows "s' \<in> cp_ok b"
proof -
  obtain x s1 where s1: "awaitCtxResult W arm (cp_waiting s ! k) s = Some (x, s1)" and k: "k < length (cp_waiting s)"
    using assms(2) by (cases "awaitCtxResult W arm (cp_waiting s ! k) s") (auto simp: cp_await_def split: if_splits)
  note ok = awaitCtxResult_ok [OF assms(1) s1]
  show ?thesis
  proof (cases x)
    case (Inl stage)
    have "s1\<lparr>cp_waiting := (cp_waiting s)[k := (cp_waiting s ! k)\<lparr>w_stage := stage\<rparr>]\<rparr> \<in> cp_ok b"
      using restaged_stopC [OF k] ok(2) by (intro cp_ok_waiting [OF ok(1)] subset_insertI2) simp
    with Inl s1 k assms(2) ok(2) show ?thesis by (simp add: cp_await_def)
  next
    case (Inr ar)
    have "s1\<lparr>cp_waiting := drop_nth k (cp_waiting s)\<rparr> \<in> cp_ok b"
      using image_mono [OF drop_nth_subset] ok(2) by (intro cp_ok_waiting [OF ok(1)] subset_insertI2) simp
    with Inr s1 k assms(2) ok(2) show ?thesis
      by (auto simp: cp_await_def cp_return_def Let_def split: outcome.splits)
  qed
qed

lemma await_returns:
  assumes "cp_await E W k arm s = Some (res, s')"
  shows "res = Returns () \<or> w_type (cp_waiting s ! k) \<noteq> None"
proof -
  have "cp_waiting s1 = cp_waiting s" if "awaitCtxResult W arm w s = Some (x, s1)" for w x s1
    using that
    by (auto simp: awaitCtxResult_def Let_def split: await_stage.splits await_arm.splits option.splits if_splits)
  with assms show ?thesis
    by (fastforce simp: cp_await_def cp_return_def cp_finish_def Let_def
        split: if_splits option.splits sum.splits outcome.splits prod.splits)
qed

section \<open>Every step\<close>

lemma cp_ok_api:
  assumes "s \<in> cp_ok b" and "api_calls E s s'"
  shows "s' \<in> cp_ok b"
  using assms(2) by induction (use assms(1) in \<open>auto simp: CP_Errors_def send_async_ok split: option.splits\<close>)

lemma cp_ok_forwarding:
  assumes "s \<in> cp_ok b" and "set ps \<subseteq> set (cp_forwarding s)"
  shows "s\<lparr>cp_forwarding := ps\<rparr> \<in> cp_ok b"
proof -
  have "\<forall>p\<in>set ps. carries (fst p) \<and> captured s (snd p)" using assms by (auto simp: cp_ok_def parked_ok_def)
  with assms(1) show ?thesis by (simp add: cp_ok_defs)
qed

lemma cp_ok_incoming:
  assumes "s \<in> cp_ok b" and "carries m" and "\<not> chan_full (cp_incoming s)"
  shows "s\<lparr>cp_incoming := chan_send m (cp_incoming s)\<rparr> \<in> cp_ok b"
  using assms by (simp add: cp_ok_defs chan_send_def chan_full_def not_le)

lemma cp_ok_unparked:
  assumes "s \<in> cp_ok b"
  shows "s\<lparr>cp_forwarding := drop_nth n (cp_forwarding s)\<rparr> \<in> cp_ok b" and "s\<lparr>cp_reporting := None\<rparr> \<in> cp_ok b"
    and "n < length (cp_forwarding s) \<Longrightarrow> \<not> chan_full (cp_incoming s) \<Longrightarrow>
      s\<lparr>cp_incoming := chan_send (fst (cp_forwarding s ! n)) (cp_incoming s),
        cp_forwarding := drop_nth n (cp_forwarding s)\<rparr> \<in> cp_ok b"
proof -
  show "s\<lparr>cp_forwarding := drop_nth n (cp_forwarding s)\<rparr> \<in> cp_ok b"
    using assms drop_nth_subset by (rule cp_ok_forwarding)
  show "s\<lparr>cp_reporting := None\<rparr> \<in> cp_ok b" using assms by (simp add: cp_ok_defs)
  assume n: "n < length (cp_forwarding s)" and room: "\<not> chan_full (cp_incoming s)"
  from assms nth_mem [OF n] have "carries (fst (cp_forwarding s ! n))" by (simp add: cp_ok_def parked_ok_def)
  from cp_ok_incoming [OF assms this room]
  show "s\<lparr>cp_incoming := chan_send (fst (cp_forwarding s ! n)) (cp_incoming s),
      cp_forwarding := drop_nth n (cp_forwarding s)\<rparr> \<in> cp_ok b"
    by (rule cp_ok_forwarding) (simp add: drop_nth_subset)
qed

lemma cp_step_ok:
  assumes api: "cp_uses_api E H CH0" and s: "s \<in> cp_ok False"
    and step: "cp_step E W H (cp_client_handlers H CH0) e s = Some (res, s')"
  shows "s' \<in> cp_ok False \<and> (res = Returns () \<or> (\<exists>k arm. e = CpAwait k arm \<and> w_type (cp_waiting s ! k) \<noteq> None))"
proof -
  have user: "cp_user_keeps (cp_ok True) H CH0" by (rule uses_api_keeps [OF api cp_ok_api])
  note started = cp_ok_started [OF s]
  show ?thesis
  proof (cases e)
    case (CpStart result url)
    then show ?thesis
    proof (cases "cp_stopOnce s")
      case None
      with s have "cp_generations s = []" by (auto simp: cp_ok_def generation_ok_def split: if_splits)
      with CpStart None step start_generation_ok [OF s] show ?thesis by (auto simp: CP_Start_def split: if_splits)
    next
      case (Some f)
      with CpStart step stop_signal_ok [OF s] show ?thesis
        by (auto simp: CP_Start_def loadHandlerDone_def intro!: cp_ok_joining split: if_splits)
    qed
  next
    case (CpStop ctx)
    with step stop_signal_ok [OF s] show ?thesis
      by (auto simp: CP_StopCtx_def Let_def loadHandlerDone_def intro!: cp_ok_joining split: if_splits)
  next
    case (CpJoined first result)
    then show ?thesis
    proof (cases "cp_joining s")
      case (Some j)
      then show ?thesis
      proof (cases j)
        case (JoinStart url h)
        with CpJoined Some step have "signaled s (Some h)" by (auto simp: cp_joined_def joinHandler_def split: if_splits)
        with s Some JoinStart have "cp_generations s = []" "cp_stopOnce s = Some True"
          by (auto simp: cp_ok_def generation_ok_def signaled_iff)
        with CpJoined Some JoinStart step s show ?thesis
          by (auto simp: cp_joined_def intro!: start_generation_ok cp_ok_joining split: option.splits)
      qed (use CpJoined Some step s in \<open>auto simp: cp_joined_def intro!: cp_ok_joining split: option.splits\<close>)
    qed (use CpJoined step in \<open>simp add: cp_joined_def\<close>)
  next
    case (CpMessage t)
    have "\<exists>err c'. Client_ocppMessageHandler E W (cp_client_handlers H CH0) t s = (Returns err, c')"
      using s by (intro client_message_returns) (auto simp: cp_ok_def pending_payload_def slot_def)
    with CpMessage step cpk.message_in [OF user started, of E W t] show ?thesis
      by (auto intro: cp_ok_weaken split: if_splits)
  next
    case (CpReceive g)
    with step handler_receive_ok [OF user s, of E W g res s'] show ?thesis by (auto intro: cp_ok_weaken)
  next
    case (CpExit g)
    with step have "g \<in> set (cp_generations s)" "cp_reporting s = None" "signaled s (Some (fst g))"
      by (auto simp: asyncCallbackHandler_def simp del: not_None_eq split: if_splits)
    from handler_exit_ok [OF s this, of E W H "cp_client_handlers H CH0"] CpExit step show ?thesis by auto
  next
    case (CpAwait k arm)
    with step await_ok [OF s] await_returns [of E W k arm s res s'] show ?thesis by auto
  next
    case (CpDisconnected err)
    with step cpk.connection_in(1) [OF user started] show ?thesis by (auto intro: cp_ok_weaken split: if_splits)
  next
    case CpReconnected
    with step cpk.connection_in(2) [OF user started] show ?thesis by (auto intro: cp_ok_weaken split: if_splits)
  next
    case (CpCanceled i req err)
    then have "s' = snd (cp_forward (error_message err) s)" "res = Returns ()" "cp_stopC s \<noteq> None"
      using step by (auto simp: onRequestTimeout_def cp_forward_def split: if_splits)
    moreover have "carries (error_message err)" by (simp add: carries_def error_message_def)
    ultimately show ?thesis using cp_ok_forward [OF started] by (auto intro: cp_ok_weaken)
  qed (use step s in \<open>auto simp: CP_Errors_def cp_ok_unparked send_sync_ok send_async_ok cp_ok_dispatcher
      split: if_splits option.splits prod.splits\<close>)
qed

lemma cp_runs_ok:
  assumes "cp_runs E H (cp_client_handlers H CH0) s0 es s" and "cp_uses_api E H CH0" and "s0 \<in> cp_ok False"
  shows "s \<in> cp_ok False"
  using assms(1) by induction (use assms(3) cp_step_ok [OF assms(2)] in auto)

lemma New_ok:
  assumes "pending_payload (c_dispatcher (NewChargePoint dc ep))"
  shows "NewChargePoint dc ep \<in> cp_ok False"
  using assms
  by (simp add: cp_ok_defs NewChargePoint_def new_chan_def deref_def Let_def Endpoint_SetDialect_def)

section \<open>A stop ends every wait\<close>

lemma cp_runs_trans:
  assumes "cp_runs E H CH s0 es s" and "cp_runs E H CH s es' s'"
  shows "cp_runs E H CH s0 (es @ es') s'"
  using assms(2) by induction (use assms(1) in \<open>auto simp flip: append_assoc intro: cp_run_step\<close>)

lemma cp_runs_one: "cp_step E W H CH e s = Some (Returns (), s') \<Longrightarrow> cp_runs E H CH s [(W, e)] s'"
  using cp_run_step [OF cp_run_nil] by fastforce

lemma captured_closed: "generation_ok s \<Longrightarrow> cp_stopOnce s = Some True \<Longrightarrow> captured s r \<Longrightarrow> signaled s r"
  by (auto simp: generation_ok_def captured_def signaled_iff)

lemma preempt_all:
  assumes "\<forall>p\<in>set (cp_forwarding s). signaled s (snd p)"
  shows "cp_runs E H CH s (replicate (length (cp_forwarding s)) (W, CpPreempted 0)) (s\<lparr>cp_forwarding := []\<rparr>)"
  using assms
proof (induction "cp_forwarding s" arbitrary: s)
  case Nil
  then have "s\<lparr>cp_forwarding := []\<rparr> = s" by simp
  with Nil show ?case by (metis cp_run_nil length_0_conv replicate_0)
next
  case (Cons p ps)
  let ?s = "s\<lparr>cp_forwarding := ps\<rparr>"
  have "cp_step E W H CH (CpPreempted 0) s = Some (Returns (), ?s)"
    using Cons.hyps(2) [symmetric] Cons.prems by (simp add: drop_nth_def)
  moreover have "cp_runs E H CH ?s (replicate (length ps) (W, CpPreempted 0)) (?s\<lparr>cp_forwarding := []\<rparr>)"
    using Cons.hyps(1) [of ?s] Cons.hyps(2) [symmetric] Cons.prems by (simp add: signaled_iff)
  ultimately show ?case
    using cp_runs_trans [OF cp_runs_one] Cons.hyps(2) [symmetric] by fastforce
qed

lemma preempt_report:
  assumes "\<forall>p. cp_reporting s = Some p \<longrightarrow> signaled s (snd p)"
  shows "cp_runs E H CH s (if cp_reporting s = None then [] else [(W, CpReportPreempted)]) (s\<lparr>cp_reporting := None\<rparr>)"
proof (cases "cp_reporting s")
  case None
  then have "s\<lparr>cp_reporting := None\<rparr> = s" by simp
  with None show ?thesis by (metis cp_run_nil)
next
  case (Some p)
  with assms show ?thesis by (cases p) (auto intro: cp_runs_one)
qed

lemma exit_handler:
  assumes "s \<in> cp_ok b" and "cp_stopOnce s = Some True" and "cp_reporting s = None"
  shows "\<exists>es s'. cp_runs E H CH s es s' \<and> es = map (\<lambda>g. (W, CpExit g)) (cp_generations s) \<and> length es \<le> 1 \<and>
    cp_generations s' = [] \<and> signaled s' (Some (cp_handlerDone s')) \<and> cp_handlerDone s' = cp_handlerDone s \<and>
    cp_forwarding s' = cp_forwarding s \<and> cp_reporting s' = None \<and> cp_joining s' = cp_joining s \<and> cp_waiting s' = cp_waiting s"
proof (cases "cp_generations s")
  case Nil
  with assms show ?thesis
    by (intro exI [of _ "[]"] exI [of _ s]) (auto simp: cp_run_nil cp_ok_def generation_ok_def signaled_iff split: if_splits)
next
  case (Cons g gs)
  then have g: "g \<in> set (cp_generations s)" by simp
  note alive = generation_alive [OF assms(1) g]
  have "signaled s (Some (fst g))" using assms(1,2) alive(2) by (auto simp: cp_ok_def generation_ok_def signaled_iff)
  from handler_exit_ok [OF assms(1) g assms(3) this, of E W H CH] obtain s' where
    s': "cp_step E W H CH (CpExit g) s = Some (Returns (), s')" "cp_generations s' = []"
    "signaled s' (Some (cp_handlerDone s'))" "cp_handlerDone s' = cp_handlerDone s" "cp_forwarding s' = cp_forwarding s"
    "cp_reporting s' = None" "cp_joining s' = cp_joining s" "cp_waiting s' = cp_waiting s" by auto
  with alive(1) cp_runs_one [OF s'(1)] show ?thesis by (intro exI [of _ "[(W, CpExit g)]"] exI [of _ s']) simp
qed

lemma stop_releases_all:
  fixes W :: outside
  assumes "s \<in> cp_ok b" and "cp_stopOnce s = Some True"
  shows "\<exists>es s'. cp_runs E H CH s es s' \<and> length es \<le> length (cp_forwarding s) + 2 \<and>
    snd ` set es \<subseteq> {CpPreempted 0, CpReportPreempted} \<union> range CpExit \<and>
    cp_forwarding s' = [] \<and> cp_reporting s' = None \<and> cp_generations s' = [] \<and> cp_waiting s' = cp_waiting s \<and>
    signaled s' (Some (cp_handlerDone s')) \<and> cp_handlerDone s' = cp_handlerDone s \<and> cp_joining s' = cp_joining s"
proof -
  have gen: "generation_ok s" and park: "parked_ok s" using assms(1) by (auto simp: cp_ok_def)
  note closed = captured_closed [OF gen assms(2)]
  let ?es1 = "replicate (length (cp_forwarding s)) (W, CpPreempted 0)"
  let ?es2 = "if cp_reporting s = None then [] else [(W, CpReportPreempted)]"
  let ?s1 = "s\<lparr>cp_forwarding := []\<rparr>" and ?s2 = "s\<lparr>cp_forwarding := [], cp_reporting := None\<rparr>"
  have r1: "cp_runs E H CH s ?es1 ?s1"
    by (rule preempt_all) (use park closed in \<open>auto simp: parked_ok_def\<close>)
  have r2: "cp_runs E H CH ?s1 ?es2 ?s2"
    using preempt_report [of ?s1 E H CH W] park closed by (simp add: parked_ok_def signaled_iff)
  have "?s2 \<in> cp_ok b" using assms(1) by (simp add: cp_ok_defs)
  then obtain es3 s' where r3: "cp_runs E H CH ?s2 es3 s'"
    and es3: "es3 = map (\<lambda>g. (W, CpExit g)) (cp_generations s)" "length es3 \<le> 1"
    and s': "cp_generations s' = []" "signaled s' (Some (cp_handlerDone s'))" "cp_handlerDone s' = cp_handlerDone s"
      "cp_forwarding s' = []" "cp_reporting s' = None" "cp_joining s' = cp_joining s" "cp_waiting s' = cp_waiting s"
    using exit_handler [of ?s2 b E H CH W] assms(2) by auto
  have "snd ` set ((?es1 @ ?es2) @ es3) \<subseteq> {CpPreempted 0, CpReportPreempted} \<union> range CpExit"
    using es3(1) by auto
  with cp_runs_trans [OF cp_runs_trans [OF r1 r2] r3] s' es3(2) show ?thesis
    by (intro exI [of _ "(?es1 @ ?es2) @ es3"] exI [of _ s'] conjI) simp_all
qed

section \<open>Properties\<close>

text \<open>
  C8: at most one handler goroutine lives, and nothing crashes the charge point. In every interleaving of
  the goroutines that begins with a new charge point, over any number of starts, failed starts and stops,
  there is at most one handler goroutine, and there is one exactly while \<open>handlerDone\<close> is open. No step
  panics (no channel is closed twice, no nil confirmation or pending request is dereferenced), except
  that a typed method may find a confirmation of another type.
\<close>

theorem cp_one_generation:
  assumes "cp_uses_api E H CH0" and "pending_payload (c_dispatcher (NewChargePoint default_client endpoint))"
    and "cp_runs E H (cp_client_handlers H CH0) (NewChargePoint default_client endpoint) es s"
  shows "length (cp_generations s) \<le> 1 \<and>
    (cp_generations s \<noteq> [] \<longleftrightarrow> \<not> chan_closed (deref (cp_signals s) (cp_handlerDone s))) \<and>
    (cp_step E W H (cp_client_handlers H CH0) e s = Some (res, s') \<longrightarrow>
       res = Returns () \<or> (\<exists>k arm. e = CpAwait k arm \<and> w_type (cp_waiting s ! k) \<noteq> None))"
proof -
  have "s \<in> cp_ok False" by (rule cp_runs_ok [OF assms(3,1) New_ok [OF assms(2)]])
  with cp_step_ok [OF assms(1) this] show ?thesis by (auto simp: cp_ok_def generation_ok_def split: if_splits)
qed

text \<open>
  C9: a stop releases every goroutine. From any state such an interleaving reaches after \<open>Stop\<close>, or the
  stop inside \<open>Start\<close>, has closed the stop channel, the goroutines that wait can finish on their own, in
  at most two steps more than there are messages being forwarded: no forward and no report stays blocked,
  the handler goroutine ends, and the call that waits for it returns. Every caller of a synchronous send
  made since the first start finds its stop channel closed.
\<close>

theorem cp_stop_releases:
  assumes "cp_uses_api E H CH0" and "pending_payload (c_dispatcher (NewChargePoint default_client endpoint))"
    and "cp_runs E H (cp_client_handlers H CH0) (NewChargePoint default_client endpoint) es0 s"
    and "cp_stopOnce s = Some True"
  shows "(\<exists>es s'. cp_runs E H (cp_client_handlers H CH0) s es s' \<and> length es \<le> length (cp_forwarding s) + 2 \<and>
      snd ` set es \<subseteq> {CpPreempted 0, CpReportPreempted} \<union> range CpExit \<and>
      cp_forwarding s' = [] \<and> cp_reporting s' = None \<and> cp_generations s' = [] \<and>
      (cp_joining s = None \<or> cp_joined W True result s' \<noteq> None)) \<and>
    (\<forall>w\<in>set (cp_waiting s). w_stopC w = None \<or> signaled s (w_stopC w))"
proof -
  have s: "s \<in> cp_ok False" by (rule cp_runs_ok [OF assms(3,1) New_ok [OF assms(2)]])
  then have ok: "generation_ok s" "parked_ok s" by (simp_all add: cp_ok_def)
  obtain es s' where run: "cp_runs E H (cp_client_handlers H CH0) s es s'" "length es \<le> length (cp_forwarding s) + 2"
    "snd ` set es \<subseteq> {CpPreempted 0, CpReportPreempted} \<union> range CpExit"
    and s': "cp_forwarding s' = []" "cp_reporting s' = None" "cp_generations s' = []"
      "signaled s' (Some (cp_handlerDone s'))" "cp_handlerDone s' = cp_handlerDone s" "cp_joining s' = cp_joining s"
    using stop_releases_all [OF s assms(4)] by blast
  have "cp_joining s = None \<or> cp_joined W True result s' \<noteq> None"
    using s'(4-6) ok(1) by (auto simp: cp_joined_def joinHandler_def generation_ok_def split: option.splits cp_join.splits)
  moreover have "\<forall>w\<in>set (cp_waiting s). w_stopC w = None \<or> signaled s (w_stopC w)"
    using captured_closed [OF ok(1) assms(4)] ok(2) unfolding parked_ok_def by blast
  ultimately show ?thesis using run s'(1-3) by (intro conjI exI [of _ es] exI [of _ s']) simp_all
qed

section \<open>Witnesses\<close>

lemma sample_new_payload: "pending_payload (c_dispatcher (NewChargePoint sample_client None))"
  by (simp add: NewChargePoint_def sample_client_def pending_payload_def CD_SetOnRequestCanceled_def)

theorem cp_one_generation_witness:
  "\<exists>s. cp_runs sample_env sample_cp_handlers (cp_client_handlers sample_cp_handlers no_client_handlers)
     (NewChargePoint sample_client None) [(up_outside, CpStart (\<lambda>_. None) ''ws''),
       (up_outside, CpSendAsync ''9'' None heartbeat 1), (up_outside, CpSendSync ''10'' None heartbeat None)] s \<and>
     length (cp_generations s) \<le> 1"
  using cp_one_generation [OF sample_uses_api sample_new_payload] sample_run by blast

lemma sample_stopped_run:
  "\<exists>s. cp_runs sample_env sample_cp_handlers CH (NewChargePoint sample_client None)
     [(W, CpStart (\<lambda>_. None) ''ws''), (W, CpStop None)] s \<and> cp_stopOnce s = Some True \<and> cp_joining s \<noteq> None"
proof -
  let ?s0 = "NewChargePoint sample_client None :: nat chargePoint"
  have "cp_step sample_env W sample_cp_handlers CH (CpStart (\<lambda>_. None) ''ws'') ?s0 =
      Some (Returns (), snd (cp_start_generation (\<lambda>_. None) ''ws'' ?s0))"
    by (simp add: CP_Start_def NewChargePoint_def)
  moreover have "\<exists>s. cp_step sample_env W sample_cp_handlers CH (CpStop None) (snd (cp_start_generation (\<lambda>_. None) ''ws'' ?s0)) =
      Some (Returns (), s) \<and> cp_stopOnce s = Some True \<and> cp_joining s \<noteq> None"
    by (simp add: CP_StopCtx_def cp_stop_signal_def closeStopC_def cp_start_generation_def NewChargePoint_def alloc_def
        Let_def storeStopC_def storeHandlerDone_def Client_Start_def Client_Stop_def loadStopC_def close_signal_def
        chan_close_def deref_def new_chan_def)
  ultimately show ?thesis using cp_runs_trans [OF cp_runs_one cp_runs_one] by fastforce
qed

theorem cp_stop_releases_witness:
  "\<exists>s es s'. cp_stopOnce s = Some True \<and>
     cp_runs sample_env sample_cp_handlers (cp_client_handlers sample_cp_handlers no_client_handlers) s es s' \<and>
     cp_generations s' = [] \<and> cp_joined up_outside True (\<lambda>_. None) s' \<noteq> None"
proof -
  let ?CH = "cp_client_handlers sample_cp_handlers no_client_handlers :: nat chargePoint client_handlers"
  obtain s where "cp_runs sample_env sample_cp_handlers ?CH (NewChargePoint sample_client None)
      [(up_outside, CpStart (\<lambda>_. None) ''ws''), (up_outside, CpStop None)] s" "cp_stopOnce s = Some True" "cp_joining s \<noteq> None"
    using sample_stopped_run [of ?CH up_outside] by auto
  from cp_stop_releases [OF sample_uses_api sample_new_payload this(1,2), of up_outside "\<lambda>_. None"] this(2,3)
  show ?thesis by blast
qed

end
