(* ===== verification/Charge_Types.thy ===== *)
theory Charge_Types
  imports Charge_Safety
begin

text \<open>
  The types the charge point relies on: the type assertions on the requests it processes and on the
  confirmations of its typed methods are those the default profiles declare, so they never panic.
\<close>

section \<open>Requests\<close>

lemma cp_handler_set_names:
  "cp_handler_set H core_ProfileName \<longleftrightarrow> cp_coreHandler H \<noteq> None"
  "cp_handler_set H localauth_ProfileName \<longleftrightarrow> cp_localAuthListHandler H \<noteq> None"
  "cp_handler_set H firmware_ProfileName \<longleftrightarrow> cp_firmwareHandler H \<noteq> None"
  "cp_handler_set H reservation_ProfileName \<longleftrightarrow> cp_reservationHandler H \<noteq> None"
  "cp_handler_set H remotetrigger_ProfileName \<longleftrightarrow> cp_remoteTriggerHandler H \<noteq> None"
  "cp_handler_set H smartcharging_ProfileName \<longleftrightarrow> cp_smartChargingHandler H \<noteq> None"
  "cp_handler_set H security_ProfileName \<longleftrightarrow> cp_securityHandler H \<noteq> None"
  "cp_handler_set H logging_ProfileName \<longleftrightarrow> cp_logHandler H \<noteq> None"
  "cp_handler_set H extendedtriggermessage_ProfileName \<longleftrightarrow> cp_extendedTriggerMessageHandler H \<noteq> None"
  "cp_handler_set H securefirmware_ProfileName \<longleftrightarrow> cp_secureFirmwareHandler H \<noteq> None"
  "cp_handler_set H certificates_ProfileName \<longleftrightarrow> cp_certificateHandler H \<noteq> None"
  by (simp_all add: cp_handler_set_def names16)

lemma cp_requests:
  "(ChangeAvailabilityFeatureName, ''core.ChangeAvailabilityRequest'') \<in> request_types core_Profile"
  "(ChangeConfigurationFeatureName, ''core.ChangeConfigurationRequest'') \<in> request_types core_Profile"
  "(ClearCacheFeatureName, ''core.ClearCacheRequest'') \<in> request_types core_Profile"
  "(DataTransferFeatureName, ''core.DataTransferRequest'') \<in> request_types core_Profile"
  "(GetConfigurationFeatureName, ''core.GetConfigurationRequest'') \<in> request_types core_Profile"
  "(RemoteStartTransactionFeatureName, ''core.RemoteStartTransactionRequest'') \<in> request_types core_Profile"
  "(RemoteStopTransactionFeatureName, ''core.RemoteStopTransactionRequest'') \<in> request_types core_Profile"
  "(ResetFeatureName, ''core.ResetRequest'') \<in> request_types core_Profile"
  "(UnlockConnectorFeatureName, ''core.UnlockConnectorRequest'') \<in> request_types core_Profile"
  "(GetLocalListVersionFeatureName, ''localauth.GetLocalListVersionRequest'') \<in> request_types localauth_Profile"
  "(SendLocalListFeatureName, ''localauth.SendLocalListRequest'') \<in> request_types localauth_Profile"
  "(GetDiagnosticsFeatureName, ''firmware.GetDiagnosticsRequest'') \<in> request_types firmware_Profile"
  "(UpdateFirmwareFeatureName, ''firmware.UpdateFirmwareRequest'') \<in> request_types firmware_Profile"
  "(ReserveNowFeatureName, ''reservation.ReserveNowRequest'') \<in> request_types reservation_Profile"
  "(CancelReservationFeatureName, ''reservation.CancelReservationRequest'') \<in> request_types reservation_Profile"
  "(TriggerMessageFeatureName, ''remotetrigger.TriggerMessageRequest'') \<in> request_types remotetrigger_Profile"
  "(SetChargingProfileFeatureName, ''smartcharging.SetChargingProfileRequest'') \<in> request_types smartcharging_Profile"
  "(ClearChargingProfileFeatureName, ''smartcharging.ClearChargingProfileRequest'') \<in> request_types smartcharging_Profile"
  "(GetCompositeScheduleFeatureName, ''smartcharging.GetCompositeScheduleRequest'') \<in> request_types smartcharging_Profile"
  "(CertificateSignedFeatureName, ''security.CertificateSignedRequest'') \<in> request_types security_Profile"
  "(GetLogFeatureName, ''logging.GetLogRequest'') \<in> request_types logging_Profile"
  "(SignedUpdateFirmwareFeatureName, ''securefirmware.SignedUpdateFirmwareRequest'') \<in> request_types securefirmware_Profile"
  "(GetInstalledCertificateIdsFeatureName, ''certificates.GetInstalledCertificateIdsRequest'') \<in> request_types certificates_Profile"
  "(DeleteCertificateFeatureName, ''certificates.DeleteCertificateRequest'') \<in> request_types certificates_Profile"
  "(InstallCertificateFeatureName, ''certificates.InstallCertificateRequest'') \<in> request_types certificates_Profile"
  "(ExtendedTriggerMessageFeatureName, ''extendedtriggermessage.ExtendedTriggerMessageRequest'') \<in> request_types extendedtriggermessage_Profile"
  by (simp_all add: request_types_def table16 features16)

lemma switch_case:
  assumes "(f, t) \<in> request_types p" and "(if a = f then Some (map_option sel h, t) else rest) = Some (m, ty)"
    and "p \<in> set DefaultProfiles" and "cp_handler_set H (ProfileName p) \<longrightarrow> h \<noteq> None"
    and "rest = Some (m, ty) \<Longrightarrow>
      \<exists>p\<in>set DefaultProfiles. (a, ty) \<in> request_types p \<and> (cp_handler_set H (ProfileName p) \<longrightarrow> m \<noteq> None)"
  shows "\<exists>p\<in>set DefaultProfiles. (a, ty) \<in> request_types p \<and> (cp_handler_set H (ProfileName p) \<longrightarrow> m \<noteq> None)"
  using assms by (cases "a = f") auto

lemma cp_switch_types:
  assumes "cp_switch H a = Some (m, ty)"
  shows "\<exists>p\<in>set DefaultProfiles. (a, ty) \<in> request_types p \<and> (cp_handler_set H (ProfileName p) \<longrightarrow> m \<noteq> None)"
  using assms unfolding cp_switch_def
  by (elim cp_requests [THEN switch_case])
    (simp_all add: DefaultProfiles_def profile_names cp_handler_set_names)

section \<open>Confirmations\<close>

text \<open>
  A call that passes the feature check and waits for a confirmation of the type that the feature of its
  request declares.
\<close>

definition well_typed_cp_call ::
  "env \<Rightarrow> string \<Rightarrow> 'cb chargePoint \<Rightarrow> go_error option \<times> 'cb chargePoint \<Rightarrow> bool" where
  "well_typed_cp_call E uniqueId s result \<longleftrightarrow>
     (\<exists>req ty p f. result = cp_send_sync E uniqueId (Some Background) req (Some ty) s \<and>
        GetProfileForFeature (c_Endpoint s) (GetFeatureName req) = Some p \<and>
        Profile_GetFeature p (GetFeatureName req) = Some f \<and> GetResponseType f = ty)"

lemma cp_call_typed:
  assumes "Profiles (c_Endpoint s) = DefaultProfiles" and "(GetFeatureName req, ty) \<in> default_responses"
  shows "well_typed_cp_call E i s (cp_call E i ty req props s)"
proof -
  obtain p f where "GetProfileForFeature (c_Endpoint s) (GetFeatureName req) = Some p"
    "Profile_GetFeature p (GetFeatureName req) = Some f" "GetResponseType f = ty"
    using default_types(2) [OF assms(1)] assms(2) unfolding default_responses_def by blast
  then show ?thesis
    unfolding well_typed_cp_call_def
    by (intro exI [of _ "apply_props props req"] exI [of _ ty] exI [of _ p] exI [of _ f]) (simp add: cp_call_def)
qed

lemmas cp_calls = CP_BootNotification_def CP_Authorize_def CP_DataTransfer_def CP_Heartbeat_def CP_MeterValues_def
  CP_StartTransaction_def CP_StopTransaction_def CP_StatusNotification_def
  CP_DiagnosticsStatusNotification_def CP_FirmwareStatusNotification_def CP_SecurityEventNotification_def
  CP_SignCertificate_def CP_SignedUpdateFirmwareStatusNotification_def CP_LogStatusNotification_def

section \<open>Properties\<close>

text \<open>
  The type assertions on requests never panic: with the default profiles, a CALL that the endpoint
  has parsed and whose profile has a handler reaches the user's own method, with a request of the type
  the method takes.
\<close>

theorem cp_requests_typed:
  assumes "typed_decoding E" and "Profiles (c_Endpoint s) = DefaultProfiles"
    and "ParseMessage E (c_Endpoint s) arr st = Returns (Inr (Some (MCall call)))"
    and "cp_switch H (Call_Action call) = Some (m, ty)"
    and "GetProfileForFeature (c_Endpoint s) (Call_Action call) = Some p" and "cp_handler_set H (ProfileName p)"
  shows "\<exists>f r. m = Some f \<and> Call_Payload call = Some r \<and> type_of E r = ty \<and>
    cp_handleIncomingRequest E W H (Call_Payload call) i (Call_Action call) s =
      (case f r s of
         (Panics v, s) \<Rightarrow> (Panics v, s)
       | (Returns (confirmation, err), s) \<Rightarrow> cp_sendResponse E W (Some confirmation) err i s)"
proof -
  obtain p' where p': "p' \<in> set DefaultProfiles" "(Call_Action call, ty) \<in> request_types p'"
    "cp_handler_set H (ProfileName p') \<longrightarrow> m \<noteq> None"
    using cp_switch_types [OF assms(4)] by blast
  obtain p1 f r where *: "GetProfileForFeature (c_Endpoint s) (Call_Action call) = Some p1"
    "Profile_GetFeature p1 (Call_Action call) = Some f" "Call_Payload call = Some r" "type_of E r = GetRequestType f"
    by (rule parsed_call_typed [OF assms(1,3)])
  with default_types(1) [OF assms(2) p'(1,2)] p'(3) assms(4-6) show ?thesis
    by (auto simp: cp_call_method_def assert_type_def cp_handleIncomingRequest_def)
qed

text \<open>
  C32: the typed methods of the charge point are well typed. With the default profiles each of the
  fourteen passes the feature check, and the type it asserts of the confirmation is the one the feature
  of its request declares; a response parsed for a pending request then passes the assertion.
\<close>

theorem cp_calls_typed:
  assumes "Profiles (c_Endpoint s) = DefaultProfiles"
  shows "well_typed_cp_call E i s (CP_BootNotification E i chargePointModel chargePointVendor props s) \<and>
     well_typed_cp_call E i s (CP_Authorize E i idTag props s) \<and>
     well_typed_cp_call E i s (CP_DataTransfer E i vendorId props s) \<and>
     well_typed_cp_call E i s (CP_Heartbeat E i props s) \<and>
     well_typed_cp_call E i s (CP_MeterValues E i connectorId meterValues props s) \<and>
     well_typed_cp_call E i s (CP_StartTransaction E i connectorId idTag meterStart timestamp props s) \<and>
     well_typed_cp_call E i s (CP_StopTransaction E i meterStop timestamp transactionId props s) \<and>
     well_typed_cp_call E i s (CP_StatusNotification E i connectorId errorCode status props s) \<and>
     well_typed_cp_call E i s (CP_DiagnosticsStatusNotification E i status props s) \<and>
     well_typed_cp_call E i s (CP_FirmwareStatusNotification E i status props s) \<and>
     well_typed_cp_call E i s (CP_SecurityEventNotification E i kind timestamp props s) \<and>
     well_typed_cp_call E i s (CP_SignCertificate E i csr props s) \<and>
     well_typed_cp_call E i s (CP_SignedUpdateFirmwareStatusNotification E i status props s) \<and>
     well_typed_cp_call E i s (CP_LogStatusNotification E i status requestId props s) \<and>
     (typed_decoding E \<longrightarrow> ParseMessage E (c_Endpoint s) arr st = Returns (Inr (Some (MCallResult r))) \<longrightarrow>
        (\<exists>j req p f. ClientState_GetPendingRequest j st = (Some req, True) \<and>
           GetProfileForFeature (c_Endpoint s) (GetFeatureName req) = Some p \<and>
           Profile_GetFeature p (GetFeatureName req) = Some f \<and>
           cp_finish E (Some (GetResponseType f)) (CallResult_Payload r, None) = Returns (CallResult_Payload r, None)))"
proof (intro conjI impI)
  assume E: "typed_decoding E" and parse: "ParseMessage E (c_Endpoint s) arr st = Returns (Inr (Some (MCallResult r)))"
  obtain j q p f conf where "ClientState_GetPendingRequest j st = (Some q, True)"
    "GetProfileForFeature (c_Endpoint s) (GetFeatureName q) = Some p" "Profile_GetFeature p (GetFeatureName q) = Some f"
    "CallResult_Payload r = Some conf" "type_of E conf = GetResponseType f"
    by (rule parsed_result_typed [OF E parse])
  then show "\<exists>j req p f. ClientState_GetPendingRequest j st = (Some req, True) \<and>
      GetProfileForFeature (c_Endpoint s) (GetFeatureName req) = Some p \<and>
      Profile_GetFeature p (GetFeatureName req) = Some f \<and>
      cp_finish E (Some (GetResponseType f)) (CallResult_Payload r, None) = Returns (CallResult_Payload r, None)"
    by (intro exI [of _ j] exI [of _ q] exI [of _ p] exI [of _ f]) (simp add: cp_finish_def assert_type_def)
qed (unfold cp_calls, (rule cp_call_typed [OF assms]; simp add: requests16)+)

section \<open>Witnesses\<close>

definition typed_cp :: "nat chargePoint" where
  "typed_cp = (NewChargePoint sample_client None)\<lparr>c_Endpoint := \<lparr>endpoint_dialect = V16, Profiles = DefaultProfiles\<rparr>\<rparr>"

lemma typed_cp_endpoint [simp]: "c_Endpoint typed_cp = \<lparr>endpoint_dialect = V16, Profiles = DefaultProfiles\<rparr>"
  by (simp add: typed_cp_def)

theorem cp_requests_typed_witness:
  "cp_handleIncomingRequest sample_env up_outside sample_cp_handlers
     (Some \<lparr>GetFeatureName = ''core.ClearCacheRequest'', body = JObject []\<rparr>) ''1'' ClearCacheFeatureName typed_cp =
   (Panics ''boom'', typed_cp)"
proof -
  let ?ep = "\<lparr>endpoint_dialect = V16, Profiles = DefaultProfiles\<rparr>"
  let ?call = "\<lparr>Call_MessageTypeId = CALL, Call_UniqueId = ''1'', Call_Action = ClearCacheFeatureName,
      Call_Payload = Some \<lparr>GetFeatureName = ''core.ClearCacheRequest'', body = JObject []\<rparr>\<rparr>"
  have p: "GetProfileForFeature ?ep ClearCacheFeatureName = Some core_Profile"
    "Profile_GetFeature core_Profile ClearCacheFeatureName = Some ClearCacheFeature"
    by (rule default_profile [where ep = ?ep and f = ClearCacheFeature]; simp add: DefaultProfiles_def table16)+
  then have parse: "ParseMessage sample_env ?ep [JNumber 2, JString ''1'', JString ClearCacheFeatureName, JObject []]
      NewClientState = Returns (Inr (Some (MCall ?call)))"
    by (simp add: ParseMessage_def parse_call_def CALL_def trunc_rat_def sample_env_def Profile_ParseRequest_def
        Profile_GetFeature_def Profile_SupportsFeature_def parseRawJson_def validated_def Let_def ClearCacheFeature_def)
  have "cp_switch sample_cp_handlers ClearCacheFeatureName = Some (Some sample_cp_method, ''core.ClearCacheRequest'')"
    by (simp add: cp_switch_def sample_cp_handlers_def names16)
  moreover have "cp_handler_set sample_cp_handlers (ProfileName core_Profile)"
    by (simp add: profile_names cp_handler_set_names sample_cp_handlers_def)
  ultimately show ?thesis
    using cp_requests_typed [OF sample_typed_decoding, of typed_cp
        "[JNumber 2, JString ''1'', JString ClearCacheFeatureName, JObject []]" NewClientState ?call sample_cp_handlers
        "Some sample_cp_method" "''core.ClearCacheRequest''" core_Profile up_outside "''1''"] parse p
    by (simp add: sample_cp_method_def)
qed

theorem cp_calls_typed_witness:
  "well_typed_cp_call sample_env ''9'' typed_cp (CP_Authorize sample_env ''9'' ''tag'' [] typed_cp)"
  by (rule cp_calls_typed [THEN conjunct2, THEN conjunct1]) simp

end
