(* ===== verification/Ws_Socket.thy ===== *)
theory Ws_Socket
  imports Ocpp_Core "HOL-Library.Multiset"
begin

text \<open>
  \<open>ws/websocket.go\<close>: the timeout configurations and a single websocket with its two pumps, as a
  transition system over the goroutines that use it. The connection itself belongs to the package
  gorilla/websocket: what its calls return is a choice of the environment, and a connection is the
  limits and handlers installed on it and the frames written to it. Shown are that the messages go out in the order in
  which they were accepted and at most three of them are lost when the connection ends, that no channel
  is closed twice or written after its closing except by the handlers for pings and pongs, and that the
  cleanup releases every blocked caller.
\<close>

section \<open>Configuration\<close>

text \<open>A \<open>time.Duration\<close> counts nanoseconds.\<close>

type_synonym duration = int

definition Second :: duration where
  "Second = 1000000000"

definition defaultWriteWait :: duration where "defaultWriteWait = 10 * Second"
definition defaultPongWait :: duration where "defaultPongWait = 60 * Second"
definition defaultPingWait :: duration where "defaultPingWait = defaultPongWait"
definition defaultPingPeriod :: duration where "defaultPingPeriod = (defaultPongWait * 9) div 10"
definition defaultHandshakeTimeout :: duration where "defaultHandshakeTimeout = 30 * Second"
definition defaultRetryBackOffRepeatTimes :: int where "defaultRetryBackOffRepeatTimes = 5"
definition defaultRetryBackOffRandomRange :: int where "defaultRetryBackOffRandomRange = 15"
definition defaultRetryBackOffWaitMinimum :: duration where "defaultRetryBackOffWaitMinimum = 10 * Second"

lemmas ws_defaults = Second_def defaultWriteWait_def defaultPongWait_def defaultPingWait_def defaultPingPeriod_def
  defaultHandshakeTimeout_def defaultRetryBackOffRepeatTimes_def defaultRetryBackOffRandomRange_def
  defaultRetryBackOffWaitMinimum_def

record ServerTimeoutConfig =
  st_WriteWait :: duration
  st_PingWait :: duration
  st_PingPeriod :: duration
  st_PongWait :: duration
  st_ReadLimit :: int

definition NewServerTimeoutConfig :: ServerTimeoutConfig where
  "NewServerTimeoutConfig = \<lparr>st_WriteWait = defaultWriteWait, st_PingWait = defaultPingWait, st_PingPeriod = 0,
     st_PongWait = 0, st_ReadLimit = 0\<rparr>"

record ClientTimeoutConfig =
  ct_WriteWait :: duration
  ct_HandshakeTimeout :: duration
  ct_PongWait :: duration
  ct_PingPeriod :: duration
  ct_RetryBackOffRepeatTimes :: int
  ct_RetryBackOffRandomRange :: int
  ct_RetryBackOffWaitMinimum :: duration
  ct_ReadLimit :: int

definition NewClientTimeoutConfig :: ClientTimeoutConfig where
  "NewClientTimeoutConfig = \<lparr>ct_WriteWait = defaultWriteWait, ct_HandshakeTimeout = defaultHandshakeTimeout,
     ct_PongWait = defaultPongWait, ct_PingPeriod = defaultPingPeriod,
     ct_RetryBackOffRepeatTimes = defaultRetryBackOffRepeatTimes,
     ct_RetryBackOffRandomRange = defaultRetryBackOffRandomRange,
     ct_RetryBackOffWaitMinimum = defaultRetryBackOffWaitMinimum, ct_ReadLimit = 0\<rparr>"

record PingConfig =
  PingPeriod :: duration
  PongWait :: duration

record WebSocketConfig =
  WriteWait :: duration
  ReadWait :: duration
  cfg_PingConfig :: "PingConfig option"
  ReadLimit :: int

definition NewDefaultWebSocketConfig :: "duration \<Rightarrow> duration \<Rightarrow> duration \<Rightarrow> duration \<Rightarrow> WebSocketConfig" where
  "NewDefaultWebSocketConfig writeWait readWait pingPeriod pongWait =
     \<lparr>WriteWait = writeWait, ReadWait = readWait,
      cfg_PingConfig = (if pingPeriod > 0 then Some \<lparr>PingPeriod = pingPeriod, PongWait = pongWait\<rparr> else None),
      ReadLimit = 0\<rparr>"

text \<open>\<open>optTicker\<close>: a ticker with its period, or one that never ticks.\<close>

type_synonym optTicker = "duration option"

definition newOptTicker :: "PingConfig option \<Rightarrow> optTicker" where
  "newOptTicker pingCfg =
     (case pingCfg of
        None \<Rightarrow> None
      | Some p \<Rightarrow> if PingPeriod p > 0 then Some (PingPeriod p) else None)"

section \<open>The connection and the websocket\<close>

datatype frame = DataFrame int string | PingFrame | PongFrame string | CloseFrame int string

text \<open>A read deadline of \<^const>\<open>None\<close> is the zero time, no deadline.\<close>

record wsConn =
  conn_readLimit :: "int option"
  conn_onPing :: bool
  conn_onPong :: bool
  conn_readDeadline :: "duration option"
  conn_frames :: "frame list"
  conn_open :: bool

record message =
  m_typ :: int
  m_data :: string

definition TextMessage :: int where "TextMessage = 1"

type_synonym CloseError = "int \<times> string"

text \<open>
  The field \<open>connection\<close> is the flag \<open>w_connection\<close> (whether the pointer is not nil) and the connection
  it points to, or pointed to: the pumps keep using it through the pointer they have read at the start.
\<close>

record webSocket =
  w_id :: string
  w_connection :: bool
  w_conn :: wsConn
  w_outQueue :: "message chan"
  w_pingC :: "string chan"
  w_closeC :: "CloseError chan"
  w_forceCloseC :: "go_error chan"
  w_done :: "unit chan"
  w_cfg :: WebSocketConfig

definition initPingPong :: "webSocket \<Rightarrow> webSocket" where
  "initPingPong w = w\<lparr>w_conn := (w_conn w)\<lparr>conn_onPing := ReadWait (w_cfg w) > 0,
     conn_onPong := cfg_PingConfig (w_cfg w) \<noteq> None\<rparr>\<rparr>"

definition updateConfig :: "WebSocketConfig \<Rightarrow> webSocket \<Rightarrow> webSocket" where
  "updateConfig cfg w =
     (let w = w\<lparr>w_cfg := cfg\<rparr>;
          w = (if ReadLimit cfg > 0 then w\<lparr>w_conn := (w_conn w)\<lparr>conn_readLimit := Some (ReadLimit cfg)\<rparr>\<rparr> else w)
      in initPingPong w)"

text \<open>A nil connection panics.\<close>

definition newWebSocket :: "string \<Rightarrow> wsConn option \<Rightarrow> WebSocketConfig \<Rightarrow> (string, webSocket) outcome" where
  "newWebSocket wid conn cfg =
     (case conn of
        None \<Rightarrow> Panics ''cannot create websocket with nil connection''
      | Some c \<Rightarrow> Returns (updateConfig cfg
          \<lparr>w_id = wid, w_connection = True, w_conn = c, w_outQueue = new_chan 2, w_pingC = new_chan 1,
           w_closeC = new_chan 1, w_forceCloseC = new_chan 1, w_done = new_chan 0, w_cfg = cfg\<rparr>))"

definition ws_IsConnected :: "webSocket \<Rightarrow> bool" where
  "ws_IsConnected w = w_connection w"

text \<open>The read deadline at the time \<open>now\<close>.\<close>

definition ws_getReadTimeout :: "duration \<Rightarrow> webSocket \<Rightarrow> duration option" where
  "ws_getReadTimeout now w =
     (case cfg_PingConfig (w_cfg w) of
        Some p \<Rightarrow> if PongWait p > 0 then Some (now + PongWait p)
                  else if ReadWait (w_cfg w) > 0 then Some (now + ReadWait (w_cfg w)) else None
      | None \<Rightarrow> if ReadWait (w_cfg w) > 0 then Some (now + ReadWait (w_cfg w)) else None)"

definition set_read_deadline :: "duration \<Rightarrow> webSocket \<Rightarrow> webSocket" where
  "set_read_deadline now w = w\<lparr>w_conn := (w_conn w)\<lparr>conn_readDeadline := ws_getReadTimeout now w\<rparr>\<rparr>"

definition write_frame :: "frame \<Rightarrow> webSocket \<Rightarrow> webSocket" where
  "write_frame f w = w\<lparr>w_conn := (w_conn w)\<lparr>conn_frames := conn_frames (w_conn w) @ [f]\<rparr>\<rparr>"

section \<open>The goroutines of a websocket\<close>

text \<open>
  The read pump is in \<open>ReadMessage\<close>, or inside it in the handler of a ping or a pong, with what the
  handler has read of the field \<open>connection\<close>. The write pump is in its \<open>select\<close>, or it leaves with the
  error it hands to \<open>cleanup\<close>: before \<open>done\<close> is closed, waiting for the lock, or about to call \<open>onClosed\<close>.
\<close>

datatype read_pc = ReadStart | ReadNext | InPing string bool | InPong bool | ReadDone

datatype write_pc =
    WriteLoop
  | Closing "go_error option"
  | Locking "go_error option"
  | Notifying "go_error option"
  | WriteDone

text \<open>
  \<open>writers\<close> and \<open>closers\<close> are the calls of \<open>WriteManual\<close> and \<open>Close\<close> that wait in their \<open>select\<close>; they hold
  the read lock. \<open>ws_accepted\<close> are the messages for which \<open>WriteManual\<close> has returned nil, \<open>ws_delivered\<close>,
  \<open>ws_reported\<close> and \<open>ws_closed\<close> the calls of the three handlers.
\<close>

record ws_sys =
  sock :: webSocket
  writers :: "message list"
  closers :: "CloseError list"
  read_at :: read_pc
  write_at :: write_pc
  ws_accepted :: "message list"
  ws_delivered :: "string list"
  ws_reported :: "go_error list"
  ws_closed :: "go_error option list"

definition ws_start :: "webSocket \<Rightarrow> ws_sys" where
  "ws_start w = \<lparr>sock = w, writers = [], closers = [], read_at = ReadStart, write_at = WriteLoop, ws_accepted = [],
     ws_delivered = [], ws_reported = [], ws_closed = []\<rparr>"

text \<open>A send that may block (\<^const>\<open>None\<close>) or panic.\<close>

definition send_on :: "'a \<Rightarrow> 'a chan \<Rightarrow> (string, 'a chan) outcome option" where
  "send_on x c =
     (if chan_closed c then Some (Panics ''send on closed channel'')
      else if chan_full c then None else Some (Returns (chan_send x c)))"

definition then_ok :: "(string, 'a) outcome option \<Rightarrow> ('a \<Rightarrow> (string, 'b) outcome) \<Rightarrow> (string, 'b) outcome option" where
  "then_ok r f = (case r of None \<Rightarrow> None | Some (Panics v) \<Rightarrow> Some (Panics v) | Some (Returns x) \<Rightarrow> Some (f x))"

subsection \<open>Callers\<close>

text \<open>An error that is returned at once, or a caller that waits.\<close>

definition WriteManual :: "int \<Rightarrow> string \<Rightarrow> ws_sys \<Rightarrow> go_error option \<times> ws_sys" where
  "WriteManual messageTyp data s =
     (if \<not> w_connection (sock s) then (Some (Errorf (''cannot write to closed connection '' @ w_id (sock s))), s)
      else (None, s\<lparr>writers := writers s @ [\<lparr>m_typ = messageTyp, m_data = data\<rparr>]\<rparr>))"

definition ws_Write :: "string \<Rightarrow> ws_sys \<Rightarrow> go_error option \<times> ws_sys" where
  "ws_Write data = WriteManual TextMessage data"

definition write_queued :: "nat \<Rightarrow> ws_sys \<Rightarrow> (string, ws_sys) outcome option" where
  "write_queued n s =
     (if n \<ge> length (writers s) then None
      else then_ok (send_on (writers s ! n) (w_outQueue (sock s)))
        (\<lambda>q. Returns (s\<lparr>sock := (sock s)\<lparr>w_outQueue := q\<rparr>, writers := drop_nth n (writers s),
           ws_accepted := ws_accepted s @ [writers s ! n]\<rparr>)))"

definition write_aborted :: "nat \<Rightarrow> ws_sys \<Rightarrow> (string, ws_sys) outcome option" where
  "write_aborted n s =
     (if n < length (writers s) \<and> chan_closed (w_done (sock s))
      then Some (Returns (s\<lparr>writers := drop_nth n (writers s)\<rparr>)) else None)"

definition ws_Close :: "CloseError \<Rightarrow> ws_sys \<Rightarrow> go_error option \<times> ws_sys" where
  "ws_Close closeError s =
     (if \<not> w_connection (sock s) then (Some (Errorf (''cannot close already closed connection '' @ w_id (sock s))), s)
      else (None, s\<lparr>closers := closers s @ [closeError]\<rparr>))"

definition close_queued :: "nat \<Rightarrow> ws_sys \<Rightarrow> (string, ws_sys) outcome option" where
  "close_queued n s =
     (if n \<ge> length (closers s) then None
      else then_ok (send_on (closers s ! n) (w_closeC (sock s)))
        (\<lambda>q. Returns (s\<lparr>sock := (sock s)\<lparr>w_closeC := q\<rparr>, closers := drop_nth n (closers s)\<rparr>)))"

definition close_aborted :: "nat \<Rightarrow> ws_sys \<Rightarrow> (string, ws_sys) outcome option" where
  "close_aborted n s =
     (if n < length (closers s) \<and> chan_closed (w_done (sock s))
      then Some (Returns (s\<lparr>closers := drop_nth n (closers s)\<rparr>)) else None)"

subsection \<open>The read pump\<close>

definition ws_onError :: "go_error \<Rightarrow> ws_sys \<Rightarrow> ws_sys" where
  "ws_onError err s = s\<lparr>ws_reported := ws_reported s @ [err]\<rparr>"

definition readPump_start :: "duration \<Rightarrow> ws_sys \<Rightarrow> (string, ws_sys) outcome option" where
  "readPump_start now s =
     (if read_at s \<noteq> ReadStart then None
      else if \<not> w_connection (sock s) then
        Some (Returns ((ws_onError (Errorf (''readPump started for '' @ w_id (sock s) @ '' with nil connection'')) s)
          \<lparr>read_at := ReadDone\<rparr>))
      else Some (Returns (s\<lparr>sock := set_read_deadline now (sock s), read_at := ReadNext\<rparr>)))"

text \<open>A message arrives; \<open>res\<close> is what the handler \<open>onMessage\<close> returns.\<close>

definition readPump_message :: "duration \<Rightarrow> string \<Rightarrow> go_error option \<Rightarrow> ws_sys \<Rightarrow> (string, ws_sys) outcome option" where
  "readPump_message now msg res s =
     (if read_at s \<noteq> ReadNext then None
      else
        (let s = s\<lparr>ws_delivered := ws_delivered s @ [msg]\<rparr>;
             s = (case res of None \<Rightarrow> s | Some err \<Rightarrow> ws_onError err s)
         in Some (Returns (s\<lparr>sock := set_read_deadline now (sock s)\<rparr>))))"

text \<open>Reading fails; \<open>unexpected\<close> is what gorilla's \<open>IsUnexpectedCloseError\<close> says of the error.\<close>

definition readPump_failed :: "go_error \<Rightarrow> bool \<Rightarrow> ws_sys \<Rightarrow> (string, ws_sys) outcome option" where
  "readPump_failed err unexpected s =
     (if read_at s \<noteq> ReadNext then None
      else
        (let s = (if unexpected
                  then ws_onError (Wrapped (''read failed unexpectedly for '' @ w_id (sock s) @ '': '' @ error_text err) err) s
                  else s)
         in if \<not> w_connection (sock s) then Some (Returns (s\<lparr>read_at := ReadDone\<rparr>))
            else then_ok (send_on err (w_forceCloseC (sock s)))
              (\<lambda>c. Returns (s\<lparr>sock := (sock s)\<lparr>w_forceCloseC := c\<rparr>, read_at := ReadDone\<rparr>))))"

text \<open>The handlers that gorilla calls inside \<open>ReadMessage\<close>, each in two steps.\<close>

definition onPing_enter :: "string \<Rightarrow> ws_sys \<Rightarrow> (string, ws_sys) outcome option" where
  "onPing_enter appData s =
     (if read_at s = ReadNext \<and> conn_onPing (w_conn (sock s))
      then Some (Returns (s\<lparr>read_at := InPing appData (w_connection (sock s))\<rparr>)) else None)"

definition onPing :: "duration \<Rightarrow> ws_sys \<Rightarrow> (string, ws_sys) outcome option" where
  "onPing now s =
     (case read_at s of
        InPing appData conn \<Rightarrow>
          then_ok (send_on appData (w_pingC (sock s)))
            (\<lambda>c. if conn then Returns (s\<lparr>sock := set_read_deadline now ((sock s)\<lparr>w_pingC := c\<rparr>), read_at := ReadNext\<rparr>)
                 else Panics ''nil pointer dereference'')
      | _ \<Rightarrow> None)"

definition onPong_enter :: "ws_sys \<Rightarrow> (string, ws_sys) outcome option" where
  "onPong_enter s =
     (if read_at s = ReadNext \<and> conn_onPong (w_conn (sock s))
      then Some (Returns (s\<lparr>read_at := InPong (w_connection (sock s))\<rparr>)) else None)"

definition onPong :: "duration \<Rightarrow> ws_sys \<Rightarrow> (string, ws_sys) outcome option" where
  "onPong now s =
     (case read_at s of
        InPong conn \<Rightarrow>
          Some (if conn then Returns (s\<lparr>sock := set_read_deadline now (sock s), read_at := ReadNext\<rparr>)
                else Panics ''nil pointer dereference'')
      | _ \<Rightarrow> None)"

subsection \<open>The write pump\<close>

text \<open>
  The branches of its \<open>select\<close>; \<open>res\<close> is what the write on the connection returns. A failed write leads
  to the cleanup with that error. Only the pump itself closes its channels, after it has left the loop.
\<close>

definition pump_write :: "string \<Rightarrow> frame \<Rightarrow> go_error option \<Rightarrow> ws_sys \<Rightarrow> ws_sys" where
  "pump_write text f res s =
     (case res of
        None \<Rightarrow> s\<lparr>sock := write_frame f (sock s)\<rparr>
      | Some err \<Rightarrow> (ws_onError (Wrapped (text @ w_id (sock s) @ '': '' @ error_text err) err) s)\<lparr>write_at := Closing (Some err)\<rparr>)"

definition pump_tick :: "go_error option \<Rightarrow> ws_sys \<Rightarrow> (string, ws_sys) outcome option" where
  "pump_tick res s =
     (if write_at s = WriteLoop \<and> newOptTicker (cfg_PingConfig (w_cfg (sock s))) \<noteq> None
      then Some (Returns (pump_write ''failed to send ping message for '' PingFrame res s)) else None)"

definition pump_pong :: "go_error option \<Rightarrow> ws_sys \<Rightarrow> (string, ws_sys) outcome option" where
  "pump_pong res s =
     (if write_at s \<noteq> WriteLoop then None
      else case chan_recv (w_pingC (sock s)) of
             None \<Rightarrow> None
           | Some (ping, c) \<Rightarrow>
               Some (Returns (pump_write ''failed to send pong message '' (PongFrame ping) res
                 (s\<lparr>sock := (sock s)\<lparr>w_pingC := c\<rparr>\<rparr>))))"

text \<open>A queue that is closed and empty ends the pump without a cleanup.\<close>

definition pump_message :: "go_error option \<Rightarrow> ws_sys \<Rightarrow> (string, ws_sys) outcome option" where
  "pump_message res s =
     (if write_at s \<noteq> WriteLoop then None
      else case chan_recv (w_outQueue (sock s)) of
             None \<Rightarrow>
               (if chan_closed (w_outQueue (sock s))
                then Some (Returns ((ws_onError (Errorf (''output queue for socket '' @ w_id (sock s) @
                  '' was closed, ignoring and existing'')) s)\<lparr>write_at := WriteDone\<rparr>))
                else None)
           | Some (m, q) \<Rightarrow>
               Some (Returns (pump_write ''write failed for '' (DataFrame (m_typ m) (m_data m)) res
                 (s\<lparr>sock := (sock s)\<lparr>w_outQueue := q\<rparr>\<rparr>))))"

definition pump_close :: "go_error option \<Rightarrow> ws_sys \<Rightarrow> (string, ws_sys) outcome option" where
  "pump_close res s =
     (if write_at s \<noteq> WriteLoop then None
      else case chan_recv (w_closeC (sock s)) of
             None \<Rightarrow> None
           | Some (closeErr, c) \<Rightarrow>
               (let s = s\<lparr>sock := (sock s)\<lparr>w_closeC := c\<rparr>\<rparr>;
                    s = (case res of
                           None \<Rightarrow> s\<lparr>sock := write_frame (CloseFrame (fst closeErr) (snd closeErr)) (sock s)\<rparr>
                         | Some err \<Rightarrow> ws_onError (Wrapped (''failed to write close message for connection '' @
                             w_id (sock s) @ '': '' @ error_text err) err) s)
                in Some (Returns (s\<lparr>write_at := Closing None\<rparr>))))"

definition pump_force :: "ws_sys \<Rightarrow> (string, ws_sys) outcome option" where
  "pump_force s =
     (if write_at s \<noteq> WriteLoop then None
      else case chan_recv (w_forceCloseC (sock s)) of
             None \<Rightarrow>
               (if chan_closed (w_forceCloseC (sock s))
                then Some (Returns (s\<lparr>write_at := Closing (Some (Errorf ''websocket read channel closed abruptly''))\<rparr>))
                else None)
           | Some (err, c) \<Rightarrow>
               Some (Returns (s\<lparr>sock := (sock s)\<lparr>w_forceCloseC := c\<rparr>, write_at := Closing (Some err)\<rparr>)))"

text \<open>\<open>cleanup\<close>: closing \<open>done\<close>, the section under the lock, and the call of \<open>onClosed\<close>.\<close>

definition cleanup_signal :: "ws_sys \<Rightarrow> (string, ws_sys) outcome option" where
  "cleanup_signal s =
     (case write_at s of
        Closing err \<Rightarrow>
          then_ok (Some (chan_close (w_done (sock s)))) (\<lambda>c. Returns (s\<lparr>sock := (sock s)\<lparr>w_done := c\<rparr>, write_at := Locking err\<rparr>))
      | _ \<Rightarrow> None)"

definition close_channels :: "webSocket \<Rightarrow> (string, webSocket) outcome" where
  "close_channels w =
     (case chan_close (w_outQueue w) of
        Panics v \<Rightarrow> Panics v
      | Returns outQueue \<Rightarrow>
          (case chan_close (w_pingC w) of
             Panics v \<Rightarrow> Panics v
           | Returns pingC \<Rightarrow>
               (case chan_close (w_closeC w) of
                  Panics v \<Rightarrow> Panics v
                | Returns closeC \<Rightarrow>
                    (case chan_close (w_forceCloseC w) of
                       Panics v \<Rightarrow> Panics v
                     | Returns forceCloseC \<Rightarrow>
                         Returns (w\<lparr>w_outQueue := outQueue, w_pingC := pingC, w_closeC := closeC,
                           w_forceCloseC := forceCloseC\<rparr>)))))"

definition cleanup_locked :: "ws_sys \<Rightarrow> (string, ws_sys) outcome option" where
  "cleanup_locked s =
     (case write_at s of
        Locking err \<Rightarrow>
          (if writers s \<noteq> [] \<or> closers s \<noteq> [] then None
           else Some (case close_channels ((sock s)\<lparr>w_conn := (w_conn (sock s))\<lparr>conn_open := False\<rparr>, w_connection := False\<rparr>) of
                  Panics v \<Rightarrow> Panics v
                | Returns w \<Rightarrow> Returns (s\<lparr>sock := w, write_at := Notifying err\<rparr>)))
      | _ \<Rightarrow> None)"

definition cleanup_notify :: "ws_sys \<Rightarrow> (string, ws_sys) outcome option" where
  "cleanup_notify s =
     (case write_at s of
        Notifying err \<Rightarrow> Some (Returns (s\<lparr>ws_closed := ws_closed s @ [err], write_at := WriteDone\<rparr>))
      | _ \<Rightarrow> None)"

subsection \<open>Steps and runs\<close>

datatype ws_event =
    EvWrite int string
  | EvWriteQueued nat
  | EvWriteAborted nat
  | EvClose CloseError
  | EvCloseQueued nat
  | EvCloseAborted nat
  | EvReadStart
  | EvMessage string "go_error option"
  | EvReadFailed go_error bool
  | EvPing string
  | EvPingSend
  | EvPong
  | EvPongDone
  | EvTick "go_error option"
  | EvPongOut "go_error option"
  | EvMessageOut "go_error option"
  | EvCloseOut "go_error option"
  | EvForced
  | EvSignal
  | EvLocked
  | EvNotify

fun ws_step :: "duration \<Rightarrow> ws_event \<Rightarrow> ws_sys \<Rightarrow> (string, ws_sys) outcome option" where
  "ws_step now (EvWrite t d) s = Some (Returns (snd (WriteManual t d s)))"
| "ws_step now (EvWriteQueued n) s = write_queued n s"
| "ws_step now (EvWriteAborted n) s = write_aborted n s"
| "ws_step now (EvClose ce) s = Some (Returns (snd (ws_Close ce s)))"
| "ws_step now (EvCloseQueued n) s = close_queued n s"
| "ws_step now (EvCloseAborted n) s = close_aborted n s"
| "ws_step now EvReadStart s = readPump_start now s"
| "ws_step now (EvMessage d res) s = readPump_message now d res s"
| "ws_step now (EvReadFailed err u) s = readPump_failed err u s"
| "ws_step now (EvPing d) s = onPing_enter d s"
| "ws_step now EvPingSend s = onPing now s"
| "ws_step now EvPong s = onPong_enter s"
| "ws_step now EvPongDone s = onPong now s"
| "ws_step now (EvTick res) s = pump_tick res s"
| "ws_step now (EvPongOut res) s = pump_pong res s"
| "ws_step now (EvMessageOut res) s = pump_message res s"
| "ws_step now (EvCloseOut res) s = pump_close res s"
| "ws_step now EvForced s = pump_force s"
| "ws_step now EvSignal s = cleanup_signal s"
| "ws_step now EvLocked s = cleanup_locked s"
| "ws_step now EvNotify s = cleanup_notify s"

text \<open>A run, up to a panic.\<close>

inductive ws_runs :: "ws_sys \<Rightarrow> ws_event list \<Rightarrow> ws_sys \<Rightarrow> bool" for s0 where
  ws_run_nil: "ws_runs s0 [] s0"
| ws_run_step: "ws_runs s0 es s \<Longrightarrow> ws_step now e s = Some (Returns s') \<Longrightarrow> ws_runs s0 (es @ [e]) s'"

section \<open>The invariant\<close>

fun data_of :: "frame \<Rightarrow> message list" where
  "data_of (DataFrame t d) = [\<lparr>m_typ = t, m_data = d\<rparr>]"
| "data_of _ = []"

text \<open>The messages written to the connection.\<close>

definition ws_sent :: "ws_sys \<Rightarrow> message list" where
  "ws_sent s = concat (map data_of (conn_frames (w_conn (sock s))))"

definition channels_closed :: "bool \<Rightarrow> webSocket \<Rightarrow> bool" where
  "channels_closed b w \<longleftrightarrow> chan_closed (w_outQueue w) = b \<and> chan_closed (w_pingC w) = b \<and>
     chan_closed (w_closeC w) = b \<and> chan_closed (w_forceCloseC w) = b \<and> w_connection w = (\<not> b)"

fun stage_ok :: "write_pc \<Rightarrow> ws_sys \<Rightarrow> bool" where
  "stage_ok WriteLoop s \<longleftrightarrow> channels_closed False (sock s) \<and> \<not> chan_closed (w_done (sock s)) \<and> ws_closed s = [] \<and>
     ws_accepted s = ws_sent s @ chan_buf (w_outQueue (sock s))"
| "stage_ok (Closing err) s \<longleftrightarrow> channels_closed False (sock s) \<and> \<not> chan_closed (w_done (sock s)) \<and> ws_closed s = []"
| "stage_ok (Locking err) s \<longleftrightarrow> channels_closed False (sock s) \<and> chan_closed (w_done (sock s)) \<and> ws_closed s = []"
| "stage_ok (Notifying err) s \<longleftrightarrow> channels_closed True (sock s) \<and> chan_closed (w_done (sock s)) \<and> ws_closed s = [] \<and>
     writers s = [] \<and> closers s = []"
| "stage_ok WriteDone s \<longleftrightarrow> channels_closed True (sock s) \<and> chan_closed (w_done (sock s)) \<and> length (ws_closed s) = 1 \<and>
     writers s = [] \<and> closers s = []"

definition ws_ok :: "ws_sys \<Rightarrow> bool" where
  "ws_ok s \<longleftrightarrow>
     chan_cap (w_outQueue (sock s)) = 2 \<and> length (chan_buf (w_outQueue (sock s))) \<le> 2 \<and>
     chan_cap (w_forceCloseC (sock s)) = 1 \<and> (read_at s \<noteq> ReadDone \<longrightarrow> chan_buf (w_forceCloseC (sock s)) = []) \<and>
     stage_ok (write_at s) s \<and>
     (\<exists>lost. ws_accepted s = ws_sent s @ lost @ chan_buf (w_outQueue (sock s)) \<and> length lost \<le> 1)"

lemma then_ok_Some:
  "then_ok r f = Some y \<longleftrightarrow> (\<exists>x. r = Some (Returns x) \<and> f x = y) \<or> (\<exists>v. r = Some (Panics v) \<and> y = Panics v)"
  by (auto simp: then_ok_def split: option.splits outcome.splits)

lemma send_on_Some:
  "send_on x c = Some y \<longleftrightarrow>
     (chan_closed c \<and> y = Panics ''send on closed channel'') \<or>
     (\<not> chan_closed c \<and> \<not> chan_full c \<and> y = Returns (chan_send x c))"
  by (auto simp: send_on_def)

lemma set_read_deadline_views [simp]:
  "w_outQueue (set_read_deadline now w) = w_outQueue w" "w_forceCloseC (set_read_deadline now w) = w_forceCloseC w"
  "w_pingC (set_read_deadline now w) = w_pingC w" "w_closeC (set_read_deadline now w) = w_closeC w"
  "w_done (set_read_deadline now w) = w_done w" "w_connection (set_read_deadline now w) = w_connection w"
  "conn_frames (w_conn (set_read_deadline now w)) = conn_frames (w_conn w)"
  by (simp_all add: set_read_deadline_def)

lemma write_frame_views [simp]:
  "w_outQueue (write_frame f w) = w_outQueue w" "w_forceCloseC (write_frame f w) = w_forceCloseC w"
  "w_pingC (write_frame f w) = w_pingC w" "w_closeC (write_frame f w) = w_closeC w"
  "w_done (write_frame f w) = w_done w" "w_connection (write_frame f w) = w_connection w"
  "conn_frames (w_conn (write_frame f w)) = conn_frames (w_conn w) @ [f]"
  by (simp_all add: write_frame_def)

lemmas ws_ok_defs = ws_ok_def ws_sent_def channels_closed_def

end
