(* ===== verification/Ws_Safety.thy ===== *)
theory Ws_Safety
  imports Ws_Socket
begin

text \<open>
  The websocket over all interleavings of its pumps and callers: order and bounded loss of messages, no
  panic outside the handlers for pings and pongs, the panics these have, and the end of every wait once
  the cleanup has begun.
\<close>

section \<open>Every step keeps the invariant\<close>

named_theorems ws_keeps "the steps that keep the invariant"

lemma ws_ok_start:
  assumes "newWebSocket i (Some c) cfg = Returns w" and "conn_frames c = []"
  shows "ws_ok (ws_start w)"
  using assms
  by (auto simp: newWebSocket_def updateConfig_def initPingPong_def Let_def ws_start_def ws_ok_defs new_chan_def split: if_splits)

lemma WriteManual_ok [ws_keeps]: "ws_ok s \<Longrightarrow> ws_ok (snd (WriteManual t d s))"
  by (cases "write_at s"; auto simp: WriteManual_def ws_ok_defs)

lemma ws_Close_ok [ws_keeps]: "ws_ok s \<Longrightarrow> ws_ok (snd (ws_Close ce s))"
  by (cases "write_at s"; auto simp: ws_Close_def ws_ok_defs)

lemma write_queued_ok [ws_keeps]: "ws_ok s \<Longrightarrow> write_queued n s = Some r \<Longrightarrow> \<exists>s'. r = Returns s' \<and> ws_ok s'"
  by (cases "write_at s"; auto simp: write_queued_def then_ok_Some send_on_Some chan_send_def chan_full_def ws_ok_defs split: if_splits)

lemma write_aborted_ok [ws_keeps]: "ws_ok s \<Longrightarrow> write_aborted n s = Some r \<Longrightarrow> \<exists>s'. r = Returns s' \<and> ws_ok s'"
  by (cases "write_at s"; auto simp: write_aborted_def drop_nth_def ws_ok_defs split: if_splits)

lemma close_queued_ok [ws_keeps]: "ws_ok s \<Longrightarrow> close_queued n s = Some r \<Longrightarrow> \<exists>s'. r = Returns s' \<and> ws_ok s'"
  by (cases "write_at s"; auto simp: close_queued_def then_ok_Some send_on_Some chan_send_def chan_full_def ws_ok_defs split: if_splits)

lemma close_aborted_ok [ws_keeps]: "ws_ok s \<Longrightarrow> close_aborted n s = Some r \<Longrightarrow> \<exists>s'. r = Returns s' \<and> ws_ok s'"
  by (cases "write_at s"; auto simp: close_aborted_def drop_nth_def ws_ok_defs split: if_splits)

lemma readPump_start_ok [ws_keeps]: "ws_ok s \<Longrightarrow> readPump_start now s = Some r \<Longrightarrow> \<exists>s'. r = Returns s' \<and> ws_ok s'"
  by (cases "write_at s"; auto simp: readPump_start_def ws_onError_def ws_ok_defs split: if_splits)

lemma readPump_message_ok [ws_keeps]: "ws_ok s \<Longrightarrow> readPump_message now d res s = Some r \<Longrightarrow> \<exists>s'. r = Returns s' \<and> ws_ok s'"
  by (cases "write_at s"; auto simp: readPump_message_def ws_onError_def Let_def ws_ok_defs split: if_splits option.splits)

lemma readPump_failed_ok [ws_keeps]: "ws_ok s \<Longrightarrow> readPump_failed err u s = Some r \<Longrightarrow> \<exists>s'. r = Returns s' \<and> ws_ok s'"
  by (cases "write_at s"; auto simp: readPump_failed_def ws_onError_def Let_def then_ok_Some send_on_Some chan_send_def chan_full_def ws_ok_defs split: if_splits)

lemma onPing_enter_ok [ws_keeps]: "ws_ok s \<Longrightarrow> onPing_enter d s = Some r \<Longrightarrow> \<exists>s'. r = Returns s' \<and> ws_ok s'"
  by (cases "write_at s"; auto simp: onPing_enter_def ws_ok_defs split: if_splits)

lemma onPong_enter_ok [ws_keeps]: "ws_ok s \<Longrightarrow> onPong_enter s = Some r \<Longrightarrow> \<exists>s'. r = Returns s' \<and> ws_ok s'"
  by (cases "write_at s"; auto simp: onPong_enter_def ws_ok_defs split: if_splits)

lemma pump_tick_ok [ws_keeps]: "ws_ok s \<Longrightarrow> pump_tick res s = Some r \<Longrightarrow> \<exists>s'. r = Returns s' \<and> ws_ok s'"
  by (cases "write_at s"; auto simp: pump_tick_def pump_write_def ws_onError_def ws_ok_defs split: if_splits option.splits)

lemma pump_pong_ok [ws_keeps]: "ws_ok s \<Longrightarrow> pump_pong res s = Some r \<Longrightarrow> \<exists>s'. r = Returns s' \<and> ws_ok s'"
  by (cases "write_at s"; auto simp: pump_pong_def pump_write_def ws_onError_def chan_recv_def ws_ok_defs split: if_splits option.splits list.splits)

lemma pump_message_ok [ws_keeps]: "ws_ok s \<Longrightarrow> pump_message res s = Some r \<Longrightarrow> \<exists>s'. r = Returns s' \<and> ws_ok s'"
  by (cases "write_at s"; auto simp: pump_message_def pump_write_def ws_onError_def chan_recv_def ws_ok_defs split: if_splits option.splits list.splits)

lemma pump_close_ok [ws_keeps]: "ws_ok s \<Longrightarrow> pump_close res s = Some r \<Longrightarrow> \<exists>s'. r = Returns s' \<and> ws_ok s'"
  by (cases "write_at s"; auto simp: pump_close_def ws_onError_def chan_recv_def Let_def ws_ok_defs split: if_splits option.splits list.splits)

lemma pump_force_ok [ws_keeps]: "ws_ok s \<Longrightarrow> pump_force s = Some r \<Longrightarrow> \<exists>s'. r = Returns s' \<and> ws_ok s'"
  by (cases "write_at s"; auto simp: pump_force_def chan_recv_def ws_ok_defs split: if_splits option.splits list.splits)

lemma cleanup_signal_ok [ws_keeps]: "ws_ok s \<Longrightarrow> cleanup_signal s = Some r \<Longrightarrow> \<exists>s'. r = Returns s' \<and> ws_ok s'"
  by (cases "write_at s"; auto simp: cleanup_signal_def then_ok_Some chan_close_def ws_ok_defs split: if_splits)

lemma cleanup_locked_ok [ws_keeps]: "ws_ok s \<Longrightarrow> cleanup_locked s = Some r \<Longrightarrow> \<exists>s'. r = Returns s' \<and> ws_ok s'"
  by (cases "write_at s"; auto simp: cleanup_locked_def close_channels_def chan_close_def ws_ok_defs split: if_splits)

lemma cleanup_notify_ok [ws_keeps]: "ws_ok s \<Longrightarrow> cleanup_notify s = Some r \<Longrightarrow> \<exists>s'. r = Returns s' \<and> ws_ok s'"
  by (cases "write_at s"; auto simp: cleanup_notify_def ws_ok_defs)

lemma onPing_ok: "ws_ok s \<Longrightarrow> onPing now s = Some (Returns s') \<Longrightarrow> ws_ok s'"
  by (cases "write_at s"; auto simp: onPing_def then_ok_Some send_on_Some ws_ok_defs chan_send_def
      split: if_splits read_pc.splits)

lemma onPong_ok: "ws_ok s \<Longrightarrow> onPong now s = Some (Returns s') \<Longrightarrow> ws_ok s'"
  by (cases "write_at s"; auto simp: onPong_def ws_ok_defs split: if_splits read_pc.splits)

lemma ws_step_ok:
  assumes "ws_ok s" and "ws_step now e s = Some r"
  shows "(\<exists>s'. r = Returns s' \<and> ws_ok s') \<or> (e = EvPingSend \<or> e = EvPongDone) \<and> (\<exists>v. r = Panics v)"
proof (cases e)
  case EvPingSend
  with assms onPing_ok show ?thesis by (cases r) auto
next
  case EvPongDone
  with assms onPong_ok show ?thesis by (cases r) auto
qed (use assms ws_keeps in auto)

lemma ws_runs_ok: "ws_runs s0 es s \<Longrightarrow> ws_ok s0 \<Longrightarrow> ws_ok s"
  by (induction rule: ws_runs.induct) (auto dest: ws_step_ok)

section \<open>The end of the cleanup\<close>

lemma ws_runs_trans:
  assumes "ws_runs s0 es s" and "ws_runs s es' s'"
  shows "ws_runs s0 (es @ es') s'"
  using assms(2) by induction (use assms(1) in \<open>auto simp flip: append_assoc intro: ws_run_step\<close>)

lemma ws_runs_one: "ws_step now e s = Some (Returns s') \<Longrightarrow> ws_runs s [e] s'"
  using ws_run_step [OF ws_run_nil] by fastforce

lemma writers_leave:
  assumes "chan_closed (w_done (sock s))"
  shows "ws_runs s (replicate (length (writers s)) (EvWriteAborted 0)) (s\<lparr>writers := []\<rparr>)"
  using assms
proof (induction "writers s" arbitrary: s)
  case Nil
  then have "s\<lparr>writers := []\<rparr> = s" by simp
  with Nil show ?case by (metis ws_run_nil length_0_conv replicate_0)
next
  case (Cons m ms)
  note ms = Cons.hyps(2) [symmetric]
  have "ws_step 0 (EvWriteAborted 0) s = Some (Returns (s\<lparr>writers := ms\<rparr>))"
    using ms Cons.prems by (simp add: write_aborted_def drop_nth_def)
  moreover have "ws_runs (s\<lparr>writers := ms\<rparr>) (replicate (length ms) (EvWriteAborted 0)) (s\<lparr>writers := []\<rparr>)"
    using Cons.hyps(1) [of "s\<lparr>writers := ms\<rparr>"] Cons.prems by simp
  ultimately show ?case using ws_runs_trans [OF ws_runs_one] ms by fastforce
qed

lemma closers_leave:
  assumes "chan_closed (w_done (sock s))"
  shows "ws_runs s (replicate (length (closers s)) (EvCloseAborted 0)) (s\<lparr>closers := []\<rparr>)"
  using assms
proof (induction "closers s" arbitrary: s)
  case Nil
  then have "s\<lparr>closers := []\<rparr> = s" by simp
  with Nil show ?case by (metis ws_run_nil length_0_conv replicate_0)
next
  case (Cons m ms)
  note ms = Cons.hyps(2) [symmetric]
  have "ws_step 0 (EvCloseAborted 0) s = Some (Returns (s\<lparr>closers := ms\<rparr>))"
    using ms Cons.prems by (simp add: close_aborted_def drop_nth_def)
  moreover have "ws_runs (s\<lparr>closers := ms\<rparr>) (replicate (length ms) (EvCloseAborted 0)) (s\<lparr>closers := []\<rparr>)"
    using Cons.hyps(1) [of "s\<lparr>closers := ms\<rparr>"] Cons.prems by simp
  ultimately show ?case using ws_runs_trans [OF ws_runs_one] ms by fastforce
qed

lemma cleanup_from_locking:
  assumes "ws_ok s" and "write_at s = Locking err"
  shows "\<exists>s'. ws_runs s (replicate (length (writers s)) (EvWriteAborted 0) @
      replicate (length (closers s)) (EvCloseAborted 0) @ [EvLocked, EvNotify]) s' \<and>
    write_at s' = WriteDone \<and> ws_closed s' = [err] \<and> writers s' = [] \<and> closers s' = [] \<and> \<not> w_connection (sock s')"
proof -
  let ?s1 = "s\<lparr>writers := []\<rparr>" and ?s2 = "s\<lparr>writers := [], closers := []\<rparr>"
  have fin: "chan_closed (w_done (sock s))" and open_: "channels_closed False (sock s)" "ws_closed s = []"
    using assms by (auto simp: ws_ok_def)
  have "ws_runs ?s1 (replicate (length (closers s)) (EvCloseAborted 0)) ?s2"
    using closers_leave [of ?s1] fin by simp
  with writers_leave [OF fin] have "ws_runs s (replicate (length (writers s)) (EvWriteAborted 0) @
      replicate (length (closers s)) (EvCloseAborted 0)) ?s2"
    by (rule ws_runs_trans)
  moreover obtain w where "close_channels ((sock s)\<lparr>w_conn := (w_conn (sock s))\<lparr>conn_open := False\<rparr>, w_connection := False\<rparr>) =
      Returns w" "\<not> w_connection w"
    using open_(1) by (auto simp: close_channels_def chan_close_def channels_closed_def)
  then have "ws_step 0 EvLocked ?s2 = Some (Returns (?s2\<lparr>sock := w, write_at := Notifying err\<rparr>))"
    and "ws_step 0 EvNotify (?s2\<lparr>sock := w, write_at := Notifying err\<rparr>) =
      Some (Returns (?s2\<lparr>sock := w, write_at := WriteDone, ws_closed := [err]\<rparr>))" and "\<not> w_connection w"
    using assms(2) open_(2) by (auto simp: cleanup_locked_def cleanup_notify_def)
  ultimately show ?thesis
    using ws_runs_trans [OF _ ws_runs_trans [OF ws_runs_one ws_runs_one]]
    by (intro exI [of _ "?s2\<lparr>sock := w, write_at := WriteDone, ws_closed := [err]\<rparr>"]) fastforce
qed

lemma cleanup_ends:
  assumes "ws_ok s" and "write_at s = Closing err \<or> write_at s = Locking err"
  shows "\<exists>es s'. ws_runs s es s' \<and> length es \<le> length (writers s) + length (closers s) + 3 \<and>
    set es \<subseteq> {EvSignal, EvWriteAborted 0, EvCloseAborted 0, EvLocked, EvNotify} \<and>
    write_at s' = WriteDone \<and> ws_closed s' = [err] \<and> writers s' = [] \<and> closers s' = [] \<and> \<not> w_connection (sock s')"
proof (cases "write_at s = Locking err")
  case True
  from cleanup_from_locking [OF assms(1) True] show ?thesis by (elim exE conjE, intro exI conjI) auto
next
  case False
  let ?s1 = "s\<lparr>sock := (sock s)\<lparr>w_done := (w_done (sock s))\<lparr>chan_closed := True\<rparr>\<rparr>, write_at := Locking err\<rparr>"
  from False assms have "cleanup_signal s = Some (Returns ?s1)"
    by (auto simp: cleanup_signal_def then_ok_def chan_close_def ws_ok_def)
  then have step: "ws_step 0 EvSignal s = Some (Returns ?s1)" and "ws_ok ?s1"
    using cleanup_signal_ok [OF assms(1)] by auto
  from cleanup_from_locking [OF this(2), of err] obtain s' where
    run: "ws_runs ?s1 (replicate (length (writers s)) (EvWriteAborted 0) @
        replicate (length (closers s)) (EvCloseAborted 0) @ [EvLocked, EvNotify]) s'" and
    s': "write_at s' = WriteDone" "ws_closed s' = [err]" "writers s' = []" "closers s' = []" "\<not> w_connection (sock s')"
    by auto
  from ws_runs_trans [OF ws_runs_one [OF step] run] s' show ?thesis by (intro exI conjI) auto
qed

section \<open>Panics of the handlers for pings and pongs\<close>

fun ws_exec :: "ws_event list \<Rightarrow> ws_sys \<Rightarrow> ws_sys option" where
  "ws_exec [] s = Some s"
| "ws_exec (e # es) s = (case ws_step 0 e s of Some (Returns s') \<Rightarrow> ws_exec es s' | _ \<Rightarrow> None)"

lemma ws_exec_runs: "ws_exec es s = Some s' \<Longrightarrow> ws_runs s es s'"
proof (induction es arbitrary: s)
  case (Cons e es)
  then obtain s1 where "ws_step 0 e s = Some (Returns s1)" "ws_runs s1 es s'"
    by (auto split: option.splits outcome.splits)
  then show ?case using ws_runs_trans [OF ws_runs_one] by fastforce
qed (simp add: ws_run_nil)

lemmas ws_ops = WriteManual_def write_queued_def ws_Close_def close_queued_def readPump_start_def onPing_enter_def onPing_def
  onPong_enter_def onPong_def pump_close_def cleanup_signal_def cleanup_locked_def cleanup_notify_def close_channels_def
  send_on_def then_ok_def chan_close_def chan_send_def chan_recv_def chan_full_def new_chan_def write_frame_def
  set_read_deadline_def ws_start_def newWebSocket_def updateConfig_def initPingPong_def Let_def drop_nth_def

section \<open>Properties\<close>

text \<open>
  C14: the messages of a websocket go out in order, and few are lost. In every interleaving of callers and
  pumps the messages written to the connection are a prefix of those for which \<open>Write\<close> returned nil, and
  at most three of these are not written (one whose write failed, two in the queue), whenever and however
  the connection ends. \<open>onClosed\<close> is called at most once, and no step panics except the handlers of
  pings and pongs.
\<close>

theorem ws_writes_in_order:
  assumes "newWebSocket i (Some conn) cfg = Returns w" and "conn_frames conn = []" and "ws_runs (ws_start w) es s"
  shows "(\<exists>lost. ws_accepted s = ws_sent s @ lost \<and> length lost \<le> 3) \<and> length (ws_closed s) \<le> 1 \<and>
    (ws_step now e s = Some (Panics v) \<longrightarrow> e = EvPingSend \<or> e = EvPongDone)"
proof -
  have ok: "ws_ok s" by (rule ws_runs_ok [OF assms(3) ws_ok_start [OF assms(1,2)]])
  then obtain lost where "ws_accepted s = ws_sent s @ lost @ chan_buf (w_outQueue (sock s))" "length lost \<le> 1"
    "length (chan_buf (w_outQueue (sock s))) \<le> 2" by (auto simp: ws_ok_def)
  then have "\<exists>lost. ws_accepted s = ws_sent s @ lost \<and> length lost \<le> 3"
    by (intro exI [of _ "lost @ chan_buf (w_outQueue (sock s))"]) simp
  moreover have "length (ws_closed s) \<le> 1" using ok by (cases "write_at s") (auto simp: ws_ok_def)
  ultimately show ?thesis using ws_step_ok [OF ok, of now e] by blast
qed

text \<open>
  C15: a websocket that ends blocks nobody. Once the write pump has left its loop, whatever the state of the
  queues, the callers that wait in \<open>Write\<close> and \<open>Close\<close> can leave, the cleanup then gets the lock, and
  \<open>onClosed\<close> is called with the error of the pump, in at most three steps more than there are callers.
\<close>

theorem ws_cleanup_releases:
  assumes "newWebSocket i (Some conn) cfg = Returns w" and "conn_frames conn = []" and "ws_runs (ws_start w) es s"
    and "write_at s = Closing err \<or> write_at s = Locking err"
  shows "\<exists>es' s'. ws_runs s es' s' \<and> length es' \<le> length (writers s) + length (closers s) + 3 \<and>
    set es' \<subseteq> {EvSignal, EvWriteAborted 0, EvCloseAborted 0, EvLocked, EvNotify} \<and>
    write_at s' = WriteDone \<and> ws_closed s' = [err] \<and> writers s' = [] \<and> closers s' = [] \<and> \<not> w_connection (sock s')"
  by (rule cleanup_ends [OF ws_runs_ok [OF assms(3) ws_ok_start [OF assms(1,2)]] assms(4)])

text \<open>
  C29: a ping or a pong that is handled while the websocket closes crashes the process. With the default
  configuration of the server a ping, and with that of the client a pong, can be in its handler when the
  cleanup, started by an ordinary \<open>Close\<close>, has closed the channels: the ping's handler sends on a closed
  channel, the pong's one dereferences a nil connection.
\<close>

theorem ws_ping_pong_panic:
  assumes "newWebSocket i (Some conn) (NewDefaultWebSocketConfig (st_WriteWait NewServerTimeoutConfig)
      (st_PingWait NewServerTimeoutConfig) (st_PingPeriod NewServerTimeoutConfig) (st_PongWait NewServerTimeoutConfig)) =
      Returns server"
    and "newWebSocket i (Some conn) (NewDefaultWebSocketConfig (ct_WriteWait NewClientTimeoutConfig) 0
      (ct_PingPeriod NewClientTimeoutConfig) (ct_PongWait NewClientTimeoutConfig)) = Returns client"
  shows "(\<exists>s. ws_runs (ws_start server) [EvReadStart, EvPing d, EvClose ce, EvCloseQueued 0, EvCloseOut None, EvSignal,
        EvLocked, EvNotify] s \<and> ws_step now EvPingSend s = Some (Panics ''send on closed channel'')) \<and>
    (\<exists>s. ws_runs (ws_start client) [EvReadStart, EvClose ce, EvCloseQueued 0, EvCloseOut None, EvSignal, EvLocked,
        EvPong] s \<and> ws_step now EvPongDone s = Some (Panics ''nil pointer dereference''))"
proof -
  have "\<exists>s. ws_exec [EvReadStart, EvPing d, EvClose ce, EvCloseQueued 0, EvCloseOut None, EvSignal, EvLocked, EvNotify]
      (ws_start server) = Some s \<and> ws_step now EvPingSend s = Some (Panics ''send on closed channel'')"
    using assms(1) by (auto simp: ws_ops NewDefaultWebSocketConfig_def NewServerTimeoutConfig_def ws_defaults)
  moreover have "\<exists>s. ws_exec [EvReadStart, EvClose ce, EvCloseQueued 0, EvCloseOut None, EvSignal, EvLocked, EvPong]
      (ws_start client) = Some s \<and> ws_step now EvPongDone s = Some (Panics ''nil pointer dereference'')"
    using assms(2) by (auto simp: ws_ops NewDefaultWebSocketConfig_def NewClientTimeoutConfig_def ws_defaults)
  ultimately show ?thesis using ws_exec_runs by blast
qed

section \<open>Witnesses\<close>

definition sample_conn :: wsConn where
  "sample_conn = \<lparr>conn_readLimit = None, conn_onPing = False, conn_onPong = False, conn_readDeadline = None,
     conn_frames = [], conn_open = True\<rparr>"

definition sample_ws_config :: WebSocketConfig where
  "sample_ws_config = \<lparr>WriteWait = Second, ReadWait = 0, cfg_PingConfig = None, ReadLimit = 0\<rparr>"

lemma sample_socket: "\<exists>w. newWebSocket ''cp'' (Some sample_conn) cfg = Returns w"
  by (simp add: newWebSocket_def)

theorem ws_writes_in_order_witness:
  "\<exists>w s. newWebSocket ''cp'' (Some sample_conn) sample_ws_config = Returns w \<and>
     ws_runs (ws_start w) [EvWrite 1 ''a'', EvWriteQueued 0] s \<and> ws_accepted s = [\<lparr>m_typ = 1, m_data = ''a''\<rparr>] \<and>
     (\<exists>lost. ws_accepted s = ws_sent s @ lost \<and> length lost \<le> 3)"
proof -
  obtain w where w: "newWebSocket ''cp'' (Some sample_conn) sample_ws_config = Returns w" using sample_socket by blast
  then have "\<exists>s. ws_exec [EvWrite 1 ''a'', EvWriteQueued 0] (ws_start w) = Some s \<and>
      ws_accepted s = [\<lparr>m_typ = 1, m_data = ''a''\<rparr>]"
    by (auto simp: ws_ops sample_ws_config_def)
  then obtain s where "ws_runs (ws_start w) [EvWrite 1 ''a'', EvWriteQueued 0] s"
    "ws_accepted s = [\<lparr>m_typ = 1, m_data = ''a''\<rparr>]" using ws_exec_runs by blast
  with ws_writes_in_order [OF w _ this(1)] w show ?thesis by (auto simp: sample_conn_def)
qed

theorem ws_cleanup_releases_witness:
  "\<exists>s es' s'. writers s = [\<lparr>m_typ = 1, m_data = ''a''\<rparr>] \<and> ws_runs s es' s' \<and> write_at s' = WriteDone \<and>
     ws_closed s' = [None] \<and> writers s' = []"
proof -
  obtain w where w: "newWebSocket ''cp'' (Some sample_conn) sample_ws_config = Returns w" using sample_socket by blast
  then have "\<exists>s. ws_exec [EvWrite 1 ''a'', EvClose (1000, []), EvCloseQueued 0, EvCloseOut None] (ws_start w) = Some s \<and>
      writers s = [\<lparr>m_typ = 1, m_data = ''a''\<rparr>] \<and> write_at s = Closing None"
    by (auto simp: ws_ops sample_ws_config_def)
  then obtain s where s: "ws_runs (ws_start w) [EvWrite 1 ''a'', EvClose (1000, []), EvCloseQueued 0, EvCloseOut None] s"
    "writers s = [\<lparr>m_typ = 1, m_data = ''a''\<rparr>]" "write_at s = Closing None" using ws_exec_runs by blast
  have "conn_frames sample_conn = []" by (simp add: sample_conn_def)
  from ws_cleanup_releases [OF w this s(1), of None] s(2,3) show ?thesis by blast
qed

theorem ws_ping_pong_panic_witness:
  "\<exists>w s. ws_runs (ws_start w) [EvReadStart, EvPing ''x'', EvClose (1000, []), EvCloseQueued 0, EvCloseOut None, EvSignal,
      EvLocked, EvNotify] s \<and> ws_step 0 EvPingSend s = Some (Panics ''send on closed channel'')"
  using ws_ping_pong_panic [where conn = sample_conn and i = "''cp''" and d = "''x''" and ce = "(1000, [])" and now = 0]
    sample_socket by blast

end
