(* ===== verification/Ws_Client.thy ===== *)
theory Ws_Client
  imports Ws_Safety "HOL-Library.Word"
begin

text \<open>
  \<open>ws/client.go\<close>: the websocket client with its reconnection loop. Dialling is a call into
  gorilla/websocket and parsing a URL one into net/url: their results are choices of the environment.
  Delays are 64-bit integers, as in the source, so that the doubling of the back-off may wrap around.
  Shown are the bounds of the back-off, and that a stop leaves a signal behind which ends the next
  reconnection before it begins.
\<close>

section \<open>Helpers of the standard library\<close>

text \<open>\<open>path.Base\<close>\<close>

definition path_Base :: "string \<Rightarrow> string" where
  "path_Base p =
     (if p = [] then ''.''
      else let q = dropWhile ((=) CHR ''/'') (rev p); b = rev (takeWhile ((\<noteq>) CHR ''/'') q)
           in if b = [] then ''/'' else b)"

text \<open>\<open>base64.StdEncoding.EncodeToString\<close>\<close>

definition base64_char :: "nat \<Rightarrow> char" where
  "base64_char n = ''ABCDEFGHIJKLMNOPQRSTUVWXYZabcdefghijklmnopqrstuvwxyz0123456789+/'' ! n"

fun base64_encode :: "string \<Rightarrow> string" where
  "base64_encode [] = []"
| "base64_encode [a] =
     (let n = of_char a in [base64_char (n div 4), base64_char (n mod 4 * 16), CHR ''='', CHR ''=''])"
| "base64_encode [a, b] =
     (let n = of_char a * 256 + of_char b
      in [base64_char (n div 1024), base64_char (n div 16 mod 64), base64_char (n mod 16 * 4), CHR ''=''])"
| "base64_encode (a # b # c # cs) =
     (let n = (of_char a * 256 + of_char b) * 256 + of_char c
      in base64_char (n div 262144) # base64_char (n div 4096 mod 64) # base64_char (n div 64 mod 64) #
         base64_char (n mod 64) # base64_encode cs)"

text \<open>The canonical form of a header key: unchanged unless every byte may occur in a token.\<close>

definition is_lower :: "char \<Rightarrow> bool" where "is_lower c \<longleftrightarrow> 97 \<le> (of_char c :: nat) \<and> (of_char c :: nat) \<le> 122"
definition is_upper :: "char \<Rightarrow> bool" where "is_upper c \<longleftrightarrow> 65 \<le> (of_char c :: nat) \<and> (of_char c :: nat) \<le> 90"

definition token_char :: "char \<Rightarrow> bool" where
  "token_char c \<longleftrightarrow> is_lower c \<or> is_upper c \<or> (48 \<le> (of_char c :: nat) \<and> (of_char c :: nat) \<le> 57) \<or>
     c \<in> set ''!#$%&*+-.^_|~'' \<or> (of_char c :: nat) \<in> {39, 96}"

fun canonical_chars :: "bool \<Rightarrow> string \<Rightarrow> string" where
  "canonical_chars upper [] = []"
| "canonical_chars upper (c # cs) =
     (if upper \<and> is_lower c then char_of ((of_char c :: nat) - 32)
      else if \<not> upper \<and> is_upper c then char_of ((of_char c :: nat) + 32) else c) #
     canonical_chars (c = CHR ''-'') cs"

definition canonical_key :: "string \<Rightarrow> string" where
  "canonical_key k = (if list_all token_char k then canonical_chars True k else k)"

section \<open>The client\<close>

record dialer =
  Subprotocols :: "string list"
  HandshakeTimeout :: duration
  TLSClientConfig :: bool

record URL =
  u_String :: string
  u_Path :: string

datatype wc_notification = NotifyDisconnected "go_error option" | NotifyReconnected

text \<open>
  The websocket is the current one with its goroutines; \<open>wc_notified\<close> are the calls of the two handlers
  of the upper layer.
\<close>

record wsClient =
  wc_webSocket :: "ws_sys option"
  wc_url :: URL
  wc_messageHandler :: "(string \<Rightarrow> go_error option) option"
  wc_dialOptions :: "(dialer \<Rightarrow> dialer) list"
  wc_header :: "(string, string) gomap"
  wc_timeoutConfig :: ClientTimeoutConfig
  wc_onDisconnected :: bool
  wc_onReconnected :: bool
  wc_errC :: "go_error chan"
  wc_errClosed :: bool
  wc_reconnectC :: "unit chan option"
  wc_autoReconnect :: bool
  wc_notified :: "wc_notification list"

definition WithClientTLSConfig :: "bool \<Rightarrow> wsClient \<Rightarrow> wsClient" where
  "WithClientTLSConfig tlsConfig c =
     (if tlsConfig then c\<lparr>wc_dialOptions := wc_dialOptions c @ [\<lambda>d. d\<lparr>TLSClientConfig := True\<rparr>]\<rparr> else c)"

definition NewWsClient :: "(wsClient \<Rightarrow> wsClient) list \<Rightarrow> wsClient" where
  "NewWsClient opts = foldl (\<lambda>c opt. opt c)
     \<lparr>wc_webSocket = None, wc_url = \<lparr>u_String = [], u_Path = []\<rparr>, wc_messageHandler = None, wc_dialOptions = [],
      wc_header = [], wc_timeoutConfig = NewClientTimeoutConfig, wc_onDisconnected = False, wc_onReconnected = False,
      wc_errC = new_chan 1, wc_errClosed = False, wc_reconnectC = Some (new_chan 1), wc_autoReconnect = True,
      wc_notified = []\<rparr> opts"

definition wc_SetMessageHandler where "wc_SetMessageHandler h c = c\<lparr>wc_messageHandler := h\<rparr>"
definition wc_SetTimeoutConfig where "wc_SetTimeoutConfig cfg c = c\<lparr>wc_timeoutConfig := cfg\<rparr>"
definition wc_SetDisconnectedHandler where "wc_SetDisconnectedHandler h c = c\<lparr>wc_onDisconnected := h\<rparr>"
definition wc_SetReconnectedHandler where "wc_SetReconnectedHandler h c = c\<lparr>wc_onReconnected := h\<rparr>"
definition wc_SetAutoReconnect where "wc_SetAutoReconnect b c = c\<lparr>wc_autoReconnect := b\<rparr>"

text \<open>An option of another type than a dial option is ignored.\<close>

definition wc_AddOption :: "(dialer \<Rightarrow> dialer) option \<Rightarrow> wsClient \<Rightarrow> wsClient" where
  "wc_AddOption option c =
     (case option of None \<Rightarrow> c | Some f \<Rightarrow> c\<lparr>wc_dialOptions := wc_dialOptions c @ [f]\<rparr>)"

definition wc_SetRequestedSubProtocol :: "string \<Rightarrow> wsClient \<Rightarrow> wsClient" where
  "wc_SetRequestedSubProtocol subProto =
     wc_AddOption (Some (\<lambda>d. if subProto \<in> set (Subprotocols d) then d
       else d\<lparr>Subprotocols := Subprotocols d @ [subProto]\<rparr>))"

definition wc_SetHeaderValue :: "string \<Rightarrow> string \<Rightarrow> wsClient \<Rightarrow> wsClient" where
  "wc_SetHeaderValue key v c = c\<lparr>wc_header := AList.update (canonical_key key) v (wc_header c)\<rparr>"

definition wc_SetBasicAuth :: "string \<Rightarrow> string \<Rightarrow> wsClient \<Rightarrow> wsClient" where
  "wc_SetBasicAuth username password =
     wc_SetHeaderValue ''Authorization'' (''Basic '' @ base64_encode (username @ '':'' @ password))"

definition wc_getReadTimeout :: "duration \<Rightarrow> wsClient \<Rightarrow> duration option" where
  "wc_getReadTimeout now c =
     (if ct_PongWait (wc_timeoutConfig c) = 0 then None else Some (now + ct_PongWait (wc_timeoutConfig c)))"

definition wc_IsConnected :: "wsClient \<Rightarrow> bool" where
  "wc_IsConnected c = (case wc_webSocket c of None \<Rightarrow> False | Some s \<Rightarrow> ws_IsConnected (sock s))"

definition wc_Write :: "string \<Rightarrow> wsClient \<Rightarrow> go_error option \<times> wsClient" where
  "wc_Write data c =
     (case wc_webSocket c of
        None \<Rightarrow> (Some (Errorf ''client is currently not connected, cannot send data''), c)
      | Some s \<Rightarrow>
          (if \<not> ws_IsConnected (sock s) then (Some (Errorf ''client is currently not connected, cannot send data''), c)
           else let (err, s) = ws_Write data s in (err, c\<lparr>wc_webSocket := Some s\<rparr>)))"

definition wc_error :: "go_error \<Rightarrow> wsClient \<Rightarrow> wsClient" where
  "wc_error err c = (if wc_errClosed c then c else c\<lparr>wc_errC := chan_put err (wc_errC c)\<rparr>)"

text \<open>The errors that a step of the websocket reports.\<close>

definition wc_report :: "ws_sys \<Rightarrow> ws_sys \<Rightarrow> wsClient \<Rightarrow> wsClient" where
  "wc_report w w' c = fold wc_error (drop (length (ws_reported w)) (ws_reported w')) c"

definition wc_Errors :: "wsClient \<Rightarrow> go_error chan" where
  "wc_Errors c = wc_errC c"

definition wc_handleMessage :: "string \<Rightarrow> wsClient \<Rightarrow> go_error option" where
  "wc_handleMessage data c =
     (case wc_messageHandler c of None \<Rightarrow> Some (Errorf ''no message handler set'') | Some h \<Rightarrow> h data)"

section \<open>Connecting\<close>

record HttpConnectionError =
  Message :: string
  HttpStatus :: string
  HttpCode :: int
  Details :: string

definition HttpConnectionError_Error :: "HttpConnectionError \<Rightarrow> string" where
  "HttpConnectionError_Error e = Message e @ '', http status: '' @ HttpStatus e"

text \<open>What \<open>Dial\<close> returns: an error, perhaps with a response (status, code, body), or a connection.\<close>

datatype dialled = DialFailed go_error "(string \<times> int \<times> string) option" | DialOk wsConn

definition dial_error :: "go_error \<Rightarrow> (string \<times> int \<times> string) option \<Rightarrow> go_error" where
  "dial_error err resp =
     (case resp of
        None \<Rightarrow> err
      | Some (status, code, text) \<Rightarrow>
          Errorf (HttpConnectionError_Error \<lparr>Message = error_text err, HttpStatus = status, HttpCode = code, Details = text\<rparr>))"

definition wc_dialer :: "wsClient \<Rightarrow> dialer" where
  "wc_dialer c = foldl (\<lambda>d opt. opt d)
     \<lparr>Subprotocols = [], HandshakeTimeout = ct_HandshakeTimeout (wc_timeoutConfig c), TLSClientConfig = False\<rparr>
     (wc_dialOptions c)"

text \<open>
  \<open>Start\<close>, where \<open>parse\<close> and \<open>dial\<close> are \<open>url.Parse\<close> and \<open>Dial\<close>; the new websocket runs both pumps. The
  last branch does not arise: the connection is not nil.
\<close>

definition wc_Start ::
  "(string \<Rightarrow> go_error + URL) \<Rightarrow> (dialer \<Rightarrow> string \<Rightarrow> (string, string) gomap \<Rightarrow> dialled) \<Rightarrow> string \<Rightarrow> wsClient \<Rightarrow>
     go_error option \<times> wsClient" where
  "wc_Start parse dial urlStr c =
     (case parse urlStr of
        Inl err \<Rightarrow> (Some err, c)
      | Inr u \<Rightarrow>
          (let c = c\<lparr>wc_url := u\<rparr>;
               c = (if wc_reconnectC c = None then c\<lparr>wc_reconnectC := Some (new_chan 1)\<rparr> else c)
           in case dial (wc_dialer c) urlStr (wc_header c) of
                DialFailed err resp \<Rightarrow> (Some (dial_error err resp), c)
              | DialOk conn \<Rightarrow>
                  (let cfg = wc_timeoutConfig c;
                       wsCfg = NewDefaultWebSocketConfig (ct_WriteWait cfg) 0 (ct_PingPeriod cfg) (ct_PongWait cfg);
                       wsCfg = wsCfg\<lparr>ReadLimit := ct_ReadLimit cfg\<rparr>
                   in case newWebSocket (path_Base (u_Path u)) (Some conn) wsCfg of
                        Returns w \<Rightarrow> (None, c\<lparr>wc_webSocket := Some (ws_start w)\<rparr>)
                      | Panics v \<Rightarrow> (Some (Sentinel v), c))))"

text \<open>\<open>Stop\<close> up to the close of the websocket, which its caller waits for in \<open>ws_Close\<close>, and the rest.\<close>

definition CloseNormalClosure :: int where "CloseNormalClosure = 1000"

definition wc_Stop_close :: "wsClient \<Rightarrow> wsClient" where
  "wc_Stop_close c =
     (case wc_webSocket c of
        None \<Rightarrow> c
      | Some s \<Rightarrow>
          (if ws_IsConnected (sock s) then
             (case ws_Close (CloseNormalClosure, []) s of
                (None, s) \<Rightarrow> c\<lparr>wc_webSocket := Some s\<rparr>
              | (Some err, s) \<Rightarrow> wc_error err c)
           else c))"

definition wc_Stop_signal :: "wsClient \<Rightarrow> (string, wsClient) outcome" where
  "wc_Stop_signal c =
     (let c = c\<lparr>wc_reconnectC := map_option (chan_put ()) (wc_reconnectC c)\<rparr>
      in if wc_errClosed c then Returns c
         else case chan_close (wc_errC c) of
                Panics v \<Rightarrow> Panics v
              | Returns e \<Rightarrow> Returns (c\<lparr>wc_errClosed := True, wc_errC := e\<rparr>))"

section \<open>Reconnecting\<close>

type_synonym delay = "64 word"

text \<open>\<open>rand.Intn\<close> of a 64-bit integer; \<open>r\<close> is the choice of the generator.\<close>

definition rand_Intn :: "64 word \<Rightarrow> nat \<Rightarrow> (string, 64 word) outcome" where
  "rand_Intn n r =
     (if sint n \<le> 0 then Panics ''invalid argument to Intn'' else Returns (word_of_int (int r mod sint n)))"

definition random_seconds :: "ClientTimeoutConfig \<Rightarrow> nat \<Rightarrow> (string, delay) outcome" where
  "random_seconds cfg r =
     (case rand_Intn (word_of_int (ct_RetryBackOffRandomRange cfg) + 1) r of
        Panics v \<Rightarrow> Panics v
      | Returns x \<Rightarrow> Returns (x * word_of_int Second))"

definition first_delay :: "ClientTimeoutConfig \<Rightarrow> nat \<Rightarrow> (string, delay) outcome" where
  "first_delay cfg r =
     (case random_seconds cfg r of
        Panics v \<Rightarrow> Panics v
      | Returns x \<Rightarrow> Returns (word_of_int (ct_RetryBackOffWaitMinimum cfg) + x))"

definition next_delay :: "ClientTimeoutConfig \<Rightarrow> int \<Rightarrow> nat \<Rightarrow> delay \<Rightarrow> (string, delay) outcome" where
  "next_delay cfg reconnectionAttempts r delay =
     (if reconnectionAttempts < ct_RetryBackOffRepeatTimes cfg then
        (case random_seconds cfg r of Panics v \<Rightarrow> Panics v | Returns x \<Rightarrow> Returns (delay * 2 + x))
      else Returns delay)"

text \<open>
  \<open>handleReconnection\<close>: its loop waits in a \<open>select\<close> with a delay, or is in \<open>Start\<close>, which dials.
\<close>

datatype reconnecting = Waiting delay int | Dialling delay int

record wc_sys =
  wc :: wsClient
  wc_loops :: "reconnecting list"

definition handleReconnection :: "nat \<Rightarrow> wc_sys \<Rightarrow> (string, wc_sys) outcome" where
  "handleReconnection r s =
     (case first_delay (wc_timeoutConfig (wc s)) r of
        Panics v \<Rightarrow> Panics v
      | Returns d \<Rightarrow> Returns (s\<lparr>wc_loops := wc_loops s @ [Waiting d 1]\<rparr>))"

definition reconnect_elapsed :: "nat \<Rightarrow> wc_sys \<Rightarrow> (string, wc_sys) outcome option" where
  "reconnect_elapsed n s =
     (if n \<ge> length (wc_loops s) then None
      else case wc_loops s ! n of
             Waiting d k \<Rightarrow> Some (Returns (s\<lparr>wc_loops := (wc_loops s)[n := Dialling d k]\<rparr>))
           | Dialling _ _ \<Rightarrow> None)"

definition reconnect_aborted :: "nat \<Rightarrow> wc_sys \<Rightarrow> (string, wc_sys) outcome option" where
  "reconnect_aborted n s =
     (if n \<ge> length (wc_loops s) then None
      else case (wc_loops s ! n, wc_reconnectC (wc s)) of
             (Waiting d k, Some c) \<Rightarrow>
               (case chan_recv c of
                  None \<Rightarrow> None
                | Some (_, c) \<Rightarrow> Some (Returns (s\<lparr>wc := (wc s)\<lparr>wc_reconnectC := Some c\<rparr>, wc_loops := drop_nth n (wc_loops s)\<rparr>)))
           | _ \<Rightarrow> None)"

definition reconnect_dialled ::
  "(string \<Rightarrow> go_error + URL) \<Rightarrow> (dialer \<Rightarrow> string \<Rightarrow> (string, string) gomap \<Rightarrow> dialled) \<Rightarrow> nat \<Rightarrow> nat \<Rightarrow> wc_sys \<Rightarrow>
     (string, wc_sys) outcome option" where
  "reconnect_dialled parse dial r n s =
     (if n \<ge> length (wc_loops s) then None
      else case wc_loops s ! n of
             Waiting _ _ \<Rightarrow> None
           | Dialling d k \<Rightarrow>
               Some (case wc_Start parse dial (u_String (wc_url (wc s))) (wc s) of
                       (None, c) \<Rightarrow>
                         Returns (s\<lparr>wc := (if wc_onReconnected c then c\<lparr>wc_notified := wc_notified c @ [NotifyReconnected]\<rparr> else c),
                           wc_loops := drop_nth n (wc_loops s)\<rparr>)
                     | (Some err, c) \<Rightarrow>
                         (let c = wc_error (Wrapped (''reconnection failed: '' @ error_text err) err) c in
                          case next_delay (wc_timeoutConfig c) k r d of
                            Panics v \<Rightarrow> Panics v
                          | Returns d \<Rightarrow> Returns (s\<lparr>wc := c, wc_loops := (wc_loops s)[n := Waiting d (k + 1)]\<rparr>))))"

definition wc_handleDisconnect :: "go_error option \<Rightarrow> nat \<Rightarrow> wc_sys \<Rightarrow> (string, wc_sys) outcome" where
  "wc_handleDisconnect err r s =
     (let c = wc s;
          c = (if wc_onDisconnected c then c\<lparr>wc_notified := wc_notified c @ [NotifyDisconnected err]\<rparr> else c);
          s = s\<lparr>wc := c\<rparr>
      in if err \<noteq> None \<and> wc_autoReconnect c then handleReconnection r s else Returns s)"

definition wc_StartWithRetries ::
  "(string \<Rightarrow> go_error + URL) \<Rightarrow> (dialer \<Rightarrow> string \<Rightarrow> (string, string) gomap \<Rightarrow> dialled) \<Rightarrow> string \<Rightarrow> nat \<Rightarrow> wc_sys \<Rightarrow>
     (string, wc_sys) outcome" where
  "wc_StartWithRetries parse dial urlStr r s =
     (case wc_Start parse dial urlStr (wc s) of
        (None, c) \<Rightarrow> Returns (s\<lparr>wc := c\<rparr>)
      | (Some err, c) \<Rightarrow> handleReconnection r (s\<lparr>wc := c\<rparr>))"

text \<open>
  Steps: the methods, the steps of the current websocket, the end of the websocket, whose \<open>onClosed\<close> is
  \<open>handleDisconnect\<close>, and the steps of the reconnection loops.
\<close>

datatype wc_event =
    WcStart "string \<Rightarrow> go_error + URL" "dialer \<Rightarrow> string \<Rightarrow> (string, string) gomap \<Rightarrow> dialled" string
  | WcStartWithRetries "string \<Rightarrow> go_error + URL" "dialer \<Rightarrow> string \<Rightarrow> (string, string) gomap \<Rightarrow> dialled" string nat
  | WcStopClose
  | WcStopSignal
  | WcWrite string
  | WcSocket ws_event
  | WcClosed nat
  | WcElapsed nat
  | WcAborted nat
  | WcDialled "string \<Rightarrow> go_error + URL" "dialer \<Rightarrow> string \<Rightarrow> (string, string) gomap \<Rightarrow> dialled" nat nat
  | WcReadError

fun wc_step :: "wc_event \<Rightarrow> wc_sys \<Rightarrow> (string, wc_sys) outcome option" where
  "wc_step (WcStart parse dial u) s = Some (Returns (s\<lparr>wc := snd (wc_Start parse dial u (wc s))\<rparr>))"
| "wc_step (WcStartWithRetries parse dial u r) s = Some (wc_StartWithRetries parse dial u r s)"
| "wc_step WcStopClose s = Some (Returns (s\<lparr>wc := wc_Stop_close (wc s)\<rparr>))"
| "wc_step WcStopSignal s =
     Some (case wc_Stop_signal (wc s) of Panics v \<Rightarrow> Panics v | Returns c \<Rightarrow> Returns (s\<lparr>wc := c\<rparr>))"
| "wc_step (WcWrite data) s = Some (Returns (s\<lparr>wc := snd (wc_Write data (wc s))\<rparr>))"
| "wc_step (WcSocket e) s =
     (case wc_webSocket (wc s) of
        None \<Rightarrow> None
      | Some w \<Rightarrow>
          (if e = EvNotify then None
           else then_ok (ws_step 0 e w)
             (\<lambda>w'. Returns (s\<lparr>wc := wc_report w w' ((wc s)\<lparr>wc_webSocket := Some w'\<rparr>)\<rparr>))))"
| "wc_step (WcClosed r) s =
     (case wc_webSocket (wc s) of
        None \<Rightarrow> None
      | Some w \<Rightarrow>
          (case write_at w of
             Notifying err \<Rightarrow>
               then_ok (ws_step 0 EvNotify w)
                 (\<lambda>w. wc_handleDisconnect err r (s\<lparr>wc := (wc s)\<lparr>wc_webSocket := Some w\<rparr>\<rparr>))
           | _ \<Rightarrow> None))"
| "wc_step (WcElapsed n) s = reconnect_elapsed n s"
| "wc_step (WcAborted n) s = reconnect_aborted n s"
| "wc_step (WcDialled parse dial r n) s = reconnect_dialled parse dial r n s"
| "wc_step WcReadError s =
     map_option (\<lambda>(_, e). Returns (s\<lparr>wc := (wc s)\<lparr>wc_errC := e\<rparr>\<rparr>)) (chan_recv (wc_errC (wc s)))"

fun wc_exec :: "wc_event list \<Rightarrow> wc_sys \<Rightarrow> wc_sys option" where
  "wc_exec [] s = Some s"
| "wc_exec (e # es) s = (case wc_step e s of Some (Returns s') \<Rightarrow> wc_exec es s' | _ \<Rightarrow> None)"

end
