(* ===== verification/Ws_Reconnect.thy ===== *)
theory Ws_Reconnect
  imports Ws_Client
begin

text \<open>
  The reconnection of the websocket client over all its interleavings: the delays stay within the bounds
  of the configuration and do not overflow, and the signal of a stop survives a restart.
\<close>

section \<open>Arithmetic of delays\<close>

lemma sint_of_int64:
  assumes "- (2 ^ 63) \<le> z" and "z < 2 ^ 63"
  shows "sint (word_of_int z :: 64 word) = z"
  using assms by (simp add: sint_sbintrunc' signed_take_bit_int_eq_self)

lemma sint_plus64:
  fixes a b :: "64 word"
  assumes "- (2 ^ 63) \<le> sint a + sint b" and "sint a + sint b < 2 ^ 63"
  shows "sint (a + b) = sint a + sint b"
proof -
  have "a + b = word_of_int (sint a + sint b)" by simp
  then show ?thesis using sint_of_int64 [OF assms] by (simp only:)
qed

lemma sint_double64:
  fixes a b :: "64 word"
  assumes "- (2 ^ 63) \<le> sint a * 2 + sint b" and "sint a * 2 + sint b < 2 ^ 63"
  shows "sint (a * 2 + b) = sint a * 2 + sint b"
proof -
  have "a * 2 + b = word_of_int (sint a * 2 + sint b)" by simp
  then show ?thesis using sint_of_int64 [OF assms] by (simp only:)
qed

text \<open>The largest random part of a delay, and the range of a delay after \<open>j\<close> doublings.\<close>

definition random_max :: "ClientTimeoutConfig \<Rightarrow> int" where
  "random_max cfg = ct_RetryBackOffRandomRange cfg * Second"

definition doublings :: "ClientTimeoutConfig \<Rightarrow> int \<Rightarrow> nat" where
  "doublings cfg k = nat (min k (max 1 (ct_RetryBackOffRepeatTimes cfg)) - 1)"

definition delay_ok :: "ClientTimeoutConfig \<Rightarrow> delay \<Rightarrow> int \<Rightarrow> bool" where
  "delay_ok cfg d k \<longleftrightarrow> 1 \<le> k \<and>
     2 ^ doublings cfg k * ct_RetryBackOffWaitMinimum cfg \<le> sint d \<and>
     sint d \<le> 2 ^ doublings cfg k * (ct_RetryBackOffWaitMinimum cfg + 2 * random_max cfg) - random_max cfg"

definition no_overflow :: "ClientTimeoutConfig \<Rightarrow> bool" where
  "no_overflow cfg \<longleftrightarrow> 0 \<le> ct_RetryBackOffRandomRange cfg \<and> 0 \<le> ct_RetryBackOffWaitMinimum cfg \<and>
     2 ^ doublings cfg (ct_RetryBackOffRepeatTimes cfg) *
       (ct_RetryBackOffWaitMinimum cfg + 2 * random_max cfg) - random_max cfg < 2 ^ 63"

lemma doublings_le: "doublings cfg k \<le> doublings cfg (ct_RetryBackOffRepeatTimes cfg)"
  by (auto simp: doublings_def min_def max_def)

lemma delay_fits:
  assumes "no_overflow cfg"
  shows "2 ^ doublings cfg k * (ct_RetryBackOffWaitMinimum cfg + 2 * random_max cfg) - random_max cfg < 2 ^ 63"
proof -
  let ?b = "ct_RetryBackOffWaitMinimum cfg + 2 * random_max cfg"
  have "0 \<le> ?b" using assms by (simp add: no_overflow_def random_max_def Second_def)
  then have "2 ^ doublings cfg k * ?b \<le> 2 ^ doublings cfg (ct_RetryBackOffRepeatTimes cfg) * ?b"
    using doublings_le [of cfg k] by (intro mult_right_mono power_increasing) auto
  with assms show ?thesis by (simp add: no_overflow_def)
qed

lemma random_max_fits:
  assumes "no_overflow cfg"
  shows "0 \<le> random_max cfg" and "random_max cfg < 2 ^ 63" and "ct_RetryBackOffWaitMinimum cfg + random_max cfg < 2 ^ 63"
proof -
  show nonneg: "0 \<le> random_max cfg" using assms by (simp add: no_overflow_def random_max_def Second_def)
  have "doublings cfg 1 = 0" by (simp add: doublings_def)
  with delay_fits [OF assms, of 1] show "ct_RetryBackOffWaitMinimum cfg + random_max cfg < 2 ^ 63" by simp
  with assms show "random_max cfg < 2 ^ 63" by (simp add: no_overflow_def)
qed

lemma random_seconds_range:
  assumes "no_overflow cfg"
  shows "\<exists>x. random_seconds cfg r = Returns x \<and> 0 \<le> sint x \<and> sint x \<le> random_max cfg"
proof -
  let ?n = "ct_RetryBackOffRandomRange cfg"
  note R = random_max_fits [OF assms]
  have n: "0 \<le> ?n" using assms by (simp add: no_overflow_def)
  have "?n * 1 \<le> ?n * Second" using n by (intro mult_left_mono) (auto simp: Second_def)
  then have small: "?n + 1 < 2 ^ 63"
    using R(2) n by (cases "?n = 0") (auto simp: random_max_def Second_def)
  then have "sint (word_of_int ?n + 1 :: 64 word) = ?n + 1"
    using n by (subst sint_plus64) (simp_all add: sint_of_int64)
  moreover define z where "z = (int r mod (?n + 1)) * Second"
  ultimately have "random_seconds cfg r = Returns (word_of_int z)"
    using n by (simp add: random_seconds_def rand_Intn_def)
  moreover have "0 \<le> int r mod (?n + 1)" "int r mod (?n + 1) \<le> ?n" using n pos_mod_bound [of "?n + 1" "int r"] by auto
  then have "0 \<le> z" "z \<le> random_max cfg" by (auto simp: z_def random_max_def Second_def)
  ultimately show ?thesis using R(2) sint_of_int64 [of z] by simp
qed

lemma first_delay_ok:
  assumes "no_overflow cfg"
  shows "\<exists>d. first_delay cfg r = Returns d \<and> delay_ok cfg d 1"
proof -
  let ?m = "ct_RetryBackOffWaitMinimum cfg"
  note R = random_max_fits [OF assms]
  obtain x where x: "random_seconds cfg r = Returns x" "0 \<le> sint x" "sint x \<le> random_max cfg"
    using random_seconds_range [OF assms] by blast
  have m: "0 \<le> ?m" using assms by (simp add: no_overflow_def)
  then have "sint (word_of_int ?m :: 64 word) = ?m" using R by (intro sint_of_int64) auto
  with x m R have "sint (word_of_int ?m + x) = ?m + sint x" by (subst sint_plus64) auto
  with x show ?thesis by (simp add: first_delay_def delay_ok_def doublings_def)
qed

lemma next_delay_ok:
  assumes "no_overflow cfg" and "delay_ok cfg d k"
  shows "\<exists>d'. next_delay cfg k r d = Returns d' \<and> delay_ok cfg d' (k + 1)"
proof (cases "k < ct_RetryBackOffRepeatTimes cfg")
  case True
  let ?m = "ct_RetryBackOffWaitMinimum cfg" and ?R = "random_max cfg" and ?j = "doublings cfg k"
  obtain x where x: "random_seconds cfg r = Returns x" "0 \<le> sint x" "sint x \<le> ?R"
    using random_seconds_range [OF assms(1)] by blast
  have k: "1 \<le> k" using assms(2) by (simp add: delay_ok_def)
  have j: "doublings cfg (k + 1) = Suc ?j" using True k by (simp add: doublings_def min_def)
  have d: "2 ^ ?j * ?m \<le> sint d" "sint d \<le> 2 ^ ?j * (?m + 2 * ?R) - ?R" using assms(2) by (auto simp: delay_ok_def)
  have lower: "2 ^ Suc ?j * ?m \<le> sint d * 2 + sint x" using d(1) x(2) by simp
  have upper: "sint d * 2 + sint x \<le> 2 ^ Suc ?j * (?m + 2 * ?R) - ?R" using d(2) x(3) by simp
  have "0 \<le> 2 ^ Suc ?j * ?m" using assms(1) by (simp add: no_overflow_def)
  with lower upper delay_fits [OF assms(1), of "k + 1"] have "sint (d * 2 + x) = sint d * 2 + sint x"
    by (intro sint_double64) (simp_all del: power_Suc add: j)
  with True x(1) lower upper k show ?thesis by (simp add: next_delay_def delay_ok_def j)
next
  case False
  have "doublings cfg (k + 1) = doublings cfg k"
    using False assms(2) by (simp add: doublings_def delay_ok_def min_def max_def)
  with False assms(2) show ?thesis by (simp add: next_delay_def delay_ok_def)
qed

section \<open>The loops of a client\<close>

fun loop_ok :: "ClientTimeoutConfig \<Rightarrow> reconnecting \<Rightarrow> bool" where
  "loop_ok cfg (Waiting d k) \<longleftrightarrow> delay_ok cfg d k"
| "loop_ok cfg (Dialling d k) \<longleftrightarrow> delay_ok cfg d k"

definition loops_ok :: "ClientTimeoutConfig \<Rightarrow> wc_sys \<Rightarrow> bool" where
  "loops_ok cfg s \<longleftrightarrow> wc_timeoutConfig (wc s) = cfg \<and> (\<forall>l\<in>set (wc_loops s). loop_ok cfg l)"

lemma config_kept [simp]:
  "wc_timeoutConfig (snd (wc_Start parse dial u c)) = wc_timeoutConfig c"
  "wc_timeoutConfig (wc_error err c) = wc_timeoutConfig c"
  "wc_timeoutConfig (wc_Stop_close c) = wc_timeoutConfig c"
  "wc_timeoutConfig (snd (wc_Write data c)) = wc_timeoutConfig c"
  by (auto simp: wc_Start_def wc_error_def wc_Stop_close_def wc_Write_def Let_def
      split: sum.splits dialled.splits outcome.splits option.splits prod.splits)

lemma wc_report_keeps [simp]:
  "wc_timeoutConfig (wc_report w w' c) = wc_timeoutConfig c" "wc_reconnectC (wc_report w w' c) = wc_reconnectC c"
proof -
  have "wc_timeoutConfig (fold wc_error es c) = wc_timeoutConfig c \<and> wc_reconnectC (fold wc_error es c) = wc_reconnectC c" for es
    by (induction es arbitrary: c) (simp_all add: wc_error_def)
  then show "wc_timeoutConfig (wc_report w w' c) = wc_timeoutConfig c" "wc_reconnectC (wc_report w w' c) = wc_reconnectC c"
    by (simp_all add: wc_report_def)
qed

lemma handleReconnection_ok:
  assumes "no_overflow cfg" and "loops_ok cfg s"
  shows "\<exists>s'. handleReconnection r s = Returns s' \<and> loops_ok cfg s'"
  using first_delay_ok [OF assms(1), of r] assms(2) by (auto simp: handleReconnection_def loops_ok_def)

lemma wc_handleDisconnect_ok:
  assumes "no_overflow cfg" and "loops_ok cfg s"
  shows "\<exists>s'. wc_handleDisconnect err r s = Returns s' \<and> loops_ok cfg s'"
proof -
  let ?c = "if wc_onDisconnected (wc s) then (wc s)\<lparr>wc_notified := wc_notified (wc s) @ [NotifyDisconnected err]\<rparr> else wc s"
  have "loops_ok cfg (s\<lparr>wc := ?c\<rparr>)" using assms(2) by (simp add: loops_ok_def)
  with handleReconnection_ok [OF assms(1) this, of r] show ?thesis by (simp add: wc_handleDisconnect_def Let_def)
qed

lemma loop_kept: "loops_ok cfg s \<Longrightarrow> n < length (wc_loops s) \<Longrightarrow> loop_ok cfg (wc_loops s ! n)"
  by (simp add: loops_ok_def)

lemma loops_dropped: "loops_ok cfg s \<Longrightarrow> \<forall>l\<in>set (drop_nth n (wc_loops s)). loop_ok cfg l"
  using drop_nth_subset [of n "wc_loops s"] by (auto simp: loops_ok_def)

lemma loops_updated: "loops_ok cfg s \<Longrightarrow> loop_ok cfg l' \<Longrightarrow> \<forall>l\<in>set ((wc_loops s)[n := l']). loop_ok cfg l"
  using set_update_subset_insert [of "wc_loops s" n l'] by (auto simp: loops_ok_def)

lemma dialled_ok:
  assumes "no_overflow cfg" and "loops_ok cfg s" and "reconnect_dialled parse dial r n s = Some (Returns s')"
  shows "loops_ok cfg s'"
proof -
  obtain d k err c where n: "n < length (wc_loops s)" "wc_loops s ! n = Dialling d k"
    and start: "wc_Start parse dial (u_String (wc_url (wc s))) (wc s) = (err, c)"
    using assms(3) by (cases "wc_Start parse dial (u_String (wc_url (wc s))) (wc s)")
      (auto simp: reconnect_dialled_def split: if_splits reconnecting.splits)
  from config_kept(1) [of parse dial _ "wc s"] start assms(2) have cfg: "wc_timeoutConfig c = cfg"
    by (metis loops_ok_def snd_conv)
  have "delay_ok cfg d k" using loop_kept [OF assms(2) n(1)] n(2) by simp
  from next_delay_ok [OF assms(1) this, of r]
  obtain d' where d': "next_delay cfg k r d = Returns d'" "loop_ok cfg (Waiting d' (k + 1))" by auto
  with assms(3) n start cfg loops_dropped [OF assms(2)] loops_updated [OF assms(2) d'(2)] show ?thesis
    by (cases err) (auto simp: reconnect_dialled_def loops_ok_def simp del: loop_ok.simps split: if_splits)
qed

lemma wc_step_loops:
  assumes "no_overflow cfg" and "loops_ok cfg s" and "wc_step e s = Some (Returns s')"
  shows "loops_ok cfg s'"
proof (cases e)
  case (WcStartWithRetries parse dial u r)
  obtain err c where start: "wc_Start parse dial u (wc s) = (err, c)" by (cases "wc_Start parse dial u (wc s)")
  with config_kept(1) [of parse dial u "wc s"] assms(2) have "loops_ok cfg (s\<lparr>wc := c\<rparr>)" by (simp add: loops_ok_def)
  with handleReconnection_ok [OF assms(1) this, of r] assms(3) start WcStartWithRetries show ?thesis
    by (auto simp: wc_StartWithRetries_def split: option.splits)
next
  case (WcClosed r)
  have "loops_ok cfg (s\<lparr>wc := (wc s)\<lparr>wc_webSocket := w\<rparr>\<rparr>)" for w using assms(2) by (simp add: loops_ok_def)
  note closed = wc_handleDisconnect_ok [OF assms(1) this]
  from WcClosed assms(3) obtain err w
    where "wc_handleDisconnect err r (s\<lparr>wc := (wc s)\<lparr>wc_webSocket := Some w\<rparr>\<rparr>) = Returns s'"
    by (auto simp: then_ok_Some split: option.splits write_pc.splits)
  with closed [of err r "Some w"] show ?thesis by auto
next
  case (WcDialled parse dial r n)
  with dialled_ok [OF assms(1,2)] assms(3) show ?thesis by simp
next
  case (WcElapsed n)
  with assms(3) obtain d k where n: "n < length (wc_loops s)" "wc_loops s ! n = Waiting d k"
    and s': "s' = s\<lparr>wc_loops := (wc_loops s)[n := Dialling d k]\<rparr>"
    by (auto simp: reconnect_elapsed_def split: if_splits reconnecting.splits)
  then have "loop_ok cfg (Dialling d k)" using loop_kept [OF assms(2) n(1)] by simp
  from loops_updated [OF assms(2) this, of n] s' assms(2) show ?thesis by (simp add: loops_ok_def)
qed (use assms loops_dropped [OF assms(2)] in
    \<open>auto simp: loops_ok_def wc_Stop_signal_def Let_def reconnect_aborted_def then_ok_Some
      split: option.splits outcome.splits if_splits reconnecting.splits prod.splits\<close>)

lemma wc_exec_loops:
  "wc_exec es s = Some s' \<Longrightarrow> no_overflow cfg \<Longrightarrow> loops_ok cfg s \<Longrightarrow> loops_ok cfg s'"
  by (induction es arbitrary: s) (auto split: option.splits outcome.splits dest: wc_step_loops)

section \<open>The signal of Stop\<close>

definition signalled :: "wc_sys \<Rightarrow> bool" where
  "signalled s \<longleftrightarrow> (case wc_reconnectC (wc s) of None \<Rightarrow> False | Some c \<Rightarrow> chan_buf c \<noteq> [])"

fun takes_signal :: "wc_event \<Rightarrow> bool" where
  "takes_signal (WcAborted _) \<longleftrightarrow> True"
| "takes_signal _ \<longleftrightarrow> False"

lemma reconnectC_kept [simp]:
  "wc_reconnectC (wc_error err c) = wc_reconnectC c"
  "wc_reconnectC (wc_Stop_close c) = wc_reconnectC c"
  "wc_reconnectC (snd (wc_Write data c)) = wc_reconnectC c"
  by (auto simp: wc_error_def wc_Stop_close_def wc_Write_def split: option.splits prod.splits)

lemma reconnectC_Start:
  "wc_reconnectC c = Some ch \<Longrightarrow> wc_Start parse dial u c = (err, c') \<Longrightarrow> wc_reconnectC c' = Some ch"
  by (auto simp: wc_Start_def Let_def split: sum.splits dialled.splits outcome.splits)

lemma handleReconnection_client: "handleReconnection r s = Returns s' \<Longrightarrow> wc s' = wc s"
  by (auto simp: handleReconnection_def split: outcome.splits)

lemma put_signal: "chan_buf c \<noteq> [] \<or> 0 < chan_cap c \<Longrightarrow> chan_buf (chan_put x c) \<noteq> []"
  by (auto simp: chan_put_def chan_full_def chan_send_def)

lemma stop_signals:
  assumes "wc_reconnectC (wc s) = Some c" and "chan_buf c \<noteq> [] \<or> 0 < chan_cap c" and "wc_step WcStopSignal s = Some (Returns s')"
  shows "signalled s'"
  using assms put_signal [OF assms(2)]
  by (auto simp: signalled_def wc_Stop_signal_def Let_def split: if_splits outcome.splits)

lemma signal_stays:
  assumes "signalled s" and "\<not> takes_signal e" and "wc_step e s = Some (Returns s')"
  shows "signalled s'"
proof -
  from assms(1) obtain c where c: "wc_reconnectC (wc s) = Some c" "chan_buf c \<noteq> []"
    by (auto simp: signalled_def split: option.splits)
  have "wc_reconnectC (snd (wc_Start parse dial u (wc s))) = Some c" for parse dial u
    using reconnectC_Start [OF c(1)] by (metis prod.collapse)
  with c assms(2,3) stop_signals [OF c(1)] show ?thesis
    by (cases e) (auto simp: signalled_def wc_StartWithRetries_def reconnect_elapsed_def reconnect_dialled_def Let_def
        then_ok_Some wc_handleDisconnect_def dest!: reconnectC_Start [OF c(1)] handleReconnection_client
        split: option.splits outcome.splits if_splits reconnecting.splits write_pc.splits prod.splits)
qed

lemma signal_stays_run:
  "wc_exec es s = Some s' \<Longrightarrow> signalled s \<Longrightarrow> list_all (\<lambda>e. \<not> takes_signal e) es \<Longrightarrow> signalled s'"
  by (induction es arbitrary: s) (auto split: option.splits outcome.splits dest: signal_stays)

lemma signal_aborts:
  assumes "signalled s" and "n < length (wc_loops s)" and "wc_loops s ! n = Waiting d k"
  shows "\<exists>s'. wc_step (WcAborted n) s = Some (Returns s') \<and> wc_loops s' = drop_nth n (wc_loops s) \<and>
    wc_webSocket (wc s') = wc_webSocket (wc s)"
  using assms by (auto simp: signalled_def reconnect_aborted_def chan_recv_def split: option.splits list.splits)

section \<open>Properties\<close>

text \<open>
  C16: the delays of the reconnection stay in their bounds. With a configuration whose largest delay fits
  into 64 bits, in every run of the client a reconnection loop in its attempt \<open>k\<close> waits at least the
  minimum, doubled \<open>k - 1\<close> times but never more than \<open>RetryBackOffRepeatTimes - 1\<close> times, and at most what
  the random parts add to it; no delay wraps around and the generator is never called with an empty range.
\<close>

theorem ws_backoff_bounds:
  assumes "no_overflow (wc_timeoutConfig (wc s))" and "wc_loops s = []" and "wc_exec es s = Some s'"
    and "Waiting d k \<in> set (wc_loops s') \<or> Dialling d k \<in> set (wc_loops s')"
  shows "delay_ok (wc_timeoutConfig (wc s)) d k \<and> (\<exists>d'. first_delay (wc_timeoutConfig (wc s')) r = Returns d') \<and>
    (\<exists>d'. next_delay (wc_timeoutConfig (wc s')) k r d = Returns d' \<and> delay_ok (wc_timeoutConfig (wc s)) d' (k + 1))"
proof -
  have ok: "loops_ok (wc_timeoutConfig (wc s)) s'"
    by (rule wc_exec_loops [OF assms(3,1)]) (simp add: loops_ok_def assms(2))
  then have d: "delay_ok (wc_timeoutConfig (wc s)) d k" using assms(4) by (auto simp: loops_ok_def)
  from first_delay_ok [OF assms(1), of r] next_delay_ok [OF assms(1) d, of r] d ok show ?thesis
    by (auto simp: loops_ok_def)
qed

text \<open>
  C30: the signal of \<open>Stop\<close> stays until a reconnection loop takes it, even one of a later session. Once
  \<open>Stop\<close> has signalled, no other step removes the signal, \<open>Start\<close> included: in every run after it, the
  first loop that waits is aborted by it, and the client stays without a connection.
\<close>

theorem ws_stop_signal_outlives_start:
  assumes "wc_reconnectC (wc s) = Some c" and "0 < chan_cap c" and "wc_step WcStopSignal s = Some (Returns s1)"
    and "wc_exec es s1 = Some s2" and "list_all (\<lambda>e. \<not> takes_signal e) es"
    and "n < length (wc_loops s2)" and "wc_loops s2 ! n = Waiting d k"
  shows "\<exists>s3. wc_step (WcAborted n) s2 = Some (Returns s3) \<and> wc_loops s3 = drop_nth n (wc_loops s2) \<and>
    wc_webSocket (wc s3) = wc_webSocket (wc s2)"
proof -
  have "signalled s1" using stop_signals [OF assms(1) _ assms(3)] assms(2) by blast
  from signal_aborts [OF signal_stays_run [OF assms(4) this assms(5)] assms(6,7)] show ?thesis .
qed

section \<open>Witnesses\<close>

definition sample_parse :: "string \<Rightarrow> go_error + URL" where
  "sample_parse s = Inr \<lparr>u_String = s, u_Path = s\<rparr>"

definition sample_dial :: "bool \<Rightarrow> dialer \<Rightarrow> string \<Rightarrow> (string, string) gomap \<Rightarrow> dialled" where
  "sample_dial up d u h = (if up then DialOk sample_conn else DialFailed (Errorf ''refused'') None)"

definition sample_ws_client :: wc_sys where
  "sample_ws_client = \<lparr>wc = wc_SetDisconnectedHandler True (NewWsClient []), wc_loops = []\<rparr>"

text \<open>A session that \<open>Stop\<close> ends, and one whose connection fails.\<close>

definition stopped_session :: "wc_event list" where
  "stopped_session = [WcStart sample_parse (sample_dial True) ''/cp'', WcStopClose, WcSocket (EvCloseQueued 0),
     WcSocket (EvCloseOut None), WcSocket EvSignal, WcSocket EvLocked, WcClosed 0]"

definition failed_session :: "wc_event list" where
  "failed_session = [WcStart sample_parse (sample_dial True) ''/cp'', WcSocket EvReadStart,
     WcSocket (EvReadFailed (Errorf ''EOF'') False), WcSocket EvForced, WcSocket EvSignal, WcSocket EvLocked, WcClosed 3]"

lemma default_no_overflow: "no_overflow NewClientTimeoutConfig"
  by code_simp

lemma retry_run:
  "map_option wc_loops (wc_exec [WcStartWithRetries sample_parse (sample_dial False) ''/cp'' 3, WcElapsed 0,
     WcDialled sample_parse (sample_dial False) 4 0] sample_ws_client) = Some [Waiting (word_of_int (30 * Second)) 2]"
  by code_simp

theorem ws_backoff_bounds_witness:
  "delay_ok NewClientTimeoutConfig (word_of_int (30 * Second)) 2 \<and>
   (\<exists>s'. wc_exec [WcStartWithRetries sample_parse (sample_dial False) ''/cp'' 3, WcElapsed 0,
     WcDialled sample_parse (sample_dial False) 4 0] sample_ws_client = Some s' \<and>
     wc_loops s' = [Waiting (word_of_int (30 * Second)) 2])"
proof -
  obtain s' where s': "wc_exec [WcStartWithRetries sample_parse (sample_dial False) ''/cp'' 3, WcElapsed 0,
     WcDialled sample_parse (sample_dial False) 4 0] sample_ws_client = Some s'"
    "wc_loops s' = [Waiting (word_of_int (30 * Second)) 2]" using retry_run by blast
  have "wc_timeoutConfig (wc sample_ws_client) = NewClientTimeoutConfig" "wc_loops sample_ws_client = []"
    by (simp_all add: sample_ws_client_def wc_SetDisconnectedHandler_def NewWsClient_def)
  with ws_backoff_bounds [OF _ _ s'(1), of "word_of_int (30 * Second)" 2 0] s' default_no_overflow show ?thesis by simp
qed

text \<open>
  The client stops, starts again and loses its connection: its loop ends before the first attempt. The
  handler of the upper layer has been called for both sessions, for the stopped one without an error.
\<close>

lemma restarted_run:
  "(case wc_exec stopped_session sample_ws_client of None \<Rightarrow> None
    | Some s \<Rightarrow> (case wc_step WcStopSignal s of
        Some (Returns s1) \<Rightarrow> map_option (\<lambda>s2. (map_option chan_cap (wc_reconnectC (wc s)), wc_loops s2, wc_notified (wc s2)))
          (wc_exec failed_session s1)
      | _ \<Rightarrow> None)) =
   Some (Some 1, [Waiting (word_of_int (13 * Second)) 1],
     [NotifyDisconnected None, NotifyDisconnected (Some (Errorf ''EOF''))])"
  by code_simp

theorem ws_stop_signal_outlives_start_witness:
  "\<exists>s s1 s2 s3. wc_exec stopped_session sample_ws_client = Some s \<and> wc_step WcStopSignal s = Some (Returns s1) \<and>
     wc_exec failed_session s1 = Some s2 \<and> wc_loops s2 = [Waiting (word_of_int (13 * Second)) 1] \<and>
     wc_notified (wc s2) = [NotifyDisconnected None, NotifyDisconnected (Some (Errorf ''EOF''))] \<and>
     wc_step (WcAborted 0) s2 = Some (Returns s3) \<and> wc_loops s3 = []"
proof -
  obtain s s1 s2 c where run: "wc_exec stopped_session sample_ws_client = Some s" "wc_step WcStopSignal s = Some (Returns s1)"
    "wc_exec failed_session s1 = Some s2" "wc_loops s2 = [Waiting (word_of_int (13 * Second)) 1]"
    "wc_notified (wc s2) = [NotifyDisconnected None, NotifyDisconnected (Some (Errorf ''EOF''))]"
    "wc_reconnectC (wc s) = Some c" "chan_cap c = 1"
    using restarted_run by (auto split: option.splits outcome.splits)
  have "list_all (\<lambda>e. \<not> takes_signal e) failed_session" by (simp add: failed_session_def)
  from ws_stop_signal_outlives_start [OF run(6) _ run(2,3) this, of 0] run show ?thesis by (auto simp: drop_nth_def)
qed

end
