(* ===== verification/Ws_Server.thy ===== *)
theory Ws_Server
  imports Ws_Client
begin

text \<open>
  \<open>ws/server.go\<close>: the websocket server. Its handler of a request, the registration of a connection with
  the two policies for duplicates, the teardown of a connection, and the methods of its interface, as steps
  that interleave with the pumps of the sockets. net/http, mux and the upgrade of gorilla/websocket are
  parameters.
\<close>

section \<open>The server\<close>

record http_request =
  r_Path :: string
  r_RemoteAddr :: string
  r_Subprotocols :: "string list"
  r_BasicAuth :: "(string \<times> string) option"

datatype DuplicateConnectionPolicy = KeepCurrent | KeepNew

text \<open>
  A websocket is a position in the list of the sockets below. Handlers of which only the calls matter are
  flags: whether they are set.
\<close>

record wsServer =
  sv_connections :: "(string, nat) gomap"
  sv_gate :: "(string, int) gomap"
  sv_stopped :: bool
  sv_messageHandler :: bool
  sv_chargePointIdResolver :: "http_request \<Rightarrow> go_error + string"
  sv_checkClientHandler :: "(string \<Rightarrow> http_request \<Rightarrow> bool) option"
  sv_newClientHandler :: bool
  sv_disconnectedHandler :: bool
  sv_basicAuthHandler :: "(string \<Rightarrow> string \<Rightarrow> bool) option"
  sv_tlsCertificatePath :: string
  sv_tlsCertificateKey :: string
  sv_tlsConfig :: bool
  sv_timeoutConfig :: ServerTimeoutConfig
  sv_duplicatePolicy :: DuplicateConnectionPolicy
  sv_evictionTimeout :: duration
  sv_Subprotocols :: "string list"
  sv_CheckOrigin :: "(http_request \<Rightarrow> bool) option"
  sv_errC :: "go_error chan"
  sv_errClosed :: bool
  sv_addr :: "string option"
  sv_routes :: "string list"

definition WithServerTLSConfig :: "string \<Rightarrow> string \<Rightarrow> bool \<Rightarrow> wsServer \<Rightarrow> wsServer" where
  "WithServerTLSConfig certificatePath certificateKey tlsConfig s =
     (let s = s\<lparr>sv_tlsCertificatePath := certificatePath, sv_tlsCertificateKey := certificateKey\<rparr>
      in if tlsConfig then s\<lparr>sv_tlsConfig := True\<rparr> else s)"

definition WithDuplicateConnectionPolicy :: "DuplicateConnectionPolicy \<Rightarrow> wsServer \<Rightarrow> wsServer" where
  "WithDuplicateConnectionPolicy policy s = s\<lparr>sv_duplicatePolicy := policy\<rparr>"

definition WithDuplicateConnectionEvictionTimeout :: "duration \<Rightarrow> wsServer \<Rightarrow> wsServer" where
  "WithDuplicateConnectionEvictionTimeout d s = s\<lparr>sv_evictionTimeout := d\<rparr>"

definition WithServerReadLimit :: "int \<Rightarrow> wsServer \<Rightarrow> wsServer" where
  "WithServerReadLimit limit s = s\<lparr>sv_timeoutConfig := (sv_timeoutConfig s)\<lparr>st_ReadLimit := limit\<rparr>\<rparr>"

definition NewWsServer :: "(wsServer \<Rightarrow> wsServer) list \<Rightarrow> wsServer" where
  "NewWsServer opts = foldl (\<lambda>s opt. opt s)
     \<lparr>sv_connections = [], sv_gate = [], sv_stopped = False, sv_messageHandler = False,
      sv_chargePointIdResolver = (\<lambda>r. Inr (path_Base (r_Path r))), sv_checkClientHandler = None,
      sv_newClientHandler = False, sv_disconnectedHandler = False, sv_basicAuthHandler = None,
      sv_tlsCertificatePath = [], sv_tlsCertificateKey = [], sv_tlsConfig = False,
      sv_timeoutConfig = NewServerTimeoutConfig, sv_duplicatePolicy = KeepCurrent, sv_evictionTimeout = 0,
      sv_Subprotocols = [], sv_CheckOrigin = None, sv_errC = new_chan 1, sv_errClosed = False, sv_addr = None,
      sv_routes = []\<rparr> opts"

definition sv_SetMessageHandler where "sv_SetMessageHandler h s = s\<lparr>sv_messageHandler := h\<rparr>"
definition sv_SetCheckClientHandler where "sv_SetCheckClientHandler h s = s\<lparr>sv_checkClientHandler := h\<rparr>"
definition sv_SetNewClientHandler where "sv_SetNewClientHandler h s = s\<lparr>sv_newClientHandler := h\<rparr>"
definition sv_SetDisconnectedClientHandler where "sv_SetDisconnectedClientHandler h s = s\<lparr>sv_disconnectedHandler := h\<rparr>"
definition sv_SetTimeoutConfig where "sv_SetTimeoutConfig cfg s = s\<lparr>sv_timeoutConfig := cfg\<rparr>"
definition sv_SetChargePointIdResolver where "sv_SetChargePointIdResolver h s = s\<lparr>sv_chargePointIdResolver := h\<rparr>"
definition sv_SetBasicAuthHandler where "sv_SetBasicAuthHandler h s = s\<lparr>sv_basicAuthHandler := h\<rparr>"
definition sv_SetCheckOriginHandler where "sv_SetCheckOriginHandler h s = s\<lparr>sv_CheckOrigin := h\<rparr>"

definition sv_AddSupportedSubprotocol :: "string \<Rightarrow> wsServer \<Rightarrow> wsServer" where
  "sv_AddSupportedSubprotocol subProto s =
     (if subProto \<in> set (sv_Subprotocols s) then s else s\<lparr>sv_Subprotocols := sv_Subprotocols s @ [subProto]\<rparr>)"

definition sv_AddHttpHandler :: "string \<Rightarrow> wsServer \<Rightarrow> wsServer" where
  "sv_AddHttpHandler listenPath s = s\<lparr>sv_routes := sv_routes s @ [listenPath]\<rparr>"

definition sv_error :: "go_error \<Rightarrow> wsServer \<Rightarrow> wsServer" where
  "sv_error err s = (if sv_errClosed s then s else s\<lparr>sv_errC := chan_put err (sv_errC s)\<rparr>)"

definition sv_Errors :: "wsServer \<Rightarrow> go_error chan" where "sv_Errors s = sv_errC s"
definition sv_Addr :: "wsServer \<Rightarrow> string option" where "sv_Addr s = sv_addr s"

text \<open>
  \<open>Start\<close>: the section under the lock, then what \<open>Listen\<close> returns, then what \<open>Serve\<close> or \<open>ServeTLS\<close>
  returns; \<open>serverClosed\<close> is whether that is \<open>ErrServerClosed\<close>.
\<close>

definition sv_Start_begin :: "string \<Rightarrow> wsServer \<Rightarrow> wsServer" where
  "sv_Start_begin listenPath s =
     s\<lparr>sv_connections := [], sv_gate := [], sv_stopped := False, sv_routes := sv_routes s @ [listenPath]\<rparr>"

definition sv_Start_listen :: "go_error + string \<Rightarrow> wsServer \<Rightarrow> wsServer" where
  "sv_Start_listen listener s =
     (case listener of
        Inl err \<Rightarrow> sv_error (Wrapped (''failed to listen: '' @ error_text err) err) s
      | Inr addr \<Rightarrow> s\<lparr>sv_addr := Some addr\<rparr>)"

definition sv_serves_tls :: "wsServer \<Rightarrow> bool" where
  "sv_serves_tls s \<longleftrightarrow> sv_tlsCertificatePath s \<noteq> [] \<and> sv_tlsCertificateKey s \<noteq> []"

definition sv_Start_served :: "bool \<Rightarrow> go_error \<Rightarrow> wsServer \<Rightarrow> wsServer" where
  "sv_Start_served serverClosed err s =
     (if \<not> serverClosed then sv_error (Wrapped (''failed to listen: '' @ error_text err) err) s else s)"

text \<open>\<open>Shutdown\<close> after \<open>http.Server.Shutdown\<close>, which returns \<open>err\<close>.\<close>

definition sv_Shutdown :: "go_error option \<Rightarrow> wsServer \<Rightarrow> (string, wsServer) outcome" where
  "sv_Shutdown err s =
     (let s = (case err of None \<Rightarrow> s | Some e \<Rightarrow> sv_error (Wrapped (''shutdown failed: '' @ error_text e) e) s)
      in if sv_errClosed s then Returns s
         else case chan_close (sv_errC s) of
                Panics v \<Rightarrow> Panics v
              | Returns c \<Rightarrow> Returns (s\<lparr>sv_errClosed := True, sv_errC := c\<rparr>))"

definition duplicateEvictionTimeout :: "wsServer \<Rightarrow> duration" where
  "duplicateEvictionTimeout s =
     (if sv_evictionTimeout s > 0 then sv_evictionTimeout s else st_WriteWait (sv_timeoutConfig s) + 4 * Second)"

section \<open>Requests\<close>

text \<open>The loop over the requested protocols; every protocol is accepted where the server names none.\<close>

fun negotiate :: "string list \<Rightarrow> string list \<Rightarrow> string" where
  "negotiate supported [] = []"
| "negotiate supported (requestedProto # ps) =
     (if supported = [] then requestedProto
      else if requestedProto \<in> set supported then requestedProto else negotiate supported ps)"

definition CloseProtocolError :: int where "CloseProtocolError = 1002"
definition ClosePolicyViolation :: int where "ClosePolicyViolation = 1008"

definition rejectConnection :: "int \<Rightarrow> string \<Rightarrow> wsConn \<Rightarrow> wsConn" where
  "rejectConnection code reason c =
     c\<lparr>conn_frames := conn_frames c @ [CloseFrame code reason], conn_open := False\<rparr>"

fun join_words :: "string list \<Rightarrow> string" where
  "join_words [] = []"
| "join_words [w] = w"
| "join_words (w # ws) = w @ '' '' @ join_words ws"

text \<open>
  \<open>wsHandler\<close> up to the new websocket: an HTTP error, a failed upgrade, a connection that is closed at
  once, or a websocket. \<open>upgrade\<close> is gorilla's \<open>Upgrade\<close> with the protocol in the response header.
\<close>

datatype handshake = HttpError int string | UpgradeFailed | Unsupported wsConn | Upgraded webSocket

definition sv_authorized :: "http_request \<Rightarrow> wsServer \<Rightarrow> bool" where
  "sv_authorized r s =
     (case sv_basicAuthHandler s of
        None \<Rightarrow> True
      | Some h \<Rightarrow> (case r_BasicAuth r of None \<Rightarrow> False | Some (username, password) \<Rightarrow> h username password))"

definition sv_socket_config :: "wsServer \<Rightarrow> WebSocketConfig" where
  "sv_socket_config s =
     (let cfg = sv_timeoutConfig s
      in (NewDefaultWebSocketConfig (st_WriteWait cfg) (st_PingWait cfg) (st_PingPeriod cfg) (st_PongWait cfg))
           \<lparr>ReadLimit := st_ReadLimit cfg\<rparr>)"

definition wsHandler_upgrade :: "http_request \<Rightarrow> (string \<Rightarrow> go_error + wsConn) \<Rightarrow> wsServer \<Rightarrow> handshake \<times> wsServer" where
  "wsHandler_upgrade r upgrade s =
     (case sv_chargePointIdResolver s r of
        Inl _ \<Rightarrow> (HttpError 404 ''NotFound'', sv_error (Errorf ''failed to resolve charge point id'') s)
      | Inr wid \<Rightarrow>
          (let negotiatedSubProtocol = negotiate (sv_Subprotocols s) (r_Subprotocols r)
           in if \<not> sv_authorized r s then
                (HttpError 401 ''Unauthorized'', sv_error (Errorf ''basic auth failed: credentials invalid'') s)
              else if (case sv_checkClientHandler s of None \<Rightarrow> False | Some h \<Rightarrow> \<not> h wid r) then
                (HttpError 401 ''Unauthorized'', sv_error (Errorf ''client validation: invalid client'') s)
              else case upgrade negotiatedSubProtocol of
                     Inl err \<Rightarrow> (UpgradeFailed, sv_error (Wrapped (''upgrade failed: '' @ error_text err) err) s)
                   | Inr conn \<Rightarrow>
                       (if negotiatedSubProtocol = [] then
                          (Unsupported (rejectConnection CloseProtocolError ''invalid or unsupported subprotocol'' conn),
                           sv_error (Errorf (''unsupported subprotocols ['' @ join_words (r_Subprotocols r) @
                             ''] for new client '' @ wid @ '' ('' @ r_RemoteAddr r @ '')'')) s)
                        else case newWebSocket wid (Some conn) (sv_socket_config s) of
                               Returns w \<Rightarrow> (Upgraded w, s)
                             | Panics v \<Rightarrow> (UpgradeFailed, s))))"

section \<open>Connections\<close>

text \<open>
  Each socket has a goroutine of \<open>wsHandler\<close>, which registers it, runs its pumps and announces it, and at
  most one call of \<open>handleDisconnect\<close>, by its write pump. \<open>RegEvict\<close> and \<open>RegAwait\<close> hold the socket they
  replace; \<open>RegLeave\<close> is the deferred \<open>decrementGate\<close>. \<open>so_msg\<close> is a message in \<open>handleMessage\<close> that has
  passed the check of the connection; \<open>so_teardownDone\<close> whether that channel is closed.
\<close>

datatype reg_pc = RegStart | RegEvict nat | RegAwait nat | RegLeave bool | RegRun | RegNotify | RegServed | RegRejected

datatype dis_pc = DisNone | DisRemove | DisRecheck | DisFire | DisHandler | DisLeave | DisTear | DisDone

record sv_socket =
  so_ws :: ws_sys
  so_reg :: reg_pc
  so_dis :: dis_pc
  so_teardownDone :: bool
  so_msg :: "string option"

definition so_id :: "sv_socket \<Rightarrow> string" where "so_id x = w_id (sock (so_ws x))"

text \<open>What the upper layer observes, and the registrations.\<close>

datatype sv_note =
    Registered string nat
  | NewClient string nat
  | Delivered string nat string
  | DisconnectBegin string nat
  | DisconnectEnd string nat

record sv_sys =
  srv :: wsServer
  sv_sockets :: "sv_socket list"
  sv_trace :: "sv_note list"

definition at_socket :: "nat \<Rightarrow> (sv_socket \<Rightarrow> (string, sv_sys) outcome option) \<Rightarrow> sv_sys \<Rightarrow> (string, sv_sys) outcome option" where
  "at_socket n f s = (if n < length (sv_sockets s) then f (sv_sockets s ! n) else None)"

definition set_socket :: "nat \<Rightarrow> sv_socket \<Rightarrow> sv_sys \<Rightarrow> sv_sys" where
  "set_socket n x s = s\<lparr>sv_sockets := (sv_sockets s)[n := x]\<rparr>"

definition note_event :: "sv_note \<Rightarrow> sv_sys \<Rightarrow> sv_sys" where
  "note_event e s = s\<lparr>sv_trace := sv_trace s @ [e]\<rparr>"

definition gate_of :: "string \<Rightarrow> wsServer \<Rightarrow> int" where
  "gate_of wid s = (case map_of (sv_gate s) wid of None \<Rightarrow> 0 | Some k \<Rightarrow> k)"

definition incrementGate :: "string \<Rightarrow> wsServer \<Rightarrow> wsServer" where
  "incrementGate wid s = s\<lparr>sv_gate := AList.update wid (gate_of wid s + 1) (sv_gate s)\<rparr>"

definition decrementGate :: "string \<Rightarrow> wsServer \<Rightarrow> wsServer" where
  "decrementGate wid s =
     (let s = s\<lparr>sv_gate := AList.update wid (gate_of wid s - 1) (sv_gate s)\<rparr>
      in if gate_of wid s \<le> 0 then s\<lparr>sv_gate := AList.delete wid (sv_gate s)\<rparr> else s)"

text \<open>A connection that is refused: the error, then the close frame.\<close>

definition reject_socket :: "string \<Rightarrow> string \<Rightarrow> reg_pc \<Rightarrow> nat \<Rightarrow> sv_socket \<Rightarrow> sv_sys \<Rightarrow> sv_sys" where
  "reject_socket msg reason pc n x s =
     set_socket n (x\<lparr>so_reg := pc, so_ws := (so_ws x)\<lparr>sock := (sock (so_ws x))
         \<lparr>w_conn := rejectConnection ClosePolicyViolation reason (w_conn (sock (so_ws x)))\<rparr>\<rparr>\<rparr>)
       (s\<lparr>srv := sv_error (Errorf msg) (srv s)\<rparr>)"

definition add_connection :: "nat \<Rightarrow> reg_pc \<Rightarrow> sv_socket \<Rightarrow> sv_sys \<Rightarrow> sv_sys" where
  "add_connection n pc x s =
     note_event (Registered (so_id x) n) (set_socket n (x\<lparr>so_reg := pc\<rparr>)
       (s\<lparr>srv := (srv s)\<lparr>sv_connections := AList.update (so_id x) n (sv_connections (srv s))\<rparr>\<rparr>))"

text \<open>\<open>registerNewConnection\<close>: its first section, the eviction, and its second section.\<close>

definition register_first :: "nat \<Rightarrow> sv_sys \<Rightarrow> (string, sv_sys) outcome option" where
  "register_first n s = at_socket n (\<lambda>x.
     if so_reg x \<noteq> RegStart then None
     else Some (Returns (
       if sv_stopped (srv s) then
         reject_socket (''server is stopping, closing new client '' @ so_id x) ''server shutting down'' RegRejected n x s
       else if gate_of (so_id x) (srv s) > 0 then
         reject_socket (''client '' @ so_id x @ '' connection transition in progress, closing duplicate client'')
           ''connection transition in progress'' RegRejected n x s
       else case map_of (sv_connections (srv s)) (so_id x) of
              None \<Rightarrow> add_connection n RegRun x s
            | Some old \<Rightarrow>
                (if sv_duplicatePolicy (srv s) \<noteq> KeepNew then
                   reject_socket (''client '' @ so_id x @ '' already exists, closing duplicate client'')
                     ''a connection with this ID already exists'' RegRejected n x s
                 else set_socket n (x\<lparr>so_reg := RegEvict old\<rparr>) (s\<lparr>srv := incrementGate (so_id x) (srv s)\<rparr>))))) s"

text \<open>
  A call of \<open>Close\<close> on a socket: an error at once, or it waits until the close is queued or, if \<open>aborted\<close>,
  until the socket is done.
\<close>

definition close_call :: "bool \<Rightarrow> CloseError \<Rightarrow> ws_sys \<Rightarrow> (string, go_error option \<times> ws_sys) outcome option" where
  "close_call aborted ce w =
     (case ws_Close ce w of
        (Some err, w) \<Rightarrow> Some (Returns (Some err, w))
      | (None, w) \<Rightarrow>
          (if aborted
           then then_ok (close_aborted (length (closers w) - 1) w)
             (\<lambda>w. Returns (Some (Errorf (''cannot close already closing connection '' @ w_id (sock w))), w))
           else then_ok (close_queued (length (closers w) - 1) w) (\<lambda>w. Returns (None, w))))"

definition register_evict :: "nat \<Rightarrow> bool \<Rightarrow> sv_sys \<Rightarrow> (string, sv_sys) outcome option" where
  "register_evict n aborted s = at_socket n (\<lambda>x.
     case so_reg x of
       RegEvict old \<Rightarrow>
         at_socket old (\<lambda>prev. then_ok (close_call aborted (ClosePolicyViolation, ''reconnected'') (so_ws prev))
           (\<lambda>(_, w). Returns (set_socket n (x\<lparr>so_reg := RegAwait old\<rparr>) (set_socket old (prev\<lparr>so_ws := w\<rparr>) s)))) s
     | _ \<Rightarrow> None) s"

definition register_timeout :: "nat \<Rightarrow> sv_sys \<Rightarrow> (string, sv_sys) outcome option" where
  "register_timeout n s = at_socket n (\<lambda>x.
     case so_reg x of
       RegAwait old \<Rightarrow>
         Some (Returns (reject_socket (''timed out waiting for old duplicate connection '' @ so_id x @ '' to tear down'')
           ''timed out waiting for old connection teardown'' (RegLeave False) n x s))
     | _ \<Rightarrow> None) s"

definition register_second :: "nat \<Rightarrow> sv_sys \<Rightarrow> (string, sv_sys) outcome option" where
  "register_second n s = at_socket n (\<lambda>x.
     case so_reg x of
       RegAwait old \<Rightarrow>
         at_socket old (\<lambda>prev.
           if \<not> so_teardownDone prev then None
           else Some (Returns (
             if sv_stopped (srv s) then
               reject_socket (''server is stopping, closing replacement client '' @ so_id x) ''server shutting down''
                 (RegLeave False) n x s
             else if map_of (sv_connections (srv s)) (so_id x) \<noteq> None then
               reject_socket (''client '' @ so_id x @ '' still exists after duplicate eviction, closing replacement'')
                 ''a connection with this ID already exists'' (RegLeave False) n x s
             else add_connection n (RegLeave True) x s))) s
     | _ \<Rightarrow> None) s"

definition register_leave :: "nat \<Rightarrow> sv_sys \<Rightarrow> (string, sv_sys) outcome option" where
  "register_leave n s = at_socket n (\<lambda>x.
     case so_reg x of
       RegLeave registered \<Rightarrow>
         Some (Returns (set_socket n (x\<lparr>so_reg := (if registered then RegRun else RegRejected)\<rparr>)
           (s\<lparr>srv := decrementGate (so_id x) (srv s)\<rparr>)))
     | _ \<Rightarrow> None) s"

text \<open>The end of \<open>wsHandler\<close>: \<open>run\<close>, and the handler for new clients.\<close>

definition wsHandler_run :: "nat \<Rightarrow> sv_sys \<Rightarrow> (string, sv_sys) outcome option" where
  "wsHandler_run n s = at_socket n (\<lambda>x.
     if so_reg x \<noteq> RegRun then None else Some (Returns (set_socket n (x\<lparr>so_reg := RegNotify\<rparr>) s))) s"

definition wsHandler_notify :: "nat \<Rightarrow> sv_sys \<Rightarrow> (string, sv_sys) outcome option" where
  "wsHandler_notify n s = at_socket n (\<lambda>x.
     if so_reg x \<noteq> RegNotify then None
     else (let s' = set_socket n (x\<lparr>so_reg := RegServed\<rparr>) s
           in Some (Returns (if sv_newClientHandler (srv s) then note_event (NewClient (so_id x) n) s' else s')))) s"

section \<open>Callbacks of a websocket\<close>

definition is_current :: "nat \<Rightarrow> sv_socket \<Rightarrow> wsServer \<Rightarrow> bool" where
  "is_current n x s \<longleftrightarrow> map_of (sv_connections s) (so_id x) = Some n"

definition pumps_run :: "sv_socket \<Rightarrow> bool" where
  "pumps_run x \<longleftrightarrow> so_reg x = RegNotify \<or> so_reg x = RegServed"

text \<open>The errors that a step of a socket reports go to the error channel of the server.\<close>

definition sv_report :: "ws_sys \<Rightarrow> ws_sys \<Rightarrow> wsServer \<Rightarrow> wsServer" where
  "sv_report w w' s = fold sv_error (drop (length (ws_reported w)) (ws_reported w')) s"

definition socket_step :: "nat \<Rightarrow> sv_socket \<Rightarrow> (string, ws_sys) outcome option \<Rightarrow> sv_sys \<Rightarrow> (string, sv_sys) outcome option" where
  "socket_step n x r s =
     then_ok r (\<lambda>w. Returns (set_socket n (x\<lparr>so_ws := w\<rparr>) (s\<lparr>srv := sv_report (so_ws x) w (srv s)\<rparr>)))"

text \<open>\<open>handleMessage\<close>: the check of the connection, and the handler, which runs without the lock.\<close>

definition handleMessage_check :: "duration \<Rightarrow> nat \<Rightarrow> string \<Rightarrow> sv_sys \<Rightarrow> (string, sv_sys) outcome option" where
  "handleMessage_check now n data s = at_socket n (\<lambda>x.
     if \<not> pumps_run x \<or> so_msg x \<noteq> None \<or> read_at (so_ws x) \<noteq> ReadNext then None
     else if is_current n x (srv s) then Some (Returns (set_socket n (x\<lparr>so_msg := Some data\<rparr>) s))
     else socket_step n x (ws_step now (EvMessage data None) (so_ws x)) s) s"

definition handleMessage_handler :: "duration \<Rightarrow> nat \<Rightarrow> go_error option \<Rightarrow> sv_sys \<Rightarrow> (string, sv_sys) outcome option" where
  "handleMessage_handler now n res s = at_socket n (\<lambda>x.
     case so_msg x of
       None \<Rightarrow> None
     | Some data \<Rightarrow>
         (let x = x\<lparr>so_msg := None\<rparr>
          in if sv_messageHandler (srv s)
             then socket_step n x (ws_step now (EvMessage data res) (so_ws x)) (note_event (Delivered (so_id x) n data) s)
             else socket_step n x (ws_step now (EvMessage data (Some (Errorf ''no message handler set''))) (so_ws x)) s)) s"

text \<open>
  \<open>handleDisconnect\<close>, called by the cleanup of the socket: the removal, the second look at the connections,
  the handler, and the deferred calls.
\<close>

definition disconnect_start :: "nat \<Rightarrow> sv_sys \<Rightarrow> (string, sv_sys) outcome option" where
  "disconnect_start n s = at_socket n (\<lambda>x.
     if \<not> pumps_run x then None
     else socket_step n (x\<lparr>so_dis := DisRemove\<rparr>) (ws_step 0 EvNotify (so_ws x)) s) s"

definition disconnect_remove :: "nat \<Rightarrow> sv_sys \<Rightarrow> (string, sv_sys) outcome option" where
  "disconnect_remove n s = at_socket n (\<lambda>x.
     if so_dis x \<noteq> DisRemove then None
     else (let c = incrementGate (so_id x) (srv s)
           in Some (Returns (
                if is_current n x c
                then set_socket n (x\<lparr>so_dis := DisRecheck\<rparr>)
                  (s\<lparr>srv := c\<lparr>sv_connections := AList.delete (so_id x) (sv_connections c)\<rparr>\<rparr>)
                else set_socket n (x\<lparr>so_dis := DisLeave\<rparr>) (s\<lparr>srv := c\<rparr>))))) s"

definition disconnect_recheck :: "nat \<Rightarrow> sv_sys \<Rightarrow> (string, sv_sys) outcome option" where
  "disconnect_recheck n s = at_socket n (\<lambda>x.
     if so_dis x \<noteq> DisRecheck then None
     else (let superseded = (map_of (sv_connections (srv s)) (so_id x) \<noteq> None)
           in Some (Returns (set_socket n (x\<lparr>so_dis := (if superseded then DisLeave else DisFire)\<rparr>) s)))) s"

definition disconnect_fire :: "nat \<Rightarrow> sv_sys \<Rightarrow> (string, sv_sys) outcome option" where
  "disconnect_fire n s = at_socket n (\<lambda>x.
     if so_dis x \<noteq> DisFire then None
     else Some (Returns (
       if sv_disconnectedHandler (srv s)
       then note_event (DisconnectBegin (so_id x) n) (set_socket n (x\<lparr>so_dis := DisHandler\<rparr>) s)
       else set_socket n (x\<lparr>so_dis := DisLeave\<rparr>) s))) s"

definition disconnect_fired :: "nat \<Rightarrow> sv_sys \<Rightarrow> (string, sv_sys) outcome option" where
  "disconnect_fired n s = at_socket n (\<lambda>x.
     if so_dis x \<noteq> DisHandler then None
     else Some (Returns (note_event (DisconnectEnd (so_id x) n) (set_socket n (x\<lparr>so_dis := DisLeave\<rparr>) s)))) s"

definition disconnect_leave :: "nat \<Rightarrow> sv_sys \<Rightarrow> (string, sv_sys) outcome option" where
  "disconnect_leave n s = at_socket n (\<lambda>x.
     if so_dis x \<noteq> DisLeave then None
     else Some (Returns (set_socket n (x\<lparr>so_dis := DisTear\<rparr>) (s\<lparr>srv := decrementGate (so_id x) (srv s)\<rparr>)))) s"

definition disconnect_teardown :: "nat \<Rightarrow> sv_sys \<Rightarrow> (string, sv_sys) outcome option" where
  "disconnect_teardown n s = at_socket n (\<lambda>x.
     if so_dis x \<noteq> DisTear then None
     else Some (Returns (set_socket n (x\<lparr>so_dis := DisDone, so_teardownDone := True\<rparr>) s))) s"

section \<open>Methods\<close>

definition sv_GetChannel :: "string \<Rightarrow> wsServer \<Rightarrow> nat option" where
  "sv_GetChannel wid s = map_of (sv_connections s) wid"

definition sv_Write :: "string \<Rightarrow> string \<Rightarrow> sv_sys \<Rightarrow> go_error option \<times> sv_sys" where
  "sv_Write wid data s =
     (case map_of (sv_connections (srv s)) wid of
        None \<Rightarrow> (Some (Errorf (''couldn't write to websocket. No socket with id '' @ wid @ '' is open'')), s)
      | Some n \<Rightarrow>
          (let x = sv_sockets s ! n; (err, w) = ws_Write data (so_ws x)
           in (err, set_socket n (x\<lparr>so_ws := w\<rparr>) s)))"

definition sv_StopConnection :: "string \<Rightarrow> CloseError \<Rightarrow> bool \<Rightarrow> sv_sys \<Rightarrow> (string, go_error option \<times> sv_sys) outcome option" where
  "sv_StopConnection wid closeError aborted s =
     (case map_of (sv_connections (srv s)) wid of
        None \<Rightarrow> Some (Returns (Some (Errorf (''couldn't stop websocket connection. No connection with id '' @ wid @ '' is open'')), s))
      | Some n \<Rightarrow>
          (let x = sv_sockets s ! n
           in then_ok (close_call aborted closeError (so_ws x))
                (\<lambda>(err, w). Returns (err, set_socket n (x\<lparr>so_ws := w\<rparr>) s))))"

text \<open>
  \<open>stopConnections\<close> closes all connections under the lock; it waits where a \<open>Close\<close> does. \<open>aborted\<close> says
  of which sockets the \<open>Close\<close> is aborted.
\<close>

fun close_all :: "(nat \<Rightarrow> bool) \<Rightarrow> (string \<times> nat) list \<Rightarrow> sv_sys \<Rightarrow> (string, sv_sys) outcome option" where
  "close_all aborted [] s = Some (Returns s)"
| "close_all aborted ((_, n) # cs) s =
     (case close_call (aborted n) (CloseNormalClosure, []) (so_ws (sv_sockets s ! n)) of
        None \<Rightarrow> None
      | Some (Panics v) \<Rightarrow> Some (Panics v)
      | Some (Returns (_, w)) \<Rightarrow> close_all aborted cs (set_socket n ((sv_sockets s ! n)\<lparr>so_ws := w\<rparr>) s))"

definition stopConnections :: "(nat \<Rightarrow> bool) \<Rightarrow> sv_sys \<Rightarrow> (string, sv_sys) outcome option" where
  "stopConnections aborted s = close_all aborted (sv_connections (srv s)) (s\<lparr>srv := (srv s)\<lparr>sv_stopped := True\<rparr>\<rparr>)"

section \<open>Steps and runs\<close>

text \<open>A new request; a websocket that results from it has no pumps yet.\<close>

definition sv_connect :: "http_request \<Rightarrow> (string \<Rightarrow> go_error + wsConn) \<Rightarrow> sv_sys \<Rightarrow> sv_sys" where
  "sv_connect r upgrade s =
     (case wsHandler_upgrade r upgrade (srv s) of
        (Upgraded w, c) \<Rightarrow>
          s\<lparr>srv := c, sv_sockets := sv_sockets s @
            [\<lparr>so_ws = ws_start w, so_reg = RegStart, so_dis = DisNone, so_teardownDone = False, so_msg = None\<rparr>]\<rparr>
      | (_, c) \<Rightarrow> s\<lparr>srv := c\<rparr>)"

text \<open>
  The steps of a socket that are its own: those of callers of \<open>Write\<close> and \<open>Close\<close> at any time, those of the
  pumps once they run, and no step of the read pump while it is in the handler of a message.
\<close>

fun caller_event :: "ws_event \<Rightarrow> bool" where
  "caller_event (EvWrite _ _) = True"
| "caller_event (EvWriteQueued _) = True"
| "caller_event (EvWriteAborted _) = True"
| "caller_event (EvClose _) = True"
| "caller_event (EvCloseQueued _) = True"
| "caller_event (EvCloseAborted _) = True"
| "caller_event _ = False"

fun writer_event :: "ws_event \<Rightarrow> bool" where
  "writer_event (EvTick _) = True"
| "writer_event (EvPongOut _) = True"
| "writer_event (EvMessageOut _) = True"
| "writer_event (EvCloseOut _) = True"
| "writer_event EvForced = True"
| "writer_event EvSignal = True"
| "writer_event EvLocked = True"
| "writer_event _ = False"

fun reader_event :: "ws_event \<Rightarrow> bool" where
  "reader_event EvReadStart = True"
| "reader_event (EvReadFailed _ _) = True"
| "reader_event (EvPing _) = True"
| "reader_event EvPingSend = True"
| "reader_event EvPong = True"
| "reader_event EvPongDone = True"
| "reader_event _ = False"

definition socket_event :: "duration \<Rightarrow> nat \<Rightarrow> ws_event \<Rightarrow> sv_sys \<Rightarrow> (string, sv_sys) outcome option" where
  "socket_event now n e s = at_socket n (\<lambda>x.
     if caller_event e \<or> (pumps_run x \<and> (writer_event e \<or> (reader_event e \<and> so_msg x = None)))
     then socket_step n x (ws_step now e (so_ws x)) s else None) s"

datatype sv_event =
    SvConnect http_request "string \<Rightarrow> go_error + wsConn"
  | SvRegister nat
  | SvEvict nat bool
  | SvEvictTimeout nat
  | SvEvicted nat
  | SvRegisterLeave nat
  | SvRun nat
  | SvNewClient nat
  | SvSocket duration nat ws_event
  | SvMessage duration nat string
  | SvHandled duration nat "go_error option"
  | SvClosed nat
  | SvRemove nat
  | SvRecheck nat
  | SvFire nat
  | SvFired nat
  | SvLeave nat
  | SvTeardown nat
  | SvWrite string string
  | SvStopConnection string CloseError bool
  | SvStopConnections "nat \<Rightarrow> bool"
  | SvShutdown "go_error option"
  | SvServed bool go_error
  | SvReadError

fun sv_step :: "sv_event \<Rightarrow> sv_sys \<Rightarrow> (string, sv_sys) outcome option" where
  "sv_step (SvConnect r upgrade) s = Some (Returns (sv_connect r upgrade s))"
| "sv_step (SvRegister n) s = register_first n s"
| "sv_step (SvEvict n aborted) s = register_evict n aborted s"
| "sv_step (SvEvictTimeout n) s = register_timeout n s"
| "sv_step (SvEvicted n) s = register_second n s"
| "sv_step (SvRegisterLeave n) s = register_leave n s"
| "sv_step (SvRun n) s = wsHandler_run n s"
| "sv_step (SvNewClient n) s = wsHandler_notify n s"
| "sv_step (SvSocket now n e) s = socket_event now n e s"
| "sv_step (SvMessage now n data) s = handleMessage_check now n data s"
| "sv_step (SvHandled now n res) s = handleMessage_handler now n res s"
| "sv_step (SvClosed n) s = disconnect_start n s"
| "sv_step (SvRemove n) s = disconnect_remove n s"
| "sv_step (SvRecheck n) s = disconnect_recheck n s"
| "sv_step (SvFire n) s = disconnect_fire n s"
| "sv_step (SvFired n) s = disconnect_fired n s"
| "sv_step (SvLeave n) s = disconnect_leave n s"
| "sv_step (SvTeardown n) s = disconnect_teardown n s"
| "sv_step (SvWrite wid data) s = Some (Returns (snd (sv_Write wid data s)))"
| "sv_step (SvStopConnection wid ce aborted) s = then_ok (sv_StopConnection wid ce aborted s) (\<lambda>(_, s). Returns s)"
| "sv_step (SvStopConnections aborted) s = stopConnections aborted s"
| "sv_step (SvShutdown err) s = then_ok (Some (sv_Shutdown err (srv s))) (\<lambda>c. Returns (s\<lparr>srv := c\<rparr>))"
| "sv_step (SvServed serverClosed err) s = Some (Returns (s\<lparr>srv := sv_Start_served serverClosed err (srv s)\<rparr>))"
| "sv_step SvReadError s =
     map_option (\<lambda>(_, c). Returns (s\<lparr>srv := (srv s)\<lparr>sv_errC := c\<rparr>\<rparr>)) (chan_recv (sv_errC (srv s)))"

definition sv_started :: "string \<Rightarrow> wsServer \<Rightarrow> sv_sys" where
  "sv_started listenPath s = \<lparr>srv = sv_Start_begin listenPath s, sv_sockets = [], sv_trace = []\<rparr>"

fun sv_exec :: "sv_event list \<Rightarrow> sv_sys \<Rightarrow> sv_sys option" where
  "sv_exec [] s = Some s"
| "sv_exec (e # es) s = (case sv_step e s of Some (Returns s') \<Rightarrow> sv_exec es s' | _ \<Rightarrow> None)"

end
