(* ===== verification/Ws_Registry.thy ===== *)
theory Ws_Registry
  imports Ws_Server
begin

text \<open>
  The registry of the websocket server. Every interleaving of requests, evictions, pumps and teardowns keeps
  an invariant over the connections, the gate and the goroutines of the sockets; from it follow the order
  of the callbacks for an identifier, that the gate counts the transitions, and that no teardown is lost.
\<close>

section \<open>The invariant\<close>

text \<open>Of a socket only its identifier and the positions of its two goroutines matter.\<close>

record core =
  c_id :: string
  c_reg :: reg_pc
  c_dis :: dis_pc

definition core_of :: "sv_socket \<Rightarrow> core" where
  "core_of x = \<lparr>c_id = so_id x, c_reg = so_reg x, c_dis = so_dis x\<rparr>"

fun reg_holds :: "reg_pc \<Rightarrow> bool" where
  "reg_holds (RegEvict _) = True"
| "reg_holds (RegAwait _) = True"
| "reg_holds (RegLeave _) = True"
| "reg_holds _ = False"

fun evicts :: "reg_pc \<Rightarrow> nat option" where
  "evicts (RegEvict old) = Some old"
| "evicts (RegAwait old) = Some old"
| "evicts _ = None"

definition dis_holds :: "dis_pc \<Rightarrow> bool" where
  "dis_holds d \<longleftrightarrow> d \<in> {DisRecheck, DisFire, DisHandler, DisLeave}"

definition enrolled :: "core \<Rightarrow> bool" where
  "enrolled c \<longleftrightarrow> c_reg c \<in> {RegLeave True, RegRun, RegNotify, RegServed}"

definition attached :: "core \<Rightarrow> bool" where
  "attached c \<longleftrightarrow> enrolled c \<and> c_dis c \<in> {DisNone, DisRemove}"

definition busy :: "core \<Rightarrow> bool" where
  "busy c \<longleftrightarrow> enrolled c \<and> c_dis c \<notin> {DisTear, DisDone}"

text \<open>Sockets whose disconnect is not yet reported, is being reported, or has been reported.\<close>

definition live :: "core \<Rightarrow> bool" where
  "live c \<longleftrightarrow> enrolled c \<and> c_dis c \<in> {DisNone, DisRemove, DisRecheck, DisFire}"

definition falling :: "core \<Rightarrow> bool" where
  "falling c \<longleftrightarrow> enrolled c \<and> c_dis c = DisHandler"

definition reported :: "core \<Rightarrow> bool" where
  "reported c \<longleftrightarrow> enrolled c \<and> c_dis c \<in> {DisLeave, DisTear, DisDone}"

text \<open>The transitions of an identifier that hold its gate.\<close>

definition holders :: "string \<Rightarrow> core \<Rightarrow> int" where
  "holders wid c = (if c_id c = wid then of_bool (reg_holds (c_reg c)) + of_bool (dis_holds (c_dis c)) else 0)"

definition transitions :: "string \<Rightarrow> core list \<Rightarrow> int" where
  "transitions wid cs = sum_list (map (holders wid) cs)"

text \<open>The callbacks of an identifier: registrations, each followed by its disconnect before the next one.\<close>

datatype phase = Idle | Up nat | Down nat

fun advance :: "string \<Rightarrow> sv_note \<Rightarrow> phase \<Rightarrow> phase option" where
  "advance wid (Registered i n) p = (if i \<noteq> wid then Some p else if p = Idle then Some (Up n) else None)"
| "advance wid (DisconnectBegin i n) p = (if i \<noteq> wid then Some p else if p = Up n then Some (Down n) else None)"
| "advance wid (DisconnectEnd i n) p = (if i \<noteq> wid then Some p else if p = Down n then Some Idle else None)"
| "advance wid _ p = Some p"

definition track :: "string \<Rightarrow> sv_note list \<Rightarrow> phase option" where
  "track wid tr = foldl (\<lambda>p e. Option.bind p (advance wid e)) (Some Idle) tr"

fun phase_ok :: "string \<Rightarrow> core list \<Rightarrow> phase \<Rightarrow> bool" where
  "phase_ok wid cs (Up n) \<longleftrightarrow> n < length cs \<and> c_id (cs ! n) = wid \<and> live (cs ! n)"
| "phase_ok wid cs (Down n) \<longleftrightarrow> n < length cs \<and> c_id (cs ! n) = wid \<and> falling (cs ! n)"
| "phase_ok wid cs Idle \<longleftrightarrow> (\<forall>m<length cs. c_id (cs ! m) = wid \<longrightarrow> \<not> live (cs ! m) \<and> \<not> falling (cs ! m))"

definition conns_ok :: "core list \<Rightarrow> (string \<rightharpoonup> nat) \<Rightarrow> bool" where
  "conns_ok cs cn \<longleftrightarrow> (\<forall>wid n. cn wid = Some n \<longleftrightarrow> n < length cs \<and> c_id (cs ! n) = wid \<and> attached (cs ! n))"

definition gate_ok :: "core list \<Rightarrow> (string \<Rightarrow> int) \<Rightarrow> bool" where
  "gate_ok cs gt \<longleftrightarrow> (\<forall>wid. gt wid = transitions wid cs)"

definition alone_ok :: "core list \<Rightarrow> bool" where
  "alone_ok cs \<longleftrightarrow> (\<forall>m<length cs. \<forall>n<length cs. c_id (cs ! m) = c_id (cs ! n) \<longrightarrow>
     (busy (cs ! m) \<and> busy (cs ! n) \<longrightarrow> m = n) \<and> (reg_holds (c_reg (cs ! m)) \<and> reg_holds (c_reg (cs ! n)) \<longrightarrow> m = n))"

definition evict_ok :: "core list \<Rightarrow> bool" where
  "evict_ok cs \<longleftrightarrow> (\<forall>n<length cs. \<forall>old. evicts (c_reg (cs ! n)) = Some old \<longrightarrow>
     old < length cs \<and> c_id (cs ! old) = c_id (cs ! n) \<and> enrolled (cs ! old) \<and>
     (\<forall>m<length cs. c_id (cs ! m) = c_id (cs ! n) \<and> busy (cs ! m) \<longrightarrow> m = old))"

definition pumps_ok :: "core list \<Rightarrow> bool" where
  "pumps_ok cs \<longleftrightarrow> (\<forall>n<length cs. c_dis (cs ! n) \<noteq> DisNone \<longrightarrow> c_reg (cs ! n) = RegNotify \<or> c_reg (cs ! n) = RegServed)"

text \<open>Each socket is noted once when it is registered, and once when its report begins and when it ends.\<close>

fun note_of :: "sv_note \<Rightarrow> nat" where
  "note_of (Registered _ n) = n"
| "note_of (NewClient _ n) = n"
| "note_of (Delivered _ n _) = n"
| "note_of (DisconnectBegin _ n) = n"
| "note_of (DisconnectEnd _ n) = n"

definition told :: "sv_note list \<Rightarrow> nat \<Rightarrow> core \<Rightarrow> bool" where
  "told tr n c \<longleftrightarrow> count_list tr (Registered (c_id c) n) = of_bool (enrolled c) \<and>
     count_list tr (DisconnectBegin (c_id c) n) = of_bool (falling c \<or> reported c) \<and>
     count_list tr (DisconnectEnd (c_id c) n) = of_bool (reported c)"

definition told_ok :: "core list \<Rightarrow> sv_note list \<Rightarrow> bool" where
  "told_ok cs tr \<longleftrightarrow> (\<forall>n<length cs. told tr n (cs ! n)) \<and> (\<forall>e\<in>set tr. note_of e < length cs)"

definition phases_ok :: "core list \<Rightarrow> sv_note list \<Rightarrow> bool" where
  "phases_ok cs tr \<longleftrightarrow> (\<forall>wid. \<exists>p. track wid tr = Some p \<and> phase_ok wid cs p)"

definition reg_ok :: "core list \<Rightarrow> (string \<rightharpoonup> nat) \<Rightarrow> (string \<Rightarrow> int) \<Rightarrow> sv_note list \<Rightarrow> bool" where
  "reg_ok cs cn gt tr \<longleftrightarrow>
     conns_ok cs cn \<and> gate_ok cs gt \<and> alone_ok cs \<and> evict_ok cs \<and> pumps_ok cs \<and> phases_ok cs tr \<and> told_ok cs tr"

lemmas core_defs = enrolled_def attached_def busy_def live_def falling_def reported_def dis_holds_def

lemma track_snoc: "track wid (tr @ [e]) = Option.bind (track wid tr) (advance wid e)"
  by (simp add: track_def)

lemma holders_nonneg [simp]: "0 \<le> holders wid c"
  by (simp add: holders_def)

lemma transitions_update:
  "n < length cs \<Longrightarrow> transitions wid (cs[n := c]) = transitions wid cs - holders wid (cs ! n) + holders wid c"
  unfolding transitions_def by (induction cs arbitrary: n) (auto split: nat.splits)

lemma transitions_snoc: "transitions wid (cs @ [c]) = transitions wid cs + holders wid c"
  by (simp add: transitions_def)

lemma transitions_zero:
  assumes "transitions wid cs \<le> 0" and "n < length cs" and "c_id (cs ! n) = wid"
  shows "\<not> reg_holds (c_reg (cs ! n))" and "\<not> dis_holds (c_dis (cs ! n))"
proof -
  have "holders wid (cs ! n) \<le> transitions wid cs"
    unfolding transitions_def using assms(2) by (intro member_le_sum_list) auto
  with assms(1,3) show "\<not> reg_holds (c_reg (cs ! n))" "\<not> dis_holds (c_dis (cs ! n))"
    by (auto simp: holders_def of_bool_def split: if_splits)
qed

section \<open>Steps of one socket\<close>

text \<open>A socket that changes its position without becoming busy or taking the gate.\<close>

definition calmer :: "core \<Rightarrow> core \<Rightarrow> bool" where
  "calmer c c' \<longleftrightarrow> c_id c' = c_id c \<and> (enrolled c \<longrightarrow> enrolled c') \<and> (busy c' \<longrightarrow> busy c) \<and>
     (reg_holds (c_reg c') \<longrightarrow> reg_holds (c_reg c)) \<and> (evicts (c_reg c') = None \<or> evicts (c_reg c') = evicts (c_reg c)) \<and>
     (c_dis c' \<noteq> DisNone \<longrightarrow> c_reg c' = RegNotify \<or> c_reg c' = RegServed)"

lemma calmer_nth:
  assumes "n < length cs" and "calmer (cs ! n) c'"
  shows "cs[n := c'] ! m = (if m = n then c' else cs ! m)" and "c_id (cs[n := c'] ! m) = c_id (cs ! m)"
    and "busy (cs[n := c'] ! m) \<Longrightarrow> busy (cs ! m)" and "reg_holds (c_reg (cs[n := c'] ! m)) \<Longrightarrow> reg_holds (c_reg (cs ! m))"
    and "enrolled (cs ! m) \<Longrightarrow> enrolled (cs[n := c'] ! m)"
    and "evicts (c_reg (cs[n := c'] ! m)) = Some old \<Longrightarrow> evicts (c_reg (cs ! m)) = Some old"
  using assms by (cases "m = n"; auto simp: calmer_def)+

lemma calmer_alone:
  assumes "n < length cs" and "calmer (cs ! n) c'" and "alone_ok cs"
  shows "alone_ok (cs[n := c'])"
  using assms(3) calmer_nth(2-4) [OF assms(1,2)] unfolding alone_ok_def by (metis length_list_update)

lemma calmer_evict:
  assumes "n < length cs" and "calmer (cs ! n) c'" and "evict_ok cs"
  shows "evict_ok (cs[n := c'])"
  unfolding evict_ok_def
proof (intro allI impI)
  fix m old
  assume m: "m < length (cs[n := c'])" and "evicts (c_reg (cs[n := c'] ! m)) = Some old"
  then have "evicts (c_reg (cs ! m)) = Some old" using calmer_nth(6) [OF assms(1,2)] by blast
  with assms(3) m have "old < length cs \<and> c_id (cs ! old) = c_id (cs ! m) \<and> enrolled (cs ! old) \<and>
      (\<forall>k<length cs. c_id (cs ! k) = c_id (cs ! m) \<and> busy (cs ! k) \<longrightarrow> k = old)"
    unfolding evict_ok_def length_list_update by blast
  then show "old < length (cs[n := c']) \<and> c_id (cs[n := c'] ! old) = c_id (cs[n := c'] ! m) \<and>
      enrolled (cs[n := c'] ! old) \<and>
      (\<forall>k<length (cs[n := c']). c_id (cs[n := c'] ! k) = c_id (cs[n := c'] ! m) \<and> busy (cs[n := c'] ! k) \<longrightarrow> k = old)"
    unfolding length_list_update calmer_nth(2) [OF assms(1,2)] using calmer_nth(3,5) [OF assms(1,2)] by blast
qed

lemma calmer_pumps:
  assumes "n < length cs" and "calmer (cs ! n) c'" and "pumps_ok cs"
  shows "pumps_ok (cs[n := c'])"
  using assms unfolding pumps_ok_def calmer_def by (simp add: nth_list_update)

lemmas calmer_rest = calmer_alone calmer_evict calmer_pumps

definition moves :: "string \<Rightarrow> core \<Rightarrow> core \<Rightarrow> (string \<Rightarrow> int) \<Rightarrow> string \<Rightarrow> int" where
  "moves wid c c' gt = gt(wid := gt wid - holders wid c + holders wid c')"

lemma gate_moves:
  assumes "n < length cs" and "gate_ok cs gt" and "c_id (cs ! n) = wid" and "c_id c' = wid"
  shows "gate_ok (cs[n := c']) (moves wid (cs ! n) c' gt)"
  using assms by (auto simp: gate_ok_def moves_def transitions_update holders_def)

lemma conns_same:
  assumes "n < length cs" and "conns_ok cs cn" and "c_id c' = c_id (cs ! n)" and "attached c' = attached (cs ! n)"
  shows "conns_ok (cs[n := c']) cn"
  using assms unfolding conns_ok_def by (simp add: nth_list_update)

lemma trace_same:
  assumes "n < length cs" and "phases_ok cs tr" and "c_id c' = c_id (cs ! n)" and "live c' = live (cs ! n)"
    and "falling c' = falling (cs ! n)"
  shows "phases_ok (cs[n := c']) tr"
proof -
  have "phase_ok wid cs p \<Longrightarrow> phase_ok wid (cs[n := c']) p" for wid p
    using assms(1,3-5) by (cases p) (auto simp: nth_list_update)
  then show ?thesis using assms(2) unfolding phases_ok_def by blast
qed

lemma told_same:
  assumes "n < length cs" and "told_ok cs tr" and "c_id c' = c_id (cs ! n)" and "enrolled c' = enrolled (cs ! n)"
    and "falling c' = falling (cs ! n)" and "reported c' = reported (cs ! n)"
  shows "told_ok (cs[n := c']) tr"
proof -
  have "told tr n c'" using assms by (simp add: told_ok_def told_def)
  with assms(1,2) show ?thesis by (simp add: told_ok_def nth_list_update)
qed

lemma told_noted:
  assumes "n < length cs" and "told_ok cs tr" and "note_of e = n" and "told (tr @ [e]) n c'"
  shows "told_ok (cs[n := c']) (tr @ [e])"
proof -
  have "m \<noteq> n \<Longrightarrow> told (tr @ [e]) m c = told tr m c" for m c using assms(3) by (auto simp: told_def)
  with assms show ?thesis by (simp add: told_ok_def nth_list_update)
qed

lemma calm_step:
  assumes "reg_ok cs cn gt tr" and "n < length cs" and "calmer (cs ! n) c'" and "attached c' = attached (cs ! n)"
    and "live c' = live (cs ! n)" and "falling c' = falling (cs ! n)" and "enrolled c' = enrolled (cs ! n)"
    and "reported c' = reported (cs ! n)"
  shows "reg_ok (cs[n := c']) cn (moves (c_id c') (cs ! n) c' gt) tr"
proof -
  have wid: "c_id c' = c_id (cs ! n)" using assms(3) by (simp add: calmer_def)
  show ?thesis
    using assms(1) calmer_rest [OF assms(2,3)] conns_same [OF assms(2) _ wid assms(4)] gate_moves [OF assms(2) _ wid [symmetric]]
      trace_same [OF assms(2) _ wid assms(5,6)] told_same [OF assms(2) _ wid assms(7,6,8)]
    by (simp add: reg_ok_def)
qed

text \<open>A socket whose report begins or ends, and one that is removed from the connections.\<close>

lemma conns_remove:
  assumes "n < length cs" and "conns_ok cs cn" and "c_id c' = c_id (cs ! n)" and "attached (cs ! n)" and "\<not> attached c'"
  shows "conns_ok (cs[n := c']) (cn(c_id c' := None))"
proof -
  have cn: "cn wid = Some m \<longleftrightarrow> m < length cs \<and> c_id (cs ! m) = wid \<and> attached (cs ! m)" for wid m
    using assms(2) unfolding conns_ok_def by blast
  then have "cn (c_id (cs ! n)) = Some n" using assms(1,4) by blast
  with cn have "m < length cs \<Longrightarrow> attached (cs ! m) \<Longrightarrow> c_id (cs ! m) = c_id (cs ! n) \<Longrightarrow> m = n" for m
    by (metis option.inject)
  then show ?thesis unfolding conns_ok_def by (auto simp: cn nth_list_update assms(1,3,5))
qed

lemma phase_unique:
  assumes "alone_ok cs" and "phase_ok wid cs p" and "n < length cs" and "c_id (cs ! n) = wid"
  shows "live (cs ! n) \<Longrightarrow> p = Up n" and "falling (cs ! n) \<Longrightarrow> p = Down n"
proof -
  have busy: "live c \<or> falling c \<Longrightarrow> busy c" "\<not> (live c \<and> falling c)" for c by (auto simp: core_defs)
  have same: "m < length cs \<Longrightarrow> c_id (cs ! m) = wid \<Longrightarrow> busy (cs ! m) \<Longrightarrow> busy (cs ! n) \<Longrightarrow> m = n" for m
    using assms(1,3,4) unfolding alone_ok_def by blast
  show "live (cs ! n) \<Longrightarrow> p = Up n" "falling (cs ! n) \<Longrightarrow> p = Down n"
    using assms(2-4) same busy by (cases p; force)+
qed

lemma trace_fire:
  assumes "n < length cs" and "alone_ok cs" and "phases_ok cs tr" and "c_id c' = c_id (cs ! n)" and "live (cs ! n)" and "falling c'"
  shows "phases_ok (cs[n := c']) (tr @ [DisconnectBegin (c_id c') n])"
  unfolding phases_ok_def
proof
  fix wid
  obtain p where p: "track wid tr = Some p" "phase_ok wid cs p" using assms(3) unfolding phases_ok_def by blast
  show "\<exists>p. track wid (tr @ [DisconnectBegin (c_id c') n]) = Some p \<and> phase_ok wid (cs[n := c']) p"
  proof (cases "wid = c_id c'")
    case True
    with phase_unique(1) [OF assms(2) p(2) assms(1)] p assms show ?thesis by (simp add: track_snoc)
  next
    case False
    with p assms(1,4) show ?thesis by (cases p) (auto simp: track_snoc nth_list_update)
  qed
qed

lemma trace_fired:
  assumes "n < length cs" and "alone_ok cs" and "phases_ok cs tr" and "c_id c' = c_id (cs ! n)" and "falling (cs ! n)"
    and "\<not> live c'" and "\<not> falling c'"
  shows "phases_ok (cs[n := c']) (tr @ [DisconnectEnd (c_id c') n])"
  unfolding phases_ok_def
proof
  fix wid
  obtain p where p: "track wid tr = Some p" "phase_ok wid cs p" using assms(3) unfolding phases_ok_def by blast
  have other: "m < length cs \<Longrightarrow> c_id (cs ! m) = c_id (cs ! n) \<Longrightarrow> live (cs ! m) \<or> falling (cs ! m) \<Longrightarrow> m = n" for m
    using assms(1,2,5) unfolding alone_ok_def by (auto simp: core_defs)
  show "\<exists>p. track wid (tr @ [DisconnectEnd (c_id c') n]) = Some p \<and> phase_ok wid (cs[n := c']) p"
  proof (cases "wid = c_id c'")
    case True
    with phase_unique(2) [OF assms(2) p(2) assms(1)] p assms other show ?thesis by (auto simp: track_snoc nth_list_update)
  next
    case False
    with p assms(1,4) show ?thesis by (cases p) (auto simp: track_snoc nth_list_update)
  qed
qed

section \<open>Registration\<close>

text \<open>A socket is registered when no other one of its identifier is busy or evicts.\<close>

definition free_for :: "string \<Rightarrow> nat \<Rightarrow> core list \<Rightarrow> bool" where
  "free_for wid n cs \<longleftrightarrow> (\<forall>m<length cs. c_id (cs ! m) = wid \<longrightarrow> \<not> busy (cs ! m) \<and> (reg_holds (c_reg (cs ! m)) \<longrightarrow> m = n))"

lemma busy_if: "attached c \<Longrightarrow> busy c" "live c \<Longrightarrow> busy c" "falling c \<Longrightarrow> busy c"
  by (auto simp: core_defs)

lemma evicts_holds: "evicts r = Some old \<Longrightarrow> reg_holds r"
  by (cases r) auto

lemma conns_register:
  assumes "conns_ok cs cn" and n: "n < length cs" and free: "free_for (c_id c') n cs" and wid: "c_id c' = c_id (cs ! n)"
    and "attached c'"
  shows "conns_ok (cs[n := c']) (cn(c_id c' \<mapsto> n))"
proof -
  have cn: "cn wid = Some m \<longleftrightarrow> m < length cs \<and> c_id (cs ! m) = wid \<and> attached (cs ! m)" for wid m
    using assms(1) unfolding conns_ok_def by blast
  have "m < length cs \<Longrightarrow> c_id (cs ! m) = c_id c' \<Longrightarrow> \<not> attached (cs ! m)" for m
    using free busy_if(1) unfolding free_for_def by blast
  then show ?thesis unfolding conns_ok_def using n wid assms(5) by (auto simp: cn nth_list_update)
qed

lemma alone_register:
  assumes "alone_ok cs" and n: "n < length cs" and free: "free_for (c_id c') n cs" and wid: "c_id c' = c_id (cs ! n)"
    and "reg_holds (c_reg c') \<longrightarrow> reg_holds (c_reg (cs ! n))"
  shows "alone_ok (cs[n := c'])"
  unfolding alone_ok_def
proof (intro allI impI)
  fix k m
  let ?cs = "cs[n := c']"
  assume km: "k < length ?cs" "m < length ?cs" "c_id (?cs ! k) = c_id (?cs ! m)"
  have "c_id (cs ! k) = c_id (cs ! m)" using km wid n by (auto simp: nth_list_update split: if_splits)
  then have old: "(busy (cs ! k) \<and> busy (cs ! m) \<longrightarrow> k = m) \<and> (reg_holds (c_reg (cs ! k)) \<and> reg_holds (c_reg (cs ! m)) \<longrightarrow> k = m)"
    using assms(1) km(1,2) unfolding alone_ok_def by simp
  have "c_id (cs ! j) = c_id (cs ! n) \<Longrightarrow> j < length cs \<Longrightarrow> \<not> busy (cs ! j)" for j
    using free wid unfolding free_for_def by simp
  with old km n wid assms(5) show "(busy (?cs ! k) \<and> busy (?cs ! m) \<longrightarrow> k = m) \<and>
      (reg_holds (c_reg (?cs ! k)) \<and> reg_holds (c_reg (?cs ! m)) \<longrightarrow> k = m)"
    by (cases "k = n"; cases "m = n") auto
qed

lemma evict_register:
  assumes "evict_ok cs" and n: "n < length cs" and free: "free_for (c_id c') n cs" and wid: "c_id c' = c_id (cs ! n)"
    and "evicts (c_reg c') = None"
  shows "evict_ok (cs[n := c'])"
  unfolding evict_ok_def
proof (intro allI impI)
  fix m old
  let ?cs = "cs[n := c']"
  assume m: "m < length ?cs" and "evicts (c_reg (?cs ! m)) = Some old"
  then have e: "m \<noteq> n" "evicts (c_reg (cs ! m)) = Some old" using assms(5) n by (auto simp: nth_list_update split: if_splits)
  then have other: "c_id (cs ! m) \<noteq> c_id (cs ! n)"
    using free evicts_holds [OF e(2)] m wid unfolding free_for_def by auto
  from assms(1) m e(2) have "old < length cs \<and> c_id (cs ! old) = c_id (cs ! m) \<and> enrolled (cs ! old) \<and>
      (\<forall>k<length cs. c_id (cs ! k) = c_id (cs ! m) \<and> busy (cs ! k) \<longrightarrow> k = old)"
    unfolding evict_ok_def length_list_update by blast
  moreover have ids: "c_id (?cs ! k) = c_id (cs ! k)" for k using n wid by (simp add: nth_list_update)
  moreover have "c_id (cs ! k) = c_id (cs ! m) \<Longrightarrow> ?cs ! k = cs ! k" for k using other by (cases "k = n") auto
  ultimately show "old < length ?cs \<and> c_id (?cs ! old) = c_id (?cs ! m) \<and> enrolled (?cs ! old) \<and>
      (\<forall>k<length ?cs. c_id (?cs ! k) = c_id (?cs ! m) \<and> busy (?cs ! k) \<longrightarrow> k = old)"
    unfolding length_list_update ids by metis
qed

lemma trace_register:
  assumes "phases_ok cs tr" and n: "n < length cs" and free: "free_for (c_id c') n cs" and wid: "c_id c' = c_id (cs ! n)"
    and "live c'"
  shows "phases_ok (cs[n := c']) (tr @ [Registered (c_id c') n])"
  unfolding phases_ok_def
proof
  fix w
  obtain p where p: "track w tr = Some p" "phase_ok w cs p" using assms(1) unfolding phases_ok_def by blast
  have calm: "m < length cs \<Longrightarrow> c_id (cs ! m) = c_id c' \<Longrightarrow> \<not> live (cs ! m) \<and> \<not> falling (cs ! m)" for m
    using free busy_if(2,3) unfolding free_for_def by blast
  show "\<exists>p. track w (tr @ [Registered (c_id c') n]) = Some p \<and> phase_ok w (cs[n := c']) p"
  proof (cases "w = c_id c'")
    case True
    with p(2) calm have "p = Idle" by (cases p) auto
    with p True n assms(5) show ?thesis by (simp add: track_snoc)
  next
    case False
    with p n wid show ?thesis by (cases p) (auto simp: track_snoc nth_list_update)
  qed
qed

lemma register_step:
  assumes "reg_ok cs cn gt tr" and n: "n < length cs" and free: "free_for (c_id c') n cs" and wid: "c_id c' = c_id (cs ! n)"
    and no: "\<not> enrolled (cs ! n)" and c': "enrolled c'" "c_dis c' = DisNone"
    and pc: "evicts (c_reg c') = None" "reg_holds (c_reg c') \<longrightarrow> reg_holds (c_reg (cs ! n))"
  shows "reg_ok (cs[n := c']) (cn(c_id c' \<mapsto> n)) (moves (c_id c') (cs ! n) c' gt) (tr @ [Registered (c_id c') n])"
proof -
  have states: "attached c'" "live c'" using c' by (simp_all add: core_defs)
  have "pumps_ok cs \<Longrightarrow> pumps_ok (cs[n := c'])" using n c'(2) unfolding pumps_ok_def by (simp add: nth_list_update)
  moreover have "told_ok cs tr \<Longrightarrow> told_ok (cs[n := c']) (tr @ [Registered (c_id c') n])"
    using n wid c' no by (intro told_noted) (auto simp: told_ok_def told_def core_defs)
  ultimately show ?thesis
    using assms(1) conns_register [OF _ n free wid states(1)] alone_register [OF _ n free wid pc(2)] evict_register [OF _ n free wid pc(1)]
      trace_register [OF _ n free wid states(2)] gate_moves [OF n _ wid [symmetric]]
    by (simp add: reg_ok_def)
qed

text \<open>The start of an eviction, and a new socket.\<close>

lemma evict_start:
  assumes ok: "reg_ok cs cn gt tr" and n: "n < length cs" and c: "c_reg (cs ! n) = RegStart" "c_dis (cs ! n) = DisNone"
    and gate: "gt (c_id (cs ! n)) \<le> 0" and old: "cn (c_id (cs ! n)) = Some old" and c': "c' = (cs ! n)\<lparr>c_reg := RegEvict old\<rparr>"
  shows "reg_ok (cs[n := c']) cn (moves (c_id c') (cs ! n) c' gt) tr"
proof -
  let ?cs = "cs[n := c']"
  have wid: "c_id c' = c_id (cs ! n)" and none: "\<not> enrolled c'" "\<not> enrolled (cs ! n)" using c c' by (simp_all add: enrolled_def)
  have parts: "conns_ok cs cn" "gate_ok cs gt" "alone_ok cs" "evict_ok cs" "pumps_ok cs" "phases_ok cs tr" "told_ok cs tr"
    using ok by (simp_all add: reg_ok_def)
  have ids: "c_id (?cs ! k) = c_id (cs ! k)" and same: "enrolled (?cs ! k) = enrolled (cs ! k)" "busy (?cs ! k) = busy (cs ! k)"
    and regs: "k \<noteq> n \<Longrightarrow> c_reg (?cs ! k) = c_reg (cs ! k)" for k
    using wid none n by (cases "k = n"; simp add: busy_def)+
  have free: "k < length cs \<Longrightarrow> c_id (cs ! k) = c_id (cs ! n) \<Longrightarrow> \<not> reg_holds (c_reg (cs ! k))" for k
    using transitions_zero(1) gate parts(2) unfolding gate_ok_def by metis
  have at: "old < length cs" "c_id (cs ! old) = c_id (cs ! n)" "attached (cs ! old)"
    using parts(1) old unfolding conns_ok_def by blast+
  have only: "k < length cs \<Longrightarrow> c_id (cs ! k) = c_id (cs ! n) \<Longrightarrow> busy (cs ! k) \<Longrightarrow> k = old" for k
    using parts(3) at(1,2) busy_if(1) [OF at(3)] unfolding alone_ok_def by simp
  have "alone_ok ?cs"
    unfolding alone_ok_def length_list_update ids same
  proof (intro allI impI conjI)
    fix k m
    assume km: "k < length cs" "m < length cs" "c_id (cs ! k) = c_id (cs ! m)"
    show "busy (cs ! k) \<and> busy (cs ! m) \<Longrightarrow> k = m" using parts(3) km unfolding alone_ok_def by blast
    have "reg_holds (c_reg (cs ! k)) \<Longrightarrow> reg_holds (c_reg (cs ! m)) \<Longrightarrow> k = m"
      using parts(3) km unfolding alone_ok_def by blast
    moreover assume "reg_holds (c_reg (?cs ! k)) \<and> reg_holds (c_reg (?cs ! m))"
    ultimately show "k = m" using km free [of k] free [of m] regs [of k] regs [of m] by (cases "k = n"; cases "m = n") auto
  qed
  moreover have "evict_ok ?cs"
    unfolding evict_ok_def length_list_update ids same
  proof (intro allI impI)
    fix m j
    assume m: "m < length cs" "evicts (c_reg (?cs ! m)) = Some j"
    have "m = n \<Longrightarrow> j = old" using m c' n by simp
    moreover have "m \<noteq> n \<Longrightarrow> evicts (c_reg (cs ! m)) = Some j" using m regs by simp
    ultimately show "j < length cs \<and> c_id (cs ! j) = c_id (cs ! m) \<and> enrolled (cs ! j) \<and>
        (\<forall>k<length cs. c_id (cs ! k) = c_id (cs ! m) \<and> busy (cs ! k) \<longrightarrow> k = j)"
      using at only m(1) parts(4) unfolding evict_ok_def attached_def by (cases "m = n") blast+
  qed
  moreover have "pumps_ok ?cs" using parts(5) n c c' unfolding pumps_ok_def by (simp add: nth_list_update)
  moreover have "conns_ok ?cs cn" by (rule conns_same [OF n parts(1) wid]) (simp add: none attached_def)
  moreover have "phases_ok ?cs tr" by (rule trace_same [OF n parts(6) wid]) (simp_all add: none live_def falling_def)
  moreover have "told_ok ?cs tr" by (rule told_same [OF n parts(7) wid]) (simp_all add: none falling_def reported_def)
  ultimately show ?thesis using gate_moves [OF n parts(2) wid [symmetric] refl] by (simp add: reg_ok_def)
qed

lemma snoc_nth:
  assumes "k < length (cs @ [c])" and "P ((cs @ [c]) ! k)" and "\<not> P c"
  shows "k < length cs" and "(cs @ [c]) ! k = cs ! k"
proof -
  have "k \<noteq> length cs" using assms(2,3) by auto
  with assms(1) show "k < length cs" by simp
  then show "(cs @ [c]) ! k = cs ! k" by (simp add: nth_append)
qed

lemma conns_snoc:
  assumes "conns_ok cs cn" and "\<not> attached c"
  shows "conns_ok (cs @ [c]) cn"
proof -
  have "cn wid = Some k \<longleftrightarrow> k < length cs \<and> c_id (cs ! k) = wid \<and> attached (cs ! k)" for wid k
    using assms(1) unfolding conns_ok_def by blast
  then show ?thesis unfolding conns_ok_def using assms(2) snoc_nth [of _ cs c attached] by (auto simp: nth_append)
qed

lemma alone_snoc:
  assumes "alone_ok cs" and "\<not> busy c" and "\<not> reg_holds (c_reg c)"
  shows "alone_ok (cs @ [c])"
  unfolding alone_ok_def
proof (intro allI impI conjI)
  fix k m
  let ?d = "cs @ [c]"
  assume km: "k < length ?d" "m < length ?d" "c_id (?d ! k) = c_id (?d ! m)"
  { assume "busy (?d ! k) \<and> busy (?d ! m)"
    then show "k = m" using assms(1) km snoc_nth [of k cs c busy] snoc_nth [of m cs c busy] assms(2)
      unfolding alone_ok_def by simp }
  { assume "reg_holds (c_reg (?d ! k)) \<and> reg_holds (c_reg (?d ! m))"
    then show "k = m" using assms(1) km snoc_nth [of k cs c "reg_holds \<circ> c_reg"] snoc_nth [of m cs c "reg_holds \<circ> c_reg"] assms(3)
      unfolding alone_ok_def by simp }
qed

lemma evict_snoc:
  assumes "evict_ok cs" and "\<not> busy c" and "evicts (c_reg c) = None"
  shows "evict_ok (cs @ [c])"
  unfolding evict_ok_def
proof (intro allI impI)
  fix m old
  let ?d = "cs @ [c]"
  assume m: "m < length ?d" "evicts (c_reg (?d ! m)) = Some old"
  note m' = snoc_nth [of m cs c "\<lambda>c. evicts (c_reg c) = Some old", OF m]
  have *: "m < length cs" "?d ! m = cs ! m" using m' assms(3) by simp_all
  then have "evicts (c_reg (cs ! m)) = Some old" using m(2) by simp
  with assms(1) * have old: "old < length cs" "c_id (cs ! old) = c_id (cs ! m)" "enrolled (cs ! old)"
    "\<forall>k<length cs. c_id (cs ! k) = c_id (cs ! m) \<and> busy (cs ! k) \<longrightarrow> k = old" unfolding evict_ok_def by blast+
  have d_old: "?d ! old = cs ! old" "old < length ?d" using old(1) by (simp_all add: nth_append)
  have "\<forall>k<length ?d. c_id (?d ! k) = c_id (cs ! m) \<and> busy (?d ! k) \<longrightarrow> k = old"
    using old(4) snoc_nth [of _ cs c busy, OF _ _ assms(2)] by metis
  then show "old < length ?d \<and> c_id (?d ! old) = c_id (?d ! m) \<and> enrolled (?d ! old) \<and>
      (\<forall>k<length ?d. c_id (?d ! k) = c_id (?d ! m) \<and> busy (?d ! k) \<longrightarrow> k = old)"
    unfolding *(2) d_old(1) using d_old(2) old(2,3) by blast
qed

lemma new_socket:
  assumes "reg_ok cs cn gt tr" and c: "c_reg c = RegStart" "c_dis c = DisNone"
  shows "reg_ok (cs @ [c]) cn gt tr"
proof -
  have none: "\<not> busy c" "\<not> attached c" "\<not> live c" "\<not> falling c" "evicts (c_reg c) = None" "\<not> reg_holds (c_reg c)"
    using c by (simp_all add: core_defs)
  have "phase_ok wid cs p \<Longrightarrow> phase_ok wid (cs @ [c]) p" for wid p
    using none by (cases p) (auto simp: nth_append less_Suc_eq)
  then have "phases_ok cs tr \<Longrightarrow> phases_ok (cs @ [c]) tr" unfolding phases_ok_def by blast
  moreover have "told_ok cs tr \<Longrightarrow> told_ok (cs @ [c]) tr"
  proof -
    assume told: "told_ok cs tr"
    have "e \<notin> set tr" if "note_of e = length cs" for e using told that by (auto simp: told_ok_def)
    then have "told tr (length cs) c" using c by (simp add: told_def core_defs count_notin)
    with told show ?thesis by (auto simp: told_ok_def nth_append less_Suc_eq)
  qed
  moreover have "pumps_ok cs \<Longrightarrow> pumps_ok (cs @ [c])" using c unfolding pumps_ok_def by (simp add: nth_append less_Suc_eq)
  moreover have "gate_ok cs gt \<Longrightarrow> gate_ok (cs @ [c]) gt"
    using c unfolding gate_ok_def by (simp add: transitions_snoc holders_def dis_holds_def)
  ultimately show ?thesis using assms(1) conns_snoc [OF _ none(2)] alone_snoc [OF _ none(1,6)] evict_snoc [OF _ none(1,5)]
    by (simp add: reg_ok_def)
qed

section \<open>The server\<close>

text \<open>The output queue of a websocket is closed only when its cleanup has had the lock.\<close>

definition queue_ok :: "ws_sys \<Rightarrow> bool" where
  "queue_ok w \<longleftrightarrow> (chan_closed (w_outQueue (sock w)) \<longrightarrow> write_at w = WriteDone \<or> (\<exists>err. write_at w = Notifying err))"

definition so_ok :: "sv_socket \<Rightarrow> bool" where
  "so_ok x \<longleftrightarrow> queue_ok (so_ws x) \<and> (write_at (so_ws x) = WriteDone \<longleftrightarrow> so_dis x \<noteq> DisNone) \<and> (so_teardownDone x \<longleftrightarrow> so_dis x = DisDone)"

definition sv_view :: "sv_sys \<Rightarrow> bool" where
  "sv_view s \<longleftrightarrow> reg_ok (map core_of (sv_sockets s)) (map_of (sv_connections (srv s))) (\<lambda>wid. gate_of wid (srv s)) (sv_trace s)"

definition sv_ok :: "sv_sys \<Rightarrow> bool" where
  "sv_ok s \<longleftrightarrow> sv_view s \<and> list_all so_ok (sv_sockets s) \<and> sv_disconnectedHandler (srv s) \<and>
     gomap_ok (sv_connections (srv s))"

lemma core_of_simps [simp]:
  "c_id (core_of x) = so_id x" "c_reg (core_of x) = so_reg x" "c_dis (core_of x) = so_dis x"
  by (simp_all add: core_of_def)

lemma so_id_simps [simp]:
  "so_id (x\<lparr>so_reg := r\<rparr>) = so_id x" "so_id (x\<lparr>so_dis := d\<rparr>) = so_id x" "so_id (x\<lparr>so_msg := m\<rparr>) = so_id x"
  "so_id (x\<lparr>so_teardownDone := b\<rparr>) = so_id x" "so_id (x\<lparr>so_ws := w\<rparr>) = w_id (sock w)"
  by (simp_all add: so_id_def)

text \<open>The parts of the server that the invariant is about.\<close>

definition like :: "wsServer \<Rightarrow> wsServer \<Rightarrow> bool" where
  "like c c' \<longleftrightarrow> sv_connections c' = sv_connections c \<and> sv_gate c' = sv_gate c \<and> sv_disconnectedHandler c' = sv_disconnectedHandler c"

lemma like_gate: "like c c' \<Longrightarrow> gate_of wid c' = gate_of wid c"
  by (simp add: like_def gate_of_def)

lemma like_error: "like c (sv_error err c)"
  by (simp add: like_def sv_error_def)

lemma like_report: "like c (sv_report w w' c)"
proof -
  have "like c (fold sv_error es c)" for es
    by (induction es arbitrary: c) (auto simp: like_def sv_error_def)
  then show ?thesis by (simp add: sv_report_def)
qed

lemma gate_increment: "gate_of wid (incrementGate i c) = (if wid = i then gate_of i c + 1 else gate_of wid c)"
  by (simp add: gate_of_def incrementGate_def)

lemma gate_decrement: "gate_of wid (decrementGate i c) = (if wid = i then max 0 (gate_of i c - 1) else gate_of wid c)"
  by (auto simp: gate_of_def decrementGate_def Let_def max_def)

lemma gate_steps [simp]:
  "sv_connections (incrementGate i c) = sv_connections c" "sv_connections (decrementGate i c) = sv_connections c"
  "sv_disconnectedHandler (incrementGate i c) = sv_disconnectedHandler c"
  "sv_disconnectedHandler (decrementGate i c) = sv_disconnectedHandler c"
  by (simp_all add: incrementGate_def decrementGate_def Let_def)

text \<open>Steps of a websocket keep its identifier, and only the call of \<open>onClosed\<close> ends the write pump.\<close>

definition keeps_socket :: "ws_sys \<Rightarrow> ws_sys \<Rightarrow> bool" where
  "keeps_socket w w' \<longleftrightarrow> w_id (sock w') = w_id (sock w) \<and> (write_at w' = WriteDone \<longleftrightarrow> write_at w = WriteDone) \<and> queue_ok w'"

lemma w_id_views [simp]: "w_id (set_read_deadline now w) = w_id w" "w_id (write_frame f w) = w_id w"
  by (simp_all add: set_read_deadline_def write_frame_def)

lemmas keeps_defs = keeps_socket_def queue_ok_def then_ok_Some send_on_Some chan_send_def

lemma callers_keep:
  assumes "queue_ok w"
  shows "keeps_socket w (snd (WriteManual t d w))" and "keeps_socket w (snd (ws_Close ce w))"
    and "write_queued n w = Some (Returns w') \<Longrightarrow> keeps_socket w w'" and "write_aborted n w = Some (Returns w') \<Longrightarrow> keeps_socket w w'"
    and "close_queued n w = Some (Returns w') \<Longrightarrow> keeps_socket w w'" and "close_aborted n w = Some (Returns w') \<Longrightarrow> keeps_socket w w'"
  using assms by (auto simp: keeps_defs WriteManual_def ws_Close_def write_queued_def write_aborted_def
      close_queued_def close_aborted_def split: if_splits)

lemma readers_keep:
  assumes "queue_ok w"
  shows "readPump_start now w = Some (Returns w') \<Longrightarrow> keeps_socket w w'"
    and "readPump_message now d res w = Some (Returns w') \<Longrightarrow> keeps_socket w w'"
    and "readPump_failed err u w = Some (Returns w') \<Longrightarrow> keeps_socket w w'"
    and "onPing_enter d w = Some (Returns w') \<Longrightarrow> keeps_socket w w'" and "onPing now w = Some (Returns w') \<Longrightarrow> keeps_socket w w'"
    and "onPong_enter w = Some (Returns w') \<Longrightarrow> keeps_socket w w'" and "onPong now w = Some (Returns w') \<Longrightarrow> keeps_socket w w'"
  using assms by (auto simp: keeps_defs readPump_start_def readPump_message_def readPump_failed_def ws_onError_def Let_def
      onPing_enter_def onPing_def onPong_enter_def onPong_def split: if_splits option.splits read_pc.splits)

lemma pump_keeps:
  assumes "queue_ok w"
  shows "pump_tick res w = Some (Returns w') \<Longrightarrow> keeps_socket w w'" and "pump_pong res w = Some (Returns w') \<Longrightarrow> keeps_socket w w'"
    and "pump_message res w = Some (Returns w') \<Longrightarrow> keeps_socket w w'" and "pump_close res w = Some (Returns w') \<Longrightarrow> keeps_socket w w'"
    and "pump_force w = Some (Returns w') \<Longrightarrow> keeps_socket w w'" and "cleanup_signal w = Some (Returns w') \<Longrightarrow> keeps_socket w w'"
  using assms by (auto simp: keeps_defs pump_tick_def pump_pong_def pump_message_def pump_close_def pump_force_def
      cleanup_signal_def pump_write_def ws_onError_def chan_recv_def Let_def split: if_splits option.splits list.splits write_pc.splits)

lemma cleanup_keeps:
  "cleanup_locked w = Some (Returns w') \<Longrightarrow> keeps_socket w w'"
  by (auto simp: keeps_defs cleanup_locked_def close_channels_def split: if_splits outcome.splits write_pc.splits)

lemma ws_step_keeps: "queue_ok w \<Longrightarrow> ws_step now e w = Some (Returns w') \<Longrightarrow> e \<noteq> EvNotify \<Longrightarrow> keeps_socket w w'"
  by (cases e) (auto dest: callers_keep readers_keep pump_keeps cleanup_keeps)

lemma ws_notify_ends:
  "ws_step now EvNotify w = Some (Returns w') \<Longrightarrow>
     write_at w \<noteq> WriteDone \<and> write_at w' = WriteDone \<and> w_id (sock w') = w_id (sock w) \<and> queue_ok w'"
  by (auto simp: cleanup_notify_def queue_ok_def split: write_pc.splits)

section \<open>Steps of the server\<close>

lemma sv_okI:
  assumes "sv_ok s" and "sv_sockets s' = (sv_sockets s)[n := x']" and "so_ok x'"
    and "sv_disconnectedHandler (srv s') = sv_disconnectedHandler (srv s)"
    and "reg_ok ((map core_of (sv_sockets s))[n := core_of x']) (map_of (sv_connections (srv s'))) (\<lambda>wid. gate_of wid (srv s'))
      (sv_trace s')"
    and "gomap_ok (sv_connections (srv s)) \<Longrightarrow> gomap_ok (sv_connections (srv s'))"
  shows "sv_ok s'"
  using assms set_update_subset_insert [of "sv_sockets s" n x']
  by (auto simp: sv_ok_def sv_view_def map_update list_all_iff)

lemma sv_ok_socket:
  assumes "sv_ok s" and "n < length (sv_sockets s)"
  shows "so_ok (sv_sockets s ! n)"
    and "so_reg (sv_sockets s ! n) \<noteq> RegNotify \<Longrightarrow> so_reg (sv_sockets s ! n) \<noteq> RegServed \<Longrightarrow> so_dis (sv_sockets s ! n) = DisNone"
  using assms by (auto simp: sv_ok_def sv_view_def reg_ok_def pumps_ok_def list_all_length)

text \<open>Notes of no consequence for the invariant.\<close>

definition quietly :: "nat \<Rightarrow> sv_note list \<Rightarrow> sv_note list \<Rightarrow> bool" where
  "quietly k tr tr' \<longleftrightarrow> tr' = tr \<or> (\<exists>i n d. n < k \<and> (tr' = tr @ [NewClient i n] \<or> tr' = tr @ [Delivered i n d]))"

lemma track_quiet: "track wid (tr @ [NewClient i n]) = track wid tr" "track wid (tr @ [Delivered i n d]) = track wid tr"
  by (auto simp: track_snoc bind_eq_None_conv split: Option.bind_splits)

lemma quiet_reg_ok:
  assumes "reg_ok cs cn gt tr" and "quietly (length cs) tr tr'" and "\<And>wid. gt' wid = gt wid"
  shows "reg_ok cs cn gt' tr'"
proof -
  have "gt' = gt" using assms(3) by blast
  moreover have "track wid tr' = track wid tr" for wid using assms(2) by (auto simp: quietly_def track_quiet)
  moreover have "told tr' n c = told tr n c" for n c using assms(2) by (auto simp: quietly_def told_def)
  moreover have "(\<forall>e\<in>set tr'. note_of e < length cs) \<longleftrightarrow> (\<forall>e\<in>set tr. note_of e < length cs)"
    using assms(2) by (auto simp: quietly_def)
  ultimately show ?thesis using assms(1) by (simp add: reg_ok_def phases_ok_def told_ok_def)
qed

lemma calm_ok:
  assumes ok: "sv_ok s" and n: "n < length (sv_sockets s)" and x: "x = sv_sockets s ! n"
    and s': "sv_sockets s' = (sv_sockets s)[n := x']" "so_ok x'"
    and c: "sv_disconnectedHandler (srv s') = sv_disconnectedHandler (srv s)" "sv_connections (srv s') = sv_connections (srv s)"
      "\<And>wid. gate_of wid (srv s') = moves (so_id x) (core_of x) (core_of x') (\<lambda>w. gate_of w (srv s)) wid"
    and core: "calmer (core_of x) (core_of x')" "attached (core_of x') = attached (core_of x)"
      "live (core_of x') = live (core_of x)" "falling (core_of x') = falling (core_of x)"
      "enrolled (core_of x') = enrolled (core_of x)" "reported (core_of x') = reported (core_of x)"
    and tr: "quietly (length (sv_sockets s)) (sv_trace s) (sv_trace s')"
  shows "sv_ok s'"
proof (rule sv_okI [OF ok s' c(1)])
  let ?cs = "map core_of (sv_sockets s)"
  have "so_id x' = so_id x" using core(1) by (simp add: calmer_def)
  moreover have "reg_ok (?cs[n := core_of x']) (map_of (sv_connections (srv s)))
      (moves (c_id (core_of x')) (?cs ! n) (core_of x') (\<lambda>w. gate_of w (srv s))) (sv_trace s)"
    using ok n core by (intro calm_step) (simp_all add: sv_ok_def sv_view_def x)
  ultimately have reg: "reg_ok (?cs[n := core_of x']) (map_of (sv_connections (srv s')))
      (moves (so_id x) (core_of x) (core_of x') (\<lambda>w. gate_of w (srv s))) (sv_trace s)" using n x c(2) by simp
  show "reg_ok (?cs[n := core_of x']) (map_of (sv_connections (srv s'))) (\<lambda>wid. gate_of wid (srv s')) (sv_trace s')"
    by (rule quiet_reg_ok [OF reg]) (simp_all add: tr c(3))
qed (simp add: c(2))

lemma moves_same: "holders wid c' = holders wid c \<Longrightarrow> moves wid c c' gt = gt"
  by (auto simp: moves_def)

text \<open>A step that leaves the positions of the socket as they are.\<close>

lemma same_ok:
  assumes ok: "sv_ok s" and n: "n < length (sv_sockets s)" and x: "x = sv_sockets s ! n"
    and s': "sv_sockets s' = (sv_sockets s)[n := x']" "so_ok x'" and c: "like (srv s) (srv s')"
    and core: "core_of x' = core_of x" and tr: "quietly (length (sv_sockets s)) (sv_trace s) (sv_trace s')"
  shows "sv_ok s'"
proof (rule calm_ok [OF ok n x s' _ _ _ _ _ _ _ _ _ tr])
  show "sv_disconnectedHandler (srv s') = sv_disconnectedHandler (srv s)" "sv_connections (srv s') = sv_connections (srv s)"
    using c by (simp_all add: like_def)
  show "gate_of wid (srv s') = moves (so_id x) (core_of x) (core_of x') (\<lambda>w. gate_of w (srv s)) wid" for wid
    using like_gate [OF c] core by (simp add: moves_same)
  show "calmer (core_of x) (core_of x')"
    using core sv_ok_socket(2) [OF ok n] x by (auto simp: calmer_def)
qed (simp_all add: core)

lemma srv_ok:
  assumes "sv_ok s" and "like (srv s) c"
  shows "sv_ok (s\<lparr>srv := c\<rparr>)"
proof -
  have "(\<lambda>wid. gate_of wid c) = (\<lambda>wid. gate_of wid (srv s))" using like_gate [OF assms(2)] by blast
  with assms show ?thesis by (simp add: sv_ok_def sv_view_def like_def)
qed

lemma gate_pos:
  assumes "sv_ok s" and "n < length (sv_sockets s)" and "reg_holds (so_reg (sv_sockets s ! n)) \<or> dis_holds (so_dis (sv_sockets s ! n))"
  shows "1 \<le> gate_of (so_id (sv_sockets s ! n)) (srv s)"
proof (rule ccontr)
  let ?cs = "map core_of (sv_sockets s)" and ?w = "so_id (sv_sockets s ! n)"
  assume "\<not> ?thesis"
  moreover have "gate_of ?w (srv s) = transitions ?w ?cs" using assms(1) by (simp add: sv_ok_def sv_view_def reg_ok_def gate_ok_def)
  ultimately have "transitions ?w ?cs \<le> 0" by simp
  from transitions_zero [OF this, of n] assms(2,3) show False by simp
qed

lemmas step_defs = at_socket_def set_socket_def note_event_def calmer_def holders_def moves_def core_defs so_ok_def

lemma at_socket_Some:
  "at_socket n f s = Some r \<longleftrightarrow> n < length (sv_sockets s) \<and> f (sv_sockets s ! n) = Some r"
  by (simp add: at_socket_def)

lemma reject_ok:
  assumes "sv_ok s" and "n < length (sv_sockets s)" and "x = sv_sockets s ! n"
    and "so_reg x = RegStart \<and> pc = RegRejected \<or> (\<exists>old. so_reg x = RegAwait old) \<and> pc = RegLeave False"
  shows "sv_ok (reject_socket m r pc n x s)"
proof -
  let ?w = "(so_ws x)\<lparr>sock := (sock (so_ws x))\<lparr>w_conn := rejectConnection ClosePolicyViolation r (w_conn (sock (so_ws x)))\<rparr>\<rparr>"
  have dis: "so_dis x = DisNone" "so_ok x" using sv_ok_socket [OF assms(1,2)] assms(3,4) by auto
  note like = like_error [of "srv s" "Errorf m"]
  show ?thesis
  proof (rule calm_ok [OF assms(1-3), where x' = "x\<lparr>so_reg := pc, so_ws := ?w\<rparr>"])
    show "so_ok (x\<lparr>so_reg := pc, so_ws := ?w\<rparr>)" using dis(2) by (auto simp: so_ok_def queue_ok_def)
    show "gate_of wid (srv (reject_socket m r pc n x s)) =
        moves (so_id x) (core_of x) (core_of (x\<lparr>so_reg := pc, so_ws := ?w\<rparr>)) (\<lambda>w. gate_of w (srv s)) wid" for wid
      using assms(4) like_gate [OF like, of wid]
      by (subst moves_same) (auto simp: reject_socket_def set_socket_def holders_def so_id_def)
  qed (use assms(4) dis like in \<open>auto simp: reject_socket_def set_socket_def like_def calmer_def core_defs so_id_def quietly_def\<close>)
qed

lemma add_connection_ok:
  assumes ok: "sv_ok s" and n: "n < length (sv_sockets s)" and x: "x = sv_sockets s ! n"
    and pc: "so_reg x = RegStart \<and> pc = RegRun \<or> (\<exists>old. so_reg x = RegAwait old) \<and> pc = RegLeave True"
    and free: "free_for (so_id x) n (map core_of (sv_sockets s))"
  shows "sv_ok (add_connection n pc x s)"
proof (rule sv_okI [OF ok, of _ n "x\<lparr>so_reg := pc\<rparr>"])
  let ?cs = "map core_of (sv_sockets s)" and ?x = "x\<lparr>so_reg := pc\<rparr>"
  have dis: "so_dis x = DisNone" "so_ok x" using sv_ok_socket [OF ok n] x pc by auto
  show "so_ok ?x" using dis(2) by (simp add: so_ok_def)
  have holds: "holders (so_id x) (core_of ?x) = holders (so_id x) (core_of x)" using pc dis(1) by (auto simp: holders_def)
  have "reg_ok (?cs[n := core_of ?x]) ((map_of (sv_connections (srv s)))(so_id x \<mapsto> n))
      (moves (so_id x) (core_of x) (core_of ?x) (\<lambda>w. gate_of w (srv s))) (sv_trace s @ [Registered (so_id x) n])"
    using register_step [of ?cs _ _ _ n "core_of ?x"] ok n x free pc dis(1) by (auto simp: sv_ok_def sv_view_def enrolled_def)
  then show "reg_ok (?cs[n := core_of ?x]) (map_of (sv_connections (srv (add_connection n pc x s))))
      (\<lambda>wid. gate_of wid (srv (add_connection n pc x s))) (sv_trace (add_connection n pc x s))"
    using moves_same [OF holds] by (simp add: add_connection_def set_socket_def note_event_def gate_of_def)
qed (simp_all add: add_connection_def set_socket_def note_event_def)

lemma evict_begin_ok:
  assumes ok: "sv_ok s" and n: "n < length (sv_sockets s)" and x: "x = sv_sockets s ! n" and start: "so_reg x = RegStart"
    and gate: "\<not> gate_of (so_id x) (srv s) > 0" and old: "map_of (sv_connections (srv s)) (so_id x) = Some old"
    and s': "s' = set_socket n (x\<lparr>so_reg := RegEvict old\<rparr>) (s\<lparr>srv := incrementGate (so_id x) (srv s)\<rparr>)"
  shows "sv_ok s'"
proof (rule sv_okI [OF ok, of _ n "x\<lparr>so_reg := RegEvict old\<rparr>"])
  let ?cs = "map core_of (sv_sockets s)" and ?x = "x\<lparr>so_reg := RegEvict old\<rparr>"
  have dis: "so_dis x = DisNone" "so_ok x" using sv_ok_socket [OF ok n] start x by auto
  have reg: "reg_ok ?cs (map_of (sv_connections (srv s))) (\<lambda>w. gate_of w (srv s)) (sv_trace s)"
    using ok by (simp add: sv_ok_def sv_view_def)
  have "core_of ?x = (?cs ! n)\<lparr>c_reg := RegEvict old\<rparr>" using n by (simp add: core_of_def x so_id_def)
  from evict_start [OF reg _ _ _ _ _ this] n start dis(1) gate old
  have "reg_ok (?cs[n := core_of ?x]) (map_of (sv_connections (srv s)))
      (moves (so_id x) (core_of x) (core_of ?x) (\<lambda>w. gate_of w (srv s))) (sv_trace s)"
    by (simp add: x)
  moreover have "moves (so_id x) (core_of x) (core_of ?x) (\<lambda>w. gate_of w (srv s)) = (\<lambda>w. gate_of w (srv s'))"
    using start dis(1) by (auto simp: moves_def holders_def dis_holds_def gate_increment s' set_socket_def)
  ultimately show "reg_ok (?cs[n := core_of ?x]) (map_of (sv_connections (srv s'))) (\<lambda>w. gate_of w (srv s')) (sv_trace s')"
    by (simp add: s' set_socket_def)
  show "so_ok ?x" using dis(2) by (simp add: so_ok_def)
qed (simp_all add: s' set_socket_def)

lemma free_first:
  assumes "sv_ok s" and "\<not> gate_of wid (srv s) > 0" and "map_of (sv_connections (srv s)) wid = None"
  shows "free_for wid n (map core_of (sv_sockets s))"
  unfolding free_for_def
proof (intro allI impI)
  let ?cs = "map core_of (sv_sockets s)"
  fix m
  assume m: "m < length ?cs" "c_id (?cs ! m) = wid"
  have reg: "conns_ok ?cs (map_of (sv_connections (srv s)))" "transitions wid ?cs \<le> 0"
    using assms(1,2) by (auto simp: sv_ok_def sv_view_def reg_ok_def gate_ok_def)
  have "\<not> attached (?cs ! m)" using reg(1) assms(3) m unfolding conns_ok_def by (metis option.distinct(1))
  with transitions_zero [OF reg(2) m] show "\<not> busy (?cs ! m) \<and> (reg_holds (c_reg (?cs ! m)) \<longrightarrow> m = n)"
    by (cases "c_dis (?cs ! m)") (auto simp: core_defs)
qed

lemma register_first_cases:
  assumes "register_first n s = Some (Returns s')"
  defines "x \<equiv> sv_sockets s ! n"
  shows "n < length (sv_sockets s) \<and> so_reg x = RegStart \<and>
    ((\<exists>m r. s' = reject_socket m r RegRejected n x s) \<or>
     \<not> gate_of (so_id x) (srv s) > 0 \<and> map_of (sv_connections (srv s)) (so_id x) = None \<and> s' = add_connection n RegRun x s \<or>
     \<not> gate_of (so_id x) (srv s) > 0 \<and> (\<exists>old. map_of (sv_connections (srv s)) (so_id x) = Some old \<and>
       s' = set_socket n (x\<lparr>so_reg := RegEvict old\<rparr>) (s\<lparr>srv := incrementGate (so_id x) (srv s)\<rparr>)))"
  using assms(1) unfolding register_first_def at_socket_Some x_def [symmetric]
  by (simp split: if_splits option.splits) blast+

lemma register_first_ok:
  assumes ok: "sv_ok s" and "register_first n s = Some (Returns s')"
  shows "sv_ok s'"
proof -
  let ?x = "sv_sockets s ! n"
  note c = register_first_cases [OF assms(2)]
  then have n: "n < length (sv_sockets s)" and start: "so_reg ?x = RegStart" by simp_all
  from c show ?thesis
  proof (elim conjE disjE exE)
    fix m r
    assume "s' = reject_socket m r RegRejected n ?x s"
    with reject_ok [OF ok n refl, of RegRejected m r] start show ?thesis by simp
  next
    assume "\<not> gate_of (so_id ?x) (srv s) > 0" "map_of (sv_connections (srv s)) (so_id ?x) = None" "s' = add_connection n RegRun ?x s"
    with add_connection_ok [OF ok n refl, of RegRun] free_first [OF ok, of _ n] start show ?thesis by simp
  next
    fix old
    assume "\<not> gate_of (so_id ?x) (srv s) > 0" "map_of (sv_connections (srv s)) (so_id ?x) = Some old"
      "s' = set_socket n (?x\<lparr>so_reg := RegEvict old\<rparr>) (s\<lparr>srv := incrementGate (so_id ?x) (srv s)\<rparr>)"
    then show ?thesis by (rule evict_begin_ok [OF ok n refl start])
  qed
qed

lemma free_second:
  assumes "sv_ok s" and "n < length (sv_sockets s)" and "so_reg (sv_sockets s ! n) = RegAwait old"
    and "so_teardownDone (sv_sockets s ! old)"
  shows "free_for (so_id (sv_sockets s ! n)) n (map core_of (sv_sockets s))"
  unfolding free_for_def
proof (intro allI impI conjI)
  let ?cs = "map core_of (sv_sockets s)"
  fix m
  assume m: "m < length ?cs" "c_id (?cs ! m) = so_id (sv_sockets s ! n)"
  have reg: "alone_ok ?cs" "evict_ok ?cs" using assms(1) by (auto simp: sv_ok_def sv_view_def reg_ok_def)
  have me: "n < length ?cs" "evicts (c_reg (?cs ! n)) = Some old" "reg_holds (c_reg (?cs ! n))" "c_id (?cs ! m) = c_id (?cs ! n)"
    using assms(2,3) m by simp_all
  then have old: "old < length ?cs" and only: "busy (?cs ! m) \<longrightarrow> m = old"
    using reg(2) m(1) unfolding evict_ok_def by blast+
  have "so_dis (sv_sockets s ! old) = DisDone" using sv_ok_socket(1) [OF assms(1), of old] old assms(4) by (simp add: so_ok_def)
  then have "\<not> busy (?cs ! old)" using old by (simp add: core_defs)
  with only show "\<not> busy (?cs ! m)" by metis
  show "reg_holds (c_reg (?cs ! m)) \<Longrightarrow> m = n" using reg(1) me m(1) unfolding alone_ok_def by blast
qed

lemma register_second_ok:
  assumes ok: "sv_ok s" and step: "register_second n s = Some (Returns s')"
  shows "sv_ok s'"
proof -
  let ?x = "sv_sockets s ! n"
  from step obtain old where n: "n < length (sv_sockets s)" and old: "so_reg ?x = RegAwait old" "so_teardownDone (sv_sockets s ! old)"
    by (auto simp: register_second_def at_socket_Some split: reg_pc.splits if_splits)
  have "(\<exists>m r. s' = reject_socket m r (RegLeave False) n ?x s) \<or> s' = add_connection n (RegLeave True) ?x s"
    using step old by (auto simp: register_second_def at_socket_Some split: if_splits)
  with reject_ok [OF ok n refl] add_connection_ok [OF ok n refl _ free_second [OF ok n old]] old(1) show ?thesis by blast
qed

lemma register_timeout_ok:
  assumes ok: "sv_ok s" and step: "register_timeout n s = Some (Returns s')"
  shows "sv_ok s'"
proof -
  from step obtain old m r where "n < length (sv_sockets s)" "so_reg (sv_sockets s ! n) = RegAwait old"
    "s' = reject_socket m r (RegLeave False) n (sv_sockets s ! n) s"
    by (auto simp: register_timeout_def at_socket_Some split: reg_pc.splits)
  with reject_ok [OF ok _ refl] show ?thesis by blast
qed

lemma register_leave_ok:
  assumes ok: "sv_ok s" and step: "register_leave n s = Some (Returns s')"
  shows "sv_ok s'"
proof -
  define x where "x = sv_sockets s ! n"
  from step obtain b where n: "n < length (sv_sockets s)" and b: "so_reg x = RegLeave b"
    and s': "s' = set_socket n (x\<lparr>so_reg := (if b then RegRun else RegRejected)\<rparr>) (s\<lparr>srv := decrementGate (so_id x) (srv s)\<rparr>)"
    by (auto simp: register_leave_def at_socket_Some x_def split: reg_pc.splits)
  have dis: "so_dis x = DisNone" "so_ok x" using sv_ok_socket [OF ok n] b x_def by auto
  have "1 \<le> gate_of (so_id x) (srv s)" using gate_pos [OF ok n] b by (simp add: x_def)
  then show ?thesis
    by (intro calm_ok [OF ok n x_def, where x' = "x\<lparr>so_reg := (if b then RegRun else RegRejected)\<rparr>"])
      (use dis b in \<open>auto simp: s' set_socket_def so_ok_def moves_def gate_decrement holders_def calmer_def core_defs quietly_def\<close>)
qed

lemma wsHandler_run_ok:
  assumes ok: "sv_ok s" and step: "wsHandler_run n s = Some (Returns s')"
  shows "sv_ok s'"
proof -
  define x where "x = sv_sockets s ! n"
  from step have n: "n < length (sv_sockets s)" and b: "so_reg x = RegRun" and s': "s' = set_socket n (x\<lparr>so_reg := RegNotify\<rparr>) s"
    by (auto simp: wsHandler_run_def at_socket_Some x_def split: if_splits)
  have dis: "so_dis x = DisNone" "so_ok x" using sv_ok_socket [OF ok n] b x_def by auto
  show ?thesis
    by (rule calm_ok [OF ok n x_def, where x' = "x\<lparr>so_reg := RegNotify\<rparr>"])
      (use dis b in \<open>auto simp: s' set_socket_def so_ok_def moves_def holders_def calmer_def core_defs quietly_def\<close>)
qed

lemma wsHandler_notify_ok:
  assumes ok: "sv_ok s" and step: "wsHandler_notify n s = Some (Returns s')"
  shows "sv_ok s'"
proof -
  define x where "x = sv_sockets s ! n"
  from step have n: "n < length (sv_sockets s)" and b: "so_reg x = RegNotify"
    and s': "sv_sockets s' = (sv_sockets s)[n := x\<lparr>so_reg := RegServed\<rparr>]" "srv s' = srv s" "quietly (length (sv_sockets s)) (sv_trace s) (sv_trace s')"
    by (auto simp: wsHandler_notify_def at_socket_Some x_def set_socket_def note_event_def Let_def quietly_def split: if_splits)
  have "so_ok x" using sv_ok_socket [OF ok n] x_def by auto
  then show ?thesis
    by (intro calm_ok [OF ok n x_def s'(1)]) (use b s'(2,3) in \<open>auto simp: so_ok_def moves_def holders_def calmer_def core_defs quietly_def\<close>)
qed

text \<open>Steps of the websocket of a socket.\<close>

lemma socket_step_ok:
  assumes ok: "sv_ok s" and n: "n < length (sv_sockets s)" and w: "keeps_socket (so_ws (sv_sockets s ! n)) w"
    and s': "sv_sockets s' = (sv_sockets s)[n := (sv_sockets s ! n)\<lparr>so_msg := m, so_ws := w\<rparr>]"
    and like: "like (srv s) (srv s')" and tr: "quietly (length (sv_sockets s)) (sv_trace s) (sv_trace s')"
  shows "sv_ok s'"
proof -
  let ?x = "sv_sockets s ! n"
  have "core_of (?x\<lparr>so_msg := m, so_ws := w\<rparr>) = core_of ?x" "so_ok (?x\<lparr>so_msg := m, so_ws := w\<rparr>)"
    using w sv_ok_socket(1) [OF ok n] by (auto simp: core_of_def so_id_def so_ok_def keeps_socket_def)
  from same_ok [OF ok n refl s' this(2) like this(1) tr] show ?thesis .
qed

lemma ws_of_ok: "sv_ok s \<Longrightarrow> n < length (sv_sockets s) \<Longrightarrow> queue_ok (so_ws (sv_sockets s ! n))"
  using sv_ok_socket(1) by (simp add: so_ok_def)

lemma plain_step_ok:
  assumes ok: "sv_ok s" and n: "n < length (sv_sockets s)" and w: "keeps_socket (so_ws (sv_sockets s ! n)) w" and like: "like (srv s) c"
  shows "sv_ok (set_socket n ((sv_sockets s ! n)\<lparr>so_ws := w\<rparr>) (s\<lparr>srv := c\<rparr>))"
  by (rule socket_step_ok [OF ok n w, where m = "so_msg (sv_sockets s ! n)"]) (simp_all add: set_socket_def like quietly_def)

lemma socket_event_ok:
  assumes ok: "sv_ok s" and step: "socket_event now n e s = Some (Returns s')"
  shows "sv_ok s'"
proof -
  let ?x = "sv_sockets s ! n"
  have "e \<noteq> EvNotify" using step by (auto simp: socket_event_def at_socket_Some split: if_splits)
  moreover from step obtain w where n: "n < length (sv_sockets s)" and w: "ws_step now e (so_ws ?x) = Some (Returns w)"
    and s': "s' = set_socket n (?x\<lparr>so_ws := w\<rparr>) (s\<lparr>srv := sv_report (so_ws ?x) w (srv s)\<rparr>)"
    by (auto simp: socket_event_def at_socket_Some socket_step_def then_ok_Some split: if_splits)
  ultimately have "keeps_socket (so_ws ?x) w" using ws_step_keeps [OF ws_of_ok [OF ok n] w] by simp
  from plain_step_ok [OF ok n this like_report] s' show ?thesis by simp
qed

lemma handleMessage_check_ok:
  assumes ok: "sv_ok s" and step: "handleMessage_check now n d s = Some (Returns s')"
  shows "sv_ok s'"
proof -
  let ?x = "sv_sockets s ! n"
  from step have n: "n < length (sv_sockets s)" by (simp add: handleMessage_check_def at_socket_Some)
  have so: "so_ok ?x" by (rule sv_ok_socket(1) [OF ok n])
  have "s' = set_socket n (?x\<lparr>so_msg := Some d\<rparr>) s \<or>
      (\<exists>w. ws_step now (EvMessage d None) (so_ws ?x) = Some (Returns w) \<and>
        s' = set_socket n (?x\<lparr>so_ws := w\<rparr>) (s\<lparr>srv := sv_report (so_ws ?x) w (srv s)\<rparr>))"
    using step by (auto simp: handleMessage_check_def at_socket_Some socket_step_def then_ok_Some simp del: ws_step.simps split: if_splits)
  then show ?thesis
  proof (elim disjE exE conjE)
    assume "s' = set_socket n (?x\<lparr>so_msg := Some d\<rparr>) s"
    then show ?thesis
      by (intro same_ok [OF ok n refl, of _ "?x\<lparr>so_msg := Some d\<rparr>"])
        (use so in \<open>simp_all add: set_socket_def so_ok_def like_def core_of_def quietly_def\<close>)
  next
    fix w
    assume w: "ws_step now (EvMessage d None) (so_ws ?x) = Some (Returns w)"
      and s': "s' = set_socket n (?x\<lparr>so_ws := w\<rparr>) (s\<lparr>srv := sv_report (so_ws ?x) w (srv s)\<rparr>)"
    have "keeps_socket (so_ws ?x) w" by (rule ws_step_keeps [OF ws_of_ok [OF ok n] w]) simp
    from plain_step_ok [OF ok n this like_report] s' show ?thesis by simp
  qed
qed

lemma handleMessage_handler_ok:
  assumes ok: "sv_ok s" and step: "handleMessage_handler now n res s = Some (Returns s')"
  shows "sv_ok s'"
proof -
  let ?x = "sv_sockets s ! n"
  have "\<exists>d res' w. n < length (sv_sockets s) \<and> ws_step now (EvMessage d res') (so_ws ?x) = Some (Returns w) \<and>
      sv_sockets s' = (sv_sockets s)[n := ?x\<lparr>so_msg := None, so_ws := w\<rparr>] \<and> srv s' = sv_report (so_ws ?x) w (srv s) \<and>
      quietly (length (sv_sockets s)) (sv_trace s) (sv_trace s')"
    using step by (auto simp: quietly_def handleMessage_handler_def at_socket_Some socket_step_def set_socket_def then_ok_Some Let_def note_event_def
        simp del: ws_step.simps split: if_splits option.splits) blast+
  then obtain d res' w where n: "n < length (sv_sockets s)" and w: "ws_step now (EvMessage d res') (so_ws ?x) = Some (Returns w)"
    and s': "sv_sockets s' = (sv_sockets s)[n := ?x\<lparr>so_msg := None, so_ws := w\<rparr>]" "srv s' = sv_report (so_ws ?x) w (srv s)"
      "quietly (length (sv_sockets s)) (sv_trace s) (sv_trace s')" by blast
  have "keeps_socket (so_ws ?x) w" by (rule ws_step_keeps [OF ws_of_ok [OF ok n] w]) simp
  from socket_step_ok [OF ok n this s'(1)] s'(2,3) like_report show ?thesis by simp
qed

lemma close_call_keeps:
  "queue_ok w \<Longrightarrow> close_call aborted ce w = Some (Returns (err, w')) \<Longrightarrow> keeps_socket w w'"
  by (auto simp: close_call_def ws_Close_def keeps_defs close_queued_def close_aborted_def split: if_splits)

lemma register_evict_ok:
  assumes ok: "sv_ok s" and step: "register_evict n aborted s = Some (Returns s')"
  shows "sv_ok s'"
proof -
  define x where "x = sv_sockets s ! n"
  from step obtain old err w where n: "n < length (sv_sockets s)" and x: "so_reg x = RegEvict old" and old: "old < length (sv_sockets s)"
    and w: "close_call aborted (ClosePolicyViolation, ''reconnected'') (so_ws (sv_sockets s ! old)) = Some (Returns (err, w))"
    and s': "s' = set_socket n (x\<lparr>so_reg := RegAwait old\<rparr>) (set_socket old ((sv_sockets s ! old)\<lparr>so_ws := w\<rparr>) s)"
    by (auto simp: register_evict_def at_socket_Some then_ok_Some x_def split: reg_pc.splits)
  let ?s = "set_socket old ((sv_sockets s ! old)\<lparr>so_ws := w\<rparr>) s"
  have "keeps_socket (so_ws (sv_sockets s ! old)) w" by (rule close_call_keeps [OF ws_of_ok [OF ok old] w])
  from plain_step_ok [OF ok old this, of "srv s"] have ok': "sv_ok ?s" by (simp add: like_def)
  let ?cs = "map core_of (sv_sockets s)"
  have "evict_ok ?cs" "n < length ?cs" "evicts (c_reg (?cs ! n)) = Some old"
    using ok n x by (simp_all add: sv_ok_def sv_view_def reg_ok_def x_def)
  then have "enrolled (?cs ! old)" unfolding evict_ok_def by blast
  then have "enrolled (core_of (sv_sockets s ! old))" using old by simp
  then have "old \<noteq> n" using x by (auto simp: x_def enrolled_def)
  then have n': "n < length (sv_sockets ?s)" "x = sv_sockets ?s ! n" using n by (simp_all add: set_socket_def x_def)
  have dis: "so_dis x = DisNone" "so_ok x" using sv_ok_socket [OF ok n] x x_def by auto
  show ?thesis unfolding s'
    by (rule calm_ok [OF ok' n', where x' = "x\<lparr>so_reg := RegAwait old\<rparr>"])
      (use dis x in \<open>auto simp: set_socket_def so_ok_def moves_def holders_def calmer_def core_defs quietly_def\<close>)
qed

end
