(* ===== verification/Ws_Lifecycle.thy ===== *)
theory Ws_Lifecycle
  imports Ws_Registry
begin

text \<open>
  The life of a connection of the websocket server: its teardown and the methods of the server keep the
  invariant of the registry, and what follows from it for the callbacks of the upper layer.
\<close>

section \<open>Disconnecting\<close>

lemma disconnect_start_ok:
  assumes ok: "sv_ok s" and step: "disconnect_start n s = Some (Returns s')"
  shows "sv_ok s'"
proof -
  define x where "x = sv_sockets s ! n"
  from step obtain w where n: "n < length (sv_sockets s)" and run: "pumps_run x" and w: "ws_step 0 EvNotify (so_ws x) = Some (Returns w)"
    and s': "s' = set_socket n (x\<lparr>so_dis := DisRemove, so_ws := w\<rparr>) (s\<lparr>srv := sv_report (so_ws x) w (srv s)\<rparr>)"
    by (auto simp: disconnect_start_def at_socket_Some socket_step_def then_ok_Some x_def simp del: ws_step.simps split: if_splits)
  have dis: "so_dis x = DisNone" "so_ok x" using sv_ok_socket(1) [OF ok n] ws_notify_ends [OF w] by (auto simp: so_ok_def x_def)
  note like = like_report [of "srv s" "so_ws x" w]
  show ?thesis
  proof (rule calm_ok [OF ok n x_def, where x' = "x\<lparr>so_dis := DisRemove, so_ws := w\<rparr>"])
    show "gate_of wid (srv s') = moves (so_id x) (core_of x) (core_of (x\<lparr>so_dis := DisRemove, so_ws := w\<rparr>)) (\<lambda>w. gate_of w (srv s)) wid" for wid
      using like_gate [OF like, of wid] dis(1) ws_notify_ends [OF w]
      by (subst moves_same) (auto simp: s' set_socket_def holders_def dis_holds_def so_id_def)
  qed (use dis run ws_notify_ends [OF w] like in
      \<open>auto simp: s' set_socket_def so_ok_def like_def calmer_def core_defs pumps_run_def so_id_def quietly_def\<close>)
qed

lemma removed_step:
  assumes "reg_ok cs cn gt tr" and n: "n < length cs" and c: "attached (cs ! n)" "c_dis (cs ! n) = DisRemove"
    and c': "c' = (cs ! n)\<lparr>c_dis := DisRecheck\<rparr>"
  shows "reg_ok (cs[n := c']) (cn(c_id c' := None)) (moves (c_id c') (cs ! n) c' gt) tr"
proof -
  have pumps: "c_reg (cs ! n) = RegNotify \<or> c_reg (cs ! n) = RegServed"
    using assms(1) n c(2) by (simp add: reg_ok_def pumps_ok_def)
  have calm: "calmer (cs ! n) c'" and wid: "c_id c' = c_id (cs ! n)" using c c' pumps by (auto simp: calmer_def core_defs)
  have "\<not> attached c'" "live c' = live (cs ! n)" "falling c' = falling (cs ! n)" "enrolled c' = enrolled (cs ! n)"
    "reported c' = reported (cs ! n)" using c c' by (auto simp: core_defs)
  with assms(1) show ?thesis
    using calmer_rest [OF n calm] conns_remove [OF n _ wid c(1)] trace_same [OF n _ wid] told_same [OF n _ wid] gate_moves [OF n _ wid [symmetric] refl]
    by (simp add: reg_ok_def)
qed

lemma disconnect_remove_ok:
  assumes ok: "sv_ok s" and step: "disconnect_remove n s = Some (Returns s')"
  shows "sv_ok s'"
proof -
  define x where "x = sv_sockets s ! n"
  let ?cs = "map core_of (sv_sockets s)" and ?x = "x\<lparr>so_dis := DisRecheck\<rparr>"
  from step have n: "n < length (sv_sockets s)" and dis: "so_dis x = DisRemove"
    by (auto simp: disconnect_remove_def at_socket_Some x_def split: if_splits)
  have so: "so_ok x" and "so_reg x = RegNotify \<or> so_reg x = RegServed" using sv_ok_socket [OF ok n] dis by (auto simp: x_def)
  then have at: "attached (?cs ! n)" "c_dis (?cs ! n) = DisRemove" using n dis by (auto simp: core_defs x_def)
  have reg: "reg_ok ?cs (map_of (sv_connections (srv s))) (\<lambda>w. gate_of w (srv s)) (sv_trace s)"
    using ok by (simp add: sv_ok_def sv_view_def)
  then have "map_of (sv_connections (srv s)) (so_id x) = Some n" using at(1) n by (simp add: reg_ok_def conns_ok_def x_def)
  then have s': "s' = set_socket n ?x (s\<lparr>srv := (incrementGate (so_id x) (srv s))\<lparr>sv_connections := AList.delete (so_id x) (sv_connections (srv s))\<rparr>\<rparr>)"
    using step dis by (auto simp: disconnect_remove_def at_socket_Some is_current_def Let_def x_def split: if_splits)
  have "core_of ?x = (?cs ! n)\<lparr>c_dis := DisRecheck\<rparr>" using n by (simp add: core_of_def x_def so_id_def)
  from removed_step [OF reg _ at this] n
  have "reg_ok (?cs[n := core_of ?x]) ((map_of (sv_connections (srv s)))(so_id x := None))
      (moves (so_id x) (core_of x) (core_of ?x) (\<lambda>w. gate_of w (srv s))) (sv_trace s)" by (simp add: x_def)
  moreover have "moves (so_id x) (core_of x) (core_of ?x) (\<lambda>w. gate_of w (srv s)) = (\<lambda>w. gate_of w (srv s'))"
    using dis gate_increment [of _ "so_id x" "srv s"] by (auto simp: moves_def holders_def dis_holds_def s' set_socket_def gate_of_def)
  ultimately show ?thesis
    by (intro sv_okI [OF ok, of _ n ?x]) (use so dis in \<open>simp_all add: s' set_socket_def so_ok_def\<close>)
qed

text \<open>The second look never finds a newer connection.\<close>

lemma never_superseded:
  assumes ok: "sv_ok s" and n: "n < length (sv_sockets s)" and dis: "so_dis (sv_sockets s ! n) = DisRecheck"
  shows "map_of (sv_connections (srv s)) (so_id (sv_sockets s ! n)) = None"
proof (rule ccontr)
  let ?cs = "map core_of (sv_sockets s)"
  assume "\<not> ?thesis"
  then obtain m where "map_of (sv_connections (srv s)) (so_id (sv_sockets s ! n)) = Some m" by blast
  moreover have reg: "conns_ok ?cs (map_of (sv_connections (srv s)))" "alone_ok ?cs" using ok by (simp_all add: sv_ok_def sv_view_def reg_ok_def)
  ultimately have m: "m < length ?cs" "c_id (?cs ! m) = c_id (?cs ! n)" "attached (?cs ! m)" using n unfolding conns_ok_def by auto
  have "busy (?cs ! n)" using sv_ok_socket(2) [OF ok n] dis n by (auto simp: core_defs)
  then have "m = n" using reg(2) m n busy_if(1) [OF m(3)] unfolding alone_ok_def by (metis length_map)
  then show False using m(3) n dis by (simp add: core_defs)
qed

lemma disconnect_calm:
  assumes ok: "sv_ok s" and n: "n < length (sv_sockets s)" and x: "x = sv_sockets s ! n"
    and s': "sv_sockets s' = (sv_sockets s)[n := x\<lparr>so_dis := d, so_teardownDone := (d = DisDone)\<rparr>]" "sv_trace s' = sv_trace s"
    and c: "sv_disconnectedHandler (srv s') = sv_disconnectedHandler (srv s)" "sv_connections (srv s') = sv_connections (srv s)"
    and step: "so_dis x = DisRecheck \<and> d = DisFire \<and> srv s' = srv s \<or>
      so_dis x = DisLeave \<and> d = DisTear \<and> srv s' = decrementGate (so_id x) (srv s) \<or>
      so_dis x = DisTear \<and> d = DisDone \<and> srv s' = srv s"
  shows "sv_ok s'"
proof -
  have so: "so_ok x" using sv_ok_socket(1) [OF ok n] by (simp add: x)
  have "so_dis x \<noteq> DisNone" using step by auto
  then have run: "so_reg x = RegNotify \<or> so_reg x = RegServed" using sv_ok_socket(2) [OF ok n] unfolding x by blast
  have gate: "so_dis x = DisLeave \<longrightarrow> 1 \<le> gate_of (so_id x) (srv s)" using gate_pos [OF ok n] by (auto simp: x dis_holds_def)
  let ?x = "x\<lparr>so_dis := d, so_teardownDone := (d = DisDone)\<rparr>"
  have reg: "\<not> reg_holds (so_reg x)" using run by auto
  show ?thesis
  proof (rule calm_ok [OF ok n x s'(1) _ c])
    show "so_ok ?x" using so step by (auto simp: so_ok_def)
    show "gate_of wid (srv s') = moves (so_id x) (core_of x) (core_of ?x) (\<lambda>w. gate_of w (srv s)) wid" for wid
      using step gate reg by (elim disjE conjE) (simp_all add: moves_def gate_decrement holders_def dis_holds_def)
    show "calmer (core_of x) (core_of ?x)" "attached (core_of ?x) = attached (core_of x)" "live (core_of ?x) = live (core_of x)"
      "falling (core_of ?x) = falling (core_of x)" "enrolled (core_of ?x) = enrolled (core_of x)"
      "reported (core_of ?x) = reported (core_of x)"
      using step run reg by (elim disjE conjE; simp add: calmer_def core_defs)+
  qed (simp add: s'(2) quietly_def)
qed

lemma teardown_open: "so_ok x \<Longrightarrow> so_dis x \<noteq> DisDone \<Longrightarrow> x\<lparr>so_dis := d, so_teardownDone := False\<rparr> = x\<lparr>so_dis := d\<rparr>"
  by (cases x) (simp add: so_ok_def)

lemma disconnect_recheck_ok:
  assumes ok: "sv_ok s" and step: "disconnect_recheck n s = Some (Returns s')"
  shows "sv_ok s'"
proof -
  let ?x = "sv_sockets s ! n"
  from step have n: "n < length (sv_sockets s)" and dis: "so_dis ?x = DisRecheck"
    by (auto simp: disconnect_recheck_def at_socket_Some split: if_splits)
  have s': "s' = set_socket n (?x\<lparr>so_dis := DisFire\<rparr>) s"
    using step never_superseded [OF ok n dis] dis by (auto simp: disconnect_recheck_def at_socket_Some Let_def)
  show ?thesis
    by (rule disconnect_calm [OF ok n refl, where d = DisFire])
      (simp_all add: s' set_socket_def dis teardown_open [OF sv_ok_socket(1) [OF ok n]])
qed

lemma disconnect_leave_ok:
  assumes ok: "sv_ok s" and step: "disconnect_leave n s = Some (Returns s')"
  shows "sv_ok s'"
proof -
  let ?x = "sv_sockets s ! n"
  from step have n: "n < length (sv_sockets s)" and dis: "so_dis ?x = DisLeave"
    and s': "s' = set_socket n (?x\<lparr>so_dis := DisTear\<rparr>) (s\<lparr>srv := decrementGate (so_id ?x) (srv s)\<rparr>)"
    by (auto simp: disconnect_leave_def at_socket_Some split: if_splits)
  show ?thesis
    by (rule disconnect_calm [OF ok n refl, where d = DisTear])
      (simp_all add: s' set_socket_def dis teardown_open [OF sv_ok_socket(1) [OF ok n]])
qed

lemma disconnect_teardown_ok:
  assumes ok: "sv_ok s" and step: "disconnect_teardown n s = Some (Returns s')"
  shows "sv_ok s'"
proof -
  let ?x = "sv_sockets s ! n"
  from step have n: "n < length (sv_sockets s)" and dis: "so_dis ?x = DisTear"
    and s': "s' = set_socket n (?x\<lparr>so_dis := DisDone, so_teardownDone := True\<rparr>) s"
    by (auto simp: disconnect_teardown_def at_socket_Some split: if_splits)
  show ?thesis by (rule disconnect_calm [OF ok n refl, where d = DisDone]) (simp_all add: s' set_socket_def dis)
qed

lemma reported_step:
  assumes "reg_ok cs cn gt tr" and n: "n < length cs"
    and c': "c' = (cs ! n)\<lparr>c_dis := d\<rparr>" and step: "c_dis (cs ! n) = DisFire \<and> d = DisHandler \<and> e = DisconnectBegin (c_id c') n \<or>
      c_dis (cs ! n) = DisHandler \<and> d = DisLeave \<and> e = DisconnectEnd (c_id c') n"
  shows "reg_ok (cs[n := c']) cn gt (tr @ [e])"
proof -
  have pumps: "c_reg (cs ! n) = RegNotify \<or> c_reg (cs ! n) = RegServed"
    using assms(1) n step by (auto simp: reg_ok_def pumps_ok_def)
  have calm: "calmer (cs ! n) c'" and wid: "c_id c' = c_id (cs ! n)" and at: "attached c' = attached (cs ! n)"
    using step c' pumps by (auto simp: calmer_def core_defs)
  have "moves (c_id c') (cs ! n) c' gt = gt" using step c' by (intro moves_same) (auto simp: holders_def dis_holds_def)
  then have "gate_ok cs gt \<Longrightarrow> gate_ok (cs[n := c']) gt" using gate_moves [OF n _ wid [symmetric] refl] by metis
  moreover have "phases_ok (cs[n := c']) (tr @ [e])"
    using trace_fire [OF n _ _ wid] trace_fired [OF n _ _ wid] assms(1) step pumps c' by (auto simp: reg_ok_def core_defs)
  moreover have told: "told_ok cs tr" using assms(1) by (simp add: reg_ok_def)
  have "told_ok (cs[n := c']) (tr @ [e])"
  proof (rule told_noted [OF n told])
    have t: "told tr n (cs ! n)" using told n by (simp add: told_ok_def)
    have "enrolled (cs ! n)" "enrolled c'" using pumps c' by (auto simp: enrolled_def)
    with t step show "told (tr @ [e]) n c'"
      by (elim disjE conjE) (simp_all add: told_def falling_def reported_def c')
  qed (use step in auto)
  ultimately show ?thesis
    using assms(1) calmer_rest [OF n calm] conns_same [OF n _ wid at] by (simp add: reg_ok_def)
qed

lemma reported_ok:
  assumes ok: "sv_ok s" and n: "n < length (sv_sockets s)" and x: "x = sv_sockets s ! n"
    and step: "so_dis x = DisFire \<and> d = DisHandler \<and> e = DisconnectBegin (so_id x) n \<or>
      so_dis x = DisHandler \<and> d = DisLeave \<and> e = DisconnectEnd (so_id x) n"
  shows "sv_ok (note_event e (set_socket n (x\<lparr>so_dis := d\<rparr>) s))"
proof (rule sv_okI [OF ok, of _ n "x\<lparr>so_dis := d\<rparr>"])
  let ?cs = "map core_of (sv_sockets s)" and ?x = "x\<lparr>so_dis := d\<rparr>"
  show "so_ok ?x" using sv_ok_socket(1) [OF ok n] step by (auto simp: so_ok_def x)
  have "core_of ?x = (?cs ! n)\<lparr>c_dis := d\<rparr>" using n by (simp add: core_of_def x so_id_def)
  from reported_step [OF _ _ this, of _ _ "sv_trace s" e] ok n step
  have "reg_ok (?cs[n := core_of ?x]) (map_of (sv_connections (srv s))) (\<lambda>w. gate_of w (srv s)) (sv_trace s @ [e])"
    by (simp add: sv_ok_def sv_view_def x)
  then show "reg_ok (?cs[n := core_of ?x]) (map_of (sv_connections (srv (note_event e (set_socket n ?x s)))))
      (\<lambda>w. gate_of w (srv (note_event e (set_socket n ?x s)))) (sv_trace (note_event e (set_socket n ?x s)))"
    by (simp add: note_event_def set_socket_def)
qed (simp_all add: note_event_def set_socket_def)

lemma disconnect_fire_ok: "sv_ok s \<Longrightarrow> disconnect_fire n s = Some (Returns s') \<Longrightarrow> sv_ok s'"
  using reported_ok [OF _ _ refl, of s n DisHandler]
  by (auto simp: disconnect_fire_def at_socket_Some sv_ok_def [of s] split: if_splits)

lemma disconnect_fired_ok: "sv_ok s \<Longrightarrow> disconnect_fired n s = Some (Returns s') \<Longrightarrow> sv_ok s'"
  using reported_ok [OF _ _ refl, of s n DisLeave] by (auto simp: disconnect_fired_def at_socket_Some split: if_splits)

section \<open>Methods and runs\<close>

lemma current_socket:
  assumes "sv_ok s" and "map_of (sv_connections (srv s)) wid = Some n"
  shows "n < length (sv_sockets s)" and "so_id (sv_sockets s ! n) = wid"
proof -
  have "conns_ok (map core_of (sv_sockets s)) (map_of (sv_connections (srv s)))"
    using assms(1) by (simp add: sv_ok_def sv_view_def reg_ok_def)
  then show "n < length (sv_sockets s)" "so_id (sv_sockets s ! n) = wid" using assms(2) unfolding conns_ok_def by auto
qed

lemma like_refl [simp]: "like c c"
  by (simp add: like_def)

lemma set_socket_ok:
  assumes "sv_ok s" and "n < length (sv_sockets s)" and "keeps_socket (so_ws (sv_sockets s ! n)) w"
  shows "sv_ok (set_socket n ((sv_sockets s ! n)\<lparr>so_ws := w\<rparr>) s)"
  using plain_step_ok [OF assms like_refl] by simp

lemma sv_Write_ok: "sv_ok s \<Longrightarrow> sv_ok (snd (sv_Write wid d s))"
  using set_socket_ok [OF _ current_socket(1)] callers_keep(1) [OF ws_of_ok [OF _ current_socket(1)]]
  by (auto simp: sv_Write_def ws_Write_def Let_def split: option.splits prod.splits) (metis snd_conv)

lemma sv_StopConnection_ok:
  assumes ok: "sv_ok s" and step: "sv_StopConnection wid ce aborted s = Some (Returns (err, s'))"
  shows "sv_ok s'"
proof (cases "map_of (sv_connections (srv s)) wid")
  case None
  with ok step show ?thesis by (simp add: sv_StopConnection_def)
next
  case (Some n)
  have n: "n < length (sv_sockets s)" by (rule current_socket(1) [OF ok Some])
  from step Some obtain w where "close_call aborted ce (so_ws (sv_sockets s ! n)) = Some (Returns (err, w))"
    "s' = set_socket n ((sv_sockets s ! n)\<lparr>so_ws := w\<rparr>) s"
    by (auto simp: sv_StopConnection_def Let_def then_ok_Some)
  with set_socket_ok [OF ok n] close_call_keeps [OF ws_of_ok [OF ok n]] show ?thesis by blast
qed

lemma close_all_ok:
  "close_all aborted cs s = Some (Returns s') \<Longrightarrow> sv_ok s \<Longrightarrow> \<forall>(_, n)\<in>set cs. n < length (sv_sockets s) \<Longrightarrow> sv_ok s'"
proof (induction aborted cs s rule: close_all.induct)
  case (2 aborted wid n cs s)
  let ?x = "sv_sockets s ! n"
  from 2(2) obtain err w where w: "close_call (aborted n) (CloseNormalClosure, []) (so_ws ?x) = Some (Returns (err, w))"
    and rest: "close_all aborted cs (set_socket n (?x\<lparr>so_ws := w\<rparr>) s) = Some (Returns s')"
    by (auto split: option.splits outcome.splits prod.splits)
  have n: "n < length (sv_sockets s)" using 2(4) by simp
  have ok: "sv_ok (set_socket n (?x\<lparr>so_ws := w\<rparr>) s)"
    by (rule set_socket_ok [OF 2(3) n close_call_keeps [OF ws_of_ok [OF 2(3) n] w]])
  show ?case using "2.IH" [OF w refl refl rest ok] 2(4) by (simp add: set_socket_def)
qed simp

lemma stopConnections_ok:
  assumes ok: "sv_ok s" and step: "stopConnections aborted s = Some (Returns s')"
  shows "sv_ok s'"
proof -
  let ?s = "s\<lparr>srv := (srv s)\<lparr>sv_stopped := True\<rparr>\<rparr>"
  have "sv_ok ?s" by (rule srv_ok [OF ok]) (simp add: like_def)
  moreover have "\<forall>(wid, n)\<in>set (sv_connections (srv s)). n < length (sv_sockets s)"
    using ok current_socket(1) [OF ok] by (auto simp: sv_ok_def gomap_ok_def)
  ultimately show ?thesis using close_all_ok [of aborted _ ?s] step by (simp add: stopConnections_def)
qed

lemma sv_connect_ok:
  assumes ok: "sv_ok s"
  shows "sv_ok (sv_connect r upgrade s)"
proof -
  obtain h c where h: "wsHandler_upgrade r upgrade (srv s) = (h, c)" by (cases "wsHandler_upgrade r upgrade (srv s)")
  have like: "like (srv s) c"
    using h by (auto simp: wsHandler_upgrade_def Let_def like_error split: sum.splits if_splits option.splits outcome.splits)
  note ok' = srv_ok [OF ok like]
  show ?thesis
  proof (cases h)
    case (Upgraded w)
    let ?x = "\<lparr>so_ws = ws_start w, so_reg = RegStart, so_dis = DisNone, so_teardownDone = False, so_msg = None\<rparr>"
    have "\<not> chan_closed (w_outQueue w)"
      using h Upgraded by (auto simp: wsHandler_upgrade_def newWebSocket_def updateConfig_def initPingPong_def new_chan_def Let_def
          split: sum.splits if_splits option.splits)
    then have "so_ok ?x" by (simp add: so_ok_def queue_ok_def ws_start_def)
    with ok' new_socket [of "map core_of (sv_sockets s)" _ _ _ "core_of ?x"] h Upgraded show ?thesis
      by (auto simp: sv_connect_def sv_ok_def sv_view_def)
  qed (use h ok' in \<open>auto simp: sv_connect_def\<close>)
qed

lemma sv_Shutdown_like: "sv_Shutdown err c = Returns c' \<Longrightarrow> like c c'"
  by (auto simp: sv_Shutdown_def sv_error_def like_def Let_def split: option.splits if_splits outcome.splits)

lemma sv_Start_served_like: "like c (sv_Start_served b err c)"
  by (simp add: sv_Start_served_def like_error)

lemma sv_step_ok:
  assumes ok: "sv_ok s" and step: "sv_step e s = Some (Returns s')"
  shows "sv_ok s'"
  using step
proof (cases e)
  case (SvShutdown err)
  with step srv_ok [OF ok sv_Shutdown_like] show ?thesis by (auto simp: then_ok_Some)
next
  case SvReadError
  with step srv_ok [OF ok] show ?thesis by (auto simp: like_def)
next
  case (SvStopConnection wid ce aborted)
  with step sv_StopConnection_ok [OF ok, of wid ce aborted] show ?thesis by (auto simp: then_ok_Some)
qed (use ok in \<open>auto dest: register_first_ok register_evict_ok register_timeout_ok register_second_ok register_leave_ok
  wsHandler_run_ok wsHandler_notify_ok socket_event_ok handleMessage_check_ok handleMessage_handler_ok disconnect_start_ok
  disconnect_remove_ok disconnect_recheck_ok disconnect_fire_ok disconnect_fired_ok disconnect_leave_ok disconnect_teardown_ok
  stopConnections_ok intro: sv_connect_ok sv_Write_ok srv_ok sv_Start_served_like\<close>)

lemma sv_exec_ok: "sv_exec es s = Some s' \<Longrightarrow> sv_ok s \<Longrightarrow> sv_ok s'"
  by (induction es arbitrary: s) (auto split: option.splits outcome.splits dest: sv_step_ok)

lemma sv_started_ok: "sv_disconnectedHandler c \<Longrightarrow> sv_ok (sv_started listenPath c)"
  by (simp add: sv_ok_def sv_view_def sv_started_def sv_Start_begin_def reg_ok_def conns_ok_def gate_ok_def transitions_def alone_ok_def
      evict_ok_def pumps_ok_def phases_ok_def told_ok_def track_def gate_of_def)

section \<open>Properties\<close>

text \<open>
  C12: the callbacks for an identifier alternate. In every interleaving of requests, evictions, pumps, teardowns
  and stops, under both policies, a connection is registered only when there is none of its identifier
  whose disconnect handler has not returned; the disconnect that is reported is that of the connection
  registered last, and a connection in the table is the one registered last and not yet reported. The gate
  of an identifier is the number of the goroutines that evict or tear down one of its connections.
\<close>

theorem sv_callbacks_alternate:
  assumes "sv_disconnectedHandler c" and "sv_exec es (sv_started listenPath c) = Some s"
  shows "track wid (sv_trace s) \<noteq> None \<and>
    (map_of (sv_connections (srv s)) wid = Some n \<longrightarrow> track wid (sv_trace s) = Some (Up n)) \<and>
    gate_of wid (srv s) = transitions wid (map core_of (sv_sockets s))"
proof -
  let ?cs = "map core_of (sv_sockets s)"
  have reg: "reg_ok ?cs (map_of (sv_connections (srv s))) (\<lambda>w. gate_of w (srv s)) (sv_trace s)"
    using sv_exec_ok [OF assms(2) sv_started_ok [OF assms(1)]] by (simp add: sv_ok_def sv_view_def)
  then obtain p where p: "track wid (sv_trace s) = Some p" "phase_ok wid ?cs p"
    by (auto simp: reg_ok_def phases_ok_def)
  have "p = Up n" if "map_of (sv_connections (srv s)) wid = Some n"
  proof -
    from reg that have "n < length ?cs" "c_id (?cs ! n) = wid" "attached (?cs ! n)" by (auto simp: reg_ok_def conns_ok_def)
    with phase_unique(1) [OF _ p(2)] reg show ?thesis by (auto simp: reg_ok_def core_defs)
  qed
  with p reg show ?thesis by (auto simp: reg_ok_def gate_ok_def)
qed

text \<open>
  C13: every connection is reported exactly once. A socket is registered at most once and its disconnect is
  reported at most once, and never without a registration; when its teardown is done, which is what an
  eviction waits for, the handler has been called for it exactly once and has returned.
\<close>

theorem sv_disconnect_reported_once:
  assumes "sv_disconnectedHandler c" and "sv_exec es (sv_started listenPath c) = Some s"
    and "n < length (sv_sockets s)" and "wid = so_id (sv_sockets s ! n)"
  shows "count_list (sv_trace s) (DisconnectBegin wid n) \<le> count_list (sv_trace s) (Registered wid n) \<and>
    count_list (sv_trace s) (Registered wid n) \<le> 1 \<and>
    (so_teardownDone (sv_sockets s ! n) \<longrightarrow>
      count_list (sv_trace s) (DisconnectBegin wid n) = 1 \<and> count_list (sv_trace s) (DisconnectEnd wid n) = 1)"
proof -
  let ?x = "sv_sockets s ! n"
  have ok: "sv_ok s" by (rule sv_exec_ok [OF assms(2) sv_started_ok [OF assms(1)]])
  then have "told (sv_trace s) n (core_of ?x)" using assms(3) by (simp add: sv_ok_def sv_view_def reg_ok_def told_ok_def)
  moreover have "so_teardownDone ?x \<Longrightarrow> reported (core_of ?x)"
    using sv_ok_socket [OF ok assms(3)] by (auto simp: so_ok_def core_defs)
  moreover have "falling (core_of ?x) \<or> reported (core_of ?x) \<Longrightarrow> enrolled (core_of ?x)" by (auto simp: falling_def reported_def)
  ultimately show ?thesis unfolding assms(4) by (auto simp: told_def)
qed

section \<open>Late callbacks\<close>

definition sample_ws_server :: wsServer where
  "sample_ws_server = sv_SetDisconnectedClientHandler True (sv_SetNewClientHandler True (sv_SetMessageHandler True
     (sv_AddSupportedSubprotocol ''ocpp1.6'' (NewWsServer [WithDuplicateConnectionPolicy KeepNew]))))"

definition sample_request :: http_request where
  "sample_request = \<lparr>r_Path = ''/ws/cp'', r_RemoteAddr = ''peer'', r_Subprotocols = [''ocpp1.6''], r_BasicAuth = None\<rparr>"

definition sample_connect :: sv_event where
  "sample_connect = SvConnect sample_request (\<lambda>_. Inr sample_conn)"

definition sample_reported :: "nat \<Rightarrow> sv_event list" where
  "sample_reported n = [SvSocket 0 n EvSignal, SvSocket 0 n EvLocked, SvClosed n, SvRemove n, SvRecheck n, SvFire n, SvFired n,
     SvLeave n, SvTeardown n]"

definition quick_disconnect :: "sv_event list" where
  "quick_disconnect = [sample_connect, SvRegister 0, SvRun 0, SvSocket 0 0 EvReadStart,
     SvSocket 0 0 (EvReadFailed (Errorf ''EOF'') False), SvSocket 0 0 EvForced] @ sample_reported 0 @ [SvNewClient 0]"

definition stale_message :: "sv_event list" where
  "stale_message = [sample_connect, SvRegister 0, SvRun 0, SvNewClient 0, SvSocket 0 0 EvReadStart, SvMessage 0 0 ''m'',
     SvStopConnection ''cp'' (1000, []) False, SvSocket 0 0 (EvCloseOut None)] @ sample_reported 0 @
     [sample_connect, SvRegister 1, SvHandled 0 0 None]"


section \<open>Witnesses\<close>

text \<open>A connection that is evicted by a second one.\<close>

definition eviction :: "sv_event list" where
  "eviction = [sample_connect, SvRegister 0, SvRun 0, SvNewClient 0, sample_connect, SvRegister 1, SvEvict 1 False,
     SvSocket 0 0 (EvCloseOut None)] @ sample_reported 0 @ [SvEvicted 1, SvRegisterLeave 1, SvRun 1, SvNewClient 1]"

lemma eviction_run:
  "map_option (\<lambda>s. (sv_connections (srv s), map so_teardownDone (sv_sockets s), map so_id (sv_sockets s)))
     (sv_exec eviction (sv_started ''/ws/{id}'' sample_ws_server)) = Some ([(''cp'', 1)], [True, False], [''cp'', ''cp''])"
  by code_simp

lemma sample_ws_server_handler: "sv_disconnectedHandler sample_ws_server"
  by code_simp

theorem sv_callbacks_alternate_witness:
  "\<exists>s. sv_exec eviction (sv_started ''/ws/{id}'' sample_ws_server) = Some s \<and> track ''cp'' (sv_trace s) = Some (Up 1)"
proof -
  obtain s where s: "sv_exec eviction (sv_started ''/ws/{id}'' sample_ws_server) = Some s" "sv_connections (srv s) = [(''cp'', 1)]"
    using eviction_run by auto
  from sv_callbacks_alternate [OF sample_ws_server_handler s(1), of "''cp''" 1] s show ?thesis by simp
qed

theorem sv_disconnect_reported_once_witness:
  "\<exists>s. sv_exec eviction (sv_started ''/ws/{id}'' sample_ws_server) = Some s \<and>
     count_list (sv_trace s) (DisconnectBegin ''cp'' 0) = 1 \<and> count_list (sv_trace s) (DisconnectEnd ''cp'' 0) = 1"
proof -
  obtain s where s: "sv_exec eviction (sv_started ''/ws/{id}'' sample_ws_server) = Some s"
    "map so_teardownDone (sv_sockets s) = [True, False]" "map so_id (sv_sockets s) = [''cp'', ''cp'']"
    using eviction_run by auto
  then have "0 < length (sv_sockets s)" "''cp'' = so_id (sv_sockets s ! 0)" "so_teardownDone (sv_sockets s ! 0)" by auto
  from sv_disconnect_reported_once [OF sample_ws_server_handler s(1) this(1,2)] this(3) s(1) show ?thesis by blast
qed

end
