(* ===== verification/Spec2Isabelle.thy ===== *)
theory Spec2Isabelle
  imports Client_Wakeup Ocppj_Client Config_Manager Central_Safety Charge_Lifecycle Charge_Types Ws_Reconnect Ws_Lifecycle
begin

text \<open>
  A verification library of ocpp-go, the Go implementation of OCPP 1.6 and 2.0.1 over websockets. File and
  function names below are those under \<open>src/\<close>.

  \<^bold>\<open>The program.\<close> A charge point and a central system exchange requests and responses. From the bottom up:
  a \<^emph>\<open>websocket\<close> with its two pumps, the websocket \<^emph>\<open>client\<close> that reconnects and the websocket \<^emph>\<open>server\<close>
  that registers connections by identifier (\<open>ws\<close>); the \<^emph>\<open>OCPP-J layer\<close> (\<open>ocppj\<close>) that frames messages,
  queues outgoing requests, keeps one of them pending per peer and relates responses to it, with a
  \<^emph>\<open>dispatcher\<close> goroutine on each side; the \<^emph>\<open>callback queue\<close> (\<open>internal/callbackqueue\<close>); the
  \<^emph>\<open>facades\<close> of OCPP 1.6 (\<open>ocpp1.6/charge_point.go\<close>, \<open>central_system.go\<close>) that turn typed method calls into
  requests and requests into calls of user handlers; and the \<^emph>\<open>configuration manager\<close>
  (\<open>ocpp1.6/configmanager\<close>) that answers configuration requests.

  \<^bold>\<open>Encodings\<close> (theory \<open>Prelude\<close>). A struct is a record, an enumeration a datatype, a nilable value an option.
  A Go map is an association list, a pointer that is shared an address of a \<open>store\<close>, a channel a record of its
  buffer, its capacity and whether it is closed. A call that may panic has an \<open>outcome\<close>, \<open>Returns\<close> or
  \<open>Panics\<close>; an error is a value of \<open>go_error\<close>. User code is an arbitrary function on the state that may
  panic. Goroutines are steps: a step function answers \<open>None\<close> where the goroutine would block, and a run is an
  arbitrary sequence of steps. A section under a mutex is one step; code outside a mutex is cut into as
  many steps as it has accesses to shared state.

  \<^bold>\<open>Theories, in the order of the code.\<close>
  \<^item> \<open>Ocpp_Core\<close>: \<open>ocpp/ocpp.go\<close>, errors, \<open>errors.Is\<close>, features and profiles.
  \<^item> \<open>Ocppj_Queue\<close>: \<open>queue.go\<close>; the locale \<open>request_queue\<close> is what its clients rely on, interpreted by the FIFO
    queue as \<open>fifo\<close>. Histories of the queue, and the equality of the fallback loop with \<open>DrainAll\<close>.
  \<^item> \<open>Ocppj_State\<close>: \<open>state.go\<close>; the locale \<open>client_state\<close> with its interpretation \<open>cs\<close>; the server's state behind
    pointers refines independent slots.
  \<^item> \<open>Ocppj_Message\<close>: \<open>ocppj.go\<close> and \<open>validation.go\<close>; what \<open>ParseMessage\<close> accepts, its errors, and the round trips of
    the three messages. The JSON codec and the validator are parameters.
  \<^item> \<open>Client_Dispatcher\<close>, \<open>Client_Protocol\<close>, \<open>Client_Safety\<close>, \<open>Client_Wakeup\<close>: \<open>dispatcher.go\<close>, the client: its methods, the
    transition system of its goroutines (\<open>client_step\<close>), the conservation of requests and one request in
    flight, and the absence of lost wake-ups.
  \<^item> \<open>Server_Dispatcher\<close>: \<open>dispatcher.go\<close>, the server: its methods and every branch of its pump.
  \<^item> \<open>Callback_Queue\<close>: \<open>callbackqueue.go\<close>, with the locale \<open>callback_registry\<close> and its interpretation \<open>cbq\<close>.
  \<^item> \<open>Ocppj_Panic\<close>, \<open>Ocppj_Endpoint\<close>, \<open>Ocppj_Client\<close>, \<open>Ocppj_Server\<close>: \<open>panic.go\<close>, \<open>client.go\<close>, \<open>server.go\<close>; the locale
    \<open>responder\<close> holds what both endpoints promise their facades, interpreted as \<open>cr\<close> and \<open>sr\<close>.
  \<^item> \<open>Config_Keys\<close>, \<open>Config_Manager\<close>: \<open>configmanager\<close>; updates are atomic, mandatory keys stay.
  \<^item> \<open>Ocpp16_Profiles\<close>, \<open>Ocpp16_Requests\<close>, \<open>Ocpp16_Types\<close>, \<open>Ocpp16_Facade\<close>: the features, profiles and request constructors
    of OCPP 1.6, which types an endpoint finds for a feature, and what the facades share (locale \<open>replier\<close>,
    interpretations \<open>csr\<close> and \<open>cpr\<close>).
  \<^item> \<open>Central_System\<close>, \<open>Central_Safety\<close>: \<open>central_system.go\<close> and its runs; locale \<open>facade_set\<close>, interpretations \<open>owes\<close>
    and \<open>safe\<close>.
  \<^item> \<open>Charge_Point\<close>, \<open>Charge_Safety\<close>, \<open>Charge_Lifecycle\<close>, \<open>Charge_Types\<close>: \<open>charge_point.go\<close> and its runs over any number
    of starts and stops; locale \<open>cp_set\<close>, interpretations \<open>cpo\<close> and \<open>cpk\<close>.
  \<^item> \<open>Ws_Socket\<close>, \<open>Ws_Safety\<close>: \<open>websocket.go\<close>, the pumps, the handlers of pings and pongs and the cleanup
    (\<open>ws_step\<close>).
  \<^item> \<open>Ws_Client\<close>, \<open>Ws_Reconnect\<close>: \<open>client.go\<close> of \<open>ws\<close>, composed with the websocket (\<open>wc_step\<close>); delays are 64-bit words
    with their wrap-around.
  \<^item> \<open>Ws_Server\<close>, \<open>Ws_Registry\<close>, \<open>Ws_Lifecycle\<close>: \<open>server.go\<close> of \<open>ws\<close>, composed with any number of websockets
    (\<open>sv_step\<close>): registration under both policies, eviction, teardown.

  \<^bold>\<open>What is shown.\<close> Dispatchers: each request has at most one outcome and none is lost over a stop; requests
  leave in order, one at a time; no wake-up is lost. Facades: each incoming request is answered exactly
  once, callbacks are neither lost nor called twice, no panic of user code ends the process, each typed
  method uses the types its feature declares; a charge point has at most one handler goroutine, and a stop
  releases every goroutine. Messages: soundness of parsing and round trips. Websockets: accepted messages
  are written in order and at most three are lost, an ending websocket blocks nobody, reconnection delays
  stay in their bounds, the connection and disconnection callbacks of an identifier alternate and no
  disconnect is lost. Some theorems show a run in which the code does not do what it means to: a timeout that
  cancels a request which was never sent, a failed request that is sent after all, callbacks lost to a
  panic at a disconnection, panics of the ping and pong handlers during a close, a stop signal that
  survives a restart, and callbacks of the websocket server that come late.

  \<^bold>\<open>Bounds and fuel.\<close> Loops are structural recursions or functions with a termination proof; the inner
  dispatch loop of the server has a measure, the length of the queue. No theorem depends on fuel. Runs have
  any length. Channel capacities are those of the code. Integers of Go that cannot overflow in practice
  (lengths, counters, capacities) are \<open>nat\<close> or \<open>int\<close>; the back-off is kept at its width.

  \<^bold>\<open>Parameters.\<close> JSON, the validator, net/http, mux, gorilla/websocket, net/url, time and random numbers are not
  under \<open>src/\<close>: their results are arguments of the definitions or choices of the step. The endpoints see the
  websocket layer through its handlers and its \<open>Write\<close>, whose result is an arbitrary choice.

  \<^bold>\<open>Not modelled.\<close> The facades, messages and types of OCPP 2.0.1: their structure is that of OCPP 1.6 over the
  same endpoints, dispatchers and callback queue. The structs of the OCPP 1.6 messages beyond what the
  facades and the manager read: declarations without behaviour, whose validation tags only the validator
  interprets. Logging, which no value depends on. The test hooks, which are nil outside the tests. The code
  generator, schema checker and release scripts, which do not run with the program; the examples, the mocks.
  Memory effects of races on unsynchronised fields are modelled only where a theorem is about them (the
  websocket's connection in the ping and pong handlers).
\<close>

end
